(* ===== verification/Prelude.thy ===== *)
theory Prelude
  imports Main "HOL-Library.Word"
begin

text \<open>
  Shared vocabulary of the development: how the Go types and the parts of the Go standard
  library that the sources use are represented, the theorem collections, and the two
  contracts that several loops of the code share.

  A Go \<open>string\<close> or \<open>[]byte\<close> is its sequence of bytes, so \<open>length\<close> is Go's \<open>len\<close>
  and \<open>take n s\<close> is Go's \<open>s[:n]\<close>. A Go \<open>error\<close> is the string its \<open>Error()\<close>
  returns, a call returning \<open>(T, error)\<close> is a value of \<open>string + 'a\<close> with \<open>Inl\<close>
  for the error, and a pointer that the code compares with \<open>nil\<close> is an \<open>option\<close>. A
  function that can panic returns an \<open>outcome\<close>. The process state (environment
  variables, logger, files, the cluster behind the API server) is a record \<open>world\<close>
  passed through explicitly.
\<close>

section \<open>Theorem collections\<close>

named_theorems go_str \<open>equations of the modelled part of the Go string library\<close>
named_theorems world_simps \<open>reads over writes of the process state\<close>
named_theorems match_iff \<open>characterisations of the matching functions\<close>
named_theorems decision_simps \<open>unfolding rules of the admission decision\<close>

section \<open>Data\<close>

type_synonym bytes = string
type_synonym 'a result = "string + 'a"

text \<open>A call that may panic (a failed type assertion, an index out of range, a read
  through a nil pointer): the panic is a value of the model.\<close>

datatype 'a outcome = Return 'a | Panic string

definition nilPanic :: string where
  "nilPanic = ''invalid memory address or nil pointer dereference''"

primrec outcome_bind :: "'a outcome \<Rightarrow> ('a \<Rightarrow> 'b outcome) \<Rightarrow> 'b outcome" where
  "outcome_bind (Return x) f = f x"
| "outcome_bind (Panic m) f = Panic m"

lemma outcome_bind_eq_Panic [simp]:
  "outcome_bind x f = Panic m \<longleftrightarrow> x = Panic m \<or> (\<exists>y. x = Return y \<and> f y = Panic m)"
  by (cases x) auto

lemma outcome_bind_eq_Return [simp]:
  "outcome_bind x f = Return z \<longleftrightarrow> (\<exists>y. x = Return y \<and> f y = Return z)"
  by (cases x) auto

text \<open>The tree that \<open>encoding/json\<close> builds in a \<open>map[string]interface{}\<close> or an
  \<open>interface{}\<close>. Structs of packages outside the repository whose fields the sources
  never look at are kept as such a tree.\<close>

datatype json =
    JNull
  | JBool bool
  | JNum int
  | JStr string
  | JArr "json list"
  | JObj "(string \<times> json) list"

type_synonym unstructured = json

section \<open>The Go string library\<close>

definition HasPrefix :: "string \<Rightarrow> string \<Rightarrow> bool" where
  "HasPrefix s p \<longleftrightarrow> length p \<le> length s \<and> take (length p) s = p"

definition HasSuffix :: "string \<Rightarrow> string \<Rightarrow> bool" where
  "HasSuffix s p \<longleftrightarrow> length p \<le> length s \<and> drop (length s - length p) s = p"

text \<open>\<open>strings.Index\<close>, with \<open>None\<close> for \<open>-1\<close>.\<close>

fun indexOf :: "string \<Rightarrow> string \<Rightarrow> nat option" where
  "indexOf [] sub = (if sub = [] then Some 0 else None)"
| "indexOf (c # cs) sub =
     (if HasPrefix (c # cs) sub then Some 0 else map_option Suc (indexOf cs sub))"

definition Contains_sub :: "string \<Rightarrow> string \<Rightarrow> bool" where
  "Contains_sub s sub \<longleftrightarrow> indexOf s sub \<noteq> None"

text \<open>\<open>strings.Replace(s, old, new, 1)\<close>.\<close>

definition Replace1 :: "string \<Rightarrow> string \<Rightarrow> string \<Rightarrow> string" where
  "Replace1 s old new =
     (case indexOf s old of
        None \<Rightarrow> s
      | Some i \<Rightarrow> take i s @ new @ drop (i + length old) s)"

text \<open>\<open>strings.Split(s, sep)\<close> for a non-empty separator, the only way the sources call
  it. An empty separator would split at every UTF-8 sequence; it is not modelled and
  gives the whole string.\<close>

function Split :: "string \<Rightarrow> string \<Rightarrow> string list" where
  "Split s sep =
     (if sep = [] then [s]
      else case indexOf s sep of
        None \<Rightarrow> [s]
      | Some i \<Rightarrow> take i s # Split (drop (i + length sep) s) sep)"
  by pat_completeness auto

lemma indexOf_bound: "indexOf s sub = Some i \<Longrightarrow> i + length sub \<le> length s"
  by (induction s arbitrary: i) (auto simp: HasPrefix_def split: if_splits)

termination Split
proof (relation "measure (\<lambda>(s, sep). length s)")
  fix s sep :: string and i
  assume "sep \<noteq> []" and "indexOf s sep = Some i"
  then have "0 < length sep" and "i + length sep \<le> length s"
    by (auto dest: indexOf_bound)
  then show "((drop (i + length sep) s, sep), (s, sep)) \<in> measure (\<lambda>(s, sep). length s)"
    by (simp add: in_measure del: length_greater_0_conv)
qed simp

declare Split.simps [simp del]

fun Join :: "string list \<Rightarrow> string \<Rightarrow> string" where
  "Join [] sep = []"
| "Join [x] sep = x"
| "Join (x # y # zs) sep = x @ sep @ Join (y # zs) sep"

definition TrimRight1 :: "string \<Rightarrow> char \<Rightarrow> string" where
  "TrimRight1 s c = rev (dropWhile (\<lambda>x. x = c) (rev s))"

text \<open>The UTF-8 encodings of the runes for which \<open>unicode.IsSpace\<close> holds.\<close>

definition space_runes :: "string list" where
  "space_runes =
     [[CHR 0x09], [CHR 0x0A], [CHR 0x0B], [CHR 0x0C], [CHR 0x0D], [CHR 0x20],
      [CHR 0xC2, CHR 0x85], [CHR 0xC2, CHR 0xA0], [CHR 0xE1, CHR 0x9A, CHR 0x80],
      [CHR 0xE2, CHR 0x80, CHR 0x80], [CHR 0xE2, CHR 0x80, CHR 0x81],
      [CHR 0xE2, CHR 0x80, CHR 0x82], [CHR 0xE2, CHR 0x80, CHR 0x83],
      [CHR 0xE2, CHR 0x80, CHR 0x84], [CHR 0xE2, CHR 0x80, CHR 0x85],
      [CHR 0xE2, CHR 0x80, CHR 0x86], [CHR 0xE2, CHR 0x80, CHR 0x87],
      [CHR 0xE2, CHR 0x80, CHR 0x88], [CHR 0xE2, CHR 0x80, CHR 0x89],
      [CHR 0xE2, CHR 0x80, CHR 0x8A], [CHR 0xE2, CHR 0x80, CHR 0xA8],
      [CHR 0xE2, CHR 0x80, CHR 0xA9], [CHR 0xE2, CHR 0x80, CHR 0xAF],
      [CHR 0xE2, CHR 0x81, CHR 0x9F], [CHR 0xE3, CHR 0x80, CHR 0x80]]"

fun trimLeft_n :: "string list \<Rightarrow> nat \<Rightarrow> string \<Rightarrow> string" where
  "trimLeft_n ws 0 s = s"
| "trimLeft_n ws (Suc n) s =
     (case find (HasPrefix s) ws of
        None \<Rightarrow> s
      | Some w \<Rightarrow> trimLeft_n ws n (drop (length w) s))"

definition TrimSpace :: "string \<Rightarrow> string" where
  "TrimSpace s =
     (let l = trimLeft_n space_runes (length s) s
      in rev (trimLeft_n (map rev space_runes) (length l) (rev l)))"

text \<open>\<open>strings.ToLower\<close> on ASCII; kinds and operations of the Kubernetes API are ASCII
  identifiers.\<close>

definition toLower_char :: "char \<Rightarrow> char" where
  "toLower_char c =
     (if 65 \<le> (of_char c :: nat) \<and> (of_char c :: nat) \<le> 90
      then char_of ((of_char c :: nat) + 32) else c)"

definition ToLower :: "string \<Rightarrow> string" where
  "ToLower s = map toLower_char s"

text \<open>\<open>strconv.ParseBool\<close> and \<open>strconv.FormatBool\<close>.\<close>

definition ParseBool :: "string \<Rightarrow> bool result" where
  "ParseBool s =
     (if s \<in> set [''1'', ''t'', ''T'', ''true'', ''TRUE'', ''True''] then Inr True
      else if s \<in> set [''0'', ''f'', ''F'', ''false'', ''FALSE'', ''False''] then Inr False
      else Inl (''strconv.ParseBool: parsing '' @ s @ '': invalid syntax''))"

definition FormatBool :: "bool \<Rightarrow> string" where
  "FormatBool b = (if b then ''true'' else ''false'')"

lemma ParseBool_FormatBool [simp]: "ParseBool (FormatBool b) = Inr b"
  by (cases b) (simp_all add: ParseBool_def FormatBool_def)

text \<open>\<open>result, _ := f()\<close>: the zero value when the call fails.\<close>

definition or_zero :: "'a \<Rightarrow> 'a result \<Rightarrow> 'a" where
  "or_zero z r = (case r of Inl _ \<Rightarrow> z | Inr x \<Rightarrow> x)"

lemma or_zero_simps [simp]: "or_zero z (Inl e) = z" "or_zero z (Inr x) = x"
  by (simp_all add: or_zero_def)

subsection \<open>Facts about the string functions\<close>

lemma HasPrefix_iff [go_str]: "HasPrefix s p \<longleftrightarrow> (\<exists>t. s = p @ t)"
  unfolding HasPrefix_def by (metis append_eq_conv_conj append_take_drop_id length_append le_add1)

lemma HasSuffix_iff [go_str]: "HasSuffix s p \<longleftrightarrow> (\<exists>t. s = t @ p)"
proof
  assume "HasSuffix s p"
  then have "s = take (length s - length p) s @ p"
    unfolding HasSuffix_def by (metis append_take_drop_id)
  then show "\<exists>t. s = t @ p" ..
next
  assume "\<exists>t. s = t @ p"
  then show "HasSuffix s p" by (auto simp: HasSuffix_def)
qed

lemma indexOf_Some_decomp:
  "indexOf s sub = Some i \<Longrightarrow> s = take i s @ sub @ drop (i + length sub) s"
proof (induction s arbitrary: i)
  case Nil
  then show ?case by (simp split: if_splits)
next
  case (Cons c cs)
  show ?case
  proof (cases "HasPrefix (c # cs) sub")
    case True
    then have "take (length sub) (c # cs) = sub" by (simp add: HasPrefix_def)
    with True Cons.prems show ?thesis by (metis append_self_conv2 append_take_drop_id
          indexOf.simps(2) option.inject plus_nat.add_0 take0)
  next
    case False
    with Cons.prems obtain j where "indexOf cs sub = Some j" and "i = Suc j" by auto
    with Cons.IH [of j] show ?thesis by simp
  qed
qed

lemma indexOf_singleton_None: "indexOf s [c] = None \<longleftrightarrow> c \<notin> set s"
  by (induction s) (auto simp: HasPrefix_def)

lemma Split_not_Nil [simp]: "Split s sep \<noteq> []"
  by (subst Split.simps) (simp split: option.splits)

lemma Join_Split: "sep \<noteq> [] \<Longrightarrow> Join (Split s sep) sep = s"
proof (induction s sep rule: Split.induct)
  case (1 s sep)
  show ?case
  proof (cases "indexOf s sep")
    case None
    with "1.prems" show ?thesis by (subst Split.simps) simp
  next
    case (Some i)
    let ?rest = "drop (i + length sep) s"
    from "1.IH" [OF "1.prems" Some] "1.prems" have IH: "Join (Split ?rest sep) sep = ?rest"
      by simp
    obtain y ys where ys: "Split ?rest sep = y # ys"
      by (metis Split_not_Nil list.exhaust)
    have "Join (Split s sep) sep = take i s @ sep @ Join (Split ?rest sep) sep"
      using Some "1.prems" by (subst Split.simps) (simp add: ys)
    then show ?thesis using IH indexOf_Some_decomp [OF Some] by simp
  qed
qed

lemma Join_singleton [simp]: "Join [x] sep = x"
  by simp

lemma Split_char_free: "c \<notin> set x \<Longrightarrow> Split x [c] = [x]"
  by (subst Split.simps) (simp add: indexOf_singleton_None [THEN iffD2])

lemma indexOf_char: "c \<notin> set x \<Longrightarrow> indexOf (x @ c # y) [c] = Some (length x)"
  by (induction x) (auto simp: HasPrefix_def)

lemma Split_Join: "xs \<noteq> [] \<Longrightarrow> \<forall>x\<in>set xs. c \<notin> set x \<Longrightarrow> Split (Join xs [c]) [c] = xs"
proof (induction xs)
  case (Cons x xs)
  show ?case
  proof (cases xs)
    case Nil
    with Cons.prems show ?thesis by (simp add: Split_char_free)
  next
    case (Cons y ys)
    with Cons.prems have "Join (x # xs) [c] = x @ c # Join xs [c]" and c: "c \<notin> set x" by simp_all
    moreover have "Split (x @ c # z) [c] = x # Split z [c]" for z
      using indexOf_char [OF c, of z] by (subst Split.simps) simp
    ultimately show ?thesis using Cons.IH Cons.prems Cons by simp
  qed
qed simp

lemma set_Join: "set (Join xs sep) \<subseteq> set sep \<union> (\<Union>x\<in>set xs. set x)"
  by (induction xs sep rule: Join.induct) auto

lemma Split_parts: "sep \<noteq> [] \<Longrightarrow> x \<in> set (Split s sep) \<Longrightarrow> set x \<subseteq> set s"
proof (induction s sep rule: Split.induct)
  case (1 s sep)
  show ?case
  proof (cases "indexOf s sep")
    case None
    with "1.prems" show ?thesis by (subst (asm) Split.simps) simp
  next
    case (Some i)
    with "1.prems"(1) have "Split s sep = take i s # Split (drop (i + length sep) s) sep" by (subst Split.simps) simp
    with "1.prems"(2) consider "x = take i s" | "x \<in> set (Split (drop (i + length sep) s) sep)" by auto
    then show ?thesis
    proof cases
      case 1
      then show ?thesis by (simp add: set_take_subset)
    next
      case 2
      from "1.IH" [OF "1.prems"(1) Some "1.prems"(1) 2] set_drop_subset show ?thesis by (rule subset_trans)
    qed
  qed
qed

section \<open>The process state\<close>

datatype log_level =
    PanicLevel | FatalLevel | ErrorLevel | WarnLevel | InfoLevel | DebugLevel | TraceLevel

datatype log_format = TextFormatter | JSONFormatter

text \<open>\<open>'s\<close> is the state of the cluster behind the API server, which only the client
  libraries read and write.\<close>

record 's world =
  w_env :: "string \<rightharpoonup> string"
  w_logLevel :: log_level
  w_logFormat :: log_format
  w_files :: "string \<rightharpoonup> bytes"
  w_ranges :: nat
  w_cluster :: 's

text \<open>The entries of a Go map in the order in which a \<open>range\<close> over it visits them. The order is not
  determined by the map and may be another one each time; \<open>w_ranges\<close> counts these loops, and \<open>order\<close>
  proposes an order for each of them.\<close>

definition range_map :: "(nat \<Rightarrow> 'a list \<Rightarrow> 'a list) \<Rightarrow> nat \<Rightarrow> 'a list \<Rightarrow> 'a list" where
  "range_map order n xs = (let ys = order n xs in if distinct ys \<and> set ys = set xs then ys else xs)"

lemma range_map_set [simp]: "set (range_map order n xs) = set xs"
  by (simp add: range_map_def Let_def)

lemma range_map_short: "length xs \<le> 1 \<Longrightarrow> range_map order n xs = xs"
proof (cases xs)
  case (Cons x zs)
  moreover assume "length xs \<le> 1"
  moreover have "ys = [x]" if "distinct ys" and "set ys = {x}" for ys
    using that by (cases ys) (auto simp: subset_singleton_iff)
  ultimately show ?thesis by (auto simp: range_map_def Let_def)
qed (simp add: range_map_def Let_def)

definition Getenv :: "'s world \<Rightarrow> string \<Rightarrow> string" where
  "Getenv w k = (case w_env w k of None \<Rightarrow> [] | Some v \<Rightarrow> v)"

definition Setenv :: "string \<Rightarrow> string \<Rightarrow> 's world \<Rightarrow> 's world" where
  "Setenv k v w = w\<lparr>w_env := (w_env w)(k \<mapsto> v)\<rparr>"

text \<open>The idiom \<open>v := os.Getenv(k); if v == "" { v = dflt }\<close>.\<close>

definition envOr :: "'s world \<Rightarrow> string \<Rightarrow> string \<Rightarrow> string" where
  "envOr w k dflt = (let v = Getenv w k in if v = [] then dflt else v)"

lemma Getenv_Setenv [world_simps]:
  "Getenv (Setenv k v w) k' = (if k' = k then v else Getenv w k')"
  by (simp add: Getenv_def Setenv_def)

lemma Setenv_frame [world_simps]:
  "w_logLevel (Setenv k v w) = w_logLevel w" "w_logFormat (Setenv k v w) = w_logFormat w"
  "w_files (Setenv k v w) = w_files w" "w_cluster (Setenv k v w) = w_cluster w"
  by (simp_all add: Setenv_def)

section \<open>Contracts shared by the loops of the code\<close>

text \<open>Many functions of the sources walk a list and return at the first element that
  matches, with a result of their own for the empty list.\<close>

locale list_matcher =
  fixes elem_match :: "'a \<Rightarrow> bool"
    and list_match :: "'a list \<Rightarrow> bool"
    and on_empty :: bool
  assumes match_empty: "list_match [] = on_empty"
    and match_nonempty: "xs \<noteq> [] \<Longrightarrow> list_match xs = list_ex elem_match xs"
begin

lemma match_iff_ex: "list_match xs \<longleftrightarrow> (if xs = [] then on_empty else (\<exists>x\<in>set xs. elem_match x))"
  using match_empty match_nonempty by (auto simp: list_ex_iff)

lemma match_append:
  "xs \<noteq> [] \<Longrightarrow> ys \<noteq> [] \<Longrightarrow> list_match (xs @ ys) \<longleftrightarrow> list_match xs \<or> list_match ys"
  by (auto simp: match_iff_ex)

lemma match_set_cong: "set xs = set ys \<Longrightarrow> list_match xs = list_match ys"
  by (simp add: match_iff_ex) (metis list.set_intros(1) neq_Nil_conv set_empty)

lemma match_mono: "xs \<noteq> [] \<Longrightarrow> set xs \<subseteq> set ys \<Longrightarrow> list_match xs \<Longrightarrow> list_match ys"
  by (auto simp: match_iff_ex)

end

text \<open>A matcher that refuses the empty list is monotone without a side condition.\<close>

locale strict_matcher = list_matcher elem_match list_match False
  for elem_match :: "'a \<Rightarrow> bool" and list_match :: "'a list \<Rightarrow> bool"
begin

lemma strict_iff: "list_match xs \<longleftrightarrow> (\<exists>x\<in>set xs. elem_match x)"
  by (auto simp: match_iff_ex)

lemma strict_mono: "set xs \<subseteq> set ys \<Longrightarrow> list_match xs \<Longrightarrow> list_match ys"
  by (auto simp: strict_iff)

lemma strict_append: "list_match (xs @ ys) \<longleftrightarrow> list_match xs \<or> list_match ys"
  by (auto simp: strict_iff)

end

text \<open>Other loops try the elements one after the other until one succeeds (\<open>attempt\<close>
  gives \<open>None\<close>), and report whether any did. The outcome does not depend on the order,
  which matters for a \<open>range\<close> over a Go map.\<close>

locale first_success =
  fixes attempt :: "'a \<Rightarrow> 'e option"
    and loop_ok :: "'a list \<Rightarrow> bool"
  assumes loop_Nil: "\<not> loop_ok []"
    and loop_Cons: "loop_ok (x # xs) = (case attempt x of None \<Rightarrow> True | Some _ \<Rightarrow> loop_ok xs)"
begin

lemma loop_iff: "loop_ok xs \<longleftrightarrow> (\<exists>x\<in>set xs. attempt x = None)"
  by (induction xs) (auto simp: loop_Nil loop_Cons split: option.splits)

lemma loop_order: "set xs = set ys \<Longrightarrow> loop_ok xs = loop_ok ys"
  by (simp add: loop_iff)

lemma loop_fails_iff: "\<not> loop_ok xs \<longleftrightarrow> (\<forall>x\<in>set xs. attempt x \<noteq> None)"
  by (simp add: loop_iff)

end

end
