(* ===== verification/Config.thy ===== *)
theory Config
  imports Prelude
begin

text \<open>
  \<^verbatim>\<open>shield/pkg/config\<close>: the parameter object of a constraint
  (\<^verbatim>\<open>parameter.go\<close>) and the request handler configuration
  (\<^verbatim>\<open>request_handler_config.go\<close>), with the matching functions, the logger setup, the
  loading of a key secret into a local file and the loading of the configuration. The
  record \<open>lib\<close> gathers the functions of packages outside the repository that the shield
  calls; everything defined from them takes it as an argument.
\<close>

section \<open>Data of packages outside the repository\<close>

text \<open>\<open>admission.Request\<close>, the fields the sources read.\<close>

record gvk =
  gvk_Group :: string
  gvk_Version :: string
  gvk_Kind :: string

record request =
  req_Operation :: string
  req_Kind :: gvk
  req_Namespace :: string
  req_Name :: string
  req_Username :: string
  req_Object :: bytes
  req_OldObject :: bytes

text \<open>\<open>k8smanifest.VerifyResourceOption\<close>: the fields the sources set, the rest (signers and
  further options decoded from the constraint) as decoded.\<close>

record verify_option =
  vo_ImageRef :: string
  vo_SignatureResourceRef :: string
  vo_ProvenanceResourceRef :: string
  vo_DryRunNamespace :: string
  vo_AnnotationKeyDomain :: string
  vo_KeyPath :: string
  vo_IgnoreFields :: "json list"
  vo_SkipObjects :: "json list"
  vo_Provenance :: bool
  vo_rest :: json

definition zero_verify_option :: verify_option where
  "zero_verify_option =
     \<lparr>vo_ImageRef = [], vo_SignatureResourceRef = [], vo_ProvenanceResourceRef = [],
      vo_DryRunNamespace = [], vo_AnnotationKeyDomain = [], vo_KeyPath = [],
      vo_IgnoreFields = [], vo_SkipObjects = [], vo_Provenance = False, vo_rest = JNull\<rparr>"

text \<open>\<open>k8smanifest.VerifyResourceResult\<close>.\<close>

record 'd verify_result =
  vr_InScope :: bool
  vr_Verified :: bool
  vr_Signer :: string
  vr_SigRef :: string
  vr_SignedTime :: "int option"
  vr_Diff :: "'d option"

text \<open>\<open>corev1.Event\<close>, the fields the shield and the operator write.\<close>

record object_reference =
  or_Namespace :: string
  or_APIVersion :: string
  or_Kind :: string
  or_Name :: string

record event =
  ev_Name :: string
  ev_Namespace :: string
  ev_Annotations :: "(string \<times> string) list"
  ev_InvolvedObject :: object_reference
  ev_Type :: string
  ev_Source :: string
  ev_ReportingController :: string
  ev_ReportingInstance :: string
  ev_Action :: string
  ev_Reason :: string
  ev_FirstTimestamp :: int
  ev_Message :: string
  ev_Count :: "32 word"
  ev_EventTime :: int
  ev_LastTimestamp :: int

section \<open>The types of parameter.go and request\_handler\_config.go\<close>

record action =
  Audit_Inform :: bool
  AdmissionControl_Enforce :: bool

record resource_ref =
  rr_Name :: string
  rr_Namespace :: string

record signature_ref =
  sr_ImageRef :: string
  sr_SignatureResourceRef :: resource_ref
  sr_ProvenanceResourceRef :: resource_ref

record key_config =
  KeySecretName :: string
  KeySecretNamespace :: string

type_synonym image_ref = string

record image_profile =
  ip_KeyConfigs :: "key_config list"
  ip_Match :: "image_ref list"
  ip_Exclude :: "image_ref list"

record object_user_binding =
  oub_Objects :: "json list"
  oub_Users :: "string list"

record parameter_object =
  po_ConstraintName :: string
  po_SignatureRef :: signature_ref
  po_KeyConfigs :: "key_config list"
  po_InScopeObjects :: "json list"
  po_SkipUsers :: "object_user_binding list"
  po_InScopeUsers :: "object_user_binding list"
  po_ImageProfile :: image_profile
  po_VerifyResourceOption :: verify_option
  po_Action :: "action option"

record log_config =
  lc_Level :: string
  lc_ManifestSigstoreLogLevel :: string
  lc_Format :: string

record request_filter_profile =
  rfp_SkipObjects :: "json list"
  rfp_SkipUsers :: "object_user_binding list"
  rfp_IgnoreFields :: "json list"

record request_handler_config =
  rhc_KeyPathList :: "string list"
  rhc_RekorServer :: string
  rhc_RequestFilterProfile :: request_filter_profile
  rhc_Log :: log_config
  rhc_CreateDenyEvent :: bool
  rhc_DefaultConstraintAction :: action
  rhc_Options :: "string list"

text \<open>The zero value \<open>&RequestHandlerConfig{}\<close>.\<close>

definition zero_RequestHandlerConfig :: request_handler_config where
  "zero_RequestHandlerConfig =
     \<lparr>rhc_KeyPathList = [], rhc_RekorServer = [],
      rhc_RequestFilterProfile = \<lparr>rfp_SkipObjects = [], rfp_SkipUsers = [], rfp_IgnoreFields = []\<rparr>,
      rhc_Log = \<lparr>lc_Level = [], lc_ManifestSigstoreLogLevel = [], lc_Format = []\<rparr>,
      rhc_CreateDenyEvent = False,
      rhc_DefaultConstraintAction = \<lparr>Audit_Inform = False, AdmissionControl_Enforce = False\<rparr>,
      rhc_Options = []\<rparr>"

section \<open>The functions of packages outside the repository\<close>

text \<open>
  \<open>'n\<close> is \<open>mapnode.Node\<close>, \<open>'d\<close> is \<open>mapnode.DiffResult\<close>, \<open>'s\<close> the state of the
  cluster. The functions that talk to the API server, to a registry or to the file system
  take the state they may look at. \<open>GetSecretData\<close> lists the entries of the secret, a Go map, and
  \<open>RangeOrder\<close> is the order in which a \<open>range\<close> visits them, which is another one in every loop.
  \<open>yaml_RequestHandlerConfig\<close> has, like the Go function, an error beside what was decoded until then.
  \<open>WriteFile_err\<close> is the error of \<open>ioutil.WriteFile\<close>, if any.
\<close>

record ('n, 'd, 's) lib =
  MatchPattern :: "string \<Rightarrow> string \<Rightarrow> bool"
  MatchSinglePattern :: "string \<Rightarrow> string \<Rightarrow> bool"
  MatchWithPatternArray :: "string \<Rightarrow> string list \<Rightarrow> bool"
  ObjectReference_Match :: "json \<Rightarrow> unstructured \<Rightarrow> bool"
  ObjectReferenceList_Match :: "json list \<Rightarrow> unstructured \<Rightarrow> bool"
  ObjectFieldBindingList_Match :: "json list \<Rightarrow> unstructured \<Rightarrow> bool \<times> string list"
  UnmarshalUnstructured :: "bytes \<Rightarrow> unstructured result"
  GetAnnotations :: "unstructured \<Rightarrow> string \<rightharpoonup> string"
  VerifyResource :: "'s world \<Rightarrow> unstructured \<Rightarrow> verify_option \<Rightarrow> 'd verify_result result"
  NewFromBytes :: "bytes \<Rightarrow> 'n option result"
  NewFromMap :: "json \<Rightarrow> 'n option"
  Node_Mask :: "'n \<Rightarrow> string list \<Rightarrow> 'n"
  Node_ToMap :: "'n \<Rightarrow> json"
  Node_Diff :: "'n option \<Rightarrow> 'n option \<Rightarrow> 'd option"
  Diff_Size :: "'d \<Rightarrow> int"
  Diff_Filter :: "'d \<Rightarrow> string list \<Rightarrow> 'd \<times> 'd \<times> bool"
  Diff_String :: "'d \<Rightarrow> string"
  zero_Diff :: 'd
  ErrorsWrap :: "string \<Rightarrow> string \<Rightarrow> string"
  GroupVersion_String :: "string \<Rightarrow> string \<Rightarrow> string"
  GetKubeConfig :: "'s world \<Rightarrow> unit result"
  NewForConfig :: "'s world \<Rightarrow> unit result"
  ConfigMaps_Get :: "'s \<Rightarrow> string \<Rightarrow> string \<Rightarrow> (string \<rightharpoonup> string) result"
  yaml_RequestHandlerConfig :: "string \<Rightarrow> request_handler_config option \<times> string option"
  GetSecretData :: "'s \<Rightarrow> string \<Rightarrow> string \<Rightarrow> (string \<times> bytes) list result"
  RangeOrder :: "nat \<Rightarrow> (string \<times> bytes) list \<Rightarrow> (string \<times> bytes) list"
  WriteFile_err :: "'s world \<Rightarrow> string \<Rightarrow> bytes \<Rightarrow> string option"
  Events_Get :: "'s \<Rightarrow> string \<Rightarrow> string \<Rightarrow> event result"
  Events_Create :: "'s \<Rightarrow> string \<Rightarrow> event \<Rightarrow> 's result"
  Events_Update :: "'s \<Rightarrow> string \<Rightarrow> event \<Rightarrow> 's result"
  yaml_Marshal :: "unstructured \<Rightarrow> bytes result"
  TempDir :: "'s world \<Rightarrow> string result"
  VerifyManifest_Exec :: "'s world \<Rightarrow> string \<Rightarrow> bytes \<Rightarrow> string option"
  LabelSelectorAsSelector :: "json \<Rightarrow> ((string \<rightharpoonup> string) \<Rightarrow> bool) result"
  FormatTime :: "int \<Rightarrow> string"
  FormatTimeUTC :: "int \<Rightarrow> string"
  Cosign_Init :: "'s world \<Rightarrow> 's world"

section \<open>Matching\<close>

definition ImageRef_Match :: "('n, 'd, 's, 'x) lib_scheme \<Rightarrow> image_ref \<Rightarrow> string \<Rightarrow> bool" where
  "ImageRef_Match L r imageRef = MatchPattern L r imageRef"

definition ImageRefList_Match ::
  "('n, 'd, 's, 'x) lib_scheme \<Rightarrow> image_ref list \<Rightarrow> string \<Rightarrow> bool" where
  "ImageRefList_Match L l imageRef =
     (if l = [] then True else list_ex (\<lambda>r. ImageRef_Match L r imageRef) l)"

definition ObjectUserBinding_Match ::
  "('n, 'd, 's, 'x) lib_scheme \<Rightarrow> object_user_binding \<Rightarrow> unstructured \<Rightarrow> string \<Rightarrow> bool" where
  "ObjectUserBinding_Match L u obj username =
     (if ObjectReferenceList_Match L (oub_Objects u) obj
      then if MatchWithPatternArray L username (oub_Users u) then True else False
      else False)"

definition ObjectUserBindingList_Match ::
  "('n, 'd, 's, 'x) lib_scheme \<Rightarrow> object_user_binding list \<Rightarrow> unstructured \<Rightarrow> string \<Rightarrow> bool"
where
  "ObjectUserBindingList_Match L l obj username =
     (if l = [] then False else list_ex (\<lambda>u. ObjectUserBinding_Match L u obj username) l)"

definition ImageProfile_Enabled :: "image_profile \<Rightarrow> bool" where
  "ImageProfile_Enabled p \<longleftrightarrow> length (ip_Match p) > 0 \<or> length (ip_Exclude p) > 0"

definition ImageProfile_MatchWith ::
  "('n, 'd, 's, 'x) lib_scheme \<Rightarrow> image_profile \<Rightarrow> string \<Rightarrow> bool" where
  "ImageProfile_MatchWith L p imageRef =
     (let matched = ImageRefList_Match L (ip_Match p) imageRef;
          excluded = (if length (ip_Exclude p) > 0
                      then ImageRefList_Match L (ip_Exclude p) imageRef else False)
      in matched \<and> \<not> excluded)"

section \<open>Logger\<close>

definition logLevelMap :: "string \<rightharpoonup> log_level" where
  "logLevelMap = map_of
     [(''panic'', PanicLevel), (''fatal'', FatalLevel), (''error'', ErrorLevel),
      (''warn'', WarnLevel), (''info'', InfoLevel), (''debug'', DebugLevel),
      (''trace'', TraceLevel)]"

definition k8sLogLevelEnvKey :: string where
  "k8sLogLevelEnvKey = ''K8S_MANIFEST_SIGSTORE_LOG_LEVEL''"

text \<open>The three conditionals that complete a partial setting, in the order of the code;
  the result is the pair of the two level strings.\<close>

definition complete_levels :: "string \<Rightarrow> string \<Rightarrow> string \<times> string" where
  "complete_levels l0 k0 =
     (let (l1, k1) = (if l0 = [] \<and> k0 = [] then (''info'', ''info'') else (l0, k0));
          (l2, k2) = (if l1 = [] \<and> k1 \<noteq> [] then (k1, k1) else (l1, k1));
          (l3, k3) = (if l2 \<noteq> [] \<and> k2 = [] then (l2, l2) else (l2, k2))
      in (l3, k3))"

definition SetupLogger :: "log_config \<Rightarrow> 's world \<Rightarrow> 's world" where
  "SetupLogger config w =
     (let (logLevelStr, k8sLogLevelStr) =
            complete_levels (lc_Level config) (lc_ManifestSigstoreLogLevel config);
          w1 = Setenv k8sLogLevelEnvKey k8sLogLevelStr w;
          logLevel = (case logLevelMap logLevelStr of None \<Rightarrow> InfoLevel | Some l \<Rightarrow> l);
          w2 = w1\<lparr>w_logLevel := logLevel\<rparr>
      in if lc_Format config = ''json'' then w2\<lparr>w_logFormat := JSONFormatter\<rparr> else w2)"

section \<open>Key secrets\<close>

text \<open>\<open>filepath.Join(dir, f)\<close> for a rooted \<open>dir\<close>: the components are cleaned, with
  \<^verbatim>\<open>.\<close> and empty ones dropped and \<^verbatim>\<open>..\<close> removing the one before it.\<close>

fun clean_step :: "string list \<Rightarrow> string \<Rightarrow> string list" where
  "clean_step acc part =
     (if part = [] \<or> part = ''.'' then acc
      else if part = ''..'' then butlast acc
      else acc @ [part])"

definition PathJoin :: "string \<Rightarrow> string \<Rightarrow> string" where
  "PathJoin dir f = ''/'' @ Join (foldl clean_step [] (Split (dir @ ''/'' @ f) ''/'')) ''/''"

definition keyDir :: "string \<Rightarrow> string \<Rightarrow> string" where
  "keyDir ns name = ''/tmp/'' @ ns @ ''/'' @ name @ ''/''"

text \<open>The loop over \<open>secret.Data\<close>: the first entry that can be written ends it.\<close>

fun saveSecretData ::
  "('n, 'd, 's, 'x) lib_scheme \<Rightarrow> string \<Rightarrow> (string \<times> bytes) list \<Rightarrow> string list \<Rightarrow> 's world
     \<Rightarrow> (string \<times> string list) \<times> 's world" where
  "saveSecretData L dir [] sumErr w = (([], sumErr), w)"
| "saveSecretData L dir ((fname, keyData) # rest) sumErr w =
     (let fpath = PathJoin dir fname in
      case WriteFile_err L w fpath keyData of
        Some e \<Rightarrow> saveSecretData L dir rest (sumErr @ [e]) w
      | None \<Rightarrow> ((fpath, sumErr), w\<lparr>w_files := (w_files w)(fpath \<mapsto> keyData)\<rparr>))"

definition LoadKeySecret ::
  "('n, 'd, 's, 'x) lib_scheme \<Rightarrow> string \<Rightarrow> string \<Rightarrow> 's world \<Rightarrow> string result \<times> 's world" where
  "LoadKeySecret L ns name w =
     (case GetSecretData L (w_cluster w) ns name of
        Inl e \<Rightarrow> (Inl (ErrorsWrap L e (''failed to get a secret `'' @ name @ ''` in `'' @ ns @ ''` namespace'')), w)
      | Inr data \<Rightarrow>
          (let entries = range_map (RangeOrder L) (w_ranges w) data;
               ((keyPath, sumErr), w1) = saveSecretData L (keyDir ns name) entries [] w;
               w' = w1\<lparr>w_ranges := Suc (w_ranges w1)\<rparr> in
           if keyPath = [] \<and> length sumErr > 0
           then (Inl (''failed to save secret data as a file; '' @ Join sumErr ''; ''), w')
           else if keyPath = []
           then (Inl (''no key files are found in the secret `'' @ name @ ''` in `'' @ ns @ ''` namespace''), w')
           else (Inr keyPath, w')))"

section \<open>Loading the request handler configuration\<close>

definition defaultPodNamespace :: string where
  "defaultPodNamespace = ''integrity-shield-operator-system''"

text \<open>The two results of the Go function. A failing \<open>GetKubeConfig\<close> or \<open>NewForConfig\<close> returns \<open>nil, nil\<close>, a
  failing decoder what it has decoded.\<close>

definition LoadRequestHandlerConfig_results ::
  "('n, 'd, 's, 'x) lib_scheme \<Rightarrow> 's world \<Rightarrow> request_handler_config option \<times> string option" where
  "LoadRequestHandlerConfig_results L w =
     (let namespace = envOr w ''POD_NAMESPACE'' defaultPodNamespace;
          configName = envOr w ''REQUEST_HANDLER_CONFIG_NAME'' ''request-handler-config'';
          configKey = envOr w ''REQUEST_HANDLER_CONFIG_KEY'' ''config.yaml''
      in case GetKubeConfig L w of
           Inl _ \<Rightarrow> (None, None)
         | Inr _ \<Rightarrow>
        (case NewForConfig L w of
           Inl _ \<Rightarrow> (None, None)
         | Inr _ \<Rightarrow>
        (case ConfigMaps_Get L (w_cluster w) namespace configName of
           Inl e \<Rightarrow> (None, Some (ErrorsWrap L e (''failed to get a configmap `'' @ configName @ ''` in `'' @ namespace @ ''` namespace'')))
         | Inr data \<Rightarrow>
        (case data configKey of
           None \<Rightarrow> (None, Some (''`'' @ configKey @ ''` is not found in configmap''))
         | Some cfgBytes \<Rightarrow>
        (case yaml_RequestHandlerConfig L cfgBytes of
           (sc, Some e) \<Rightarrow> (sc, Some (ErrorsWrap L e ''failed to unmarshal config.yaml into *config.RequestHandlerConfig''))
         | (sc, None) \<Rightarrow> (sc, None))))))"

text \<open>What a caller sees that gives up on an error.\<close>

definition LoadRequestHandlerConfig ::
  "('n, 'd, 's, 'x) lib_scheme \<Rightarrow> 's world \<Rightarrow> request_handler_config option result" where
  "LoadRequestHandlerConfig L w =
     (case LoadRequestHandlerConfig_results L w of (sc, None) \<Rightarrow> Inr sc | (_, Some e) \<Rightarrow> Inl e)"

section \<open>Properties of the matching functions\<close>

interpretation image_refs: list_matcher
  "\<lambda>r. ImageRef_Match L r imageRef" "\<lambda>l. ImageRefList_Match L l imageRef" True
  for L :: "('n, 'd, 's, 'x) lib_scheme" and imageRef
  by unfold_locales (simp_all add: ImageRefList_Match_def)

interpretation user_bindings: strict_matcher
  "\<lambda>u. ObjectUserBinding_Match L u obj username"
  "\<lambda>l. ObjectUserBindingList_Match L l obj username"
  for L :: "('n, 'd, 's, 'x) lib_scheme" and obj username
  by unfold_locales (simp_all add: ObjectUserBindingList_Match_def)

lemma ObjectUserBinding_Match_iff [match_iff]:
  "ObjectUserBinding_Match L u obj username \<longleftrightarrow>
     ObjectReferenceList_Match L (oub_Objects u) obj \<and> MatchWithPatternArray L username (oub_Users u)"
  by (simp add: ObjectUserBinding_Match_def)

lemmas ObjectUserBindingList_Match_iff [match_iff] = user_bindings.strict_iff

lemma ImageProfile_MatchWith_iff [match_iff]:
  "ImageProfile_MatchWith L p imageRef \<longleftrightarrow>
     (ip_Match p = [] \<or> (\<exists>r\<in>set (ip_Match p). MatchPattern L r imageRef)) \<and>
     (\<forall>r\<in>set (ip_Exclude p). \<not> MatchPattern L r imageRef)"
  by (auto simp: ImageProfile_MatchWith_def image_refs.match_iff_ex ImageRef_Match_def Let_def)

section \<open>Properties of the key secret loader\<close>

lemma PathJoin_not_Nil [simp]: "PathJoin dir f \<noteq> []"
  by (simp add: PathJoin_def)

lemma clean_parts: "set (foldl clean_step acc ps) \<subseteq> set acc \<union> set ps"
proof (induction ps arbitrary: acc)
  case (Cons p ps)
  have "set (clean_step acc p) \<subseteq> insert p (set acc)" by (auto dest: in_set_butlastD)
  with Cons.IH [of "clean_step acc p"] show ?case unfolding foldl_Cons set_simps by blast
qed simp

lemma PathJoin_chars:
  assumes "c \<noteq> CHR ''/''" and "c \<notin> set dir" and "c \<notin> set f"
  shows "c \<notin> set (PathJoin dir f)"
proof
  let ?ps = "Split (dir @ ''/'' @ f) ''/''"
  assume "c \<in> set (PathJoin dir f)"
  with assms(1) have "c \<in> set (Join (foldl clean_step [] ?ps) ''/'')" by (simp add: PathJoin_def)
  with set_Join [of "foldl clean_step [] ?ps" "''/''"] assms(1)
  obtain p where "p \<in> set (foldl clean_step [] ?ps)" and c: "c \<in> set p" by fastforce
  with clean_parts [of "[]" ?ps] have "p \<in> set ?ps" by fastforce
  from Split_parts [OF _ this] c have "c \<in> set (dir @ ''/'' @ f)" by (rule_tac subsetD) simp_all
  with assms show False by simp
qed

lemma saveSecretData_path:
  assumes "saveSecretData L dir data errs w = ((p, errs'), w')"
  shows "p \<noteq> [] \<and> (\<exists>(f, d) \<in> set data. p = PathJoin dir f \<and> w_files w' p = Some d) \<or>
         p = [] \<and> w' = w \<and> length errs' = length errs + length data"
  using assms
proof (induction L dir data errs w rule: saveSecretData.induct)
  case (1 L dir sumErr w)
  then show ?case by simp
next
  case (2 L dir fname keyData rest sumErr w)
  show ?case
  proof (cases "WriteFile_err L w (PathJoin dir fname) keyData")
    case None
    with "2.prems" show ?thesis by (auto simp: Let_def)
  next
    case (Some e)
    with "2.prems" have "saveSecretData L dir rest (sumErr @ [e]) w = ((p, errs'), w')"
      by (simp add: Let_def)
    from "2.IH" [OF refl Some this] show ?thesis by auto
  qed
qed

lemma saveSecretData_frame [world_simps]:
  "saveSecretData L dir data errs w = (r, w') \<Longrightarrow>
     w_env w' = w_env w \<and> w_cluster w' = w_cluster w \<and>
     w_logLevel w' = w_logLevel w \<and> w_logFormat w' = w_logFormat w"
  by (induction L dir data errs w rule: saveSecretData.induct)
     (auto simp: Let_def split: option.splits)

lemma saveSecretData_path_errs:
  "fst (fst (saveSecretData L dir data e1 w)) = fst (fst (saveSecretData L dir data e2 w))"
proof (induction data arbitrary: e1 e2)
  case Nil
  then show ?case by simp
next
  case (Cons fd data)
  show ?case
    by (cases fd) (auto simp: Let_def split: option.splits intro: Cons.IH)
qed

interpretation save_loop: first_success
  "\<lambda>(f, d). WriteFile_err L w (PathJoin dir f) d"
  "\<lambda>data. fst (fst (saveSecretData L dir data [] w)) \<noteq> []"
  for L :: "('n, 'd, 's, 'x) lib_scheme" and w dir
  by unfold_locales
     (auto simp: Let_def saveSecretData_path_errs [of L dir _ "[_]" w "[]"] split: option.splits)

lemma LoadKeySecret_ok_iff:
  "(\<exists>p. fst (LoadKeySecret L ns name w) = Inr p) \<longleftrightarrow>
     (\<exists>data. GetSecretData L (w_cluster w) ns name = Inr data \<and>
        (\<exists>(f, d)\<in>set data. WriteFile_err L w (PathJoin (keyDir ns name) f) d = None))"
proof (cases "GetSecretData L (w_cluster w) ns name")
  case (Inl e)
  then show ?thesis by (simp add: LoadKeySecret_def)
next
  case (Inr data)
  let ?entries = "range_map (RangeOrder L) (w_ranges w) data"
  obtain p errs w' where r: "saveSecretData L (keyDir ns name) ?entries [] w = ((p, errs), w')"
    by (metis surj_pair)
  from Inr r have "(\<exists>q. fst (LoadKeySecret L ns name w) = Inr q) \<longleftrightarrow> p \<noteq> []"
    by (simp add: LoadKeySecret_def Let_def)
  also from r have "\<dots> \<longleftrightarrow> (\<exists>(f, d)\<in>set ?entries. WriteFile_err L w (PathJoin (keyDir ns name) f) d = None)"
    using save_loop.loop_iff [where L = L and w = w and dir = "keyDir ns name" and xs = ?entries] by (simp add: case_prod_beta)
  finally show ?thesis using Inr by simp
qed

lemma LoadKeySecret_frame [world_simps]:
  "LoadKeySecret L ns name w = (r, w') \<Longrightarrow>
     w_env w' = w_env w \<and> w_cluster w' = w_cluster w \<and>
     w_logLevel w' = w_logLevel w \<and> w_logFormat w' = w_logFormat w"
  by (auto simp: LoadKeySecret_def Let_def split: sum.splits prod.splits if_splits
        dest!: saveSecretData_frame)

text \<open>The completed level strings are never empty, and a level that is set is kept.\<close>

lemma complete_levels_spec:
  "complete_levels l k = (l', k') \<Longrightarrow>
     l' \<noteq> [] \<and> k' \<noteq> [] \<and> (l \<noteq> [] \<longrightarrow> l' = l) \<and> (k \<noteq> [] \<longrightarrow> k' = k)"
  by (auto simp: complete_levels_def split: if_splits)

lemma SetupLogger_frame [world_simps]:
  "w_cluster (SetupLogger c w) = w_cluster w" "w_files (SetupLogger c w) = w_files w"
  by (simp_all add: SetupLogger_def Let_def case_prod_beta Setenv_def)

lemma SetupLogger_env [world_simps]:
  "k \<noteq> k8sLogLevelEnvKey \<Longrightarrow> Getenv (SetupLogger c w) k = Getenv w k"
  by (simp add: SetupLogger_def Let_def case_prod_beta Setenv_def Getenv_def)

section \<open>Stated properties\<close>

text \<open>an image profile matches an image exactly when one of its match patterns does, or
  it has none, and no exclude pattern does; the order and multiplicity of the patterns do
  not matter.\<close>

theorem image_profile_match_spec:
  "ImageProfile_MatchWith L p imageRef \<longleftrightarrow>
     (ip_Match p = [] \<or> (\<exists>r. r \<in> set (ip_Match p) \<and> MatchPattern L r imageRef)) \<and>
     \<not> (\<exists>r. r \<in> set (ip_Exclude p) \<and> MatchPattern L r imageRef)"
  by (auto simp: ImageProfile_MatchWith_iff)

text \<open>loading a key secret succeeds exactly when the secret can be read and at least one
  of its entries can be written, for every order in which the entries are visited; on
  success the returned path is a file that now holds the bytes of an entry of the secret,
  and the environment and the cluster are as before.\<close>

theorem load_key_secret_spec:
  assumes "LoadKeySecret L ns name w = (r, w')"
  shows "((\<exists>path. r = Inr path) \<longleftrightarrow>
            (\<exists>data f d. GetSecretData L (w_cluster w) ns name = Inr data \<and> (f, d) \<in> set data \<and>
               WriteFile_err L w (PathJoin (keyDir ns name) f) d = None)) \<and>
         (\<forall>path. r = Inr path \<longrightarrow>
            (\<exists>data f d. GetSecretData L (w_cluster w) ns name = Inr data \<and> (f, d) \<in> set data \<and>
               path = PathJoin (keyDir ns name) f \<and> w_files w' path = Some d)) \<and>
         w_env w' = w_env w \<and> w_cluster w' = w_cluster w"
proof (intro conjI allI impI)
  show "(\<exists>path. r = Inr path) \<longleftrightarrow>
      (\<exists>data f d. GetSecretData L (w_cluster w) ns name = Inr data \<and> (f, d) \<in> set data \<and>
         WriteFile_err L w (PathJoin (keyDir ns name) f) d = None)"
    using LoadKeySecret_ok_iff [of L ns name w] assms by auto
  fix path
  assume "r = Inr path"
  with assms show "\<exists>data f d. GetSecretData L (w_cluster w) ns name = Inr data \<and> (f, d) \<in> set data \<and>
      path = PathJoin (keyDir ns name) f \<and> w_files w' path = Some d"
    by (auto simp: LoadKeySecret_def Let_def split: sum.splits prod.splits if_splits dest!: saveSecretData_path)
qed (use LoadKeySecret_frame [OF assms] in auto)

text \<open>after the logger setup the level of the signing library is never the empty string,
  a level given for either logger is used for it, a level given for one only is used for
  both, and an unknown level means info.\<close>

theorem setup_logger_levels:
  "let w' = SetupLogger c w; l = lc_Level c; k = lc_ManifestSigstoreLogLevel c in
     Getenv w' k8sLogLevelEnvKey = (if k \<noteq> [] then k else if l \<noteq> [] then l else ''info'') \<and>
     w_logLevel w' = (case logLevelMap (if l \<noteq> [] then l else if k \<noteq> [] then k else ''info'') of
                        None \<Rightarrow> InfoLevel | Some lv \<Rightarrow> lv)"
  by (simp add: SetupLogger_def complete_levels_def Let_def Getenv_def Setenv_def)

end
