(* ===== verification/Samples.thy ===== *)
theory Samples
  imports Config
begin

text \<open>
  A concrete instance of every parameter of the shield, for the witnesses of theorems with
  hypotheses: objects are their raw bytes, a diff is the list of changed keys, the cluster
  holds events only. Nothing of the model depends on this theory.
\<close>

type_synonym sample_cluster = "string \<times> string \<rightharpoonup> event"

definition sample_config :: request_handler_config where
  "sample_config = zero_RequestHandlerConfig
     \<lparr>rhc_CreateDenyEvent := True,
      rhc_DefaultConstraintAction := \<lparr>Audit_Inform = True, AdmissionControl_Enforce = True\<rparr>\<rparr>"

definition sample_verify :: "unstructured \<Rightarrow> (string list) verify_result result" where
  "sample_verify r =
     (if r = JStr ''broken'' then Inl ''registry unreachable''
      else Inr \<lparr>vr_InScope = (r \<noteq> JStr ''outside''), vr_Verified = (r = JStr ''signed''),
                vr_Signer = (if r = JStr ''signed'' then ''signer@signer.com'' else []),
                vr_SigRef = [], vr_SignedTime = None, vr_Diff = None\<rparr>)"

text \<open>The instance for a cluster of any type, in which no events can be read or written.\<close>

definition sample_base :: "(string, string list, 's) lib" where
  "sample_base =
     \<lparr>MatchPattern = (\<lambda>p v. p = ''*'' \<or> p = v),
      MatchSinglePattern = (\<lambda>p v. p = ''*'' \<or> p = v),
      MatchWithPatternArray = (\<lambda>v ps. list_ex (\<lambda>p. p = ''*'' \<or> p = v) ps),
      ObjectReference_Match = (\<lambda>r obj. r = obj),
      ObjectReferenceList_Match = (\<lambda>rs obj. rs = [] \<or> list_ex (\<lambda>r. r = obj) rs),
      ObjectFieldBindingList_Match = (\<lambda>bs obj. (bs \<noteq> [], if bs = [] then [] else [''data.comment''])),
      UnmarshalUnstructured = (\<lambda>b. if b = [] then Inl ''unexpected end of JSON input'' else Inr (JStr b)),
      GetAnnotations = (\<lambda>_ _. None),
      VerifyResource = (\<lambda>w r vo. sample_verify r),
      NewFromBytes = (\<lambda>b. if b = [] then Inl ''unexpected end of JSON input'' else Inr (Some b)),
      NewFromMap = (\<lambda>j. case j of JStr s \<Rightarrow> Some s | _ \<Rightarrow> None),
      Node_Mask = (\<lambda>n mask. n),
      Node_ToMap = JStr,
      Node_Diff = (\<lambda>a b. Some (if a = b then [] else [''data''])),
      Diff_Size = (\<lambda>d. int (length d)),
      Diff_Filter = (\<lambda>d fs. (List.filter (\<lambda>k. k \<in> set fs) d, List.filter (\<lambda>k. k \<notin> set fs) d, False)),
      Diff_String = concat,
      zero_Diff = [],
      ErrorsWrap = (\<lambda>e m. m @ '': '' @ e),
      GroupVersion_String = (\<lambda>g v. if g = [] then v else g @ ''/'' @ v),
      GetKubeConfig = (\<lambda>w. Inr ()),
      NewForConfig = (\<lambda>w. Inr ()),
      ConfigMaps_Get = (\<lambda>s ns n. if n = ''request-handler-config'' then Inr (map_of [(''config.yaml'', ''sample'')])
                                  else Inl ''not found''),
      yaml_RequestHandlerConfig = (\<lambda>y. (if y = ''sample'' then Some sample_config else None, None)),
      GetSecretData = (\<lambda>s ns n. if n = ''keys'' then Inr [(''pub.pem'', ''KEY'')] else Inl ''not found''),
      RangeOrder = (\<lambda>n. rotate n),
      WriteFile_err = (\<lambda>w p b. None),
      Events_Get = (\<lambda>s ns n. Inl ''not found''),
      Events_Create = (\<lambda>s ns e. Inl ''forbidden''),
      Events_Update = (\<lambda>s ns e. Inl ''forbidden''),
      yaml_Marshal = (\<lambda>r. case r of JStr s \<Rightarrow> Inr s | _ \<Rightarrow> Inl ''not a map''),
      TempDir = (\<lambda>w. Inr ''/tmp/verify-image1''),
      VerifyManifest_Exec = (\<lambda>w k m. if k = [] then Some ''no matching signatures'' else None),
      LabelSelectorAsSelector = (\<lambda>j. Inr (\<lambda>_. True)),
      FormatTime = (\<lambda>t. ''now''),
      FormatTimeUTC = (\<lambda>t. ''now''),
      Cosign_Init = (\<lambda>w. w)\<rparr>"

definition sample_lib :: "(string, string list, sample_cluster) lib" where
  "sample_lib = sample_base
     \<lparr>Events_Get := (\<lambda>s ns n. case s (ns, n) of None \<Rightarrow> Inl ''not found''
        | Some e \<Rightarrow> if ev_Name e = n then Inr e else Inl ''corrupt''),
      Events_Create := (\<lambda>s ns e. Inr (s((ns, ev_Name e) \<mapsto> e))),
      Events_Update := (\<lambda>s ns e. Inr (s((ns, ev_Name e) \<mapsto> e)))\<rparr>"

lemmas sample_lib_eq = sample_lib_def [simplified sample_base_def lib.update_convs]

definition sample_world :: "sample_cluster world" where
  "sample_world =
     \<lparr>w_env = Map.empty, w_logLevel = InfoLevel, w_logFormat = TextFormatter,
      w_files = Map.empty, w_ranges = 0, w_cluster = Map.empty\<rparr>"

definition sample_params :: parameter_object where
  "sample_params =
     \<lparr>po_ConstraintName = ''c1'',
      po_SignatureRef = \<lparr>sr_ImageRef = [],
        sr_SignatureResourceRef = \<lparr>rr_Name = [], rr_Namespace = []\<rparr>,
        sr_ProvenanceResourceRef = \<lparr>rr_Name = [], rr_Namespace = []\<rparr>\<rparr>,
      po_KeyConfigs = [], po_InScopeObjects = [], po_SkipUsers = [], po_InScopeUsers = [],
      po_ImageProfile = \<lparr>ip_KeyConfigs = [], ip_Match = [], ip_Exclude = []\<rparr>,
      po_VerifyResourceOption = zero_verify_option, po_Action = None\<rparr>"

definition sample_request :: "bytes \<Rightarrow> request" where
  "sample_request obj =
     \<lparr>req_Operation = ''CREATE'',
      req_Kind = \<lparr>gvk_Group = [], gvk_Version = ''v1'', gvk_Kind = ''ConfigMap''\<rparr>,
      req_Namespace = ''sample-ns'', req_Name = ''sample-cm'', req_Username = ''kubernetes-admin'',
      req_Object = obj, req_OldObject = []\<rparr>"

lemma sample_LoadRequestHandlerConfig:
  "LoadRequestHandlerConfig sample_lib sample_world = Inr (Some sample_config)"
  by (simp add: LoadRequestHandlerConfig_def LoadRequestHandlerConfig_results_def sample_lib_eq sample_world_def envOr_def Getenv_def
      defaultPodNamespace_def)

lemma sample_cluster_empty: "w_cluster sample_world k = None"
  by (simp add: sample_world_def)

lemmas sample_defs = sample_lib_eq sample_config_def sample_verify_def sample_world_def
  sample_params_def sample_request_def zero_RequestHandlerConfig_def zero_verify_option_def

text \<open>The witness of the key secret property.\<close>

theorem load_key_secret_spec_witness:
  "\<exists>path. fst (LoadKeySecret sample_lib ''ns'' ''keys'' sample_world) = Inr path \<and>
     w_files (snd (LoadKeySecret sample_lib ''ns'' ''keys'' sample_world)) path = Some ''KEY''"
proof -
  let ?r = "LoadKeySecret sample_lib ''ns'' ''keys'' sample_world"
  have "?r = (fst ?r, snd ?r)" by simp
  note spec = load_key_secret_spec [OF this]
  have data: "GetSecretData sample_lib (w_cluster sample_world) ''ns'' ''keys'' = Inr [(''pub.pem'', ''KEY'')]"
    by (simp add: sample_lib_eq)
  moreover have "WriteFile_err sample_lib sample_world p d = None" for p d
    by (simp add: sample_lib_eq)
  ultimately obtain path where path: "fst ?r = Inr path" using spec by fastforce
  then show ?thesis using spec data by fastforce
qed

end
