(* ===== verification/ShieldImage.thy ===== *)
theory ShieldImage
  imports Samples
begin

text \<open>
  \<^verbatim>\<open>shield/pkg/shield/image.go\<close>: the image check against an image profile kept in a
  config map. A request is checked if its kind refers to images and some image matches the
  profile; the verification results are then compared with the profile and turned into a
  decision. The package \<^verbatim>\<open>common\<close> the file imports is not part of the repository: its
  decision types and reason codes are kept as distinct constants, and decoding a workload
  into its containers is a parameter.
\<close>

section \<open>Data\<close>

record resource_context =
  rc_Kind :: string
  rc_RawObject :: bytes
  rc_ApiGroup :: string
  rc_ApiVersion :: string
  rc_Namespace :: string

record image_check_profile =
  icp_Key :: string
  icp_KeyNamespace :: string
  icp_CommonName :: string
  icp_Image :: string
  icp_CosignExperimental :: bool

record image_check_result =
  icr_Error :: "string option"
  icr_Allowed :: bool
  icr_Reason :: string
  icr_Digest :: string
  icr_CommonNames :: "string list"

record image_to_verify =
  itv_Image :: string
  itv_Profile :: image_check_profile
  itv_Result :: image_check_result
  itv_ProfileCheckResult :: bool

type_synonym sig_check_images = "image_to_verify list"

datatype decision_type = DecisionUndetermined | DecisionAllow | DecisionDeny | DecisionError

datatype reason_code =
    REASON_UNSET
  | REASON_ERROR
  | REASON_INVALID_SIG_IMAGE
  | REASON_NO_MATCH_IMAGE_PROFILE
  | REASON_VALID_SIG_IMAGE

record decision_result =
  dr_Type :: decision_type
  dr_Verified :: bool
  dr_ReasonCode :: reason_code
  dr_Message :: string

definition zero_image_check_profile :: image_check_profile where
  "zero_image_check_profile =
     \<lparr>icp_Key = [], icp_KeyNamespace = [], icp_CommonName = [], icp_Image = [],
      icp_CosignExperimental = False\<rparr>"

definition zero_image_to_verify :: image_to_verify where
  "zero_image_to_verify =
     \<lparr>itv_Image = [], itv_Profile = zero_image_check_profile,
      itv_Result = \<lparr>icr_Error = None, icr_Allowed = False, icr_Reason = [], icr_Digest = [],
                    icr_CommonNames = []\<rparr>,
      itv_ProfileCheckResult = False\<rparr>"

text \<open>The Go types into which \<open>getPodSpec\<close> decodes, one per branch.\<close>

datatype workload =
    CoreV1Pod
  | AppsV1Deployment | AppsV1beta1Deployment | AppsV1beta2Deployment | ExtV1beta1Deployment
  | AppsV1ReplicaSet | ExtV1beta1ReplicaSet | AppsV1beta2ReplicaSet
  | AppsV1DaemonSet | AppsV1beta2DaemonSet | ExtV1beta1DaemonSet
  | AppsV1StatefulSet | AppsV1beta2StatefulSet | AppsV1beta1StatefulSet
  | BatchV1Job | BatchV1beta1CronJob

record container =
  c_Image :: string

type_synonym pod_decoder = "workload \<Rightarrow> bytes \<Rightarrow> container list result"

section \<open>Operations\<close>

fun contains_str :: "string list \<Rightarrow> string \<Rightarrow> bool" where
  "contains_str [] e = False"
| "contains_str (a # s) e = (if a = e then True else contains_str s e)"

definition isMatchImage :: "string \<Rightarrow> string \<Rightarrow> bool" where
  "isMatchImage pattern0 value =
     (let pattern = TrimSpace pattern0 in
      if pattern = [] then True
      else if pattern = ''*'' then True
      else if pattern = ''-'' \<and> value = [] then True
      else if HasSuffix pattern ''*'' then HasPrefix value (TrimRight1 pattern CHR ''*'')
      else if pattern = value then True
      else False)"

definition filterByKind :: "string \<Rightarrow> bool" where
  "filterByKind resource =
     (if resource = ''Pod'' \<or> resource = ''Deployment'' \<or> resource = ''Replicaset'' \<or>
         resource = ''Daemonset'' \<or> resource = ''Statefulset'' \<or> resource = ''Job'' \<or>
         resource = ''Cronjob''
      then True else False)"

definition getImages :: "container list \<Rightarrow> string list" where
  "getImages containers = map c_Image containers"

text \<open>The errors of \<open>GetKubeConfig\<close> and \<open>NewForConfig\<close> are dropped; the nil config or client
  is dereferenced by the next call.\<close>

definition getConfigmapProfile ::
  "('n, 'd, 's, 'x) lib_scheme \<Rightarrow> 's world \<Rightarrow> string \<Rightarrow> string \<Rightarrow> image_check_profile result outcome" where
  "getConfigmapProfile L w namespace profileName =
     (case GetKubeConfig L w of Inl _ \<Rightarrow> Panic ''nil pointer dereference'' | Inr _ \<Rightarrow>
     (case NewForConfig L w of Inl _ \<Rightarrow> Panic ''nil pointer dereference'' | Inr _ \<Rightarrow>
     Return (case ConfigMaps_Get L (w_cluster w) namespace profileName of
        Inl e \<Rightarrow> Inl e
      | Inr data \<Rightarrow>
          (let p = zero_image_check_profile;
               p = (case data ''transparencyLog'' of
                      Some t \<Rightarrow> p\<lparr>icp_CosignExperimental := or_zero False (ParseBool t)\<rparr> | None \<Rightarrow> p);
               p = (case data ''commonName'' of Some cn \<Rightarrow> p\<lparr>icp_CommonName := cn\<rparr> | None \<Rightarrow> p);
               p = (case data ''keySecret'' of Some k \<Rightarrow> p\<lparr>icp_Key := k\<rparr> | None \<Rightarrow> p);
               p = (case data ''keySecretNamespace'' of Some k \<Rightarrow> p\<lparr>icp_KeyNamespace := k\<rparr> | None \<Rightarrow> p)
           in case data ''image'' of
                Some i \<Rightarrow> Inr (p\<lparr>icp_Image := i\<rparr>)
              | None \<Rightarrow> Inl (''no image is defined in image profile configmap%!(EXTRA string='' @ namespace @ '')'')))))"

fun matchingImages :: "image_check_profile \<Rightarrow> string list \<Rightarrow> image_to_verify list" where
  "matchingImages ip [] = []"
| "matchingImages ip (img # images) =
     (if isMatchImage (icp_Image ip) img
      then zero_image_to_verify
             \<lparr>itv_Image := img,
              itv_Profile := zero_image_check_profile
                \<lparr>icp_CommonName := icp_CommonName ip,
                 icp_CosignExperimental := icp_CosignExperimental ip,
                 icp_Image := icp_Image ip\<rparr>\<rparr> # matchingImages ip images
      else matchingImages ip images)"

definition getImageProfile ::
  "('n, 'd, 's, 'x) lib_scheme \<Rightarrow> 's world \<Rightarrow> string \<Rightarrow> string list \<Rightarrow> (image_to_verify list \<times> string) outcome" where
  "getImageProfile L w namespace images =
     outcome_bind (getConfigmapProfile L w namespace ''image-profile-cm'') (\<lambda>r. Return (case r of
        Inl _ \<Rightarrow> ([], ''fail to load image profile'')
      | Inr ip \<Rightarrow>
          (let imagesToVerify = matchingImages ip images in
           if length imagesToVerify = 0 then (imagesToVerify, ''No matching profile'')
           else (imagesToVerify, []))))"

text \<open>The chain of conditions of \<open>getPodSpec\<close>, in its order.\<close>

definition podSpecType :: "string \<Rightarrow> string \<Rightarrow> string \<Rightarrow> workload option" where
  "podSpecType grp version kind =
     (if kind = ''Pod'' \<and> version = ''v1'' then Some CoreV1Pod
      else if kind = ''Deployment'' \<and> version = ''v1'' \<and> grp = ''apps'' then Some AppsV1Deployment
      else if kind = ''Deployment'' \<and> version = ''v1beta1'' \<and> grp = ''apps'' then Some AppsV1beta1Deployment
      else if kind = ''Deployment'' \<and> version = ''v1beta2'' \<and> grp = ''apps'' then Some AppsV1beta2Deployment
      else if kind = ''Deployment'' \<and> version = ''v1beta1'' \<and> grp = ''extensions'' then Some ExtV1beta1Deployment
      else if kind = ''Replicaset'' \<and> version = ''v1'' \<and> grp = ''apps'' then Some AppsV1ReplicaSet
      else if kind = ''Replicaset'' \<and> version = ''v1beta1'' \<and> grp = ''extensions'' then Some ExtV1beta1ReplicaSet
      else if kind = ''Replicaset'' \<and> version = ''v1beta2'' \<and> grp = ''apps'' then Some AppsV1beta2ReplicaSet
      else if kind = ''DaemonSet'' \<and> version = ''v1'' \<and> grp = ''apps'' then Some AppsV1DaemonSet
      else if kind = ''DaemonSet'' \<and> version = ''v1beta2'' \<and> grp = ''apps'' then Some AppsV1beta2DaemonSet
      else if kind = ''DaemonSet'' \<and> version = ''v1beta1'' \<and> grp = ''extensions'' then Some ExtV1beta1DaemonSet
      else if kind = ''StatefulSet'' \<and> version = ''v1'' \<and> grp = ''apps'' then Some AppsV1StatefulSet
      else if kind = ''StatefulSet'' \<and> version = ''v1beta2'' \<and> grp = ''apps'' then Some AppsV1beta2StatefulSet
      else if kind = ''StatefulSet'' \<and> version = ''v1beta1'' \<and> grp = ''apps'' then Some AppsV1beta1StatefulSet
      else if kind = ''Job'' \<and> version = ''v1'' \<and> grp = ''batch'' then Some BatchV1Job
      else if kind = ''CronJob'' \<and> version = ''v1beta1'' \<and> grp = ''batch'' then Some BatchV1beta1CronJob
      else None)"

text \<open>A kind that no branch covers gives the empty pod spec.\<close>

definition getPodSpec :: "pod_decoder \<Rightarrow> bytes \<Rightarrow> string \<Rightarrow> string \<Rightarrow> string \<Rightarrow> container list result" where
  "getPodSpec dec rawObj grp version kind =
     (case podSpecType grp version kind of None \<Rightarrow> Inr [] | Some t \<Rightarrow> dec t rawObj)"

definition requestCheckForImageCheck ::
  "('n, 'd, 's, 'x) lib_scheme \<Rightarrow> pod_decoder \<Rightarrow> 's world \<Rightarrow> resource_context
     \<Rightarrow> (bool \<times> sig_check_images option \<times> string) outcome" where
  "requestCheckForImageCheck L dec w resc =
     (if \<not> filterByKind (rc_Kind resc) then Return (False, None, ''no image referenced'')
      else case getPodSpec dec (rc_RawObject resc) (rc_ApiGroup resc) (rc_ApiVersion resc) (rc_Kind resc) of
        Inl _ \<Rightarrow> Return (False, None, ''no image referenced: fail to get podspec'')
      | Inr containers \<Rightarrow>
          outcome_bind (getImageProfile L w (rc_Namespace resc) (getImages containers))
            (\<lambda>(imagesToVerify, msg).
               if length imagesToVerify = 0 then Return (False, None, msg)
               else Return (True, Some imagesToVerify, [])))"

definition imageVerifiedResultCheckByProfile :: "sig_check_images \<Rightarrow> sig_check_images" where
  "imageVerifiedResultCheckByProfile sci =
     map (\<lambda>img. if contains_str (icr_CommonNames (itv_Result img)) (icp_CommonName (itv_Profile img))
                then img\<lparr>itv_ProfileCheckResult := True\<rparr> else img) sci"

text \<open>The loop of \<open>makeImageCheckResult\<close>: \<open>Some\<close> is its early return.\<close>

fun firstImageFailure :: "sig_check_images \<Rightarrow> decision_result option" where
  "firstImageFailure [] = None"
| "firstImageFailure (img # images) =
     (case icr_Error (itv_Result img) of
        Some e \<Rightarrow> Some \<lparr>dr_Type = DecisionError, dr_Verified = True, dr_ReasonCode = REASON_ERROR, dr_Message = e\<rparr>
      | None \<Rightarrow>
          if \<not> icr_Allowed (itv_Result img)
          then Some \<lparr>dr_Type = DecisionDeny, dr_Verified = True, dr_ReasonCode = REASON_INVALID_SIG_IMAGE,
                     dr_Message = icr_Reason (itv_Result img)\<rparr>
          else if \<not> itv_ProfileCheckResult img
          then Some \<lparr>dr_Type = DecisionDeny, dr_Verified = True, dr_ReasonCode = REASON_NO_MATCH_IMAGE_PROFILE,
                     dr_Message = ''no image profile matches with this commonName:'' @
                       Join (icr_CommonNames (itv_Result img)) '',''\<rparr>
          else firstImageFailure images)"

definition makeImageCheckResult :: "sig_check_images \<Rightarrow> decision_result outcome" where
  "makeImageCheckResult images =
     (case firstImageFailure images of
        Some res \<Rightarrow> Return res
      | None \<Rightarrow>
          (case images of
             [] \<Rightarrow> Panic ''index out of range [0] with length 0''
           | img # _ \<Rightarrow>
               Return \<lparr>dr_Type = DecisionAllow, dr_Verified = True, dr_ReasonCode = REASON_VALID_SIG_IMAGE,
                       dr_Message = ''this image is signed by a valid signer; image digest: '' @
                         icr_Digest (itv_Result img) @ '', signer: '' @ icp_CommonName (itv_Profile img)\<rparr>))"

section \<open>Properties\<close>

interpretation names: strict_matcher "\<lambda>a. a = e" "\<lambda>s. contains_str s e" for e
proof (unfold_locales)
  fix xs :: "string list"
  show "contains_str xs e = list_ex (\<lambda>a. a = e) xs" by (induction xs) auto
qed simp

lemma contains_str_iff [match_iff]: "contains_str s e \<longleftrightarrow> e \<in> set s"
  by (auto simp: names.strict_iff)

text \<open>The pattern without its trailing wildcards.\<close>

lemma TrimRight1_split:
  "\<exists>n. s = TrimRight1 s c @ replicate n c \<and> (TrimRight1 s c = [] \<or> last (TrimRight1 s c) \<noteq> c)"
proof -
  let ?r = "rev s"
  have "takeWhile (\<lambda>x. x = c) ?r = replicate (length (takeWhile (\<lambda>x. x = c) ?r)) c"
    by (rule replicate_eqI) (auto dest: set_takeWhileD)
  moreover have "?r = takeWhile (\<lambda>x. x = c) ?r @ dropWhile (\<lambda>x. x = c) ?r" by simp
  ultimately have "s = TrimRight1 s c @ replicate (length (takeWhile (\<lambda>x. x = c) ?r)) c"
    unfolding TrimRight1_def by (metis rev_append rev_replicate rev_rev_ident)
  moreover have "TrimRight1 s c = [] \<or> last (TrimRight1 s c) \<noteq> c"
    unfolding TrimRight1_def using hd_dropWhile [of "\<lambda>x. x = c" "rev s"] by (auto simp: last_rev)
  ultimately show ?thesis by blast
qed

lemma trimmed_unique:
  assumes "q @ replicate n c = q' @ replicate m c"
    and "q = [] \<or> last q \<noteq> c" and "q' = [] \<or> last q' \<noteq> c"
  shows "q = q'"
proof -
  have "dropWhile (\<lambda>x. x = c) (rev (p @ replicate k c)) = rev p" if "p = [] \<or> last p \<noteq> c" for p k
    using that by (cases p rule: rev_cases) (auto simp: dropWhile_append)
  then show ?thesis using assms by (metis rev_rev_ident)
qed

lemma firstImageFailure_not_allow:
  "firstImageFailure images = Some r \<Longrightarrow> dr_Type r \<noteq> DecisionAllow"
  by (induction images) (auto split: option.splits if_splits)

lemma matchingImages_set:
  "itv_Image ` set (matchingImages ip images) = {img \<in> set images. isMatchImage (icp_Image ip) img}"
  by (induction images) (auto simp: zero_image_to_verify_def)

section \<open>Stated properties\<close>

text \<open>an image matches a profile pattern exactly when the pattern, without surrounding
  white space, is empty, equals the image, is a dash and the image is empty, or is a text
  followed by one or more wildcards of which the image has the text as prefix.\<close>

theorem image_pattern_semantics:
  "isMatchImage pat v \<longleftrightarrow>
     (let p = TrimSpace pat in
        p = [] \<or> p = v \<or> p = ''-'' \<and> v = [] \<or>
        (\<exists>q n t. p = q @ replicate (Suc n) CHR ''*'' \<and> \<not> (q \<noteq> [] \<and> last q = CHR ''*'') \<and> v = q @ t))"
proof -
  define p where "p = TrimSpace pat"
  let ?q = "TrimRight1 p CHR ''*''"
  obtain n where n: "p = ?q @ replicate n CHR ''*''" and q: "?q = [] \<or> last ?q \<noteq> CHR ''*''"
    using TrimRight1_split by blast
  have suffix: "HasSuffix p ''*'' \<longleftrightarrow> n \<noteq> 0"
  proof
    assume "HasSuffix p ''*''"
    then have "p \<noteq> []" and "last p = CHR ''*''" by (auto simp: HasSuffix_iff)
    then show "n \<noteq> 0" using n q by (cases n) auto
  next
    assume "n \<noteq> 0"
    then obtain m where "n = Suc m" using not0_implies_Suc by blast
    with n have "p = (?q @ replicate m CHR ''*'') @ ''*''"
      by (metis append_assoc replicate_Suc replicate_append_same)
    then show "HasSuffix p ''*''" unfolding HasSuffix_iff by blast
  qed
  have glob: "(\<exists>q n t. p = q @ replicate (Suc n) CHR ''*'' \<and> \<not> (q \<noteq> [] \<and> last q = CHR ''*'') \<and> v = q @ t)
      \<longleftrightarrow> HasSuffix p ''*'' \<and> HasPrefix v ?q" (is "?l \<longleftrightarrow> ?r")
  proof
    assume ?l
    then obtain q' m t where q': "p = q' @ replicate (Suc m) CHR ''*''"
      "q' = [] \<or> last q' \<noteq> CHR ''*''" "v = q' @ t" by blast
    have "p = (q' @ replicate m CHR ''*'') @ ''*''"
      using q'(1) by (metis append_assoc replicate_Suc replicate_append_same)
    then have "HasSuffix p ''*''" unfolding HasSuffix_iff by blast
    moreover have "q' = ?q" using trimmed_unique [of q' "Suc m" _ ?q n] q' n q by metis
    ultimately show ?r using q'(3) by (auto simp: HasPrefix_iff)
  next
    assume ?r
    then obtain t where t: "v = ?q @ t" and "n \<noteq> 0" using suffix unfolding HasPrefix_iff by blast
    then obtain m where "n = Suc m" using not0_implies_Suc by blast
    with n q t show ?l by metis
  qed
  have star: "p = ''*'' \<Longrightarrow> HasSuffix p ''*'' \<and> HasPrefix v ?q"
    by (simp add: HasSuffix_def HasPrefix_def TrimRight1_def)
  have self: "p = v \<Longrightarrow> HasPrefix v ?q"
    using n unfolding HasPrefix_iff by blast
  show ?thesis
    unfolding isMatchImage_def Let_def p_def [symmetric] glob
    using star self by (auto simp: HasSuffix_def)
qed

lemma requestCheckForImageCheck_filtered:
  "\<not> filterByKind (rc_Kind resc) \<or> podSpecType (rc_ApiGroup resc) (rc_ApiVersion resc) (rc_Kind resc) = None \<Longrightarrow>
   requestCheckForImageCheck L dec w resc = Return r \<Longrightarrow> \<not> fst r"
  by (cases "getConfigmapProfile L w (rc_Namespace resc) ''image-profile-cm''")
     (auto simp: requestCheckForImageCheck_def getPodSpec_def getImages_def getImageProfile_def Let_def
        split: if_splits sum.splits)

lemma filtered_kinds:
  assumes "filterByKind k" and "podSpecType g v k \<noteq> None"
  shows "k \<in> {''Pod'', ''Deployment'', ''Job'', ''Replicaset''}"
proof -
  have "podSpecType g v ''Daemonset'' = None" "podSpecType g v ''Statefulset'' = None"
    "podSpecType g v ''Cronjob'' = None"
    by (simp_all add: podSpecType_def)
  moreover from assms(1) have "k \<in> {''Pod'', ''Deployment'', ''Job'', ''Replicaset''} \<or>
      k = ''Daemonset'' \<or> k = ''Statefulset'' \<or> k = ''Cronjob''"
    unfolding filterByKind_def by (metis insertI1 insertI2)
  ultimately show ?thesis using assms(2) by metis
qed

text \<open>whatever the profile and the object, an image check is requested only for the kinds
  Pod, Deployment, Job and the misspelled Replicaset: the workload kinds ReplicaSet,
  DaemonSet, StatefulSet and CronJob of Kubernetes are never image-checked, because the
  kind filter and the pod spec decoder spell them differently.\<close>

theorem image_check_kinds:
  assumes "requestCheckForImageCheck L dec w resc = Return (True, imgs, msg)"
  shows "rc_Kind resc \<in> {''Pod'', ''Deployment'', ''Job'', ''Replicaset''}"
proof (rule ccontr)
  assume other: "rc_Kind resc \<notin> {''Pod'', ''Deployment'', ''Job'', ''Replicaset''}"
  have "filterByKind (rc_Kind resc)" and "podSpecType (rc_ApiGroup resc) (rc_ApiVersion resc) (rc_Kind resc) \<noteq> None"
    using requestCheckForImageCheck_filtered [OF _ assms] by (metis fst_conv)+
  then show False using filtered_kinds other by blast
qed

definition sample_image_lib :: "(string, string list, sample_cluster) lib" where
  "sample_image_lib = sample_lib\<lparr>ConfigMaps_Get := \<lambda>s ns n.
     if n = ''image-profile-cm'' then Inr (map_of [(''image'', ''reg/*''), (''commonName'', ''ann'')])
     else Inl ''not found''\<rparr>"

definition sample_pod :: resource_context where
  "sample_pod = \<lparr>rc_Kind = ''Pod'', rc_RawObject = ''{}'', rc_ApiGroup = [], rc_ApiVersion = ''v1'',
     rc_Namespace = ''ns''\<rparr>"

theorem image_check_kinds_witness:
  "rc_Kind sample_pod \<in> {''Pod'', ''Deployment'', ''Job'', ''Replicaset''}"
proof -
  let ?r = "requestCheckForImageCheck sample_image_lib (\<lambda>_ _. Inr [\<lparr>c_Image = ''reg/app''\<rparr>]) sample_world sample_pod"
  have "case ?r of Return (b, _) \<Rightarrow> b | Panic _ \<Rightarrow> False" by code_simp
  then obtain imgs msg where "?r = Return (True, imgs, msg)" by (auto split: outcome.splits)
  then show ?thesis by (rule image_check_kinds)
qed

text \<open>An image as \<open>getImageProfile\<close> builds it: not yet compared with its profile.\<close>

definition uncompared :: "image_to_verify \<Rightarrow> image_to_verify" where
  "uncompared img = img\<lparr>itv_ProfileCheckResult := False\<rparr>"

text \<open>C36: the image decision, after the results were compared with the profile, allows
  exactly the non-empty lists in which every image was verified without error, was allowed,
  and carries the common name its profile asks for; the empty list makes the code panic.\<close>

theorem image_decision_spec:
  "((\<exists>r. makeImageCheckResult (imageVerifiedResultCheckByProfile (map uncompared imgs)) = Return r \<and>
       dr_Type r = DecisionAllow) \<longleftrightarrow>
      imgs \<noteq> [] \<and> list_all (\<lambda>img. icr_Error (itv_Result img) = None \<and> icr_Allowed (itv_Result img) \<and>
        icp_CommonName (itv_Profile img) \<in> set (icr_CommonNames (itv_Result img))) imgs) \<and>
   ((\<exists>m. makeImageCheckResult (imageVerifiedResultCheckByProfile (map uncompared imgs)) = Panic m) \<longleftrightarrow> imgs = [])"
proof -
  let ?c = "imageVerifiedResultCheckByProfile (map uncompared imgs)"
  have none: "firstImageFailure ?c = None \<longleftrightarrow>
      list_all (\<lambda>img. icr_Error (itv_Result img) = None \<and> icr_Allowed (itv_Result img) \<and>
        icp_CommonName (itv_Profile img) \<in> set (icr_CommonNames (itv_Result img))) imgs"
    by (induction imgs)
       (simp_all add: imageVerifiedResultCheckByProfile_def uncompared_def contains_str_iff split: option.split)
  have empty: "?c = [] \<longleftrightarrow> imgs = []" by (simp add: imageVerifiedResultCheckByProfile_def)
  show ?thesis
    unfolding makeImageCheckResult_def none [symmetric] empty [symmetric]
    by (cases ?c) (auto split: option.splits dest: firstImageFailure_not_allow)
qed

end
