(* ===== verification/ImageVerify.thy ===== *)
theory ImageVerify
  imports Samples
begin

text \<open>
  \<^verbatim>\<open>shield/pkg/image/image.go\<close>: verification of the images of a manifest with cosign. The
  resource is written to a temporary manifest file, the key secrets of the profile are
  loaded, and the keys are tried in order until one verifies every image.
\<close>

section \<open>Data\<close>

record image_verify_result =
  ivr_Object :: unstructured
  ivr_ImageRef :: string
  ivr_Verified :: bool
  ivr_InScope :: bool
  ivr_Signer :: string
  ivr_SignedTime :: "int option"
  ivr_FailReason :: string

section \<open>Operations\<close>

text \<open>\<open>os.RemoveAll(tmpDir)\<close>, deferred by \<open>VerifyImageInManifest\<close>.\<close>

definition RemoveAll :: "string \<Rightarrow> 's world \<Rightarrow> 's world" where
  "RemoveAll dir w =
     w\<lparr>w_files := (\<lambda>p. if p = dir \<or> HasPrefix p (dir @ ''/'') then None else w_files w p)\<rparr>"

text \<open>The loop that loads the key secrets; the first failure ends it.\<close>

fun loadImageKeys ::
  "('n, 'd, 's, 'x) lib_scheme \<Rightarrow> key_config list \<Rightarrow> string list \<Rightarrow> 's world
     \<Rightarrow> string list result \<times> 's world" where
  "loadImageKeys L [] keyPathList w = (Inr keyPathList, w)"
| "loadImageKeys L (kc # kcs) keyPathList w =
     (if KeySecretName kc \<noteq> []
      then (case LoadKeySecret L (KeySecretNamespace kc) (KeySecretName kc) w of
              (Inl e, w') \<Rightarrow> (Inl (ErrorsWrap L e ''failed to load a key secret for image verification''), w')
            | (Inr keyPath, w') \<Rightarrow> loadImageKeys L kcs (keyPathList @ [keyPath]) w')
      else loadImageKeys L kcs keyPathList w)"

text \<open>The loop over the key paths; the result is \<open>(allImagesVerified, failReason)\<close>. An
  empty key path stands for keyless verification.\<close>

fun verifyWithKeys ::
  "('n, 'd, 's, 'x) lib_scheme \<Rightarrow> string \<Rightarrow> string list \<Rightarrow> string \<Rightarrow> 's world \<Rightarrow> bool \<times> string" where
  "verifyWithKeys L manifestPath [] failReason w = (False, failReason)"
| "verifyWithKeys L manifestPath (keyPath # ks) failReason w =
     (case VerifyManifest_Exec L w keyPath manifestPath of
        None \<Rightarrow> (True, failReason)
      | Some iErr \<Rightarrow> verifyWithKeys L manifestPath ks iErr w)"

text \<open>The result is the pair \<open>(bool, error)\<close> of the Go function.\<close>

definition VerifyImageInManifest ::
  "('n, 'd, 's, 'x) lib_scheme \<Rightarrow> unstructured \<Rightarrow> image_profile \<Rightarrow> 's world
     \<Rightarrow> (bool \<times> string option) \<times> 's world" where
  "VerifyImageInManifest L resource profile w =
     (case yaml_Marshal L resource of
        Inl e \<Rightarrow> ((False, Some (ErrorsWrap L e ''failed to yaml.Marshal() the resource'')), w)
      | Inr yamlBytes \<Rightarrow>
     (case TempDir L w of
        Inl e \<Rightarrow> ((False, Some (''failed to create temp dir: '' @ e)), w)
      | Inr tmpDir \<Rightarrow>
     (let manifestPath = PathJoin tmpDir ''manifest.yaml'' in
      case WriteFile_err L w manifestPath yamlBytes of
        Some e \<Rightarrow> ((False, Some (''failed to create temp manifest file: '' @ e)), RemoveAll tmpDir w)
      | None \<Rightarrow>
     (case loadImageKeys L (ip_KeyConfigs profile) []
             (w\<lparr>w_files := (w_files w)(manifestPath \<mapsto> yamlBytes)\<rparr>) of
        (Inl e, w2) \<Rightarrow> ((False, Some e), RemoveAll tmpDir w2)
      | (Inr loaded, w2) \<Rightarrow>
     (let keyPathList = (if length loaded = 0 then [''''] else loaded);
          (allImagesVerified, failReason) = verifyWithKeys L manifestPath keyPathList [] w2;
          retErr = (if \<not> allImagesVerified then Some failReason else None)
      in ((allImagesVerified, retErr), RemoveAll tmpDir w2))))))"

section \<open>Properties\<close>

lemma RemoveAll_frame [world_simps]:
  "w_env (RemoveAll d w) = w_env w" "w_cluster (RemoveAll d w) = w_cluster w"
  "w_logLevel (RemoveAll d w) = w_logLevel w" "w_logFormat (RemoveAll d w) = w_logFormat w"
  by (simp_all add: RemoveAll_def)

lemma loadImageKeys_frame:
  "loadImageKeys L kcs ks w = (r, w') \<Longrightarrow>
     w_env w' = w_env w \<and> w_cluster w' = w_cluster w \<and>
     w_logLevel w' = w_logLevel w \<and> w_logFormat w' = w_logFormat w"
proof (induction kcs arbitrary: ks w)
  case Nil
  then show ?case by simp
next
  case (Cons kc kcs)
  show ?case
  proof (cases "KeySecretName kc = []")
    case True
    with Cons show ?thesis by simp
  next
    case False
    obtain q u where load: "LoadKeySecret L (KeySecretNamespace kc) (KeySecretName kc) w = (q, u)"
      by fastforce
    from Cons.prems False load Cons.IH [of _ u] show ?thesis
      by (cases q) (auto dest!: LoadKeySecret_frame)
  qed
qed

lemma VerifyImageInManifest_frame [world_simps]:
  "VerifyImageInManifest L resource profile w = (r, w') \<Longrightarrow>
     w_env w' = w_env w \<and> w_cluster w' = w_cluster w \<and>
     w_logLevel w' = w_logLevel w \<and> w_logFormat w' = w_logFormat w"
  by (auto simp: VerifyImageInManifest_def Let_def world_simps
        split: sum.splits option.splits prod.splits dest!: loadImageKeys_frame)

interpretation key_loop: first_success
  "\<lambda>k. VerifyManifest_Exec L w k manifestPath"
  "\<lambda>ks. fst (verifyWithKeys L manifestPath ks [] w)"
  for L :: "('n, 'd, 's, 'x) lib_scheme" and w manifestPath
proof -
  have indep: "fst (verifyWithKeys L manifestPath ks e1 w) = fst (verifyWithKeys L manifestPath ks e2 w)"
    for ks e1 e2
    by (induction ks arbitrary: e1 e2) (simp_all split: option.splits)
  show "first_success (\<lambda>k. VerifyManifest_Exec L w k manifestPath)
          (\<lambda>ks. fst (verifyWithKeys L manifestPath ks [] w))"
    by unfold_locales (simp_all split: option.split, metis indep)
qed

text \<open>When no key verifies, the reported reason is the error of the last key.\<close>

lemma verifyWithKeys_last_reason:
  "\<not> fst (verifyWithKeys L m (ks @ [k]) e w) \<Longrightarrow>
     VerifyManifest_Exec L w k m = Some (snd (verifyWithKeys L m (ks @ [k]) e w))"
  by (induction ks arbitrary: e) (auto split: option.splits)

lemma VerifyImageInManifest_error_iff:
  "snd (fst (VerifyImageInManifest L resource profile w)) = None \<longleftrightarrow>
     fst (fst (VerifyImageInManifest L resource profile w))"
  by (auto simp: VerifyImageInManifest_def Let_def split: sum.splits option.splits prod.splits)

text \<open>The patterns of the profile are not looked at.\<close>

lemma VerifyImageInManifest_ignores_patterns:
  "VerifyImageInManifest L resource (profile\<lparr>ip_Match := m, ip_Exclude := x\<rparr>) w =
     VerifyImageInManifest L resource profile w"
  by (simp add: VerifyImageInManifest_def cong: sum.case_cong option.case_cong)

section \<open>Stated properties\<close>

text \<open>C38: with the manifest written and the keys loaded, the images are reported as verified
  exactly when some key verifies them (or, without keys, the keyless verification does), in
  whatever order the keys come; an error is returned exactly when they are not verified.\<close>

theorem images_verified_iff_some_key:
  assumes "yaml_Marshal L resource = Inr yaml" and "TempDir L w = Inr dir"
    and "WriteFile_err L w (PathJoin dir ''manifest.yaml'') yaml = None"
    and "loadImageKeys L (ip_KeyConfigs profile) []
           (w\<lparr>w_files := (w_files w)(PathJoin dir ''manifest.yaml'' \<mapsto> yaml)\<rparr>) = (Inr keys, w2)"
  shows "(fst (fst (VerifyImageInManifest L resource profile w)) \<longleftrightarrow>
            (\<exists>k\<in>set (if keys = [] then [''''] else keys).
               VerifyManifest_Exec L w2 k (PathJoin dir ''manifest.yaml'') = None)) \<and>
         (snd (fst (VerifyImageInManifest L resource profile w)) = None \<longleftrightarrow>
            fst (fst (VerifyImageInManifest L resource profile w)))"
proof -
  have "fst (fst (VerifyImageInManifest L resource profile w)) =
      fst (verifyWithKeys L (PathJoin dir ''manifest.yaml'') (if keys = [] then [''''] else keys) [] w2)"
    using assms by (simp add: VerifyImageInManifest_def Let_def case_prod_beta)
  then show ?thesis
    by (simp only: key_loop.loop_iff VerifyImageInManifest_error_iff)
qed

theorem images_verified_iff_some_key_witness:
  "\<not> fst (fst (VerifyImageInManifest sample_lib (JStr ''pod'')
      \<lparr>ip_KeyConfigs = [], ip_Match = [''*''], ip_Exclude = []\<rparr> sample_world))"
  using images_verified_iff_some_key [of sample_lib "JStr ''pod''" "''pod''" sample_world "''/tmp/verify-image1''"
      "\<lparr>ip_KeyConfigs = [], ip_Match = [''*''], ip_Exclude = []\<rparr>" "[]"]
  by (simp add: sample_lib_eq)

text \<open>the match and exclude patterns of an image profile have no influence on the
  verification of the images: any two enabled profiles with the same keys give the same
  result, so an image that the profile excludes is verified like every other.\<close>

theorem image_patterns_do_not_matter:
  "VerifyImageInManifest L resource (profile\<lparr>ip_Match := m, ip_Exclude := x\<rparr>) w =
     VerifyImageInManifest L resource profile w"
  by (rule VerifyImageInManifest_ignores_patterns)

text \<open>verifying images leaves no trace of the temporary manifest: after a call that got
  as far as a temporary directory, no file below that directory exists, and environment
  and cluster are as before.\<close>

theorem temporary_manifest_is_removed:
  assumes "yaml_Marshal L resource = Inr yaml" and "TempDir L w = Inr dir"
    and "HasPrefix f (dir @ ''/'')"
  shows "w_files (snd (VerifyImageInManifest L resource profile w)) f = None \<and>
         w_env (snd (VerifyImageInManifest L resource profile w)) = w_env w \<and>
         w_cluster (snd (VerifyImageInManifest L resource profile w)) = w_cluster w"
proof -
  have "w_files (snd (VerifyImageInManifest L resource profile w)) f = None"
    using assms by (simp add: VerifyImageInManifest_def Let_def RemoveAll_def
        split: option.splits prod.splits sum.splits)
  with VerifyImageInManifest_frame [of L resource profile w] show ?thesis
    by (metis prod.collapse)
qed

theorem temporary_manifest_is_removed_witness:
  "w_files (snd (VerifyImageInManifest sample_lib (JStr ''pod'')
     \<lparr>ip_KeyConfigs = [], ip_Match = [''*''], ip_Exclude = []\<rparr> sample_world)) ''/tmp/verify-image1/manifest.yaml'' = None"
proof -
  have "yaml_Marshal sample_lib (JStr ''pod'') = Inr ''pod''"
    and "TempDir sample_lib sample_world = Inr ''/tmp/verify-image1''"
    by (simp_all add: sample_lib_eq)
  from temporary_manifest_is_removed [OF this, of "''/tmp/verify-image1/manifest.yaml''"]
  show ?thesis by (simp add: HasPrefix_def)
qed

end
