(* ===== verification/RequestHandler.thy ===== *)
theory RequestHandler
  imports ImageVerify
begin

text \<open>
  \<^verbatim>\<open>shield/pkg/shield/request_handler.go\<close>: the decision on one admission request against
  one constraint. \<open>RequestHandler\<close> decodes the object, loads the configuration, sets up the
  process environment, applies the skip rules and the mutation check, verifies the
  signature of the resource and of its images, and may record a deny event. The parts of
  its body are definitions of their own, in the order of the code; \<open>RequestHandler\<close> itself
  composes them. The second half states what the decision promises (\<open>policy\<close>) and
  proves that the code implements it.
\<close>

section \<open>Data\<close>

record rh_result =
  res_Allow :: bool
  res_Message :: string
  res_Profile :: string

definition ImageRefAnnotationKeyShield :: string where
  "ImageRefAnnotationKeyShield = ''integrityshield.io/signature''"

definition AnnotationKeyDomain :: string where
  "AnnotationKeyDomain = ''integrityshield.io''"

definition SignatureAnnotationTypeShield :: string where
  "SignatureAnnotationTypeShield = ''IntegrityShield''"

definition rekorServerEnvKey :: string where
  "rekorServerEnvKey = ''REKOR_SERVER''"

section \<open>The helpers of the handler\<close>

definition makeResultFromRequestHandler :: "bool \<Rightarrow> string \<Rightarrow> bool \<Rightarrow> rh_result" where
  "makeResultFromRequestHandler allow msg enforce =
     (let res = \<lparr>res_Allow = allow, res_Message = msg, res_Profile = []\<rparr> in
      if \<not> allow \<and> \<not> enforce
      then res\<lparr>res_Allow := True, res_Message := ''allowed because not enforced: '' @ msg\<rparr>
      else res)"

definition isUpdateRequest :: "string \<Rightarrow> bool" where
  "isUpdateRequest operation \<longleftrightarrow> operation = ''UPDATE''"

definition getMatchedIgnoreFields ::
  "('n, 'd, 's, 'x) lib_scheme \<Rightarrow> json list \<Rightarrow> json list \<Rightarrow> unstructured \<Rightarrow> string list" where
  "getMatchedIgnoreFields L pi ci resource =
     (let (_, fields) = ObjectFieldBindingList_Match L pi resource;
          (_, commonfields) = ObjectFieldBindingList_Match L ci resource
      in fields @ commonfields)"

definition mutation_mask :: "string list" where
  "mutation_mask =
     [''metadata.annotations.namespace'',
      ''metadata.annotations.kubectl.\"kubernetes.io/last-applied-configuration\"'',
      ''metadata.annotations.deprecated.daemonset.template.generation'',
      ''metadata.creationTimestamp'',
      ''metadata.uid'',
      ''metadata.generation'',
      ''metadata.managedFields'',
      ''metadata.selfLink'',
      ''metadata.resourceVersion'',
      ''status'']"

text \<open>Masking one of the two objects: \<open>v.Mask(mask)\<close>, \<open>v.ToMap()\<close>, \<open>NewFromMap\<close>.\<close>

definition maskedNode :: "('n, 'd, 's, 'x) lib_scheme \<Rightarrow> 'n \<Rightarrow> 'n option" where
  "maskedNode L v = NewFromMap L (Node_ToMap L (Node_Mask L v mutation_mask))"

definition mutationCheck ::
  "('n, 'd, 's, 'x) lib_scheme \<Rightarrow> bytes \<Rightarrow> bytes \<Rightarrow> string list \<Rightarrow> bool result" where
  "mutationCheck L rawOldObject rawObject IgnoreFields =
     (case NewFromBytes L rawObject of
        Inl err \<Rightarrow> Inl err
      | Inr None \<Rightarrow> Inr False
      | Inr (Some v) \<Rightarrow>
     (let newObject = maskedNode L v in
      case NewFromBytes L rawOldObject of
        Inl err \<Rightarrow> Inl err
      | Inr None \<Rightarrow> Inr False
      | Inr (Some v') \<Rightarrow>
     (let oldObject = maskedNode L v' in
      case Node_Diff L oldObject newObject of
        None \<Rightarrow> Inr False
      | Some dr \<Rightarrow>
          if Diff_Size L dr = 0 then Inr False
          else let unfiltered = (if Diff_Size L dr > 0
                                 then fst (snd (Diff_Filter L dr IgnoreFields))
                                 else zero_Diff L)
               in if Diff_Size L unfiltered = 0 then Inr False else Inr True)))"

text \<open>The loop of \<open>setVerifyOption\<close> over the key configurations. A failing load is logged
  and its empty path is appended all the same.\<close>

fun loadVerifyKeys ::
  "('n, 'd, 's, 'x) lib_scheme \<Rightarrow> key_config list \<Rightarrow> string list \<Rightarrow> 's world
     \<Rightarrow> string list \<times> 's world" where
  "loadVerifyKeys L [] keyPathList w = (keyPathList, w)"
| "loadVerifyKeys L (kc # kcs) keyPathList w =
     (if KeySecretName kc \<noteq> []
      then (let (r, w') = LoadKeySecret L (KeySecretNamespace kc) (KeySecretName kc) w
            in loadVerifyKeys L kcs (keyPathList @ [or_zero [] r]) w')
      else loadVerifyKeys L kcs keyPathList w)"

definition configMapRef :: "resource_ref \<Rightarrow> string" where
  "configMapRef r = ''k8s://ConfigMap/'' @ rr_Namespace r @ ''/'' @ rr_Name r"

text \<open>The signature references of the constraint override those of the option.\<close>

definition setSignatureRefs :: "signature_ref \<Rightarrow> verify_option \<Rightarrow> verify_option" where
  "setSignatureRefs sigRef vo =
     (let vo = (if sr_ImageRef sigRef \<noteq> [] then vo\<lparr>vo_ImageRef := sr_ImageRef sigRef\<rparr> else vo);
          vo = (if rr_Name (sr_SignatureResourceRef sigRef) \<noteq> [] \<and>
                   rr_Namespace (sr_SignatureResourceRef sigRef) \<noteq> []
                then vo\<lparr>vo_SignatureResourceRef := configMapRef (sr_SignatureResourceRef sigRef)\<rparr>
                else vo);
          vo = (if rr_Name (sr_ProvenanceResourceRef sigRef) \<noteq> [] \<and>
                   rr_Namespace (sr_ProvenanceResourceRef sigRef) \<noteq> []
                then vo\<lparr>vo_ProvenanceResourceRef := configMapRef (sr_ProvenanceResourceRef sigRef)\<rparr>
                else vo)
      in vo)"

text \<open>The local keys for \<open>VerifyResource\<close>.\<close>

definition setKeyPath ::
  "('n, 'd, 's, 'x) lib_scheme \<Rightarrow> key_config list \<Rightarrow> verify_option \<Rightarrow> 's world
     \<Rightarrow> verify_option \<times> 's world" where
  "setKeyPath L keyConfigs vo w =
     (if length keyConfigs \<noteq> 0
      then let (keyPathList, w') = loadVerifyKeys L keyConfigs [] w;
               keyPathString = Join keyPathList '',''
           in (if keyPathString \<noteq> [] then vo\<lparr>vo_KeyPath := keyPathString\<rparr> else vo, w')
      else (vo, w))"

text \<open>The code writes through a pointer into the embedded option of the parameter object;
  neither of its two callers looks at that option again, so the model returns the new
  option.\<close>

definition setVerifyOption ::
  "('n, 'd, 's, 'x) lib_scheme \<Rightarrow> parameter_object \<Rightarrow> request_handler_config \<Rightarrow> string
     \<Rightarrow> 's world \<Rightarrow> verify_option \<times> 's world" where
  "setVerifyOption L paramObj config signatureAnnotationType w =
     (let vo1 = setSignatureRefs (po_SignatureRef paramObj) (po_VerifyResourceOption paramObj);
          vo2 = vo1\<lparr>vo_DryRunNamespace := envOr w ''POD_NAMESPACE'' defaultPodNamespace\<rparr>;
          vo3 = (if signatureAnnotationType = SignatureAnnotationTypeShield
                 then vo2\<lparr>vo_AnnotationKeyDomain := AnnotationKeyDomain\<rparr> else vo2);
          (vo4, w') = setKeyPath L (po_KeyConfigs paramObj) vo3 w;
          common = rfp_IgnoreFields (rhc_RequestFilterProfile config)
      in if length common = 0 then (vo4, w')
         else (vo4\<lparr>vo_IgnoreFields := vo_IgnoreFields vo4 @ common\<rparr>, w'))"

definition skipObjectsMatch ::
  "('n, 'd, 's, 'x) lib_scheme \<Rightarrow> json list \<Rightarrow> unstructured \<Rightarrow> bool" where
  "skipObjectsMatch L l obj =
     (if l = [] then False else list_ex (\<lambda>r. ObjectReference_Match L r obj) l)"

section \<open>Deny events\<close>

definition trimEventMessage :: "string \<Rightarrow> string" where
  "trimEventMessage m =
     (if length m > 1024
      then take 950 m @ '' ... Trimmed. `Event.Message` can have 1024 chars at maximum.''
      else m)"

definition denyEventName :: "request \<Rightarrow> string" where
  "denyEventName req =
     ''ishield-deny-'' @ ToLower (req_Operation req) @ ''-'' @
     ToLower (gvk_Kind (req_Kind req)) @ ''-'' @ req_Name req"

text \<open>The event object as built before the API server is asked for an existing one.\<close>

definition newDenyEvent ::
  "('n, 'd, 's, 'x) lib_scheme \<Rightarrow> int \<Rightarrow> request \<Rightarrow> string \<Rightarrow> event" where
  "newDenyEvent L now req evtNamespace =
     \<lparr>ev_Name = denyEventName req,
      ev_Namespace = evtNamespace,
      ev_Annotations = [(''integrityshield.io/eventType'', ''verify-result''),
                        (''integrityshield.io/eventResult'', ''deny'')],
      ev_InvolvedObject =
        \<lparr>or_Namespace = req_Namespace req,
         or_APIVersion = GroupVersion_String L (gvk_Group (req_Kind req)) (gvk_Version (req_Kind req)),
         or_Kind = gvk_Kind (req_Kind req), or_Name = req_Name req\<rparr>,
      ev_Type = ''IntegrityShield'',
      ev_Source = ''IntegrityShield'',
      ev_ReportingController = ''IntegrityShield'',
      ev_ReportingInstance = denyEventName req,
      ev_Action = denyEventName req,
      ev_Reason = ''Deny'',
      ev_FirstTimestamp = now,
      ev_Message = [],
      ev_Count = 0,
      ev_EventTime = 0,
      ev_LastTimestamp = 0\<rparr>"

text \<open>The result is the returned error, if any, and the new state.\<close>

definition createOrUpdateEvent ::
  "('n, 'd, 's, 'x) lib_scheme \<Rightarrow> int \<Rightarrow> request \<Rightarrow> rh_result \<Rightarrow> string \<Rightarrow> 's world
     \<Rightarrow> string option \<times> 's world" where
  "createOrUpdateEvent L now req ar constraintName w =
     (if res_Allow ar then (None, w)
      else case GetKubeConfig L w of Inl e \<Rightarrow> (Some e, w)
      | Inr _ \<Rightarrow>
      (case NewForConfig L w of Inl e \<Rightarrow> (Some e, w)
      | Inr _ \<Rightarrow>
      (let namespace = envOr w ''POD_NAMESPACE'' defaultPodNamespace;
           evtNamespace = (if req_Namespace req = [] then namespace else req_Namespace req);
           evt0 = newDenyEvent L now req evtNamespace;
           (isExistingEvent, evt1) =
             (case Events_Get L (w_cluster w) evtNamespace (denyEventName req) of
                Inr current \<Rightarrow> (True, current)
              | Inl _ \<Rightarrow> (False, evt0));
           tmpMessage = trimEventMessage (''['' @ constraintName @ '']'' @ res_Message ar);
           evt = evt1\<lparr>ev_Message := tmpMessage, ev_Count := ev_Count evt1 + 1,
                      ev_EventTime := now, ev_LastTimestamp := now\<rparr>
       in case (if isExistingEvent then Events_Update L (w_cluster w) evtNamespace evt
                else Events_Create L (w_cluster w) evtNamespace evt) of
            Inl e \<Rightarrow> (Some e, w)
          | Inr s' \<Rightarrow> (None, w\<lparr>w_cluster := s'\<rparr>))))"

section \<open>The request handler\<close>

definition enforceAction :: "parameter_object \<Rightarrow> request_handler_config \<Rightarrow> bool" where
  "enforceAction paramObj rhconfig =
     (case po_Action paramObj of
        None \<Rightarrow> AdmissionControl_Enforce (rhc_DefaultConstraintAction rhconfig)
      | Some a \<Rightarrow> AdmissionControl_Enforce a)"

definition setRekorServerEnv :: "request_handler_config \<Rightarrow> 's world \<Rightarrow> 's world" where
  "setRekorServerEnv rhconfig w =
     (if rhc_RekorServer rhconfig \<noteq> [] then Setenv rekorServerEnvKey (rhc_RekorServer rhconfig) w
      else Setenv rekorServerEnvKey [] w)"

text \<open>The mutation check of an update request: \<open>None\<close> lets the request go on.\<close>

definition mutationResult ::
  "('n, 'd, 's, 'x) lib_scheme \<Rightarrow> request \<Rightarrow> parameter_object \<Rightarrow> request_handler_config
     \<Rightarrow> unstructured \<Rightarrow> bool \<Rightarrow> rh_result option" where
  "mutationResult L req paramObj rhconfig resource enforce =
     (if isUpdateRequest (req_Operation req)
      then let ignoreFields = getMatchedIgnoreFields L
                 (vo_IgnoreFields (po_VerifyResourceOption paramObj))
                 (rfp_IgnoreFields (rhc_RequestFilterProfile rhconfig)) resource
           in case mutationCheck L (req_OldObject req) (req_Object req) ignoreFields of
                Inl err \<Rightarrow> Some (makeResultFromRequestHandler False
                  (''IntegrityShield failed to decide the response. Failed to check mutation: '' @ err) enforce)
              | Inr mutated \<Rightarrow>
                  if \<not> mutated
                  then Some (makeResultFromRequestHandler True ''no mutation found'' enforce)
                  else None
      else None)"

text \<open>The verdict on the result of \<open>VerifyResource\<close>: \<open>(allow, message)\<close>.\<close>

definition signatureVerdict ::
  "('n, 'd, 's, 'x) lib_scheme \<Rightarrow> 'd verify_result \<Rightarrow> bool \<times> string" where
  "signatureVerdict L result =
     (if vr_InScope result
      then if vr_Verified result
           then (True, ''singed by a valid signer: '' @ vr_Signer result)
           else (False,
             if (case vr_Diff result of None \<Rightarrow> False | Some d \<Rightarrow> Diff_Size L d > 0)
             then ''Signature verification is required for this request, but failed to verify signature. diff found: '' @
                  (case vr_Diff result of None \<Rightarrow> [] | Some d \<Rightarrow> Diff_String L d)
             else if vr_Signer result \<noteq> []
             then ''Signature verification is required for this request, but no signer config matches with this resource. This is signed by '' @
                  vr_Signer result
             else ''Signature verification is required for this request, but no signature is found.'')
      else (True, ''not protected''))"

definition imageFailPrefix :: string where
  "imageFailPrefix = ''Image signature verification is required, but failed to verify signature: ''"

fun scanImageResults :: "image_verify_result list \<Rightarrow> bool \<times> string" where
  "scanImageResults [] = (True, [])"
| "scanImageResults (res # rest) =
     (if ivr_InScope res \<and> \<not> ivr_Verified res
      then (False, imageFailPrefix @ ivr_FailReason res)
      else scanImageResults rest)"

text \<open>\<open>imageVerifyResults\<close> is declared and never assigned, so the loop runs over an empty
  slice.\<close>

definition imageVerdict ::
  "('n, 'd, 's, 'x) lib_scheme \<Rightarrow> unstructured \<Rightarrow> image_profile \<Rightarrow> 's world
     \<Rightarrow> (bool \<times> string) \<times> 's world" where
  "imageVerdict L resource profile w =
     (if ImageProfile_Enabled profile
      then let ((_, err), w') = VerifyImageInManifest L resource profile w
           in case err of
                Some e \<Rightarrow> ((False, imageFailPrefix @ e), w')
              | None \<Rightarrow> (scanImageResults [], w')
      else ((True, []), w))"

text \<open>The annotation type that selects the annotation key domain.\<close>

definition signatureAnnotationType ::
  "('n, 'd, 's, 'x) lib_scheme \<Rightarrow> unstructured \<Rightarrow> string" where
  "signatureAnnotationType L resource =
     (if GetAnnotations L resource ImageRefAnnotationKeyShield \<noteq> None
      then SignatureAnnotationTypeShield else [])"

text \<open>The last branch of the decision: the signature of the resource, then of its images.
  \<open>Inl\<close> is the early return on an error of \<open>VerifyResource\<close>.\<close>

definition verifyDecision ::
  "('n, 'd, 's, 'x) lib_scheme \<Rightarrow> parameter_object \<Rightarrow> request_handler_config \<Rightarrow> unstructured
     \<Rightarrow> 's world \<Rightarrow> (bool \<times> string) result \<times> 's world" where
  "verifyDecision L paramObj rhconfig resource w =
     (let (vo, w1) = setVerifyOption L paramObj rhconfig (signatureAnnotationType L resource) w
      in case VerifyResource L w1 resource vo of
           Inl err \<Rightarrow> (Inl err, w1)
         | Inr result \<Rightarrow>
             (let (allow, message) = signatureVerdict L result;
                  ((imageAllow, imageMessage), w2) =
                    imageVerdict L resource (po_ImageProfile paramObj) w1
              in if allow \<and> \<not> imageAllow then (Inr (False, imageMessage), w2)
                 else (Inr (allow, message), w2)))"

definition decideRequest ::
  "('n, 'd, 's, 'x) lib_scheme \<Rightarrow> request \<Rightarrow> parameter_object \<Rightarrow> request_handler_config
     \<Rightarrow> unstructured \<Rightarrow> 's world \<Rightarrow> (bool \<times> string) result \<times> 's world" where
  "decideRequest L req paramObj rhconfig resource w =
     (let username = req_Username req;
          filter = rhc_RequestFilterProfile rhconfig;
          commonSkipUserMatched = ObjectUserBindingList_Match L (rfp_SkipUsers filter) resource username;
          skipObjectMatched = skipObjectsMatch L (rfp_SkipObjects filter) resource;
          skipUserMatched = ObjectUserBindingList_Match L (po_SkipUsers paramObj) resource username;
          inScopeUserMatched = ObjectUserBindingList_Match L (po_InScopeUsers paramObj) resource username;
          inScopeObjMatched = ObjectReferenceList_Match L (po_InScopeObjects paramObj) resource
      in if (skipUserMatched \<or> commonSkipUserMatched) \<and> \<not> inScopeUserMatched
         then (Inr (True, ''SkipUsers rule matched.''), w)
         else if \<not> inScopeObjMatched
         then (Inr (True, ''ObjectSelector rule did not match. Out of scope of verification.''), w)
         else if skipObjectMatched
         then (Inr (True, ''SkipObjects rule matched.''), w)
         else verifyDecision L paramObj rhconfig resource w)"

text \<open>\<open>now\<close> is the clock reading used for a deny event.\<close>

definition RequestHandler ::
  "('n, 'd, 's, 'x) lib_scheme \<Rightarrow> int \<Rightarrow> request \<Rightarrow> parameter_object \<Rightarrow> 's world
     \<Rightarrow> rh_result \<times> 's world" where
  "RequestHandler L now req paramObj w =
     (case UnmarshalUnstructured L (req_Object req) of
        Inl err \<Rightarrow> (makeResultFromRequestHandler False
          (''IntegrityShield failed to decide the response. Failed to Unmarshal a requested object: '' @ err) False, w)
      | Inr resource \<Rightarrow>
     (case LoadRequestHandlerConfig L w of
        Inl err \<Rightarrow> (makeResultFromRequestHandler False
          (''IntegrityShield failed to decide the response. Failed to load request handler config: '' @ err) False, w)
      | Inr loaded \<Rightarrow>
     (let rhconfig = (case loaded of None \<Rightarrow> zero_RequestHandlerConfig | Some c \<Rightarrow> c);
          w1 = SetupLogger (rhc_Log rhconfig) w;
          enforce = enforceAction paramObj rhconfig;
          w2 = setRekorServerEnv rhconfig w1
      in case mutationResult L req paramObj rhconfig resource enforce of
           Some r \<Rightarrow> (r, w2)
         | None \<Rightarrow>
        (case decideRequest L req paramObj rhconfig resource w2 of
           (Inl err, w3) \<Rightarrow>
             (let r = makeResultFromRequestHandler False err enforce in
              (r, if rhc_CreateDenyEvent rhconfig
                  then snd (createOrUpdateEvent L now req r (po_ConstraintName paramObj) w3) else w3))
         | (Inr (allow, message), w3) \<Rightarrow>
             (let r = makeResultFromRequestHandler allow message enforce in
              (r, if rhc_CreateDenyEvent rhconfig
                  then snd (createOrUpdateEvent L now req r (po_ConstraintName paramObj) w3) else w3))))))"

section \<open>What the decision promises\<close>

text \<open>The facts about a request that the decision depends on, without messages, state or
  the order in which they are looked up.\<close>

datatype verification = VerifyError | NotProtected | ValidSignature | NoValidSignature

record facts =
  is_update :: bool
  mutated :: "bool option"
  skip_user :: bool
  forced_user :: bool
  selected :: bool
  skip_object :: bool
  signature :: verification
  images_ok :: bool

definition policy :: "facts \<Rightarrow> bool" where
  "policy f \<longleftrightarrow>
     (if is_update f \<and> mutated f \<noteq> Some True then mutated f = Some False
      else skip_user f \<and> \<not> forced_user f \<or> \<not> selected f \<or> skip_object f \<or>
           (signature f = NotProtected \<or> signature f = ValidSignature) \<and> images_ok f)"

definition verification_of :: "'d verify_result result \<Rightarrow> verification" where
  "verification_of r =
     (case r of Inl _ \<Rightarrow> VerifyError
      | Inr v \<Rightarrow> if \<not> vr_InScope v then NotProtected
                 else if vr_Verified v then ValidSignature else NoValidSignature)"

text \<open>\<open>w\<close> is the state in which the decision is taken.\<close>

definition facts_of ::
  "('n, 'd, 's, 'x) lib_scheme \<Rightarrow> request \<Rightarrow> parameter_object \<Rightarrow> request_handler_config
     \<Rightarrow> unstructured \<Rightarrow> 's world \<Rightarrow> facts" where
  "facts_of L req po rh obj w =
     (let fields = getMatchedIgnoreFields L (vo_IgnoreFields (po_VerifyResourceOption po))
                     (rfp_IgnoreFields (rhc_RequestFilterProfile rh)) obj;
          (vo, w1) = setVerifyOption L po rh (signatureAnnotationType L obj) w
      in \<lparr>is_update = (req_Operation req = ''UPDATE''),
          mutated = (case mutationCheck L (req_OldObject req) (req_Object req) fields of
                       Inl _ \<Rightarrow> None | Inr b \<Rightarrow> Some b),
          skip_user = (\<exists>u\<in>set (po_SkipUsers po) \<union> set (rfp_SkipUsers (rhc_RequestFilterProfile rh)).
                         ObjectUserBinding_Match L u obj (req_Username req)),
          forced_user = (\<exists>u\<in>set (po_InScopeUsers po). ObjectUserBinding_Match L u obj (req_Username req)),
          selected = ObjectReferenceList_Match L (po_InScopeObjects po) obj,
          skip_object = (\<exists>r\<in>set (rfp_SkipObjects (rhc_RequestFilterProfile rh)). ObjectReference_Match L r obj),
          signature = verification_of (VerifyResource L w1 obj vo),
          images_ok = (ImageProfile_Enabled (po_ImageProfile po) \<longrightarrow>
                         fst (fst (VerifyImageInManifest L obj (po_ImageProfile po) w1)))\<rparr>)"

section \<open>Correctness of the handler\<close>

lemma setRekorServerEnv_frame [world_simps]:
  "w_cluster (setRekorServerEnv rh w) = w_cluster w"
  by (simp add: setRekorServerEnv_def Setenv_def)

lemma makeResult_Allow [decision_simps]:
  "res_Allow (makeResultFromRequestHandler a m e) \<longleftrightarrow> a \<or> \<not> e"
  by (simp add: makeResultFromRequestHandler_def Let_def)

lemma makeResult_Message [decision_simps]:
  "res_Message (makeResultFromRequestHandler a m e) =
     (if \<not> a \<and> \<not> e then ''allowed because not enforced: '' @ m else m)"
  by (simp add: makeResultFromRequestHandler_def Let_def)

interpretation skip_objects: strict_matcher
  "\<lambda>r. ObjectReference_Match L r obj" "\<lambda>l. skipObjectsMatch L l obj"
  for L :: "('n, 'd, 's, 'x) lib_scheme" and obj
  by unfold_locales (simp_all add: skipObjectsMatch_def)

lemma signatureVerdict_allow [decision_simps]:
  "fst (signatureVerdict L v) \<longleftrightarrow> verification_of (Inr v) \<in> {NotProtected, ValidSignature}"
  by (simp add: signatureVerdict_def verification_of_def)

lemma imageVerdict_allow [decision_simps]:
  "fst (fst (imageVerdict L obj p w)) \<longleftrightarrow>
     (ImageProfile_Enabled p \<longrightarrow> fst (fst (VerifyImageInManifest L obj p w)))"
  using VerifyImageInManifest_error_iff [of L obj p w]
  by (auto simp: imageVerdict_def split: prod.splits option.splits)

text \<open>The verdict of the decision, with an error of \<open>VerifyResource\<close> read as a denial.\<close>

definition verdict :: "(bool \<times> string) result \<Rightarrow> bool" where
  "verdict r = (case r of Inl _ \<Rightarrow> False | Inr (a, _) \<Rightarrow> a)"

lemma verifyDecision_verdict:
  assumes "setVerifyOption L po rh (signatureAnnotationType L obj) w = (vo, w1)"
  shows "verdict (fst (verifyDecision L po rh obj w)) \<longleftrightarrow>
     verification_of (VerifyResource L w1 obj vo) \<in> {NotProtected, ValidSignature} \<and>
     (ImageProfile_Enabled (po_ImageProfile po) \<longrightarrow>
        fst (fst (VerifyImageInManifest L obj (po_ImageProfile po) w1)))"
proof (cases "VerifyResource L w1 obj vo")
  case (Inl e)
  with assms show ?thesis by (simp add: verifyDecision_def verdict_def verification_of_def)
next
  case (Inr v)
  obtain a m where sv: "signatureVerdict L v = (a, m)" by fastforce
  obtain ia im w2 where iv: "imageVerdict L obj (po_ImageProfile po) w1 = ((ia, im), w2)"
    by (metis surj_pair)
  have "verdict (fst (verifyDecision L po rh obj w)) \<longleftrightarrow> a \<and> ia"
    using assms Inr sv iv by (auto simp: verifyDecision_def verdict_def)
  then show ?thesis
    using signatureVerdict_allow [of L v] imageVerdict_allow [of L obj "po_ImageProfile po" w1] sv iv Inr
    by simp
qed

lemma decideRequest_verdict:
  "verdict (fst (decideRequest L req po rh obj w)) \<longleftrightarrow>
     policy ((facts_of L req po rh obj w)\<lparr>is_update := False\<rparr>)"
proof -
  obtain vo w1 where vo: "setVerifyOption L po rh (signatureAnnotationType L obj) w = (vo, w1)"
    by fastforce
  show ?thesis
    using verifyDecision_verdict [OF vo] vo
    by (auto simp: decideRequest_def policy_def facts_of_def Let_def verdict_def
          user_bindings.strict_iff skip_objects.strict_iff)
qed

lemma mutationResult_None_iff:
  "mutationResult L req po rh obj e = None \<longleftrightarrow>
     (is_update (facts_of L req po rh obj w) \<longrightarrow> mutated (facts_of L req po rh obj w) = Some True)"
  by (auto simp: mutationResult_def facts_of_def Let_def isUpdateRequest_def
        split: sum.splits prod.splits)

lemma mutationResult_Some_allow:
  "mutationResult L req po rh obj e = Some r \<Longrightarrow>
     res_Allow r \<longleftrightarrow> \<not> e \<or> mutated (facts_of L req po rh obj w) = Some False"
  by (auto simp: mutationResult_def facts_of_def Let_def decision_simps
        split: sum.splits prod.splits if_splits)

lemma RequestHandler_decided:
  assumes "UnmarshalUnstructured L (req_Object req) = Inr obj"
    and "LoadRequestHandlerConfig L w = Inr loaded"
    and rh: "rh = (case loaded of None \<Rightarrow> zero_RequestHandlerConfig | Some c \<Rightarrow> c)"
    and w2: "w2 = setRekorServerEnv rh (SetupLogger (rhc_Log rh) w)"
  shows "res_Allow (fst (RequestHandler L now req po w)) \<longleftrightarrow>
           \<not> enforceAction po rh \<or> policy (facts_of L req po rh obj w2)"
proof (cases "mutationResult L req po rh obj (enforceAction po rh)")
  case (Some r)
  then have "is_update (facts_of L req po rh obj w2)"
    and "mutated (facts_of L req po rh obj w2) \<noteq> Some True"
    using mutationResult_None_iff [of L req po rh obj "enforceAction po rh" w2] by auto
  with Some assms show ?thesis
    using mutationResult_Some_allow [OF Some, of w2]
    by (auto simp: RequestHandler_def policy_def Let_def)
next
  case None
  obtain d w3 where d: "decideRequest L req po rh obj w2 = (d, w3)" by fastforce
  have "res_Allow (fst (RequestHandler L now req po w)) \<longleftrightarrow> \<not> enforceAction po rh \<or> verdict d"
    using None d assms
    by (auto simp: RequestHandler_def Let_def verdict_def decision_simps split: sum.splits)
  moreover have "verdict d \<longleftrightarrow> policy (facts_of L req po rh obj w2)"
    using decideRequest_verdict [of L req po rh obj w2] d None
      mutationResult_None_iff [of L req po rh obj "enforceAction po rh" w2]
    by (auto simp: policy_def)
  ultimately show ?thesis by simp
qed

lemma RequestHandler_undecodable:
  "UnmarshalUnstructured L (req_Object req) = Inl e \<Longrightarrow> RequestHandler L now req po w =
     (\<lparr>res_Allow = True,
       res_Message = ''allowed because not enforced: IntegrityShield failed to decide the response. Failed to Unmarshal a requested object: '' @ e,
       res_Profile = []\<rparr>, w)"
  by (simp add: RequestHandler_def makeResultFromRequestHandler_def)

lemma RequestHandler_no_config:
  "UnmarshalUnstructured L (req_Object req) = Inr obj \<Longrightarrow> LoadRequestHandlerConfig L w = Inl e \<Longrightarrow>
   RequestHandler L now req po w =
     (\<lparr>res_Allow = True,
       res_Message = ''allowed because not enforced: IntegrityShield failed to decide the response. Failed to load request handler config: '' @ e,
       res_Profile = []\<rparr>, w)"
  by (simp add: RequestHandler_def makeResultFromRequestHandler_def)

text \<open>A constraint denies a request: the object and the configuration are there, enforcement is
  on and the policy fails.\<close>

definition constraint_denies ::
  "('n, 'd, 's, 'x) lib_scheme \<Rightarrow> request \<Rightarrow> parameter_object \<Rightarrow> 's world \<Rightarrow> bool" where
  "constraint_denies L req po w =
     (case UnmarshalUnstructured L (req_Object req) of Inl _ \<Rightarrow> False
      | Inr obj \<Rightarrow> (case LoadRequestHandlerConfig L w of Inl _ \<Rightarrow> False
      | Inr loaded \<Rightarrow>
          (let rh = (case loaded of None \<Rightarrow> zero_RequestHandlerConfig | Some c \<Rightarrow> c) in
           enforceAction po rh \<and>
           \<not> policy (facts_of L req po rh obj (setRekorServerEnv rh (SetupLogger (rhc_Log rh) w))))))"

lemma RequestHandler_denies_iff [decision_simps]:
  "res_Allow (fst (RequestHandler L now req po w)) \<longleftrightarrow> \<not> constraint_denies L req po w"
proof (cases "UnmarshalUnstructured L (req_Object req)")
  case (Inl e)
  then show ?thesis by (simp add: RequestHandler_undecodable constraint_denies_def)
next
  case (Inr obj)
  show ?thesis
  proof (cases "LoadRequestHandlerConfig L w")
    case (Inl e)
    with Inr show ?thesis by (simp add: RequestHandler_no_config constraint_denies_def)
  next
    case loaded: (Inr loaded)
    from RequestHandler_decided [OF Inr loaded refl refl, of now po] Inr loaded show ?thesis
      by (simp add: constraint_denies_def Let_def)
  qed
qed

lemma constraint_denies_enforced:
  "constraint_denies L req po w \<Longrightarrow> \<exists>obj loaded. UnmarshalUnstructured L (req_Object req) = Inr obj \<and>
     LoadRequestHandlerConfig L w = Inr loaded \<and>
     (case po_Action po of
        Some a \<Rightarrow> AdmissionControl_Enforce a
      | None \<Rightarrow> (case loaded of None \<Rightarrow> False
                 | Some rh \<Rightarrow> AdmissionControl_Enforce (rhc_DefaultConstraintAction rh)))"
  by (auto simp: constraint_denies_def enforceAction_def zero_RequestHandlerConfig_def Let_def
        split: sum.splits option.splits)

lemma RequestHandler_Profile: "res_Profile (fst (RequestHandler L now req po w)) = []"
  by (auto simp: RequestHandler_def makeResultFromRequestHandler_def mutationResult_def Let_def
        split: sum.splits option.splits prod.splits)

subsection \<open>Properties of the whole decision\<close>

text \<open>C1: for every request whose object decodes and whose configuration loads, the handler
  allows the request exactly when enforcement is off or the policy holds of the facts it
  looked up. The policy says nothing about messages, state or the order of the checks.\<close>

theorem request_handler_refines_policy:
  assumes "UnmarshalUnstructured L (req_Object req) = Inr obj"
    and "LoadRequestHandlerConfig L w = Inr loaded"
    and "rh = (case loaded of None \<Rightarrow> zero_RequestHandlerConfig | Some c \<Rightarrow> c)"
  shows "res_Allow (fst (RequestHandler L now req po w)) \<longleftrightarrow>
           \<not> enforceAction po rh \<or>
           policy (facts_of L req po rh obj (setRekorServerEnv rh (SetupLogger (rhc_Log rh) w)))"
  using assms by (rule RequestHandler_decided) (rule refl)

theorem request_handler_refines_policy_witness:
  "\<not> res_Allow (fst (RequestHandler sample_lib 7 (sample_request ''unsigned'') sample_params sample_world))"
proof -
  have "res_Allow (fst (RequestHandler sample_lib 7 (sample_request ''unsigned'') sample_params sample_world)) \<longleftrightarrow>
      \<not> enforceAction sample_params sample_config \<or>
      policy (facts_of sample_lib (sample_request ''unsigned'') sample_params sample_config (JStr ''unsigned'')
        (setRekorServerEnv sample_config (SetupLogger (rhc_Log sample_config) sample_world)))"
    by (rule request_handler_refines_policy [where loaded = "Some sample_config"])
       (simp_all add: sample_LoadRequestHandlerConfig, simp add: sample_defs)
  then show ?thesis
    by (simp add: policy_def facts_of_def setVerifyOption_def setKeyPath_def setSignatureRefs_def enforceAction_def sample_defs
        verification_of_def Let_def)
qed

text \<open>an enforced creation of a selected, not skipped object by a user who is not
  exempted is allowed only if \<open>VerifyResource\<close>, called with the options the code derives
  from the constraint and the configuration, succeeded and reported the resource as
  unprotected or as carrying a valid signature, and, when an image profile is given, only
  if some key verified the images.\<close>

theorem enforced_creation_needs_verification:
  assumes "UnmarshalUnstructured L (req_Object req) = Inr obj"
    and "LoadRequestHandlerConfig L w = Inr (Some rh)"
    and "enforceAction po rh"
    and "req_Operation req = ''CREATE''"
    and "ObjectReferenceList_Match L (po_InScopeObjects po) obj"
    and "\<not> skipObjectsMatch L (rfp_SkipObjects (rhc_RequestFilterProfile rh)) obj"
    and "ObjectUserBindingList_Match L (po_InScopeUsers po) obj (req_Username req) \<or>
         \<not> (ObjectUserBindingList_Match L (po_SkipUsers po) obj (req_Username req) \<or>
            ObjectUserBindingList_Match L (rfp_SkipUsers (rhc_RequestFilterProfile rh)) obj (req_Username req))"
    and "setVerifyOption L po rh (signatureAnnotationType L obj)
           (setRekorServerEnv rh (SetupLogger (rhc_Log rh) w)) = (vo, w1)"
    and "res_Allow (fst (RequestHandler L now req po w))"
  shows "\<exists>v. VerifyResource L w1 obj vo = Inr v \<and> (vr_InScope v \<longrightarrow> vr_Verified v) \<and>
           (ImageProfile_Enabled (po_ImageProfile po) \<longrightarrow>
              fst (fst (VerifyImageInManifest L obj (po_ImageProfile po) w1)))"
proof -
  let ?w2 = "setRekorServerEnv rh (SetupLogger (rhc_Log rh) w)"
  have "policy (facts_of L req po rh obj ?w2)"
    using RequestHandler_decided [OF assms(1,2), of rh ?w2] assms(3,9) by simp
  with assms(4-8)
  have "verification_of (VerifyResource L w1 obj vo) \<in> {NotProtected, ValidSignature} \<and>
      (ImageProfile_Enabled (po_ImageProfile po) \<longrightarrow>
         fst (fst (VerifyImageInManifest L obj (po_ImageProfile po) w1)))"
    by (auto simp: policy_def facts_of_def user_bindings.strict_iff skip_objects.strict_iff)
  then show ?thesis
    by (auto simp: verification_of_def split: sum.splits if_splits)
qed

theorem enforced_creation_needs_verification_witness:
  "\<exists>v. VerifyResource sample_lib
         (setRekorServerEnv sample_config (SetupLogger (rhc_Log sample_config) sample_world))
         (JStr ''signed'') (zero_verify_option\<lparr>vo_DryRunNamespace := defaultPodNamespace\<rparr>) = Inr v \<and>
       (vr_InScope v \<longrightarrow> vr_Verified v) \<and>
       (ImageProfile_Enabled (po_ImageProfile sample_params) \<longrightarrow>
          fst (fst (VerifyImageInManifest sample_lib (JStr ''signed'') (po_ImageProfile sample_params)
            (setRekorServerEnv sample_config (SetupLogger (rhc_Log sample_config) sample_world)))))"
proof (rule enforced_creation_needs_verification [where rh = sample_config and w = sample_world and
      req = "sample_request ''signed''" and now = 0])
  show "res_Allow (fst (RequestHandler sample_lib 0 (sample_request ''signed'') sample_params sample_world))"
    using RequestHandler_decided [OF _ sample_LoadRequestHandlerConfig refl refl, of "sample_request ''signed''"
        "JStr ''signed''" 0 sample_params]
    by (simp add: policy_def facts_of_def setVerifyOption_def setKeyPath_def setSignatureRefs_def enforceAction_def sample_defs
        verification_of_def Let_def ImageProfile_Enabled_def)
  show "setVerifyOption sample_lib sample_params sample_config (signatureAnnotationType sample_lib (JStr ''signed''))
      (setRekorServerEnv sample_config (SetupLogger (rhc_Log sample_config) sample_world)) =
      (zero_verify_option\<lparr>vo_DryRunNamespace := defaultPodNamespace\<rparr>,
       setRekorServerEnv sample_config (SetupLogger (rhc_Log sample_config) sample_world))"
    by (simp add: setVerifyOption_def setKeyPath_def setSignatureRefs_def signatureAnnotationType_def sample_defs envOr_def Getenv_def
        setRekorServerEnv_def SetupLogger_def complete_levels_def Setenv_def SignatureAnnotationTypeShield_def
        k8sLogLevelEnvKey_def rekorServerEnvKey_def)
qed (simp_all add: sample_LoadRequestHandlerConfig,
     simp_all add: sample_defs enforceAction_def skipObjectsMatch_def ObjectUserBindingList_Match_def)

text \<open>a request is denied only if its object decoded, the configuration loaded and the
  enforcement switch in force (the constraint's own action if it has one, the default
  otherwise) is on.\<close>

theorem denial_requires_enforcement:
  assumes "\<not> res_Allow (fst (RequestHandler L now req po w))"
  shows "\<exists>obj loaded. UnmarshalUnstructured L (req_Object req) = Inr obj \<and>
           LoadRequestHandlerConfig L w = Inr loaded \<and>
           (case po_Action po of
              Some a \<Rightarrow> AdmissionControl_Enforce a
            | None \<Rightarrow> (case loaded of None \<Rightarrow> False
                       | Some rh \<Rightarrow> AdmissionControl_Enforce (rhc_DefaultConstraintAction rh)))"
  using assms unfolding RequestHandler_denies_iff not_not by (rule constraint_denies_enforced)

theorem denial_requires_enforcement_witness:
  "\<exists>obj loaded. UnmarshalUnstructured sample_lib (req_Object (sample_request ''unsigned'')) = Inr obj \<and>
     LoadRequestHandlerConfig sample_lib sample_world = Inr loaded \<and>
     (case po_Action sample_params of
        Some a \<Rightarrow> AdmissionControl_Enforce a
      | None \<Rightarrow> (case loaded of None \<Rightarrow> False
                 | Some rh \<Rightarrow> AdmissionControl_Enforce (rhc_DefaultConstraintAction rh)))"
proof (rule denial_requires_enforcement)
  show "\<not> res_Allow (fst (RequestHandler sample_lib 7 (sample_request ''unsigned'') sample_params sample_world))"
    using RequestHandler_decided [OF _ sample_LoadRequestHandlerConfig refl refl, of "sample_request ''unsigned''"
        "JStr ''unsigned''" 7 sample_params]
    by (simp add: policy_def facts_of_def setVerifyOption_def setKeyPath_def setSignatureRefs_def enforceAction_def sample_defs
        verification_of_def Let_def ImageProfile_Enabled_def)
qed

subsection \<open>The mutation check\<close>

lemma mutationCheck_same:
  assumes "\<And>n d. Node_Diff L n n = Some d \<Longrightarrow> Diff_Size L d = 0"
    and "NewFromBytes L raw = Inr v"
  shows "mutationCheck L raw raw fs = Inr False"
  using assms by (auto simp: mutationCheck_def Let_def split: option.splits)

text \<open>an update that leaves the object's bytes as they are is allowed with the message
  that no mutation was found, whatever the signature, provided the diff library reports no
  difference between a node and itself.\<close>

theorem unchanged_update_is_allowed:
  assumes "\<And>n d. Node_Diff L n n = Some d \<Longrightarrow> Diff_Size L d = 0"
    and "NewFromBytes L (req_Object req) = Inr v"
    and "req_Operation req = ''UPDATE''" and "req_OldObject req = req_Object req"
    and "UnmarshalUnstructured L (req_Object req) = Inr obj"
    and "LoadRequestHandlerConfig L w = Inr (Some rh)"
  shows "fst (RequestHandler L now req po w) =
           \<lparr>res_Allow = True, res_Message = ''no mutation found'', res_Profile = []\<rparr>"
proof -
  have "mutationCheck L (req_OldObject req) (req_Object req) fs = Inr False" for fs
    using mutationCheck_same [of L, OF assms(1,2)] assms(4) by simp
  then have "mutationResult L req po rh obj e =
      Some \<lparr>res_Allow = True, res_Message = ''no mutation found'', res_Profile = []\<rparr>" for e
    using assms(3) by (simp add: mutationResult_def isUpdateRequest_def makeResultFromRequestHandler_def)
  with assms(5,6) show ?thesis by (simp add: RequestHandler_def Let_def)
qed

definition sample_update :: request where
  "sample_update = (sample_request ''unsigned'')\<lparr>req_Operation := ''UPDATE'', req_OldObject := ''unsigned''\<rparr>"

theorem unchanged_update_is_allowed_witness:
  "fst (RequestHandler sample_lib 0 sample_update sample_params sample_world) =
     \<lparr>res_Allow = True, res_Message = ''no mutation found'', res_Profile = []\<rparr>"
  by (rule unchanged_update_is_allowed [where rh = sample_config])
     (simp_all add: sample_LoadRequestHandlerConfig,
      simp_all add: sample_defs sample_update_def)

subsection \<open>The verification options\<close>

lemma loadVerifyKeys_frame:
  "loadVerifyKeys L kcs ks w = (r, w') \<Longrightarrow> w_env w' = w_env w \<and> w_cluster w' = w_cluster w"
proof (induction kcs arbitrary: ks w)
  case Nil
  then show ?case by simp
next
  case (Cons kc kcs)
  then show ?case
    by (fastforce split: if_splits prod.splits simp: Let_def dest!: LoadKeySecret_frame)
qed

lemma setSignatureRefs_keeps [simp]:
  "vo_rest (setSignatureRefs r vo) = vo_rest vo"
  "vo_SkipObjects (setSignatureRefs r vo) = vo_SkipObjects vo"
  "vo_Provenance (setSignatureRefs r vo) = vo_Provenance vo"
  "vo_IgnoreFields (setSignatureRefs r vo) = vo_IgnoreFields vo"
  "vo_DryRunNamespace (setSignatureRefs r vo) = vo_DryRunNamespace vo"
  "vo_AnnotationKeyDomain (setSignatureRefs r vo) = vo_AnnotationKeyDomain vo"
  "vo_KeyPath (setSignatureRefs r vo) = vo_KeyPath vo"
  by (simp_all add: setSignatureRefs_def Let_def)

lemma setKeyPath_effect:
  assumes "setKeyPath L kcs vo w = (vo', w')"
  shows "(\<exists>p. vo' = vo\<lparr>vo_KeyPath := p\<rparr>) \<and> w_env w' = w_env w \<and> w_cluster w' = w_cluster w"
proof -
  have "\<exists>p. v = v\<lparr>vo_KeyPath := p\<rparr>" for v :: verify_option
    by (rule exI [of _ "vo_KeyPath v"]) simp
  with assms show ?thesis
    by (auto simp: setKeyPath_def Let_def split: if_splits prod.splits dest!: loadVerifyKeys_frame)
qed

lemma setVerifyOption_frame:
  "setVerifyOption L po rh t w = (vo, w') \<Longrightarrow> w_env w' = w_env w \<and> w_cluster w' = w_cluster w"
  by (auto simp: setVerifyOption_def Let_def split: if_splits prod.splits dest!: setKeyPath_effect)

lemma imageVerdict_frame:
  "imageVerdict L obj p w = (r, w') \<Longrightarrow> w_env w' = w_env w \<and> w_cluster w' = w_cluster w"
  by (auto simp: imageVerdict_def Let_def split: if_splits prod.splits option.splits
        dest!: VerifyImageInManifest_frame)

lemma decideRequest_frame:
  "decideRequest L req po rh obj w = (r, w') \<Longrightarrow> w_env w' = w_env w \<and> w_cluster w' = w_cluster w"
  by (auto simp: decideRequest_def verifyDecision_def Let_def
        split: if_splits prod.splits sum.splits dest!: setVerifyOption_frame imageVerdict_frame)

text \<open>the options passed to \<open>VerifyResource\<close> keep the signers, skip rules and
  provenance setting of the constraint, ignore the fields of the constraint followed by
  those of the configuration, run the dry run in a non-empty namespace, and use the
  integrityshield.io annotations exactly when asked to; building them changes neither the
  environment nor the cluster.\<close>

theorem verify_options_merge_constraint_and_config:
  "let vo = fst (setVerifyOption L po rh t w); vo0 = po_VerifyResourceOption po in
     vo_rest vo = vo_rest vo0 \<and> vo_SkipObjects vo = vo_SkipObjects vo0 \<and>
     vo_Provenance vo = vo_Provenance vo0 \<and>
     vo_IgnoreFields vo = vo_IgnoreFields vo0 @ rfp_IgnoreFields (rhc_RequestFilterProfile rh) \<and>
     vo_DryRunNamespace vo \<noteq> [] \<and>
     vo_AnnotationKeyDomain vo =
       (if t = ''IntegrityShield'' then ''integrityshield.io'' else vo_AnnotationKeyDomain vo0) \<and>
     w_env (snd (setVerifyOption L po rh t w)) = w_env w \<and>
     w_cluster (snd (setVerifyOption L po rh t w)) = w_cluster w"
proof -
  obtain vo w' where vo: "setVerifyOption L po rh t w = (vo, w')" by fastforce
  define vo3 where "vo3 = (let vo2 = (setSignatureRefs (po_SignatureRef po) (po_VerifyResourceOption po))
      \<lparr>vo_DryRunNamespace := envOr w ''POD_NAMESPACE'' defaultPodNamespace\<rparr> in
      if t = SignatureAnnotationTypeShield then vo2\<lparr>vo_AnnotationKeyDomain := AnnotationKeyDomain\<rparr> else vo2)"
  obtain vo4 u where vo4: "setKeyPath L (po_KeyConfigs po) vo3 w = (vo4, u)" by fastforce
  then obtain p where p: "vo4 = vo3\<lparr>vo_KeyPath := p\<rparr>" using setKeyPath_effect by blast
  have "vo = vo4\<lparr>vo_IgnoreFields := vo_IgnoreFields vo4 @ rfp_IgnoreFields (rhc_RequestFilterProfile rh)\<rparr>"
    using vo vo4 unfolding setVerifyOption_def vo3_def by (auto simp: Let_def split: if_splits)
  with vo setVerifyOption_frame [OF vo] p show ?thesis
    by (simp add: vo3_def Let_def SignatureAnnotationTypeShield_def AnnotationKeyDomain_def
        envOr_def defaultPodNamespace_def)
qed

text \<open>when every key secret of a constraint fails to load, the key path handed to
  \<open>VerifyResource\<close> is not empty but consists of the separators between the failed
  entries: with two key configurations it is a single comma.\<close>

theorem failed_key_loads_leave_commas:
  assumes "po_KeyConfigs po = [k1, k2]"
    and "KeySecretName k1 \<noteq> []" and "KeySecretName k2 \<noteq> []"
    and "GetSecretData L (w_cluster w) (KeySecretNamespace k1) (KeySecretName k1) = Inl e1"
    and "GetSecretData L (w_cluster w) (KeySecretNamespace k2) (KeySecretName k2) = Inl e2"
  shows "vo_KeyPath (fst (setVerifyOption L po rh t w)) = '',''"
  using assms by (auto simp: setVerifyOption_def setKeyPath_def Let_def LoadKeySecret_def)

theorem failed_key_loads_leave_commas_witness:
  "vo_KeyPath (fst (setVerifyOption sample_lib
     (sample_params\<lparr>po_KeyConfigs := [\<lparr>KeySecretName = ''a'', KeySecretNamespace = ''ns''\<rparr>,
                                      \<lparr>KeySecretName = ''b'', KeySecretNamespace = ''ns''\<rparr>]\<rparr>)
     sample_config [] sample_world)) = '',''"
  by (rule failed_key_loads_leave_commas [where ?e1.0 = "''not found''" and ?e2.0 = "''not found''"])
     (rule parameter_object.simps | simp add: sample_lib_eq)+

subsection \<open>Deny events\<close>

lemma trimEventMessage_length: "length (trimEventMessage m) \<le> 1024"
  by (simp add: trimEventMessage_def)

text \<open>the message of a deny event never exceeds the 1024 bytes the API server accepts; a
  message that fits is kept as it is, a longer one keeps its first 950 bytes.\<close>

theorem event_message_bounded:
  "length (trimEventMessage m) \<le> 1024 \<and>
   (length m \<le> 1024 \<longrightarrow> trimEventMessage m = m) \<and>
   (1024 < length m \<longrightarrow> take 950 (trimEventMessage m) = take 950 m)"
  by (simp add: trimEventMessage_def)

theorem event_message_bounded_witness:
  "take 950 (trimEventMessage (replicate 2000 CHR ''x'')) = replicate 950 CHR ''x''"
  using event_message_bounded [of "replicate 2000 CHR ''x''"] by simp

lemma createOrUpdateEvent_allowed: "res_Allow ar \<Longrightarrow> createOrUpdateEvent L now req ar c w = (None, w)"
  by (simp add: createOrUpdateEvent_def)

lemma createOrUpdateEvent_env: "createOrUpdateEvent L now req ar c w = (e, w') \<Longrightarrow> w_env w' = w_env w"
  by (auto simp: createOrUpdateEvent_def Let_def split: if_splits sum.splits prod.splits)

definition denyEventNamespace :: "request \<Rightarrow> 's world \<Rightarrow> string" where
  "denyEventNamespace req w =
     (if req_Namespace req = [] then envOr w ''POD_NAMESPACE'' defaultPodNamespace else req_Namespace req)"

text \<open>if the API server returns what was last written under a name, then after a denied
  request whose event was written without error the event of that request is in the
  cluster, with a bounded message, the time of the denial, and a counter that is one more
  than that of the event found before (one if there was none), at its 32-bit width.\<close>

theorem deny_event_is_recorded:
  assumes get_name: "\<And>s ns n e. Events_Get L s ns n = Inr e \<Longrightarrow> ev_Name e = n"
    and create_get: "\<And>s ns e s'. Events_Create L s ns e = Inr s' \<Longrightarrow> Events_Get L s' ns (ev_Name e) = Inr e"
    and update_get: "\<And>s ns e s'. Events_Update L s ns e = Inr s' \<Longrightarrow> Events_Get L s' ns (ev_Name e) = Inr e"
    and denied: "\<not> res_Allow ar"
    and ok: "createOrUpdateEvent L now req ar c w = (None, w')"
  shows "\<exists>e. Events_Get L (w_cluster w') (denyEventNamespace req w) (denyEventName req) = Inr e \<and>
           length (ev_Message e) \<le> 1024 \<and> ev_LastTimestamp e = now \<and>
           ev_Count e = (case Events_Get L (w_cluster w) (denyEventNamespace req w) (denyEventName req) of
                           Inr old \<Rightarrow> ev_Count old + 1 | Inl _ \<Rightarrow> 1)"
proof -
  let ?ns = "denyEventNamespace req w" and ?n = "denyEventName req"
  let ?m = "trimEventMessage (''['' @ c @ '']'' @ res_Message ar)"
  define evt1 where "evt1 = (case Events_Get L (w_cluster w) ?ns ?n of
      Inr cur \<Rightarrow> cur | Inl _ \<Rightarrow> newDenyEvent L now req ?ns)"
  define evt where "evt = evt1\<lparr>ev_Message := ?m, ev_Count := ev_Count evt1 + 1,
      ev_EventTime := now, ev_LastTimestamp := now\<rparr>"
  have name: "ev_Name evt = ?n"
    by (auto simp: evt_def evt1_def newDenyEvent_def dest: get_name split: sum.splits)
  have "Events_Get L (w_cluster w') ?ns (ev_Name evt) = Inr evt"
    using ok denied unfolding evt_def evt1_def
    by (auto simp: createOrUpdateEvent_def Let_def denyEventNamespace_def
          split: sum.splits prod.splits if_splits dest: create_get update_get)
  with name show ?thesis
    by (intro exI [of _ evt])
       (simp add: evt_def evt1_def newDenyEvent_def trimEventMessage_length split: sum.splits)
qed

theorem deny_event_is_recorded_witness:
  "\<exists>e. Events_Get sample_lib (w_cluster (snd (createOrUpdateEvent sample_lib 7 (sample_request ''x'')
          \<lparr>res_Allow = False, res_Message = ''no'', res_Profile = []\<rparr> ''c1'' sample_world)))
        ''sample-ns'' (denyEventName (sample_request ''x'')) = Inr e \<and> ev_Count e = 1"
proof -
  let ?r = "createOrUpdateEvent sample_lib 7 (sample_request ''x'')
          \<lparr>res_Allow = False, res_Message = ''no'', res_Profile = []\<rparr> ''c1'' sample_world"
  have "fst ?r = None" by code_simp
  then have r: "?r = (None, snd ?r)" by (simp add: prod_eq_iff)
  have ns: "denyEventNamespace (sample_request ''x'') sample_world = ''sample-ns''" by code_simp
  have new: "Events_Get sample_lib (w_cluster sample_world) ''sample-ns'' n = Inl ''not found''" for n
    by (simp add: sample_lib_eq sample_world_def)
  show ?thesis
  proof -
    have "\<exists>e. Events_Get sample_lib (w_cluster (snd ?r)) (denyEventNamespace (sample_request ''x'') sample_world)
          (denyEventName (sample_request ''x'')) = Inr e \<and> length (ev_Message e) \<le> 1024 \<and> ev_LastTimestamp e = 7 \<and>
          ev_Count e = (case Events_Get sample_lib (w_cluster sample_world)
              (denyEventNamespace (sample_request ''x'') sample_world) (denyEventName (sample_request ''x'')) of
              Inr old \<Rightarrow> ev_Count old + 1 | Inl _ \<Rightarrow> 1)"
      by (rule deny_event_is_recorded [OF _ _ _ _ r])
         (simp_all add: sample_lib_eq split: option.splits if_splits)
    then show ?thesis unfolding ns new by auto
  qed
qed

text \<open>What a request handler that changes the cluster did: it wrote a deny event.\<close>

lemma RequestHandler_writes:
  assumes "w_cluster (snd (RequestHandler L now req po w)) \<noteq> w_cluster w"
  obtains rh r w3 where "LoadRequestHandlerConfig L w = Inr (Some rh)" and "rhc_CreateDenyEvent rh" and "\<not> res_Allow r"
    and "w_cluster w3 = w_cluster w"
    and "RequestHandler L now req po w = (r, snd (createOrUpdateEvent L now req r (po_ConstraintName po) w3))"
proof -
  obtain obj where obj: "UnmarshalUnstructured L (req_Object req) = Inr obj"
    using assms by (cases "UnmarshalUnstructured L (req_Object req)") (auto simp: RequestHandler_undecodable)
  obtain loaded where cfg: "LoadRequestHandlerConfig L w = Inr loaded"
    using assms by (cases "LoadRequestHandlerConfig L w") (auto simp: RequestHandler_no_config [OF obj])
  define rh where "rh = (case loaded of None \<Rightarrow> zero_RequestHandlerConfig | Some c \<Rightarrow> c)"
  define w2 where "w2 = setRekorServerEnv rh (SetupLogger (rhc_Log rh) w)"
  obtain d w3 where d: "decideRequest L req po rh obj w2 = (d, w3)" by fastforce
  have w3: "w_cluster w3 = w_cluster w"
    using decideRequest_frame [OF d]
    by (simp add: w2_def world_simps)
  have nomut: "mutationResult L req po rh obj (enforceAction po rh) = None"
    using assms obj cfg unfolding RequestHandler_def Let_def rh_def [symmetric]
    by (auto simp: world_simps rh_def [symmetric] split: option.splits)
  define r where "r = (case d of Inl e \<Rightarrow> makeResultFromRequestHandler False e (enforceAction po rh)
                | Inr (a, m) \<Rightarrow> makeResultFromRequestHandler a m (enforceAction po rh))"
  have rhd: "RequestHandler L now req po w =
      (r, if rhc_CreateDenyEvent rh then snd (createOrUpdateEvent L now req r (po_ConstraintName po) w3) else w3)"
    using obj cfg d nomut unfolding RequestHandler_def r_def
    by (simp add: Let_def rh_def [symmetric] w2_def [symmetric] split: sum.splits prod.splits)
  then have ev: "rhc_CreateDenyEvent rh" and deny: "\<not> res_Allow r"
    using assms w3 by (auto simp: createOrUpdateEvent_allowed split: if_splits)
  from ev cfg have "LoadRequestHandlerConfig L w = Inr (Some rh)"
    by (auto simp: rh_def zero_RequestHandlerConfig_def split: option.splits)
  with ev deny w3 rhd show ?thesis by (intro that) simp_all
qed

lemma createOrUpdateEvent_write:
  assumes "\<not> res_Allow r" and "GetKubeConfig L w = Inr u" and "NewForConfig L w = Inr v"
  shows "\<exists>b ns e. createOrUpdateEvent L now req r c w =
     (case (if b then Events_Update L (w_cluster w) ns e else Events_Create L (w_cluster w) ns e) of
        Inl e \<Rightarrow> (Some e, w) | Inr s' \<Rightarrow> (None, w\<lparr>w_cluster := s'\<rparr>))"
  unfolding createOrUpdateEvent_def Let_def case_prod_beta
  by (simp only: assms if_False sum.case) (intro exI, rule refl)

lemma createOrUpdateEvent_cluster:
  assumes keep: "\<And>s ns e s'. Events_Create L s ns e = Inr s' \<or> Events_Update L s ns e = Inr s' \<Longrightarrow> V s' = V s"
  shows "V (w_cluster (snd (createOrUpdateEvent L now req r c w))) = V (w_cluster w)"
proof (cases "res_Allow r \<or> (\<exists>e. GetKubeConfig L w = Inl e) \<or> (\<exists>e. NewForConfig L w = Inl e)")
  case True
  then have "snd (createOrUpdateEvent L now req r c w) = w"
    unfolding createOrUpdateEvent_def by (auto split: sum.split)
  then show ?thesis by simp
next
  case False
  then obtain u v where "\<not> res_Allow r" "GetKubeConfig L w = Inr u" "NewForConfig L w = Inr v"
    by (cases "GetKubeConfig L w"; cases "NewForConfig L w") auto
  from createOrUpdateEvent_write [OF this] obtain b ns e where "createOrUpdateEvent L now req r c w =
     (case (if b then Events_Update L (w_cluster w) ns e else Events_Create L (w_cluster w) ns e) of
        Inl e \<Rightarrow> (Some e, w) | Inr s' \<Rightarrow> (None, w\<lparr>w_cluster := s'\<rparr>))" by blast
  then show ?thesis using keep [of "w_cluster w" ns e] by (simp split: sum.split)
qed

text \<open>Whatever the events of the cluster are not part of is left alone by the request handler.\<close>

lemma RequestHandler_keeps:
  assumes keep: "\<And>s ns e s'. Events_Create L s ns e = Inr s' \<or> Events_Update L s ns e = Inr s' \<Longrightarrow> V s' = V s"
  shows "V (w_cluster (snd (RequestHandler L now req po w))) = V (w_cluster w)"
proof (cases "w_cluster (snd (RequestHandler L now req po w)) = w_cluster w")
  case False
  then obtain r w3 where "w_cluster w3 = w_cluster w"
    and "RequestHandler L now req po w = (r, snd (createOrUpdateEvent L now req r (po_ConstraintName po) w3))"
    by (rule RequestHandler_writes)
  with createOrUpdateEvent_cluster [of L V, OF keep] show ?thesis by simp
qed simp

text \<open>handling a request writes to the cluster only to record a denial: whenever the
  cluster changed, the request was denied and deny events are switched on.\<close>

theorem only_denials_write_to_the_cluster:
  assumes "w_cluster (snd (RequestHandler L now req po w)) \<noteq> w_cluster w"
  shows "\<not> res_Allow (fst (RequestHandler L now req po w)) \<and>
         (\<exists>rh. LoadRequestHandlerConfig L w = Inr (Some rh) \<and> rhc_CreateDenyEvent rh)"
  using assms by (rule RequestHandler_writes) simp

theorem only_denials_write_to_the_cluster_witness:
  "\<not> res_Allow (fst (RequestHandler sample_lib 7 (sample_request ''unsigned'') sample_params sample_world))"
proof -
  have "w_cluster (snd (RequestHandler sample_lib 7 (sample_request ''unsigned'') sample_params sample_world))
        (''sample-ns'', denyEventName (sample_request ''unsigned'')) \<noteq> None"
    by code_simp
  then have "w_cluster (snd (RequestHandler sample_lib 7 (sample_request ''unsigned'') sample_params sample_world))
      \<noteq> w_cluster sample_world"
    by (metis (no_types) sample_cluster_empty)
  from only_denials_write_to_the_cluster [OF this] show ?thesis by blast
qed

end
