(* ===== verification/Observer.thy ===== *)
theory Observer
  imports RequestHandler
begin

text \<open>
  \<^verbatim>\<open>observer\<close>: the observer verifies the resources that are already in the cluster. \<open>Run\<close>
  loads the constraints, selects the API resources they cover, lists and verifies their
  objects (\<^verbatim>\<open>verify_resource.go\<close>), and stores the outcome in a \<^verbatim>\<open>ManifestIntegrityState\<close>
  resource per constraint and in one config map (\<^verbatim>\<open>observer.go\<close>). \<^verbatim>\<open>main.go\<close> repeats it with
  a ticker. Reads through nil pointers are panics of the model.
\<close>

section \<open>Data\<close>

record api_resource =
  ar_Name :: string
  ar_Kind :: string
  ar_Namespaced :: bool
  ar_Verbs :: "string list"

record group_resource =
  gr_APIGroup :: string
  gr_APIVersion :: string
  gr_APIResource :: api_resource

record group_resource_with_target_ns = group_resource +
  TargetNamespaces :: "string list"

record obs_kinds =
  ok_Kinds :: "string list"
  ok_ApiGroups :: "string list"

record obs_match_condition =
  om_Kinds :: "obs_kinds list"
  om_Namespaces :: "string list"
  om_ExcludedNamespaces :: "string list"
  om_LabelSelector :: "json option"
  om_NamespaceSelector :: "json option"

record constraint_spec =
  cs_Match :: obs_match_condition
  cs_Parameters :: parameter_object

record 'd verify_result_detail =
  vrd_Time :: string
  vrd_Namespace :: string
  vrd_Name :: string
  vrd_Kind :: string
  vrd_ApiGroup :: string
  vrd_ApiVersion :: string
  vrd_Error :: bool
  vrd_Message :: string
  vrd_Violation :: bool
  vrd_VerifyResourceResult :: "'d verify_result option"

record 'd constraint_result =
  cr_ConstraintName :: string
  cr_Violation :: bool
  cr_TotalViolations :: nat
  cr_Results :: "'d verify_result_detail list"
  cr_Constraint :: constraint_spec

record 'd observation_detail_results =
  odr_Time :: string
  odr_ConstraintResults :: "'d constraint_result list"

text \<open>The types of \<^verbatim>\<open>pkg/apis/manifestintegritystate/v1/types.go\<close>; of the object metadata the
  observer writes the name and the labels.\<close>

record state_verify_result =
  svr_Namespace :: string
  svr_Name :: string
  svr_Kind :: string
  svr_ApiGroup :: string
  svr_ApiVersion :: string
  svr_Result :: string
  svr_Signer :: string
  svr_SignedTime :: "int option"
  svr_SigRef :: string

record mis_spec =
  ms_ConstraintName :: string
  ms_Violation :: bool
  ms_TotalViolations :: nat
  ms_Violations :: "state_verify_result list"
  ms_NonViolations :: "state_verify_result list"
  ms_ObservationTime :: string

record manifest_integrity_state =
  mis_Name :: string
  mis_ResourceVersion :: string
  mis_Labels :: "string \<rightharpoonup> string"
  mis_Spec :: mis_spec

record observer =
  obs_APIResources :: "group_resource list"
  obs_dynamicClient :: bool

text \<open>\<open>ServerPreferredResources\<close> lists, per group version, the API resources; \<open>Dynamic_List\<close> is
  \<open>dynamicClient.Resource(gvr).Namespace(ns).List\<close>, with \<open>None\<close> for the call without a
  namespace.\<close>

record ('n, 'd, 's) obs_lib = "('n, 'd, 's) lib" +
  ServerPreferredResources :: "'s \<Rightarrow> (string \<times> api_resource list) list result"
  ParseGroupVersion :: "string \<Rightarrow> (string \<times> string) result"
  NewDynamicClient :: "'s world \<Rightarrow> unit result"
  NewDiscoveryClient :: "'s world \<Rightarrow> unit result"
  Dynamic_List :: "'s \<Rightarrow> string \<times> string \<times> string \<Rightarrow> string option \<Rightarrow> unstructured list result"
  json_ConstraintSpec :: "json \<Rightarrow> constraint_spec"
  Namespaces_List :: "'s \<Rightarrow> (string \<times> (string \<rightharpoonup> string)) list result"
  GetNamespace :: "unstructured \<Rightarrow> string"
  GetName :: "unstructured \<Rightarrow> string"
  GetGVK :: "unstructured \<Rightarrow> gvk"
  MIS_NewForConfig :: "'s world \<Rightarrow> unit result"
  MIS_Get :: "'s \<Rightarrow> string \<Rightarrow> string \<Rightarrow> manifest_integrity_state option result"
  MIS_Create :: "'s \<Rightarrow> string \<Rightarrow> manifest_integrity_state \<Rightarrow> 's result"
  MIS_Update :: "'s \<Rightarrow> string \<Rightarrow> manifest_integrity_state \<Rightarrow> 's result"
  ConfigMaps_Create :: "'s \<Rightarrow> string \<Rightarrow> string \<Rightarrow> (string \<rightharpoonup> string) \<Rightarrow> 's result"
  ConfigMaps_Update :: "'s \<Rightarrow> string \<Rightarrow> string \<Rightarrow> (string \<rightharpoonup> string) \<Rightarrow> 's result"
  json_MarshalDetail :: "'d observation_detail_results \<Rightarrow> string"

section \<open>verify\_resource.go\<close>

text \<open>The observer has its own copy of \<open>LoadKeySecret\<close>.\<close>

definition observer_LoadKeySecret ::
  "('n, 'd, 's, 'x) lib_scheme \<Rightarrow> string \<Rightarrow> string \<Rightarrow> 's world \<Rightarrow> string result \<times> 's world" where
  "observer_LoadKeySecret L ns name w =
     (case GetSecretData L (w_cluster w) ns name of
        Inl e \<Rightarrow> (Inl (ErrorsWrap L e (''failed to get a secret `'' @ name @ ''` in `'' @ ns @ ''` namespace'')), w)
      | Inr data \<Rightarrow>
          (let entries = range_map (RangeOrder L) (w_ranges w) data;
               ((keyPath, sumErr), w1) = saveSecretData L (''/tmp/'' @ ns @ ''/'' @ name @ ''/'') entries [] w;
               w' = w1\<lparr>w_ranges := Suc (w_ranges w1)\<rparr> in
           if keyPath = [] \<and> length sumErr > 0
           then (Inl (''failed to save secret data as a file; '' @ Join sumErr ''; ''), w')
           else if keyPath = []
           then (Inl (''no key files are found in the secret `'' @ name @ ''` in `'' @ ns @ ''` namespace''), w')
           else (Inr keyPath, w')))"

text \<open>The loop over the secrets: the first one in the namespace of the resource is loaded.\<close>

fun observerKey ::
  "('n, 'd, 's, 'x) lib_scheme \<Rightarrow> string \<Rightarrow> key_config list \<Rightarrow> verify_option \<Rightarrow> 's world
     \<Rightarrow> verify_option \<times> 's world" where
  "observerKey L rns [] vo w = (vo, w)"
| "observerKey L rns (s # secrets) vo w =
     (if KeySecretNamespace s = rns
      then (let (pubkey, w') = observer_LoadKeySecret L (KeySecretNamespace s) (KeySecretName s) w
            in (vo\<lparr>vo_KeyPath := or_zero [] pubkey\<rparr>, w'))
      else observerKey L rns secrets vo w)"

definition observerVerifyOption ::
  "('n, 'd, 's, 'x) obs_lib_scheme \<Rightarrow> unstructured \<Rightarrow> signature_ref \<Rightarrow> json list \<Rightarrow> json list
     \<Rightarrow> key_config list \<Rightarrow> 's world \<Rightarrow> verify_option \<times> 's world" where
  "observerVerifyOption L resource signatureRef ignoreFields skipObjects secrets w =
     (let vo = zero_verify_option\<lparr>vo_IgnoreFields := ignoreFields, vo_SkipObjects := skipObjects\<rparr>;
          vo = (if or_zero False (ParseBool (Getenv w ''ENABLE_PROVENANCE_RESULT''))
                then vo\<lparr>vo_Provenance := True\<rparr> else vo);
          vo = vo\<lparr>vo_DryRunNamespace := envOr w ''POD_NAMESPACE'' defaultPodNamespace\<rparr>;
          vo = setSignatureRefs signatureRef vo;
          vo = (if GetAnnotations L resource ImageRefAnnotationKeyShield \<noteq> None
                then vo\<lparr>vo_AnnotationKeyDomain := AnnotationKeyDomain\<rparr> else vo)
      in observerKey L (GetNamespace L resource) secrets vo w)"

definition observeMessage :: "('n, 'd, 's, 'x) lib_scheme \<Rightarrow> 'd verify_result \<Rightarrow> string" where
  "observeMessage L result =
     (let message =
            (if vr_InScope result
             then if vr_Verified result then ''singed by a valid signer: '' @ vr_Signer result
                  else if (case vr_Diff result of None \<Rightarrow> False | Some d \<Rightarrow> Diff_Size L d > 0)
                  then ''diff found: '' @ (case vr_Diff result of None \<Rightarrow> [] | Some d \<Rightarrow> Diff_String L d)
                  else if vr_Signer result \<noteq> []
                  then ''signer config not matched, this is signed by '' @ vr_Signer result
                  else ''no signature found''
             else ''not protected'');
          tmpMsg = Split message '' (Request: {''
      in case tmpMsg of [] \<Rightarrow> [] | m # _ \<Rightarrow> m)"

text \<open>\<open>now\<close> is the clock reading of the observation run. The detail of a verified resource
  carries no group and version.\<close>

definition ObserveResource ::
  "('n, 'd, 's, 'x) obs_lib_scheme \<Rightarrow> int \<Rightarrow> unstructured \<Rightarrow> signature_ref \<Rightarrow> json list \<Rightarrow> json list
     \<Rightarrow> key_config list \<Rightarrow> 's world \<Rightarrow> 'd verify_result_detail \<times> 's world" where
  "ObserveResource L now resource signatureRef ignoreFields skipObjects secrets w =
     (let (vo, w1) = observerVerifyOption L resource signatureRef ignoreFields skipObjects secrets w
      in case VerifyResource L w1 resource vo of
           Inl err \<Rightarrow>
             (\<lparr>vrd_Time = FormatTime L now, vrd_Namespace = GetNamespace L resource, vrd_Name = GetName L resource,
               vrd_Kind = gvk_Kind (GetGVK L resource), vrd_ApiGroup = gvk_Group (GetGVK L resource),
               vrd_ApiVersion = gvk_Version (GetGVK L resource), vrd_Error = True, vrd_Message = err,
               vrd_Violation = True, vrd_VerifyResourceResult = None\<rparr>, w1)
         | Inr result \<Rightarrow>
             (\<lparr>vrd_Time = FormatTime L now, vrd_Namespace = GetNamespace L resource, vrd_Name = GetName L resource,
               vrd_Kind = gvk_Kind (GetGVK L resource), vrd_ApiGroup = [], vrd_ApiVersion = [], vrd_Error = False,
               vrd_Message = observeMessage L result,
               vrd_Violation = (if vr_Verified result then False else True),
               vrd_VerifyResourceResult = Some result\<rparr>, w1))"

definition ObserveImage ::
  "('n, 'd, 's, 'x) lib_scheme \<Rightarrow> unstructured \<Rightarrow> image_profile \<Rightarrow> 's world \<Rightarrow> (bool \<times> string) \<times> 's world" where
  "ObserveImage L resource profile w =
     (if ImageProfile_Enabled profile
      then let ((_, err), w') = VerifyImageInManifest L resource profile w
           in case err of
                Some e \<Rightarrow> ((False, imageFailPrefix @ e), w')
              | None \<Rightarrow> (scanImageResults [], w')
      else ((True, []), w))"

section \<open>observer.go: what to observe\<close>

definition getAPIResources ::
  "('n, 'd, 's, 'x) obs_lib_scheme \<Rightarrow> 's world \<Rightarrow> group_resource list result" where
  "getAPIResources L w =
     (case NewDiscoveryClient L w of Inl e \<Rightarrow> Inl e
      | Inr _ \<Rightarrow>
     (case ServerPreferredResources L (w_cluster w) of Inl e \<Rightarrow> Inl e
      | Inr apiResourceLists \<Rightarrow>
          Inr (concat (map (\<lambda>(groupVersion, resources).
            if length resources = 0 then []
            else case ParseGroupVersion L groupVersion of
                   Inl _ \<Rightarrow> []
                 | Inr (g, v) \<Rightarrow>
                     map (\<lambda>r. \<lparr>gr_APIGroup = g, gr_APIVersion = v, gr_APIResource = r\<rparr>)
                       (filter (\<lambda>r. length (ar_Verbs r) \<noteq> 0) resources)) apiResourceLists))))"

text \<open>The namespaced loop stops at the first failing list and drops what it had; the list
  without a namespace dereferences the nil result of a failing call.\<close>

fun listNamespaces ::
  "('n, 'd, 's, 'x) obs_lib_scheme \<Rightarrow> 's \<Rightarrow> string \<times> string \<times> string \<Rightarrow> string list
     \<Rightarrow> unstructured list \<Rightarrow> unstructured list result" where
  "listNamespaces L s gvr [] resources = Inr resources"
| "listNamespaces L s gvr (ns # rest) resources =
     (case Dynamic_List L s gvr (Some ns) of
        Inl e \<Rightarrow> Inl e
      | Inr items \<Rightarrow> listNamespaces L s gvr rest (resources @ items))"

definition getAllResoucesByGroupResource ::
  "('n, 'd, 's, 'x) obs_lib_scheme \<Rightarrow> group_resource_with_target_ns \<Rightarrow> 's world \<Rightarrow> unstructured list outcome" where
  "getAllResoucesByGroupResource L g w =
     (let gvr = (gr_APIGroup g, gr_APIVersion g, ar_Name (gr_APIResource g))
      in if ar_Namespaced (gr_APIResource g)
         then (case listNamespaces L (w_cluster w) gvr (TargetNamespaces g) [] of
                 Inl _ \<Rightarrow> Return []
               | Inr resources \<Rightarrow> Return resources)
         else (case Dynamic_List L (w_cluster w) gvr None of
                 Inl _ \<Rightarrow> Panic nilPanic
               | Inr items \<Rightarrow> Return items))"

definition objectSpec :: "unstructured \<Rightarrow> json" where
  "objectSpec u =
     (case u of JObj kvs \<Rightarrow> (case map_of kvs ''spec'' of None \<Rightarrow> JNull | Some j \<Rightarrow> j) | _ \<Rightarrow> JNull)"

text \<open>A missing spec is encoded as null and decodes to the zero constraint.\<close>

definition loadConstraints ::
  "('n, 'd, 's, 'x) obs_lib_scheme \<Rightarrow> 's world \<Rightarrow> constraint_spec list result" where
  "loadConstraints L w =
     (case Dynamic_List L (w_cluster w)
             (''constraints.gatekeeper.sh'', ''v1beta1'', ''manifestintegrityconstraint'') None of
        Inl e \<Rightarrow> Inl e
      | Inr items \<Rightarrow> Inr (map (\<lambda>u. json_ConstraintSpec L (objectSpec u)) items))"

fun observer_Contains :: "string list \<Rightarrow> string \<Rightarrow> bool" where
  "observer_Contains [] value = False"
| "observer_Contains (p # pattern) value = (if p = value then True else observer_Contains pattern value)"

definition getLabelMatchedNamespace ::
  "('n, 'd, 's, 'x) obs_lib_scheme \<Rightarrow> json option \<Rightarrow> 's world \<Rightarrow> string list" where
  "getLabelMatchedNamespace L labelSelector w =
     (case labelSelector of None \<Rightarrow> []
      | Some ls \<Rightarrow>
     (case GetKubeConfig L w of Inl _ \<Rightarrow> []
      | Inr _ \<Rightarrow>
     (case NewForConfig L w of Inl _ \<Rightarrow> []
      | Inr _ \<Rightarrow>
     (case Namespaces_List L (w_cluster w) of Inl _ \<Rightarrow> []
      | Inr namespaces \<Rightarrow>
     (case LabelSelectorAsSelector L ls of Inl _ \<Rightarrow> []
      | Inr selector \<Rightarrow> map fst (filter (\<lambda>(n, ls). selector ls) namespaces))))))"

text \<open>The condition of one kind rule; the second guard looks at the groups, like the first.\<close>

definition kindsRuleMatch :: "obs_kinds \<Rightarrow> group_resource \<Rightarrow> bool" where
  "kindsRuleMatch kinds apiResource =
     (let agmatch = (if length (ok_ApiGroups kinds) \<noteq> 0
                     then observer_Contains (ok_ApiGroups kinds) (gr_APIGroup apiResource) else True);
          kmatch = (if length (ok_ApiGroups kinds) \<noteq> 0
                    then observer_Contains (ok_Kinds kinds) (ar_Kind (gr_APIResource apiResource)) else True)
      in kmatch \<and> agmatch)"

definition checkIfRuleMatchWithGVK ::
  "('n, 'd, 's, 'x) obs_lib_scheme \<Rightarrow> obs_match_condition \<Rightarrow> group_resource \<Rightarrow> 's world
     \<Rightarrow> bool \<times> group_resource_with_target_ns list" where
  "checkIfRuleMatchWithGVK L match apiResource w =
     (if length (om_Kinds match) = 0 then (False, [])
      else foldl (\<lambda>(matched, gvks) kinds.
             if kindsRuleMatch kinds apiResource
             then (let namespaces = om_Namespaces match;
                       namespaces = (if om_NamespaceSelector match \<noteq> None
                                     then namespaces @ getLabelMatchedNamespace L (om_NamespaceSelector match) w
                                     else namespaces)
                   in (True, gvks @ [group_resource.extend apiResource \<lparr>TargetNamespaces = namespaces\<rparr>]))
             else (matched, gvks)) (False, []) (om_Kinds match))"

text \<open>The loop ends at the first API resource that matches. The slice starts as an empty
  literal, so it is never nil: \<open>Some\<close>.\<close>

fun firstMatchingResource ::
  "('n, 'd, 's, 'x) obs_lib_scheme \<Rightarrow> obs_match_condition \<Rightarrow> group_resource list \<Rightarrow> 's world
     \<Rightarrow> group_resource_with_target_ns list" where
  "firstMatchingResource L match [] w = []"
| "firstMatchingResource L match (apiResource # rest) w =
     (let (matched, tmpGvks) = checkIfRuleMatchWithGVK L match apiResource w
      in if matched then tmpGvks else firstMatchingResource L match rest w)"

definition getPossibleProtectedGVKs ::
  "('n, 'd, 's, 'x) obs_lib_scheme \<Rightarrow> observer \<Rightarrow> obs_match_condition \<Rightarrow> 's world
     \<Rightarrow> group_resource_with_target_ns list option" where
  "getPossibleProtectedGVKs L self match w = Some (firstMatchingResource L match (obs_APIResources self) w)"

section \<open>observer.go: exporting results\<close>

definition violationLabel :: string where
  "violationLabel = ''integrityshield.io/verifyResourceViolation''"

definition ignoreLabel :: string where
  "ignoreLabel = ''integrityshield.io/verifyResourceIgnored''"

text \<open>The result is the returned error, if any, and the new state.\<close>

definition exportVerifyResult ::
  "('n, 'd, 's, 'x) obs_lib_scheme \<Rightarrow> mis_spec \<Rightarrow> bool \<Rightarrow> bool \<Rightarrow> 's world \<Rightarrow> string option \<times> 's world" where
  "exportVerifyResult L vrr ignored violated w =
     (case GetKubeConfig L w of Inl e \<Rightarrow> (Some e, w)
      | Inr _ \<Rightarrow>
     (case MIS_NewForConfig L w of Inl e \<Rightarrow> (Some e, w)
      | Inr _ \<Rightarrow>
     (let namespace = envOr w ''POD_NAMESPACE'' defaultPodNamespace;
          labels = [violationLabel \<mapsto> FormatBool violated, ignoreLabel \<mapsto> FormatBool ignored];
          written = (case MIS_Get L (w_cluster w) namespace (ms_ConstraintName vrr) of
              Inr (Some obj) \<Rightarrow>
                MIS_Update L (w_cluster w) namespace (obj\<lparr>mis_Spec := vrr, mis_Labels := labels\<rparr>)
            | _ \<Rightarrow>
                MIS_Create L (w_cluster w) namespace
                  \<lparr>mis_Name = ms_ConstraintName vrr, mis_ResourceVersion = [], mis_Labels = labels, mis_Spec = vrr\<rparr>)
      in case written of Inl e \<Rightarrow> (Some e, w) | Inr s' \<Rightarrow> (None, w\<lparr>w_cluster := s'\<rparr>))))"

definition exportResultDetail ::
  "('n, 'd, 's, 'x) obs_lib_scheme \<Rightarrow> 'd observation_detail_results \<Rightarrow> 's world \<Rightarrow> string option \<times> 's world" where
  "exportResultDetail L results w =
     (let exportStr = Getenv w ''ENABLE_DETAIL_RESULT'';
          export = (if exportStr \<noteq> [] then or_zero False (ParseBool exportStr) else True)
      in if \<not> export then (None, w)
         else if length (odr_ConstraintResults results) = 0 then (None, w)
         else
           let namespace = envOr w ''POD_NAMESPACE'' defaultPodNamespace;
               configName = envOr w ''OBSERVER_RESULT_CONFIG_NAME'' ''verify-result-detail'';
               configKey = envOr w ''OBSERVER_RESULT_CONFIG_KEY'' ''config.yaml''
           in case GetKubeConfig L w of Inl _ \<Rightarrow> (None, w)
              | Inr _ \<Rightarrow> (case NewForConfig L w of Inl _ \<Rightarrow> (None, w)
              | Inr _ \<Rightarrow>
                 (let data = [configKey \<mapsto> json_MarshalDetail L results];
                      written = (case ConfigMaps_Get L (w_cluster w) namespace configName of
                          Inl _ \<Rightarrow> ConfigMaps_Create L (w_cluster w) namespace configName data
                        | Inr _ \<Rightarrow> ConfigMaps_Update L (w_cluster w) namespace configName data)
                  in case written of Inl e \<Rightarrow> (Some e, w) | Inr s' \<Rightarrow> (None, w\<lparr>w_cluster := s'\<rparr>))))"

section \<open>observer.go: the observation\<close>

definition Init ::
  "('n, 'd, 's, 'x) obs_lib_scheme \<Rightarrow> 's world \<Rightarrow> (observer result \<times> 's world) outcome" where
  "Init L w =
     (case GetKubeConfig L w of Inl _ \<Rightarrow> Panic nilPanic
      | Inr _ \<Rightarrow>
     (case getAPIResources L w of Inl e \<Rightarrow> Return (Inl e, w)
      | Inr resources \<Rightarrow>
     (case NewDynamicClient L w of Inl e \<Rightarrow> Return (Inl e, w)
      | Inr _ \<Rightarrow>
     (let w1 = (if Getenv w ''LOG_FORMAT'' = ''json'' then w\<lparr>w_logFormat := JSONFormatter\<rparr> else w);
          logLevelStr = envOr w1 ''LOG_LEVEL'' ''info'';
          logLevel = (case logLevelMap logLevelStr of None \<Rightarrow> InfoLevel | Some l \<Rightarrow> l);
          w2 = (Setenv k8sLogLevelEnvKey logLevelStr w1)\<lparr>w_logLevel := logLevel\<rparr>
      in Return (Inr \<lparr>obs_APIResources = resources, obs_dynamicClient = True\<rparr>, Cosign_Init L w2)))))"

fun collectResources ::
  "('n, 'd, 's, 'x) obs_lib_scheme \<Rightarrow> group_resource_with_target_ns list \<Rightarrow> 's world
     \<Rightarrow> unstructured list \<Rightarrow> unstructured list outcome" where
  "collectResources L [] w resources = Return resources"
| "collectResources L (g # gs) w resources =
     outcome_bind (getAllResoucesByGroupResource L g w) (\<lambda>tmp. collectResources L gs w (resources @ tmp))"

text \<open>How the image verdict is merged into the detail of a resource.\<close>

definition mergeImage :: "bool \<times> string \<Rightarrow> 'd verify_result_detail \<Rightarrow> 'd verify_result_detail" where
  "mergeImage img result =
     (if \<not> fst img
      then if \<not> vrd_Violation result then result\<lparr>vrd_Violation := True, vrd_Message := snd img\<rparr>
           else result\<lparr>vrd_Message := vrd_Message result @ '', [Image]'' @ snd img\<rparr>
      else result)"

fun observeResources ::
  "('n, 'd, 's, 'x) obs_lib_scheme \<Rightarrow> int \<Rightarrow> parameter_object \<Rightarrow> json list \<Rightarrow> json list \<Rightarrow> unstructured list
     \<Rightarrow> 's world \<Rightarrow> 'd verify_result_detail list \<times> 's world" where
  "observeResources L now params ignoreFields skipObjects [] w = ([], w)"
| "observeResources L now params ignoreFields skipObjects (resource # resources) w =
     (let (result, w1) = ObserveResource L now resource (po_SignatureRef params) ignoreFields skipObjects
                           (po_KeyConfigs params) w;
          (img, w2) = ObserveImage L resource (po_ImageProfile params) w1;
          (results, w3) = observeResources L now params ignoreFields skipObjects resources w2
      in (mergeImage img result # results, w3))"

definition violationEntry :: "'d verify_result_detail \<Rightarrow> state_verify_result" where
  "violationEntry res =
     \<lparr>svr_Namespace = vrd_Namespace res, svr_Name = vrd_Name res, svr_Kind = vrd_Kind res,
      svr_ApiGroup = vrd_ApiGroup res, svr_ApiVersion = vrd_ApiVersion res, svr_Result = vrd_Message res,
      svr_Signer = [], svr_SignedTime = None, svr_SigRef = []\<rparr>"

text \<open>The loop that splits the details; the entry of a resource without violation reads
  through the pointer to the verification result.\<close>

fun splitResults ::
  "'d verify_result_detail list \<Rightarrow> state_verify_result list \<Rightarrow> state_verify_result list
     \<Rightarrow> (state_verify_result list \<times> state_verify_result list) outcome" where
  "splitResults [] violations nonViolations = Return (violations, nonViolations)"
| "splitResults (res # results) violations nonViolations =
     (if vrd_Violation res then splitResults results (violations @ [violationEntry res]) nonViolations
      else case vrd_VerifyResourceResult res of
             None \<Rightarrow> Panic nilPanic
           | Some r \<Rightarrow> splitResults results violations (nonViolations @
               [(violationEntry res)\<lparr>svr_Signer := vr_Signer r, svr_SigRef := vr_SigRef r,
                                     svr_SignedTime := vr_SignedTime r\<rparr>]))"

definition stateSpec ::
  "('n, 'd, 's, 'x) lib_scheme \<Rightarrow> int \<Rightarrow> string \<Rightarrow> state_verify_result list \<Rightarrow> state_verify_result list
     \<Rightarrow> mis_spec" where
  "stateSpec L now constraintName violations nonViolations =
     \<lparr>ms_ConstraintName = constraintName, ms_Violation = (if length violations \<noteq> 0 then True else False),
      ms_TotalViolations = length violations, ms_Violations = violations, ms_NonViolations = nonViolations,
      ms_ObservationTime = FormatTime L now\<rparr>"

definition auditIgnored :: "parameter_object \<Rightarrow> request_handler_config \<Rightarrow> bool" where
  "auditIgnored params rhconfig =
     (case po_Action params of
        None \<Rightarrow> \<not> Audit_Inform (rhc_DefaultConstraintAction rhconfig)
      | Some a \<Rightarrow> \<not> Audit_Inform a)"

text \<open>One pass of the loop over the constraints. \<open>None\<close> is the early return of \<open>Run\<close>.\<close>

definition observeConstraint ::
  "('n, 'd, 's, 'x) obs_lib_scheme \<Rightarrow> int \<Rightarrow> observer \<Rightarrow> request_handler_config \<Rightarrow> constraint_spec \<Rightarrow> 's world
     \<Rightarrow> ('d constraint_result option \<times> 's world) outcome" where
  "observeConstraint L now self rhconfig constraint w =
     (let params = cs_Parameters constraint;
          constraintName = po_ConstraintName params
      in case getPossibleProtectedGVKs L self (cs_Match constraint) w of
           None \<Rightarrow> Return (None, w)
         | Some narrowedGVKList \<Rightarrow>
             outcome_bind (collectResources L narrowedGVKList w []) (\<lambda>resources.
               let ignoreFields = vo_IgnoreFields (po_VerifyResourceOption params) @
                                    rfp_IgnoreFields (rhc_RequestFilterProfile rhconfig);
                   skipObjects = rfp_SkipObjects (rhc_RequestFilterProfile rhconfig) @
                                   vo_SkipObjects (po_VerifyResourceOption params);
                   (results, w1) = observeResources L now params ignoreFields skipObjects resources w
               in outcome_bind (splitResults results [] []) (\<lambda>(violations, nonViolations).
                    let vrr = stateSpec L now constraintName violations nonViolations;
                        ignored = auditIgnored params rhconfig;
                        (_, w2) = exportVerifyResult L vrr ignored (ms_Violation vrr) w1
                    in Return (Some \<lparr>cr_ConstraintName = constraintName, cr_Violation = ms_Violation vrr,
                                     cr_TotalViolations = ms_TotalViolations vrr, cr_Results = results,
                                     cr_Constraint = constraint\<rparr>, w2))))"

fun observeConstraints ::
  "('n, 'd, 's, 'x) obs_lib_scheme \<Rightarrow> int \<Rightarrow> observer \<Rightarrow> request_handler_config \<Rightarrow> constraint_spec list
     \<Rightarrow> 'd constraint_result list \<Rightarrow> 's world \<Rightarrow> ('d constraint_result list option \<times> 's world) outcome" where
  "observeConstraints L now self rhconfig [] acc w = Return (Some acc, w)"
| "observeConstraints L now self rhconfig (c # cs) acc w =
     outcome_bind (observeConstraint L now self rhconfig c w) (\<lambda>(r, w').
       case r of
         None \<Rightarrow> Return (None, w')
       | Some cres \<Rightarrow> observeConstraints L now self rhconfig cs (acc @ [cres]) w')"

definition notFoundError :: string where
  "notFoundError = ''the server could not find the requested resource''"

definition Run ::
  "('n, 'd, 's, 'x) obs_lib_scheme \<Rightarrow> int \<Rightarrow> observer \<Rightarrow> 's world \<Rightarrow> 's world outcome" where
  "Run L now self w =
     (let rhconfig = fst (LoadRequestHandlerConfig_results L w);
          constraints = loadConstraints L w
      in if constraints = Inl notFoundError then Return w
         else case rhconfig of
           None \<Rightarrow> Panic nilPanic
         | Some rhconfig \<Rightarrow>
             outcome_bind (observeConstraints L now self rhconfig (or_zero [] constraints) []
                             (setRekorServerEnv rhconfig w))
               (\<lambda>(r, w1).
                 case r of
                   None \<Rightarrow> Return w1
                 | Some constraintResults \<Rightarrow>
                     Return (snd (exportResultDetail L
                       \<lparr>odr_Time = FormatTime L now, odr_ConstraintResults = constraintResults\<rparr> w1))))"

section \<open>main.go\<close>

definition maxInt64 :: int where
  "maxInt64 = 2 ^ 63 - 1"

fun digits_val :: "int \<Rightarrow> string \<Rightarrow> int option" where
  "digits_val acc [] = Some acc"
| "digits_val acc (c # cs) =
     (let d = (of_char c :: int) - 48 in if 0 \<le> d \<and> d \<le> 9 then digits_val (10 * acc + d) cs else None)"

text \<open>The first result of \<open>strconv.Atoi\<close>: zero for a malformed number, the nearest bound for one
  out of range.\<close>

definition Atoi_value :: "string \<Rightarrow> int" where
  "Atoi_value s =
     (let (neg, ds) = (case s of [] \<Rightarrow> (False, [])
            | c # cs \<Rightarrow> if c = CHR ''-'' then (True, cs) else if c = CHR ''+'' then (False, cs) else (False, c # cs))
      in if ds = [] then 0
         else case digits_val 0 ds of
                None \<Rightarrow> 0
              | Some n \<Rightarrow> if neg then max (- maxInt64 - 1) (- n) else min maxInt64 n)"

text \<open>\<open>time.Duration(intervalInt) * time.Minute\<close>, at its 64 bits.\<close>

definition tickerInterval :: "'s world \<Rightarrow> 64 word" where
  "tickerInterval w = word_of_int (Atoi_value (Getenv w ''INTERVAL'')) * 60000000000"

text \<open>The ticks that arrive, with the time of each; the abort channel is never written.\<close>

fun tickLoop ::
  "('n, 'd, 's, 'x) obs_lib_scheme \<Rightarrow> observer \<Rightarrow> int list \<Rightarrow> 's world \<Rightarrow> 's world outcome" where
  "tickLoop L insp [] w = Return w"
| "tickLoop L insp (now # ticks) w = outcome_bind (Run L now insp w) (tickLoop L insp ticks)"

definition observer_main ::
  "('n, 'd, 's, 'x) obs_lib_scheme \<Rightarrow> int \<Rightarrow> int list \<Rightarrow> 's world \<Rightarrow> 's world outcome" where
  "observer_main L now ticks w =
     outcome_bind (Init L w) (\<lambda>(r, w1).
       case r of
         Inl _ \<Rightarrow> Return w1
       | Inr insp \<Rightarrow>
           outcome_bind (Run L now insp w1) (\<lambda>w2.
             if sint (tickerInterval w1) \<le> 0 then Panic ''non-positive interval for NewTicker''
             else tickLoop L insp ticks w2))"

section \<open>Properties\<close>

interpretation observed_names: strict_matcher "\<lambda>p. p = v" "\<lambda>l. observer_Contains l v" for v
proof unfold_locales
  fix xs :: "string list"
  show "observer_Contains xs v = list_ex (\<lambda>p. p = v) xs" by (induction xs) auto
qed simp

lemma observer_Contains_iff [match_iff]: "observer_Contains l v \<longleftrightarrow> v \<in> set l"
  by (auto simp: observed_names.strict_iff)

lemma observer_LoadKeySecret_eq [simp]: "observer_LoadKeySecret = LoadKeySecret"
  by (intro ext) (simp only: observer_LoadKeySecret_def LoadKeySecret_def keyDir_def)

lemma observerKey_frame:
  "observerKey L rns ks vo w = (vo', w') \<Longrightarrow> w_env w' = w_env w \<and> w_cluster w' = w_cluster w"
  by (induction ks arbitrary: vo) (auto simp: Let_def split: if_splits prod.splits dest!: LoadKeySecret_frame)

lemma ObserveResource_frame:
  "ObserveResource L now r s i k ks w = (d, w') \<Longrightarrow> w_env w' = w_env w \<and> w_cluster w' = w_cluster w"
  by (auto simp: ObserveResource_def observerVerifyOption_def Let_def split: prod.splits sum.splits
        dest!: observerKey_frame)

lemma ObserveImage_frame:
  "ObserveImage L r p w = (d, w') \<Longrightarrow> w_env w' = w_env w \<and> w_cluster w' = w_cluster w"
  by (auto simp: ObserveImage_def Let_def split: if_splits prod.splits option.splits
        dest!: VerifyImageInManifest_frame)

lemma observeResources_frame:
  "observeResources L now ps i k rs w = (ds, w') \<Longrightarrow> w_env w' = w_env w \<and> w_cluster w' = w_cluster w"
proof (induction rs arbitrary: ds w w')
  case Nil
  then show ?case by simp
next
  case (Cons r rs)
  obtain d w1 where d: "ObserveResource L now r (po_SignatureRef ps) i k (po_KeyConfigs ps) w = (d, w1)" by fastforce
  obtain g w2 where g: "ObserveImage L r (po_ImageProfile ps) w1 = (g, w2)" by fastforce
  obtain ds' w3 where r: "observeResources L now ps i k rs w2 = (ds', w3)" by fastforce
  from Cons.prems d g r have "w' = w3" by simp
  with ObserveResource_frame [OF d] ObserveImage_frame [OF g] Cons.IH [OF r] show ?case by simp
qed

lemma ObserveResource_nil_iff_error:
  "vrd_VerifyResourceResult (fst (ObserveResource L now r s i k ks w)) = None \<longleftrightarrow>
   vrd_Error (fst (ObserveResource L now r s i k ks w))"
  by (simp add: ObserveResource_def Let_def case_prod_beta split: sum.split)

lemma ObserveResource_error_violates:
  "vrd_VerifyResourceResult (fst (ObserveResource L now r s i k ks w)) = None \<Longrightarrow>
   vrd_Violation (fst (ObserveResource L now r s i k ks w))"
  by (simp add: ObserveResource_def Let_def case_prod_beta split: sum.splits)

lemma mergeImage_simps [simp]:
  "vrd_VerifyResourceResult (mergeImage img d) = vrd_VerifyResourceResult d"
  "vrd_Violation (mergeImage img d) \<longleftrightarrow> vrd_Violation d \<or> \<not> fst img"
  "vrd_Name (mergeImage img d) = vrd_Name d" "vrd_Namespace (mergeImage img d) = vrd_Namespace d"
  by (simp_all add: mergeImage_def)

lemma observeResources_not_nil:
  "d \<in> set (fst (observeResources L now ps i k rs w)) \<Longrightarrow>
     vrd_Violation d \<or> vrd_VerifyResourceResult d \<noteq> None"
proof (induction rs arbitrary: w)
  case Nil
  then show ?case by simp
next
  case (Cons r rs)
  let ?o = "ObserveResource L now r (po_SignatureRef ps) i k (po_KeyConfigs ps) w"
  let ?g = "ObserveImage L r (po_ImageProfile ps) (snd ?o)"
  have "vrd_Violation (fst ?o) \<or> vrd_VerifyResourceResult (fst ?o) \<noteq> None"
    using ObserveResource_error_violates by blast
  moreover from Cons.prems have "d = mergeImage (fst ?g) (fst ?o) \<or>
      d \<in> set (fst (observeResources L now ps i k rs (snd ?g)))"
    by (simp add: Let_def case_prod_beta)
  ultimately show ?case using Cons.IH [of "snd ?g"] by auto
qed

lemma observeResources_length: "length (fst (observeResources L now ps i k rs w)) = length rs"
  by (induction rs arbitrary: w) (simp_all add: Let_def case_prod_beta)

text \<open>The entry of a resource without violation.\<close>

definition validEntry :: "'d verify_result_detail \<Rightarrow> state_verify_result" where
  "validEntry res = (violationEntry res)
     \<lparr>svr_Signer := vr_Signer (the (vrd_VerifyResourceResult res)),
      svr_SigRef := vr_SigRef (the (vrd_VerifyResourceResult res)),
      svr_SignedTime := vr_SignedTime (the (vrd_VerifyResourceResult res))\<rparr>"

lemma splitResults_eq:
  assumes "\<And>d. d \<in> set ds \<Longrightarrow> vrd_Violation d \<or> vrd_VerifyResourceResult d \<noteq> None"
  shows "splitResults ds vs ns = Return
     (vs @ map violationEntry (filter vrd_Violation ds),
      ns @ map validEntry (filter (\<lambda>d. \<not> vrd_Violation d) ds))"
  using assms
proof (induction ds arbitrary: vs ns)
  case Nil
  then show ?case by simp
next
  case (Cons d ds)
  then have "vrd_Violation d \<or> vrd_VerifyResourceResult d \<noteq> None" by simp
  with Cons show ?case by (cases "vrd_Violation d") (auto simp: validEntry_def)
qed

text \<open>What one pass over a constraint computes, once its resources are listed.\<close>

definition constraintDetails ::
  "('n, 'd, 's, 'x) obs_lib_scheme \<Rightarrow> int \<Rightarrow> request_handler_config \<Rightarrow> constraint_spec \<Rightarrow> unstructured list
     \<Rightarrow> 's world \<Rightarrow> 'd verify_result_detail list \<times> 's world" where
  "constraintDetails L now rh c resources w =
     (let params = cs_Parameters c; f = rhc_RequestFilterProfile rh in
      observeResources L now params (vo_IgnoreFields (po_VerifyResourceOption params) @ rfp_IgnoreFields f)
        (rfp_SkipObjects f @ vo_SkipObjects (po_VerifyResourceOption params)) resources w)"

definition constraintState ::
  "('n, 'd, 's, 'x) obs_lib_scheme \<Rightarrow> int \<Rightarrow> constraint_spec \<Rightarrow> 'd verify_result_detail list \<Rightarrow> mis_spec" where
  "constraintState L now c ds = stateSpec L now (po_ConstraintName (cs_Parameters c))
     (map violationEntry (filter vrd_Violation ds)) (map validEntry (filter (\<lambda>d. \<not> vrd_Violation d) ds))"

lemma observeConstraint_eq:
  "observeConstraint L now self rh c w =
     outcome_bind (collectResources L (firstMatchingResource L (cs_Match c) (obs_APIResources self) w) w []) (\<lambda>resources.
       let (ds, w1) = constraintDetails L now rh c resources w;
           spec = constraintState L now c ds
       in Return (Some \<lparr>cr_ConstraintName = po_ConstraintName (cs_Parameters c), cr_Violation = ms_Violation spec,
            cr_TotalViolations = ms_TotalViolations spec, cr_Results = ds, cr_Constraint = c\<rparr>,
          snd (exportVerifyResult L spec (auditIgnored (cs_Parameters c) rh) (ms_Violation spec) w1)))"
proof -
  have split: "splitResults ds [] [] = Return (map violationEntry (filter vrd_Violation ds),
       map validEntry (filter (\<lambda>d. \<not> vrd_Violation d) ds))"
    if "constraintDetails L now rh c resources w = (ds, w1)" for ds w1 resources
    using splitResults_eq [of ds "[]" "[]"] that unfolding constraintDetails_def Let_def
    by (metis append_Nil fst_conv observeResources_not_nil)
  show ?thesis
    by (cases "collectResources L (firstMatchingResource L (cs_Match c) (obs_APIResources self) w) w []")
       (auto simp: observeConstraint_def getPossibleProtectedGVKs_def constraintDetails_def constraintState_def
          Let_def case_prod_beta split [unfolded constraintDetails_def Let_def, OF prod.collapse [symmetric]])
qed

lemma collectResources_Panic:
  "(\<exists>m. collectResources L gs w acc = Panic m) \<longleftrightarrow>
     (\<exists>g. g \<in> set gs \<and> \<not> ar_Namespaced (gr_APIResource g) \<and>
        (\<exists>e. Dynamic_List L (w_cluster w) (gr_APIGroup g, gr_APIVersion g, ar_Name (gr_APIResource g)) None = Inl e))"
proof (induction gs arbitrary: acc)
  case Nil
  then show ?case by simp
next
  case (Cons g gs)
  have "(\<exists>m. getAllResoucesByGroupResource L g w = Panic m) \<longleftrightarrow> \<not> ar_Namespaced (gr_APIResource g) \<and>
      (\<exists>e. Dynamic_List L (w_cluster w) (gr_APIGroup g, gr_APIVersion g, ar_Name (gr_APIResource g)) None = Inl e)"
    by (auto simp: getAllResoucesByGroupResource_def Let_def split: sum.splits)
  moreover have "(\<exists>m. collectResources L (g # gs) w acc = Panic m) \<longleftrightarrow>
      (\<exists>m. getAllResoucesByGroupResource L g w = Panic m) \<or> (\<exists>m. collectResources L gs w [] = Panic m)"
    using Cons.IH by (cases "getAllResoucesByGroupResource L g w") simp_all
  ultimately show ?case using Cons.IH [of "[]"] by auto
qed

lemma listNamespaces_ok_iff:
  "(\<exists>rs. listNamespaces L s gvr nss acc = Inr rs) \<longleftrightarrow> \<not> (\<exists>ns e. ns \<in> set nss \<and> Dynamic_List L s gvr (Some ns) = Inl e)"
proof (induction nss arbitrary: acc)
  case Nil
  then show ?case by simp
next
  case (Cons ns nss)
  show ?case
  proof (cases "Dynamic_List L s gvr (Some ns)")
    case (Inl e)
    then show ?thesis by (simp, metis)
  next
    case (Inr items)
    with Cons.IH [of "acc @ items"] show ?thesis by auto
  qed
qed

lemma foldl_collect:
  "foldl (\<lambda>(m, gs) k. if P k then (True, gs @ [v]) else (m, gs)) (b, gs) ks =
     (b \<or> list_ex P ks, gs @ map (\<lambda>_. v) (filter P ks))"
  by (induction ks arbitrary: b gs) auto

definition targetNamespaces ::
  "('n, 'd, 's, 'x) obs_lib_scheme \<Rightarrow> obs_match_condition \<Rightarrow> 's world \<Rightarrow> string list" where
  "targetNamespaces L m w = om_Namespaces m @
     (if om_NamespaceSelector m \<noteq> None then getLabelMatchedNamespace L (om_NamespaceSelector m) w else [])"

lemma checkIfRuleMatchWithGVK_eq:
  "checkIfRuleMatchWithGVK L m r w =
     (list_ex (\<lambda>ks. kindsRuleMatch ks r) (om_Kinds m),
      map (\<lambda>_. group_resource.extend r \<lparr>TargetNamespaces = targetNamespaces L m w\<rparr>)
        (filter (\<lambda>ks. kindsRuleMatch ks r) (om_Kinds m)))"
proof -
  have ns: "(if om_NamespaceSelector m \<noteq> None
      then om_Namespaces m @ getLabelMatchedNamespace L (om_NamespaceSelector m) w else om_Namespaces m) =
      targetNamespaces L m w"
    by (simp add: targetNamespaces_def)
  show ?thesis
    unfolding checkIfRuleMatchWithGVK_def Let_def ns foldl_collect by simp
qed

lemma truncate_extend: "group_resource.truncate (group_resource.extend r x) = r"
  by (cases r) (simp add: group_resource.defs)

lemma checkIfRuleMatchWithGVK_truncate:
  "g \<in> set (snd (checkIfRuleMatchWithGVK L m r w)) \<Longrightarrow> group_resource.truncate g = r"
  by (auto simp: checkIfRuleMatchWithGVK_eq truncate_extend)

lemma firstMatchingResource_one:
  "\<exists>r. \<forall>g\<in>set (firstMatchingResource L m rs w). group_resource.truncate g = r"
proof (induction rs)
  case Nil
  then show ?case by simp
next
  case (Cons r rs)
  show ?case
  proof (cases "fst (checkIfRuleMatchWithGVK L m r w)")
    case True
    with checkIfRuleMatchWithGVK_truncate [of _ L m r w] show ?thesis
      by (intro exI [of _ r]) (simp add: Let_def case_prod_beta)
  next
    case False
    with Cons.IH show ?thesis by (simp add: Let_def case_prod_beta)
  qed
qed

section \<open>Stated properties\<close>

text \<open>the observer reports a listed resource as a violation exactly when the verification
  returned an error or did not verify it, or when its image check failed.\<close>

theorem observed_violation_iff:
  "vrd_Violation (mergeImage img (fst (ObserveResource L now r s i k ks w))) \<longleftrightarrow>
     (let (vo, w1) = observerVerifyOption L r s i k ks w in
      case VerifyResource L w1 r vo of Inl _ \<Rightarrow> True | Inr v \<Rightarrow> \<not> vr_Verified v) \<or> \<not> fst img"
  by (simp add: ObserveResource_def Let_def case_prod_beta split: sum.split)

text \<open>C27: the observer and the admission decision agree on a verification result exactly when
  the resource is in scope or verified: a resource out of scope is reported as a violation
  although a request for it would be allowed.\<close>

theorem observer_and_admission_agree_iff:
  assumes "VerifyResource L (snd (observerVerifyOption L r s i k ks w)) r (fst (observerVerifyOption L r s i k ks w)) = Inr v"
  shows "(fst (signatureVerdict L v) = (\<not> vrd_Violation (fst (ObserveResource L now r s i k ks w)))) \<longleftrightarrow>
           vr_InScope v \<or> vr_Verified v"
  using assms by (auto simp: ObserveResource_def signatureVerdict_def Let_def case_prod_beta)

text \<open>C31: a pass over a constraint fails only by the nil list of a cluster-wide resource that
  could not be listed: the verification result of a resource without violation is never
  nil. Otherwise every listed resource has a detail, and the counter and the flag of the
  result agree with the details.\<close>

theorem observe_constraint_result:
  "((\<exists>m. observeConstraint L now self rh c w = Panic m) \<longleftrightarrow>
      (\<exists>g. g \<in> set (firstMatchingResource L (cs_Match c) (obs_APIResources self) w) \<and>
         \<not> ar_Namespaced (gr_APIResource g) \<and>
         (\<exists>e. Dynamic_List L (w_cluster w) (gr_APIGroup g, gr_APIVersion g, ar_Name (gr_APIResource g)) None = Inl e))) \<and>
   (\<forall>r w'. observeConstraint L now self rh c w = Return (r, w') \<longrightarrow>
      (\<exists>cres resources. r = Some cres \<and>
         collectResources L (firstMatchingResource L (cs_Match c) (obs_APIResources self) w) w [] = Return resources \<and>
         length (cr_Results cres) = length resources \<and>
         cr_TotalViolations cres = length (filter vrd_Violation (cr_Results cres)) \<and>
         (cr_Violation cres \<longleftrightarrow> (\<exists>d. d \<in> set (cr_Results cres) \<and> vrd_Violation d))))"
proof (intro conjI allI impI)
  show "(\<exists>m. observeConstraint L now self rh c w = Panic m) \<longleftrightarrow>
      (\<exists>g. g \<in> set (firstMatchingResource L (cs_Match c) (obs_APIResources self) w) \<and>
         \<not> ar_Namespaced (gr_APIResource g) \<and>
         (\<exists>e. Dynamic_List L (w_cluster w) (gr_APIGroup g, gr_APIVersion g, ar_Name (gr_APIResource g)) None = Inl e))"
    unfolding collectResources_Panic [where acc = "[]", symmetric] observeConstraint_eq
    by (simp add: Let_def case_prod_beta)
  fix r w'
  assume "observeConstraint L now self rh c w = Return (r, w')"
  then obtain resources where
    res: "collectResources L (firstMatchingResource L (cs_Match c) (obs_APIResources self) w) w [] = Return resources"
    and r: "r = Some \<lparr>cr_ConstraintName = po_ConstraintName (cs_Parameters c),
        cr_Violation = ms_Violation (constraintState L now c (fst (constraintDetails L now rh c resources w))),
        cr_TotalViolations = ms_TotalViolations (constraintState L now c (fst (constraintDetails L now rh c resources w))),
        cr_Results = fst (constraintDetails L now rh c resources w), cr_Constraint = c\<rparr>"
    unfolding observeConstraint_eq by (auto simp: Let_def case_prod_beta)
  moreover have "length (fst (constraintDetails L now rh c resources w)) = length resources"
    by (simp add: constraintDetails_def Let_def observeResources_length)
  ultimately show "\<exists>cres resources. r = Some cres \<and>
         collectResources L (firstMatchingResource L (cs_Match c) (obs_APIResources self) w) w [] = Return resources \<and>
         length (cr_Results cres) = length resources \<and>
         cr_TotalViolations cres = length (filter vrd_Violation (cr_Results cres)) \<and>
         (cr_Violation cres \<longleftrightarrow> (\<exists>d. d \<in> set (cr_Results cres) \<and> vrd_Violation d))"
    by (auto simp: constraintState_def stateSpec_def filter_empty_conv)
qed

text \<open>a kind rule without API groups covers every API resource whatever kinds it lists;
  with API groups it covers exactly the resources of a listed group and a listed kind.\<close>

theorem kinds_ignored_without_groups:
  "kindsRuleMatch ks r \<longleftrightarrow> ok_ApiGroups ks = [] \<or>
     gr_APIGroup r \<in> set (ok_ApiGroups ks) \<and> ar_Kind (gr_APIResource r) \<in> set (ok_Kinds ks)"
  by (auto simp: kindsRuleMatch_def Let_def observer_Contains_iff)

text \<open>whatever kinds a constraint lists, all resources it observes belong to one API
  resource, the first of the discovered ones that matches any rule.\<close>

theorem one_api_resource_per_constraint:
  "\<exists>gs r. getPossibleProtectedGVKs L self m w = Some gs \<and> group_resource.truncate ` set gs \<subseteq> {r}"
  using firstMatchingResource_one [of L m "obs_APIResources self" w]
  by (auto simp: getPossibleProtectedGVKs_def)

text \<open>if the resources of one target namespace cannot be listed, none of the resources of
  that kind is observed, without an error.\<close>

theorem failing_namespace_hides_resources:
  assumes "ar_Namespaced (gr_APIResource g)" and "ns \<in> set (TargetNamespaces g)"
    and "Dynamic_List L (w_cluster w) (gr_APIGroup g, gr_APIVersion g, ar_Name (gr_APIResource g)) (Some ns) = Inl e"
  shows "getAllResoucesByGroupResource L g w = Return []"
  using assms listNamespaces_ok_iff [of L "w_cluster w"
      "(gr_APIGroup g, gr_APIVersion g, ar_Name (gr_APIResource g))" "TargetNamespaces g" "[]"]
  by (auto simp: getAllResoucesByGroupResource_def Let_def split: sum.split)

lemma sint_pos_iff: "0 < sint (x :: 64 word) \<longleftrightarrow> 0 < uint x \<and> uint x < 2 ^ 63"
proof -
  have b: "0 \<le> uint x" "uint x < 2 ^ 64" using uint_bounded [of x] by simp_all
  have "sint x = signed_take_bit 63 (uint x)" by (simp add: sint_uint)
  also have "\<dots> = take_bit 64 (uint x) - 2 ^ 64 * of_bool (bit (uint x) 63)" by (simp add: signed_take_bit_eq_take_bit_minus)
  also have "take_bit 64 (uint x) = uint x" using b by (simp add: take_bit_int_eq_self)
  finally have s: "sint x = uint x - 2 ^ 64 * of_bool (bit (uint x) 63)" .
  show ?thesis
  proof (cases "uint x < 2 ^ 63")
    case True
    with b have "uint x div 2 ^ 63 = 0" by simp
    then have "\<not> bit (uint x) 63" by (simp add: bit_iff_odd)
    with s True b show ?thesis by simp
  next
    case False
    with b have "uint x div 2 ^ 63 = 1" by (intro int_div_pos_eq [where r = "uint x - 2 ^ 63"]) simp_all
    then have "bit (uint x) 63" by (simp add: bit_iff_odd)
    with s False b show ?thesis by simp
  qed
qed

lemma tickerInterval_pos_iff:
  "0 < sint (tickerInterval w) \<longleftrightarrow>
     0 < Atoi_value (Getenv w ''INTERVAL'') * 60000000000 mod 2 ^ 64 \<and> Atoi_value (Getenv w ''INTERVAL'') * 60000000000 mod 2 ^ 64 < 2 ^ 63"
  unfolding sint_pos_iff tickerInterval_def by (simp add: uint_word_ariths mod_mult_left_eq uint_word_of_int)

text \<open>C39: After a successful initialisation and a first run the observer goes on with its ticks exactly if the
  interval, read as minutes and counted in nanoseconds modulo \<open>2 ^ 64\<close>, is positive as a signed number;
  otherwise the process panics. So it goes on for one up to 153722867 minutes, with that period; it
  panics for an unset interval, which is read as zero, and for every interval in the next range of
  the same size, which wraps around to a negative period.\<close>

theorem observer_interval:
  assumes init: "Init L w = Return (Inr insp, w1)" and run: "Run L now insp w1 = Return w2"
    and n: "n = Atoi_value (Getenv w1 ''INTERVAL'')"
  shows "observer_main L now ticks w =
      (if 0 < n * 60000000000 mod 2 ^ 64 \<and> n * 60000000000 mod 2 ^ 64 < 2 ^ 63 then tickLoop L insp ticks w2
       else Panic ''non-positive interval for NewTicker'') \<and>
    (1 \<le> n \<and> n \<le> 153722867 \<longrightarrow>
       sint (tickerInterval w1) = n * 60000000000 \<and> observer_main L now ticks w = tickLoop L insp ticks w2) \<and>
    (Getenv w1 ''INTERVAL'' = [] \<or> 153722868 \<le> n \<and> n \<le> 307445734 \<longrightarrow>
       observer_main L now ticks w = Panic ''non-positive interval for NewTicker'')"
proof -
  have main: "observer_main L now ticks w = (if 0 < sint (tickerInterval w1) then tickLoop L insp ticks w2
      else Panic ''non-positive interval for NewTicker'')"
    by (simp add: observer_main_def init run)
  have "sint (tickerInterval w1) = n * 60000000000" if "1 \<le> n" "n \<le> 153722867"
  proof -
    have period: "tickerInterval w1 = word_of_int (n * 60000000000)" by (simp add: tickerInterval_def n)
    have "sint (tickerInterval w1) = signed_take_bit 63 (n * 60000000000)" unfolding period by (subst sint_sbintrunc') simp
    also have "\<dots> = n * 60000000000" using that by (intro signed_take_bit_int_eq_self) simp_all
    finally show ?thesis .
  qed
  moreover have "n = 0" if "Getenv w1 ''INTERVAL'' = []" using that by (simp add: n Atoi_value_def)
  moreover have "n * 60000000000 mod 2 ^ 64 = n * 60000000000" if "153722868 \<le> n" "n \<le> 307445734"
    using that by (intro mod_pos_pos_trivial) simp_all
  ultimately show ?thesis unfolding main tickerInterval_pos_iff n [symmetric] by auto
qed

section \<open>Samples\<close>

type_synonym mis_cluster = "string \<times> string \<rightharpoonup> manifest_integrity_state"

definition sample_gr :: group_resource where
  "sample_gr = \<lparr>gr_APIGroup = [], gr_APIVersion = ''v1'',
     gr_APIResource = \<lparr>ar_Name = ''configmaps'', ar_Kind = ''ConfigMap'', ar_Namespaced = True, ar_Verbs = [''list'']\<rparr>\<rparr>"

definition sample_constraint :: constraint_spec where
  "sample_constraint =
     \<lparr>cs_Match = \<lparr>om_Kinds = [\<lparr>ok_Kinds = [''ConfigMap''], ok_ApiGroups = []\<rparr>], om_Namespaces = [''sample-ns''],
        om_ExcludedNamespaces = [], om_LabelSelector = None, om_NamespaceSelector = None\<rparr>,
      cs_Parameters = sample_params\<rparr>"

definition sample_obs_lib :: "(string, string list, mis_cluster) obs_lib" where
  "sample_obs_lib = lib.extend sample_base
     \<lparr>ServerPreferredResources = (\<lambda>s. Inr [(''v1'', [gr_APIResource sample_gr])]),
      ParseGroupVersion = (\<lambda>gv. Inr ([], gv)),
      NewDynamicClient = (\<lambda>w. Inr ()),
      NewDiscoveryClient = (\<lambda>w. Inr ()),
      Dynamic_List = (\<lambda>s (g, v, r) ns.
        if r = ''configmaps''
        then (if ns = Some ''sample-ns'' then Inr [JStr ''signed'', JStr ''unsigned'', JStr ''outside''] else Inl ''forbidden'')
        else Inr [JObj [(''spec'', JStr ''c1'')]]),
      json_ConstraintSpec = (\<lambda>j. sample_constraint),
      Namespaces_List = (\<lambda>s. Inr []),
      GetNamespace = (\<lambda>u. ''sample-ns''),
      GetName = (\<lambda>u. case u of JStr n \<Rightarrow> n | _ \<Rightarrow> []),
      GetGVK = (\<lambda>u. \<lparr>gvk_Group = [], gvk_Version = ''v1'', gvk_Kind = ''ConfigMap''\<rparr>),
      MIS_NewForConfig = (\<lambda>w. Inr ()),
      MIS_Get = (\<lambda>s ns n. case s (ns, n) of None \<Rightarrow> Inl ''not found''
                  | Some m \<Rightarrow> if mis_Name m = n then Inr (Some m) else Inl ''corrupt''),
      MIS_Create = (\<lambda>s ns m. Inr (s((ns, mis_Name m) \<mapsto> m))),
      MIS_Update = (\<lambda>s ns m. Inr (s((ns, mis_Name m) \<mapsto> m))),
      ConfigMaps_Create = (\<lambda>s ns n d. Inr s),
      ConfigMaps_Update = (\<lambda>s ns n d. Inr s),
      json_MarshalDetail = (\<lambda>r. ''{}'')\<rparr>"

definition sample_obs_world :: "mis_cluster world" where
  "sample_obs_world = \<lparr>w_env = Map.empty, w_logLevel = InfoLevel, w_logFormat = TextFormatter,
      w_files = Map.empty, w_ranges = 0, w_cluster = Map.empty\<rparr>"

definition sample_observer :: observer where
  "sample_observer = \<lparr>obs_APIResources = [sample_gr], obs_dynamicClient = True\<rparr>"

definition sample_sigref :: signature_ref where
  "sample_sigref = po_SignatureRef sample_params"

lemmas sample_obs_defs = sample_obs_lib_def sample_base_def sample_obs_world_def lib.extend_def

theorem observer_and_admission_agree_iff_witness:
  "fst (signatureVerdict sample_obs_lib
      \<lparr>vr_InScope = False, vr_Verified = False, vr_Signer = [], vr_SigRef = [], vr_SignedTime = None, vr_Diff = None\<rparr>) =
   vrd_Violation (fst (ObserveResource sample_obs_lib 0 (JStr ''outside'') sample_sigref [] [] [] sample_obs_world))"
proof -
  let ?v = "\<lparr>vr_InScope = False, vr_Verified = False, vr_Signer = [], vr_SigRef = [], vr_SignedTime = None, vr_Diff = None\<rparr>"
  have "VerifyResource sample_obs_lib w (JStr ''outside'') vo = Inr ?v" for w vo
    by (simp add: sample_obs_defs sample_verify_def)
  from observer_and_admission_agree_iff [OF this, where now = 0 and s = sample_sigref and i = "[]" and k = "[]" and
      ks = "[]" and w = sample_obs_world]
  show ?thesis by simp
qed

theorem observe_constraint_result_witness:
  "\<exists>cres w'. observeConstraint sample_obs_lib 0 sample_observer sample_config sample_constraint sample_obs_world =
       Return (Some cres, w') \<and>
     cr_TotalViolations cres = length (filter vrd_Violation (cr_Results cres))"
proof -
  let ?r = "observeConstraint sample_obs_lib 0 sample_observer sample_config sample_constraint sample_obs_world"
  have "case ?r of Return _ \<Rightarrow> True | Panic _ \<Rightarrow> False" by code_simp
  then obtain r w' where "?r = Return (r, w')" by (auto split: outcome.splits)
  with observe_constraint_result [of sample_obs_lib 0 sample_observer sample_config sample_constraint sample_obs_world]
  show ?thesis by blast
qed

theorem failing_namespace_hides_resources_witness:
  "getAllResoucesByGroupResource sample_obs_lib
     (group_resource.extend sample_gr \<lparr>TargetNamespaces = [''sample-ns'', ''other'']\<rparr>) sample_obs_world = Return []"
  by (rule failing_namespace_hides_resources [where ns = "''other''" and e = "''forbidden''"])
     (simp_all add: sample_gr_def sample_obs_defs group_resource.defs)

text \<open>The sample observer has no interval in its environment.\<close>

theorem observer_interval_witness:
  "\<exists>insp w1 w2. Init sample_obs_lib sample_obs_world = Return (Inr insp, w1) \<and> Run sample_obs_lib 0 insp w1 = Return w2 \<and>
     observer_main sample_obs_lib 0 [1, 2] sample_obs_world = Panic ''non-positive interval for NewTicker''"
proof -
  have runs: "case Init sample_obs_lib sample_obs_world of
      Return (Inr insp, w1) \<Rightarrow> Getenv w1 ''INTERVAL'' = [] \<and> (case Run sample_obs_lib 0 insp w1 of Return w2 \<Rightarrow> True | _ \<Rightarrow> False) | _ \<Rightarrow> False"
    by code_simp
  then obtain r w1 where r: "Init sample_obs_lib sample_obs_world = Return (r, w1)" by (auto split: outcome.splits)
  with runs obtain insp where insp: "r = Inr insp" by (cases r) auto
  note init = r [unfolded insp]
  from runs init obtain w2 where run: "Run sample_obs_lib 0 insp w1 = Return w2" and "Getenv w1 ''INTERVAL'' = []"
    by (auto split: outcome.splits)
  with init observer_interval [OF init run refl, of "[1, 2]"] show ?thesis by blast
qed

end
