(* ===== verification/ShieldMain.thy ===== *)
theory ShieldMain
  imports RequestHandler
begin

text \<open>
  \<^verbatim>\<open>shield/main.go\<close>: the HTTP server of the shield. \<open>requestHandler\<close> checks the method and
  the content type, decodes the two members \<^verbatim>\<open>request\<close> and \<^verbatim>\<open>parameters\<close> of the body, calls
  \<open>RequestHandler\<close> and writes its result. A failed type assertion panics (the server of
  \<^verbatim>\<open>net/http\<close> then drops the connection). Loading the certificates and starting the server
  are in \<^verbatim>\<open>Startup\<close>.
\<close>

section \<open>Data\<close>

record http_request =
  hr_Method :: string
  hr_ContentType :: string
  hr_Body :: bytes

text \<open>An \<open>http.ResponseWriter\<close>: the status of the first \<open>WriteHeader\<close> or \<open>Write\<close>, and the bytes
  written.\<close>

record response =
  rw_Status :: "nat option"
  rw_Body :: bytes

definition new_response :: response where
  "new_response = \<lparr>rw_Status = None, rw_Body = []\<rparr>"

definition WriteHeader :: "nat \<Rightarrow> response \<Rightarrow> response" where
  "WriteHeader status rw = (case rw_Status rw of None \<Rightarrow> rw\<lparr>rw_Status := Some status\<rparr> | Some _ \<Rightarrow> rw)"

definition rw_Write :: "bytes \<Rightarrow> response \<Rightarrow> response" where
  "rw_Write b rw = (let rw = WriteHeader 200 rw in rw\<lparr>rw_Body := rw_Body rw @ b\<rparr>)"

definition http_Error :: "string \<Rightarrow> nat \<Rightarrow> response \<Rightarrow> response" where
  "http_Error msg status rw = rw_Write (msg @ [CHR 0x0A]) (WriteHeader status rw)"

text \<open>Decoding and encoding (\<open>encoding/json\<close> on types of other packages) and the error of the
  final \<open>Write\<close>, on top of the functions of the shield. \<open>json_Parse\<close> decodes into an
  \<open>interface{}\<close>; \<open>json_Request\<close> and \<open>json_Parameters\<close> give the pointer after the decoder ran,
  whether or not it reported an error.\<close>

record ('n, 'd, 's) server_lib = "('n, 'd, 's) lib" +
  json_Parse :: "bytes \<Rightarrow> json result"
  json_MarshalMap :: "json \<Rightarrow> bytes"
  json_Request :: "bytes \<Rightarrow> request option"
  json_Parameters :: "bytes \<Rightarrow> parameter_object option"
  json_MarshalResult :: "rh_result \<Rightarrow> bytes result"
  Write_err :: "bytes \<Rightarrow> string option"

section \<open>Handlers\<close>

definition errorHandler :: "nat \<Rightarrow> response \<Rightarrow> response" where
  "errorHandler status rw =
     (let rw = WriteHeader status rw in if status = 404 then rw_Write ''Custom 404'' rw else rw)"

definition defaultHandler :: "response \<Rightarrow> response" where
  "defaultHandler rw = errorHandler 404 rw"

definition checkLiveness :: "response \<Rightarrow> response" where
  "checkLiveness rw = rw_Write ''liveness ok'' rw"

definition checkReadiness :: "response \<Rightarrow> response" where
  "checkReadiness rw = rw_Write ''readiness ok'' rw"

text \<open>\<open>json.Unmarshal(body, &inputMap)\<close>: \<^verbatim>\<open>null\<close> leaves the nil map, any other value that is not
  an object is an error; of duplicate members the last one counts.\<close>

definition decodeMap :: "('n, 'd, 's, 'x) server_lib_scheme \<Rightarrow> bytes \<Rightarrow> (string \<rightharpoonup> json) result" where
  "decodeMap L body =
     (case json_Parse L body of
        Inl e \<Rightarrow> Inl e
      | Inr JNull \<Rightarrow> Inr Map.empty
      | Inr (JObj kvs) \<Rightarrow> Inr (map_of (rev kvs))
      | Inr _ \<Rightarrow> Inl ''json: cannot unmarshal into Go value of type map[string]interface {}'')"

text \<open>One member of the body: \<open>Panic\<close> for the failed type assertion, \<open>None\<close> for a nil pointer.\<close>

definition decodeMember ::
  "('n, 'd, 's, 'x) server_lib_scheme \<Rightarrow> (bytes \<Rightarrow> 'a option) \<Rightarrow> json \<Rightarrow> 'a option outcome" where
  "decodeMember L dec v =
     (case v of
        JNull \<Rightarrow> Return None
      | JObj kvs \<Rightarrow> Return (dec (json_MarshalMap L (JObj kvs)))
      | _ \<Rightarrow> Panic ''interface conversion: interface {} is not map[string]interface {}'')"

text \<open>The end of the handler: encoding and writing the result.\<close>

definition writeResult :: "('n, 'd, 's, 'x) server_lib_scheme \<Rightarrow> rh_result \<Rightarrow> response \<Rightarrow> response" where
  "writeResult L result rw =
     (case json_MarshalResult L result of
        Inl err \<Rightarrow> http_Error (''marshaling request handler result: '' @ err) 500 rw
      | Inr resp \<Rightarrow>
          (case Write_err L resp of
             None \<Rightarrow> rw_Write resp rw
           | Some err \<Rightarrow> http_Error (''could not write response: '' @ err) 500 (WriteHeader 200 rw)))"

definition requestHandler ::
  "('n, 'd, 's, 'x) server_lib_scheme \<Rightarrow> int \<Rightarrow> http_request \<Rightarrow> response \<Rightarrow> 's world
     \<Rightarrow> (response \<times> 's world) outcome" where
  "requestHandler L now r rw w =
     (if hr_Method r \<noteq> ''POST'' then Return (WriteHeader 400 rw, w)
      else if hr_ContentType r \<noteq> ''application/json'' then Return (WriteHeader 400 rw, w)
      else case decodeMap L (hr_Body r) of
        Inl err \<Rightarrow> Return (http_Error (''unmarshaling input data as map[string]interface{}: '' @ err) 500 rw, w)
      | Inr inputMap \<Rightarrow>
     (case inputMap ''request'' of
        None \<Rightarrow> Return (http_Error ''failed to find `request` key in input object'' 500 rw, w)
      | Some requestIf \<Rightarrow>
     outcome_bind (decodeMember L (json_Request L) requestIf) (\<lambda>request.
     case request of
        None \<Rightarrow> Return (http_Error ''failed to convert `request` in input object into *admission.Request'' 500 rw, w)
      | Some request \<Rightarrow>
     (case inputMap ''parameters'' of
        None \<Rightarrow> Return (http_Error ''failed to find `parameters` key in input object'' 500 rw, w)
      | Some parametersIf \<Rightarrow>
     outcome_bind (decodeMember L (json_Parameters L) parametersIf) (\<lambda>parameters.
     case parameters of
        None \<Rightarrow> Return (http_Error ''failed to convert `parameters` in input object into *config.ParameterObject'' 500 rw, w)
      | Some parameters \<Rightarrow>
     (let (result, w') = RequestHandler L now request parameters w in
      Return (writeResult L result rw, w')))))))"

text \<open>The routes registered in \<open>main\<close>; any other path is answered by the multiplexer.\<close>

definition serve ::
  "('n, 'd, 's, 'x) server_lib_scheme \<Rightarrow> int \<Rightarrow> string \<Rightarrow> http_request \<Rightarrow> 's world
     \<Rightarrow> (response \<times> 's world) outcome" where
  "serve L now path r w =
     (if path = ''/api'' then Return (defaultHandler new_response, w)
      else if path = ''/api/request'' then requestHandler L now r new_response w
      else if path = ''/health/liveness'' then Return (checkLiveness new_response, w)
      else if path = ''/health/readiness'' then Return (checkReadiness new_response, w)
      else Return (http_Error ''404 page not found'' 404 new_response, w))"

section \<open>Properties\<close>

text \<open>What a body must contain to be decided.\<close>

definition decodes_to ::
  "('n, 'd, 's, 'x) server_lib_scheme \<Rightarrow> http_request \<Rightarrow> request \<Rightarrow> parameter_object \<Rightarrow> bool" where
  "decodes_to L r req po \<longleftrightarrow>
     hr_Method r = ''POST'' \<and> hr_ContentType r = ''application/json'' \<and>
     (case decodeMap L (hr_Body r) of Inl _ \<Rightarrow> False
      | Inr m \<Rightarrow>
          (case m ''request'' of None \<Rightarrow> False | Some v \<Rightarrow> decodeMember L (json_Request L) v = Return (Some req)) \<and>
          (case m ''parameters'' of None \<Rightarrow> False | Some v \<Rightarrow> decodeMember L (json_Parameters L) v = Return (Some po)))"

lemma status_simps [simp]:
  "rw_Status (WriteHeader n new_response) = Some n"
  "rw_Status (http_Error m n new_response) = Some n"
  "rw_Status (rw_Write b new_response) = Some 200"
  "rw_Body (rw_Write b new_response) = b"
  by (simp_all add: WriteHeader_def http_Error_def rw_Write_def new_response_def Let_def)

lemma requestHandler_decoded:
  assumes "decodes_to L r req po"
  shows "requestHandler L now r rw w =
     Return (writeResult L (fst (RequestHandler L now req po w)) rw, snd (RequestHandler L now req po w))"
  using assms
  by (auto simp: decodes_to_def requestHandler_def case_prod_beta split: sum.splits option.splits)

lemma requestHandler_not_decoded:
  assumes "\<nexists>req po. decodes_to L r req po" and "requestHandler L now r new_response w = Return (rw, w')"
  shows "w' = w \<and> (rw_Status rw = Some 400 \<or> rw_Status rw = Some 500)"
proof (cases "hr_Method r = ''POST'' \<and> hr_ContentType r = ''application/json''")
  case False
  with assms(2) show ?thesis by (auto simp: requestHandler_def split: if_splits)
next
  case post: True
  show ?thesis
  proof (cases "decodeMap L (hr_Body r)")
    case (Inl e)
    with post assms(2) show ?thesis by (auto simp: requestHandler_def)
  next
    case (Inr m)
    show ?thesis
    proof (cases "m ''request''")
      case None
      with post Inr assms(2) show ?thesis by (auto simp: requestHandler_def)
    next
      case (Some v)
      with post Inr assms(2) obtain q where q: "decodeMember L (json_Request L) v = Return q"
        by (cases "decodeMember L (json_Request L) v") (auto simp: requestHandler_def)
      note known = post Inr Some q
      show ?thesis
      proof (cases "q = None \<or> m ''parameters'' = None")
        case True
        with known assms(2) show ?thesis by (auto simp: requestHandler_def split: option.splits)
      next
        case False
        then obtain req u where req: "q = Some req" and u: "m ''parameters'' = Some u" by auto
        with known assms(2) obtain p where p: "decodeMember L (json_Parameters L) u = Return p"
          by (cases "decodeMember L (json_Parameters L) u") (auto simp: requestHandler_def)
        with assms(1) known req u have "p = None" by (cases p) (auto simp: decodes_to_def)
        with known req u p assms(2) show ?thesis by (auto simp: requestHandler_def)
      qed
    qed
  qed
qed

section \<open>Stated properties\<close>

text \<open>C34: the request endpoint answers with status 200 and the encoded result of the request
  handler for a body that decodes to a request and a parameter object, provided the result
  can be encoded and written; a request that does not decode is answered with 400 or 500 or
  makes the handler panic, and leaves environment, files and cluster untouched.\<close>

theorem http_handler_decides_or_rejects:
  assumes "requestHandler L now r new_response w = Return (rw, w')"
  shows "(\<exists>req po. decodes_to L r req po \<and> w' = snd (RequestHandler L now req po w) \<and>
            (\<forall>b. json_MarshalResult L (fst (RequestHandler L now req po w)) = Inr b \<longrightarrow> Write_err L b = None \<longrightarrow>
               rw_Status rw = Some 200 \<and> rw_Body rw = b)) \<or>
         (\<nexists>req po. decodes_to L r req po) \<and> w' = w \<and> (rw_Status rw = Some 400 \<or> rw_Status rw = Some 500)"
proof (cases "\<exists>req po. decodes_to L r req po")
  case True
  then obtain req po where d: "decodes_to L r req po" by blast
  have "w' = snd (RequestHandler L now req po w) \<and>
      (\<forall>b. json_MarshalResult L (fst (RequestHandler L now req po w)) = Inr b \<longrightarrow> Write_err L b = None \<longrightarrow>
         rw_Status rw = Some 200 \<and> rw_Body rw = b)"
    using assms unfolding requestHandler_decoded [OF d]
    by (auto simp: writeResult_def split: sum.splits option.splits)
  with d show ?thesis by blast
next
  case False
  with requestHandler_not_decoded [OF False assms] show ?thesis by blast
qed

definition sample_server_lib :: "(string, string list, sample_cluster) server_lib" where
  "sample_server_lib = lib.extend sample_lib
     \<lparr>json_Parse = (\<lambda>b. if b = ''ok'' then Inr (JObj [(''request'', JObj []), (''parameters'', JObj [])])
                        else Inl ''invalid character''),
      json_MarshalMap = (\<lambda>j. ''{}''),
      json_Request = (\<lambda>b. Some (sample_request ''signed'')),
      json_Parameters = (\<lambda>b. Some sample_params),
      json_MarshalResult = (\<lambda>r. Inr (if res_Allow r then ''allow'' else ''deny'')),
      Write_err = (\<lambda>b. None)\<rparr>"

theorem http_handler_decides_or_rejects_witness:
  "\<exists>rw w'. requestHandler sample_server_lib 0
      \<lparr>hr_Method = ''GET'', hr_ContentType = ''application/json'', hr_Body = ''ok''\<rparr> new_response sample_world = Return (rw, w') \<and>
     w' = sample_world \<and> (rw_Status rw = Some 400 \<or> rw_Status rw = Some 500)"
proof -
  let ?r = "\<lparr>hr_Method = ''GET'', hr_ContentType = ''application/json'', hr_Body = ''ok''\<rparr>"
  obtain rw w' where r: "requestHandler sample_server_lib 0 ?r new_response sample_world = Return (rw, w')"
    by (simp add: requestHandler_def)
  have "\<nexists>req po. decodes_to sample_server_lib ?r req po" by (simp add: decodes_to_def)
  with http_handler_decides_or_rejects [OF r] r show ?thesis by blast
qed

text \<open>C35: the request endpoint panics exactly when the method and content type are right, the
  body is an object, and its \<^verbatim>\<open>request\<close> member is neither null nor an object, or the request
  decodes and the \<^verbatim>\<open>parameters\<close> member is neither null nor an object.\<close>

theorem http_handler_panics_iff:
  "(\<exists>m. requestHandler L now r rw w = Panic m) \<longleftrightarrow>
     hr_Method r = ''POST'' \<and> hr_ContentType r = ''application/json'' \<and>
     (\<exists>im v. decodeMap L (hr_Body r) = Inr im \<and> im ''request'' = Some v \<and>
        ((v \<noteq> JNull \<and> (\<nexists>kvs. v = JObj kvs)) \<or>
         (\<exists>q u. decodeMember L (json_Request L) v = Return (Some q) \<and> im ''parameters'' = Some u \<and>
            u \<noteq> JNull \<and> (\<nexists>kvs. u = JObj kvs))))"
proof -
  have panic: "(\<exists>m. decodeMember L dec v = Panic m) \<longleftrightarrow> v \<noteq> JNull \<and> (\<nexists>kvs. v = JObj kvs)"
    for dec :: "bytes \<Rightarrow> 'z option" and v
    by (cases v) (auto simp: decodeMember_def)
  show ?thesis
  proof (cases "hr_Method r = ''POST'' \<and> hr_ContentType r = ''application/json''")
    case False
    then show ?thesis by (auto simp: requestHandler_def)
  next
    case post: True
    show ?thesis
    proof (cases "\<exists>im v. decodeMap L (hr_Body r) = Inr im \<and> im ''request'' = Some v")
      case False
      with post show ?thesis by (auto simp: requestHandler_def split: sum.splits option.splits)
    next
      case True
      then obtain im v where im: "decodeMap L (hr_Body r) = Inr im" "im ''request'' = Some v" by blast
      show ?thesis
      proof (cases "decodeMember L (json_Request L) v")
        case (Panic m)
        with post im panic [of "json_Request L" v] show ?thesis by (auto simp: requestHandler_def)
      next
        case (Return q)
        then have v: "\<not> (v \<noteq> JNull \<and> (\<nexists>kvs. v = JObj kvs))" using panic [of "json_Request L" v] by auto
        have "(\<exists>m. requestHandler L now r rw w = Panic m) \<longleftrightarrow>
            (\<exists>q' u. q = Some q' \<and> im ''parameters'' = Some u \<and> (\<exists>m. decodeMember L (json_Parameters L) u = Panic m))"
          using post im Return
          by (cases q; cases "im ''parameters''")
             (auto simp: requestHandler_def case_prod_beta split: option.splits)
        with post im Return v show ?thesis unfolding panic by simp blast
      qed
    qed
  qed
qed

end
