(* ===== verification/Profiles.thy ===== *)
theory Profiles
  imports RequestHandler
begin

text \<open>
  The manifest integrity profiles of the admission controller:
  \<^verbatim>\<open>pkg/config/admission_controller_config.go\<close>,
  \<^verbatim>\<open>pkg/apis/manifestintegrityprofile/v1/types.go\<close> and \<^verbatim>\<open>pkg/controller/constraint.go\<close> under
  \<^verbatim>\<open>webhook/admission-controller\<close>. A profile says which requests it covers (\<open>matchCheck\<close>) and
  keeps a history of the denied ones in its status (\<open>UpdateStatus\<close>). The client of the
  profile resource is a parameter, like the other client functions; \<open>Recording\<close> puts the
  generated one in its place.
\<close>

section \<open>Data\<close>

record namespace_selector =
  ns_Include :: "string list"
  ns_Exclude :: "string list"

record admission_controller_config =
  acc_InScopeNamespaceSelector :: namespace_selector
  acc_AllowKinds :: "gvk list"
  acc_UpdateMIPStatusForDeniedRequest :: bool
  acc_Mode :: string
  acc_Options :: "string list"

record kinds =
  k_Kinds :: "string list"
  k_ApiGroups :: "string list"

text \<open>A label selector is a value of another package; its decoded form is kept.\<close>

record match_condition =
  mc_Kinds :: "kinds list"
  mc_Namespaces :: "string list"
  mc_ExcludedNamespaces :: "string list"
  mc_LabelSelector :: "json option"
  mc_NamespaceSelector :: "json option"

record violation_detail =
  vd_Namespace :: string
  vd_Kind :: string
  vd_Name :: string
  vd_Message :: string
  vd_Timestamp :: string

text \<open>\<open>DenyCount\<close> is a Go \<open>int\<close>, 64 bits wide on the supported platforms.\<close>

record mip_status =
  DenyCount :: "64 word"
  Violations :: "violation_detail list"

record mip_spec =
  mip_Match :: match_condition
  mip_Parameters :: parameter_object

text \<open>Of the metadata of a profile the programs use the name; the resource version is what the API server
  compares when a profile is written back.\<close>

record manifest_integrity_profile =
  mip_Name :: string
  mip_ResourceVersion :: string
  mip_Spec :: mip_spec
  mip_Status :: mip_status

record ('n, 'd, 's) ac_lib = "('n, 'd, 's) lib" +
  yaml_AdmissionControllerConfig :: "string \<Rightarrow> admission_controller_config option result"
  MIP_NewForConfig :: "'s world \<Rightarrow> unit result"
  MIP_List :: "'s \<Rightarrow> manifest_integrity_profile list result"
  MIP_Get :: "'s \<Rightarrow> string \<Rightarrow> manifest_integrity_profile result"
  MIP_Update :: "'s \<Rightarrow> manifest_integrity_profile \<Rightarrow> 's result"
  Namespaces_GetLabels :: "'s \<Rightarrow> string \<Rightarrow> (string \<rightharpoonup> string) result"
  GetLabels :: "unstructured \<Rightarrow> string \<rightharpoonup> string"

section \<open>The configuration of the admission controller\<close>

definition NamespaceSelector_Match ::
  "('n, 'd, 's, 'x) lib_scheme \<Rightarrow> namespace_selector \<Rightarrow> string \<Rightarrow> bool" where
  "NamespaceSelector_Match L ns rns =
     (let excluded = (if length (ns_Exclude ns) \<noteq> 0 then MatchWithPatternArray L rns (ns_Exclude ns) else False);
          included = (if length (ns_Include ns) \<noteq> 0 then MatchWithPatternArray L rns (ns_Include ns) else True)
      in if included \<and> excluded then False
         else if \<not> included then False
         else True)"

definition allowPattern :: "('n, 'd, 's, 'x) lib_scheme \<Rightarrow> string \<Rightarrow> string \<Rightarrow> bool" where
  "allowPattern L pattern value =
     (if pattern = [] then True else if MatchSinglePattern L pattern value then True else False)"

fun Allow_Match :: "('n, 'd, 's, 'x) lib_scheme \<Rightarrow> gvk list \<Rightarrow> gvk \<Rightarrow> bool" where
  "Allow_Match L [] kind = False"
| "Allow_Match L (k # ks) kind =
     (if allowPattern L (gvk_Group k) (gvk_Group kind) \<and>
         allowPattern L (gvk_Kind k) (gvk_Kind kind) \<and>
         allowPattern L (gvk_Version k) (gvk_Version kind)
      then True else Allow_Match L ks kind)"

definition CheckIfDetectOnly :: "string \<Rightarrow> bool" where
  "CheckIfDetectOnly mode \<longleftrightarrow> mode = ''detect''"

section \<open>The status of a profile\<close>

definition maxHistoryLength :: nat where
  "maxHistoryLength = 10"

definition newViolation :: "('n, 'd, 's, 'x) ac_lib_scheme \<Rightarrow> int \<Rightarrow> request \<Rightarrow> string \<Rightarrow> violation_detail" where
  "newViolation L now request errMsg =
     \<lparr>vd_Namespace = req_Namespace request, vd_Kind = gvk_Kind (req_Kind request),
      vd_Name = req_Name request, vd_Message = errMsg, vd_Timestamp = FormatTimeUTC L now\<rparr>"

definition UpdateStatus ::
  "('n, 'd, 's, 'x) ac_lib_scheme \<Rightarrow> int \<Rightarrow> request \<Rightarrow> string \<Rightarrow> manifest_integrity_profile
     \<Rightarrow> manifest_integrity_profile" where
  "UpdateStatus L now request errMsg self =
     (let count = DenyCount (mip_Status self) + 1;
          newLatestEvents = [newViolation L now request errMsg] @ Violations (mip_Status self);
          newLatestEvents = (if length newLatestEvents > maxHistoryLength
                             then take maxHistoryLength newLatestEvents else newLatestEvents)
      in self\<lparr>mip_Status := (mip_Status self)\<lparr>DenyCount := count, Violations := newLatestEvents\<rparr>\<rparr>)"

section \<open>constraint.go\<close>

definition GetParametersFromConstraint :: "mip_spec \<Rightarrow> parameter_object" where
  "GetParametersFromConstraint constraint = mip_Parameters constraint"

text \<open>Every failure gives \<open>nil, nil\<close>.\<close>

definition LoadConstraints ::
  "('n, 'd, 's, 'x) ac_lib_scheme \<Rightarrow> 's world \<Rightarrow> manifest_integrity_profile list result" where
  "LoadConstraints L w =
     (case GetKubeConfig L w of Inl _ \<Rightarrow> Inr []
      | Inr _ \<Rightarrow> (case MIP_NewForConfig L w of Inl _ \<Rightarrow> Inr []
      | Inr _ \<Rightarrow> (case MIP_List L (w_cluster w) of Inl _ \<Rightarrow> Inr [] | Inr items \<Rightarrow> Inr items)))"

definition checkNamespaceLabelMatch ::
  "('n, 'd, 's, 'x) ac_lib_scheme \<Rightarrow> string \<Rightarrow> json option \<Rightarrow> 's world \<Rightarrow> bool" where
  "checkNamespaceLabelMatch L namespace labelSelector w =
     (case labelSelector of None \<Rightarrow> True
      | Some ls \<Rightarrow>
     (case GetKubeConfig L w of Inl _ \<Rightarrow> False
      | Inr _ \<Rightarrow>
     (case NewForConfig L w of Inl _ \<Rightarrow> False
      | Inr _ \<Rightarrow>
     (case Namespaces_GetLabels L (w_cluster w) namespace of Inl _ \<Rightarrow> False
      | Inr labelsMap \<Rightarrow>
     (case LabelSelectorAsSelector L ls of Inl _ \<Rightarrow> False
      | Inr selector \<Rightarrow> selector labelsMap)))))"

definition checkLabelMatch ::
  "('n, 'd, 's, 'x) ac_lib_scheme \<Rightarrow> request \<Rightarrow> json option \<Rightarrow> bool" where
  "checkLabelMatch L req labelSelector =
     (case labelSelector of None \<Rightarrow> True
      | Some ls \<Rightarrow>
     (case UnmarshalUnstructured L (req_Object req) of Inl _ \<Rightarrow> False
      | Inr resource \<Rightarrow>
     (case LabelSelectorAsSelector L ls of Inl _ \<Rightarrow> False
      | Inr selector \<Rightarrow> selector (GetLabels L resource))))"

definition checkNamespaceMatch :: "('n, 'd, 's, 'x) lib_scheme \<Rightarrow> request \<Rightarrow> string list \<Rightarrow> bool" where
  "checkNamespaceMatch L req match =
     (if length match = 0 then True
      else foldl (\<lambda>matched ns. if MatchPattern L ns (req_Namespace req) then True else matched)
             (if req_Namespace req = [] then True else False) match)"

text \<open>The inner loops of \<open>checkKindMatch\<close>, once over kinds and once over groups.\<close>

definition patternsMatch :: "('n, 'd, 's, 'x) lib_scheme \<Rightarrow> string list \<Rightarrow> string \<Rightarrow> bool" where
  "patternsMatch L patterns value =
     (if length patterns = 0 then True
      else foldl (\<lambda>m p. if MatchPattern L p value then True else m) False patterns)"

definition checkKindMatch :: "('n, 'd, 's, 'x) lib_scheme \<Rightarrow> request \<Rightarrow> kinds list \<Rightarrow> bool" where
  "checkKindMatch L req match =
     (if length match = 0 then True
      else foldl (\<lambda>matched ks.
                    if patternsMatch L (k_Kinds ks) (gvk_Kind (req_Kind req)) \<and>
                       patternsMatch L (k_ApiGroups ks) (gvk_Group (req_Kind req))
                    then True else matched) False match)"

fun excludedNamespace :: "('n, 'd, 's, 'x) lib_scheme \<Rightarrow> string list \<Rightarrow> string \<Rightarrow> bool" where
  "excludedNamespace L [] rns = False"
| "excludedNamespace L (ens # rest) rns = (if MatchPattern L ens rns then True else excludedNamespace L rest rns)"

definition matchCheck ::
  "('n, 'd, 's, 'x) ac_lib_scheme \<Rightarrow> request \<Rightarrow> match_condition \<Rightarrow> 's world \<Rightarrow> bool" where
  "matchCheck L req match w =
     (if length (mc_ExcludedNamespaces match) \<noteq> 0 \<and>
         excludedNamespace L (mc_ExcludedNamespaces match) (req_Namespace req) then False
      else
        let nsMatched = checkNamespaceMatch L req (mc_Namespaces match);
            kindsMatched = checkKindMatch L req (mc_Kinds match);
            labelMatched = checkLabelMatch L req (mc_LabelSelector match);
            nslabelMatched = checkNamespaceLabelMatch L (req_Namespace req) (mc_NamespaceSelector match) w
        in if nsMatched \<and> kindsMatched \<and> nslabelMatched \<and> labelMatched then True else False)"

definition updateConstraintStatus ::
  "('n, 'd, 's, 'x) ac_lib_scheme \<Rightarrow> int \<Rightarrow> string \<Rightarrow> request \<Rightarrow> string \<Rightarrow> 's world
     \<Rightarrow> string option \<times> 's world" where
  "updateConstraintStatus L now constraint req errMsg w =
     (case GetKubeConfig L w of Inl e \<Rightarrow> (Some e, w)
      | Inr _ \<Rightarrow> (case MIP_NewForConfig L w of Inl e \<Rightarrow> (Some e, w)
      | Inr _ \<Rightarrow> (case MIP_Get L (w_cluster w) constraint of Inl e \<Rightarrow> (Some e, w)
      | Inr mip \<Rightarrow>
          (case MIP_Update L (w_cluster w) (UpdateStatus L now req errMsg mip) of
             Inl e \<Rightarrow> (Some e, w)
           | Inr s' \<Rightarrow> (None, w\<lparr>w_cluster := s'\<rparr>)))))"

text \<open>\<open>clock i\<close> is the time of the \<open>i\<close>-th result.\<close>

fun updateConstraints ::
  "('n, 'd, 's, 'x) ac_lib_scheme \<Rightarrow> (nat \<Rightarrow> int) \<Rightarrow> bool \<Rightarrow> request \<Rightarrow> rh_result list \<Rightarrow> 's world \<Rightarrow> 's world" where
  "updateConstraints L clock isDetectMode req [] w = w"
| "updateConstraints L clock isDetectMode req (res # results) w =
     (if \<not> res_Allow res
      then (let errMsg = (if isDetectMode then ''[Detection] '' @ res_Message res else res_Message res);
                (_, w') = updateConstraintStatus L (clock 0) (res_Profile res) req errMsg w
            in updateConstraints L (\<lambda>i. clock (Suc i)) isDetectMode req results w')
      else updateConstraints L (\<lambda>i. clock (Suc i)) isDetectMode req results w)"

section \<open>Properties\<close>

lemma foldl_flag: "foldl (\<lambda>m x. if P x then True else m) b xs \<longleftrightarrow> b \<or> list_ex P xs"
  by (induction xs arbitrary: b) auto

interpretation patterns: list_matcher
  "\<lambda>p. MatchPattern L p value" "\<lambda>ps. patternsMatch L ps value" True
  for L :: "('n, 'd, 's, 'x) lib_scheme" and "value"
  by unfold_locales (simp_all add: patternsMatch_def foldl_flag)

interpretation kind_rules: list_matcher
  "\<lambda>ks. patternsMatch L (k_Kinds ks) (gvk_Kind (req_Kind req)) \<and>
        patternsMatch L (k_ApiGroups ks) (gvk_Group (req_Kind req))"
  "checkKindMatch L req" True
  for L :: "('n, 'd, 's, 'x) lib_scheme" and req
  by unfold_locales (simp_all add: checkKindMatch_def foldl_flag)

interpretation namespace_rules: list_matcher
  "\<lambda>ns. req_Namespace req = [] \<or> MatchPattern L ns (req_Namespace req)"
  "checkNamespaceMatch L req" True
  for L :: "('n, 'd, 's, 'x) lib_scheme" and req
  by unfold_locales (auto simp: checkNamespaceMatch_def foldl_flag list_ex_iff neq_Nil_conv)

interpretation exclusions: strict_matcher
  "\<lambda>ens. MatchPattern L ens rns" "\<lambda>l. excludedNamespace L l rns"
  for L :: "('n, 'd, 's, 'x) lib_scheme" and rns
proof unfold_locales
  fix xs :: "string list"
  show "excludedNamespace L xs rns = list_ex (\<lambda>ens. MatchPattern L ens rns) xs" by (induction xs) auto
qed simp

interpretation allowed_kinds: strict_matcher
  "\<lambda>k. allowPattern L (gvk_Group k) (gvk_Group kind) \<and> allowPattern L (gvk_Kind k) (gvk_Kind kind) \<and>
       allowPattern L (gvk_Version k) (gvk_Version kind)"
  "\<lambda>ks. Allow_Match L ks kind"
  for L :: "('n, 'd, 's, 'x) lib_scheme" and kind
proof unfold_locales
  fix xs :: "gvk list"
  show "Allow_Match L xs kind = list_ex (\<lambda>k. allowPattern L (gvk_Group k) (gvk_Group kind) \<and>
      allowPattern L (gvk_Kind k) (gvk_Kind kind) \<and> allowPattern L (gvk_Version k) (gvk_Version kind)) xs"
    by (induction xs) auto
qed simp

lemma UpdateStatus_keeps [simp]:
  "mip_Name (UpdateStatus L now req m p) = mip_Name p"
  "mip_Spec (UpdateStatus L now req m p) = mip_Spec p"
  "mip_ResourceVersion (UpdateStatus L now req m p) = mip_ResourceVersion p"
  by (simp_all add: UpdateStatus_def Let_def)

lemma UpdateStatus_status:
  "DenyCount (mip_Status (UpdateStatus L now req m p)) = DenyCount (mip_Status p) + 1"
  "Violations (mip_Status (UpdateStatus L now req m p)) =
     take maxHistoryLength (newViolation L now req m # Violations (mip_Status p))"
  by (simp_all add: UpdateStatus_def Let_def)

lemma take_Cons_take: "take m (x # take m xs) = take m (x # xs)"
  by (cases m) (simp_all add: min_def)

text \<open>The message of one result, with the detection prefix.\<close>

definition statusMessage :: "bool \<Rightarrow> rh_result \<Rightarrow> string" where
  "statusMessage detect res = (if detect then ''[Detection] '' @ res_Message res else res_Message res)"

lemma updateConstraints_denied:
  "\<not> res_Allow res \<Longrightarrow> updateConstraints L clock detect req (res # results) w =
     updateConstraints L (\<lambda>i. clock (Suc i)) detect req results
       (snd (updateConstraintStatus L (clock 0) (res_Profile res) req (statusMessage detect res) w))"
  by (simp add: statusMessage_def case_prod_beta Let_def)

lemma updateConstraintStatus_env:
  "w_env (snd (updateConstraintStatus L now c req m w)) = w_env w"
  by (simp add: updateConstraintStatus_def split: sum.split)

section \<open>Stated properties\<close>


text \<open>C30: after any sequence of denials the status of a profile lists the most recent ones
  first, at most ten of them, and the counter has advanced by their number at its 64-bit
  width; name and spec are unchanged.\<close>

theorem status_history:
  assumes "length (Violations (mip_Status p)) \<le> maxHistoryLength"
  shows "let q = foldl (\<lambda>p (now, req, msg). UpdateStatus L now req msg p) p ds in
     Violations (mip_Status q) = take maxHistoryLength
       (rev (map (\<lambda>(now, req, msg). newViolation L now req msg) ds) @ Violations (mip_Status p)) \<and>
     length (Violations (mip_Status q)) \<le> 10 \<and>
     DenyCount (mip_Status q) = DenyCount (mip_Status p) + of_nat (length ds) \<and>
     mip_Name q = mip_Name p \<and> mip_Spec q = mip_Spec p"
proof -
  have "let q = foldl (\<lambda>p (now, req, msg). UpdateStatus L now req msg p) p ds in
     Violations (mip_Status q) = take maxHistoryLength
       (rev (map (\<lambda>(now, req, msg). newViolation L now req msg) ds) @ Violations (mip_Status p)) \<and>
     DenyCount (mip_Status q) = DenyCount (mip_Status p) + of_nat (length ds) \<and>
     mip_Name q = mip_Name p \<and> mip_Spec q = mip_Spec p"
  proof (induction ds rule: rev_induct)
    case Nil
    with assms show ?case by simp
  next
    case (snoc d ds)
    then show ?case
      by (cases d) (simp add: Let_def UpdateStatus_status take_Cons_take del: take_append)
  qed
  then show ?thesis by (simp add: Let_def maxHistoryLength_def)
qed

section \<open>Samples\<close>

type_synonym mip_cluster = "string \<rightharpoonup> manifest_integrity_profile"

definition sample_match :: match_condition where
  "sample_match = \<lparr>mc_Kinds = [], mc_Namespaces = [''sample-*'', ''sample-ns''], mc_ExcludedNamespaces = [''kube-system''],
     mc_LabelSelector = None, mc_NamespaceSelector = None\<rparr>"

definition sample_mip :: manifest_integrity_profile where
  "sample_mip = \<lparr>mip_Name = ''p1'', mip_ResourceVersion = ''1'', mip_Spec = \<lparr>mip_Match = sample_match, mip_Parameters = sample_params\<rparr>,
     mip_Status = \<lparr>DenyCount = 0, Violations = []\<rparr>\<rparr>"

definition sample_ac_config :: admission_controller_config where
  "sample_ac_config = \<lparr>acc_InScopeNamespaceSelector = \<lparr>ns_Include = [], ns_Exclude = [''kube-system'']\<rparr>,
     acc_AllowKinds = [], acc_UpdateMIPStatusForDeniedRequest = True, acc_Mode = ''enforce'', acc_Options = []\<rparr>"

definition sample_ac_lib :: "(string, string list, mip_cluster) ac_lib" where
  "sample_ac_lib = lib.extend (sample_base\<lparr>ConfigMaps_Get := \<lambda>s ns n. Inr (map_of [(''config.yaml'', ''sample'')])\<rparr>)
     \<lparr>yaml_AdmissionControllerConfig = (\<lambda>y. Inr (Some sample_ac_config)),
      MIP_NewForConfig = (\<lambda>w. Inr ()),
      MIP_List = (\<lambda>s. Inr (case s ''p1'' of None \<Rightarrow> [] | Some p \<Rightarrow> [p])),
      MIP_Get = (\<lambda>s n. case s n of None \<Rightarrow> Inl ''not found''
                  | Some p \<Rightarrow> if mip_Name p = n then Inr p else Inl ''corrupt''),
      MIP_Update = (\<lambda>s p. Inr (s(mip_Name p \<mapsto> p))),
      Namespaces_GetLabels = (\<lambda>s n. Inr Map.empty),
      GetLabels = (\<lambda>u. Map.empty)\<rparr>"

definition sample_ac_world :: "mip_cluster world" where
  "sample_ac_world = \<lparr>w_env = Map.empty, w_logLevel = InfoLevel, w_logFormat = TextFormatter,
      w_files = Map.empty, w_ranges = 0, w_cluster = [''p1'' \<mapsto> sample_mip]\<rparr>"

lemmas sample_ac_defs = sample_ac_lib_def sample_base_def sample_ac_world_def lib.extend_def

theorem status_history_witness:
  "Violations (mip_Status (foldl (\<lambda>p (now, req, msg). UpdateStatus sample_ac_lib now req msg p) sample_mip
      [(1, sample_request ''x'', ''a''), (2, sample_request ''x'', ''b'')])) =
    [newViolation sample_ac_lib 2 (sample_request ''x'') ''b'', newViolation sample_ac_lib 1 (sample_request ''x'') ''a'']"
  using status_history [of sample_mip sample_ac_lib "[(1, sample_request ''x'', ''a''), (2, sample_request ''x'', ''b'')]"]
  by (simp add: sample_mip_def maxHistoryLength_def Let_def)

end
