(* ===== verification/AdmissionController.thy ===== *)
theory AdmissionController
  imports Profiles
begin

text \<open>
  \<^verbatim>\<open>webhook/admission-controller/pkg/controller/webhook.go\<close>: the admission webhook.
  \<open>ProcessRequest\<close> applies the namespace and kind filters, asks the request handler of the
  shield about every profile that covers the request, accumulates the answers, applies the
  detection mode and records the denials in the profiles. A configuration that cannot be
  reached is loaded as a nil pointer without an error, which the handler dereferences: a
  panic.
\<close>

section \<open>Data\<close>

record accumulated_result =
  ar_Allow :: bool
  ar_Message :: string

datatype admission_response = Allowed string | Denied string

section \<open>Operations\<close>

text \<open>The package initialisation: log format and level from the environment, then cosign's.\<close>

definition controller_init :: "('n, 'd, 's, 'x) ac_lib_scheme \<Rightarrow> 's world \<Rightarrow> 's world" where
  "controller_init L w =
     (let w1 = (if Getenv w ''LOG_FORMAT'' = ''json'' then w\<lparr>w_logFormat := JSONFormatter\<rparr> else w);
          logLevel = (case logLevelMap (envOr w1 ''LOG_LEVEL'' ''info'') of None \<Rightarrow> InfoLevel | Some l \<Rightarrow> l)
      in Cosign_Init L (w1\<lparr>w_logLevel := logLevel\<rparr>))"

definition loadAdmissionControllerConfig ::
  "('n, 'd, 's, 'x) ac_lib_scheme \<Rightarrow> 's world \<Rightarrow> admission_controller_config option result" where
  "loadAdmissionControllerConfig L w =
     (let namespace = envOr w ''POD_NAMESPACE'' ''k8s-manifest-sigstore'';
          configName = envOr w ''CONTROLLER_CONFIG_NAME'' ''admission-controller-config'';
          configKey = envOr w ''CONTROLLER_CONFIG_KEY'' ''config.yaml''
      in case GetKubeConfig L w of Inl _ \<Rightarrow> Inr None
         | Inr _ \<Rightarrow>
        (case NewForConfig L w of Inl _ \<Rightarrow> Inr None
         | Inr _ \<Rightarrow>
        (case ConfigMaps_Get L (w_cluster w) namespace configName of
           Inl e \<Rightarrow> Inl (ErrorsWrap L e (''failed to get a configmap `'' @ configName @ ''` in `'' @ namespace @ ''` namespace''))
         | Inr data \<Rightarrow>
        (case data configKey of
           None \<Rightarrow> Inl (''`'' @ configKey @ ''` is not found in configmap'')
         | Some cfgBytes \<Rightarrow>
        (case yaml_AdmissionControllerConfig L cfgBytes of
           Inl e \<Rightarrow> Inl (ErrorsWrap L e ''failed to unmarshal config.yaml into *config.AdmissionControllerConfig'')
         | Inr sc \<Rightarrow> Inr sc)))))"

definition resultMessage :: "rh_result \<Rightarrow> string" where
  "resultMessage result = ''['' @ res_Profile result @ '']'' @ res_Message result"

text \<open>The loop appends to one of the two message lists, in the order of the results.\<close>

fun splitMessages :: "rh_result list \<Rightarrow> string list \<Rightarrow> string list \<Rightarrow> string list \<times> string list" where
  "splitMessages [] denyMessages allowMessages = (denyMessages, allowMessages)"
| "splitMessages (result # results) denyMessages allowMessages =
     (if \<not> res_Allow result
      then splitMessages results (denyMessages @ [resultMessage result]) allowMessages
      else splitMessages results denyMessages (allowMessages @ [resultMessage result]))"

definition getAccumulatedResult :: "rh_result list \<Rightarrow> accumulated_result" where
  "getAccumulatedResult results =
     (let (denyMessages, allowMessages) = splitMessages results [] []
      in if length denyMessages \<noteq> 0
         then \<lparr>ar_Allow = False, ar_Message = Join denyMessages '';''\<rparr>
         else \<lparr>ar_Allow = True, ar_Message = Join allowMessages '';''\<rparr>)"

text \<open>The loop over the profiles. \<open>clock i\<close> is the time at which the \<open>i\<close>-th profile is
  handled.\<close>

fun processConstraints ::
  "('n, 'd, 's, 'x) ac_lib_scheme \<Rightarrow> (nat \<Rightarrow> int) \<Rightarrow> nat \<Rightarrow> request \<Rightarrow> manifest_integrity_profile list
     \<Rightarrow> 's world \<Rightarrow> rh_result list \<times> 's world" where
  "processConstraints L clock i req [] w = ([], w)"
| "processConstraints L clock i req (constraint # constraints) w =
     (if \<not> matchCheck L req (mip_Match (mip_Spec constraint)) w
      then let (results, w') = processConstraints L clock (Suc i) req constraints w
           in (\<lparr>res_Allow = True, res_Message = ''not protected'', res_Profile = mip_Name constraint\<rparr> # results, w')
      else let (r, w1) = RequestHandler L (clock i) req (GetParametersFromConstraint (mip_Spec constraint)) w;
               (results, w') = processConstraints L clock (Suc i) req constraints w1
           in (r\<lparr>res_Profile := mip_Name constraint\<rparr> # results, w'))"

text \<open>The end of \<open>ProcessRequest\<close>, from the accumulation on.\<close>

definition finishRequest ::
  "('n, 'd, 's, 'x) ac_lib_scheme \<Rightarrow> (nat \<Rightarrow> int) \<Rightarrow> admission_controller_config \<Rightarrow> request \<Rightarrow> rh_result list
     \<Rightarrow> 's world \<Rightarrow> admission_response \<times> 's world" where
  "finishRequest L clock config req results w =
     (let ar = getAccumulatedResult results;
          isDetectMode = CheckIfDetectOnly (acc_Mode config);
          ar = (if \<not> ar_Allow ar \<and> isDetectMode
                then \<lparr>ar_Allow = True, ar_Message = ''allowed by detection mode: '' @ ar_Message ar\<rparr> else ar);
          w' = (if acc_UpdateMIPStatusForDeniedRequest config
                then updateConstraints L clock isDetectMode req results w else w)
      in if ar_Allow ar then (Allowed (ar_Message ar), w') else (Denied (ar_Message ar), w'))"

definition ProcessRequest ::
  "('n, 'd, 's, 'x) ac_lib_scheme \<Rightarrow> (nat \<Rightarrow> int) \<Rightarrow> request \<Rightarrow> 's world \<Rightarrow> (admission_response \<times> 's world) outcome" where
  "ProcessRequest L clock req w =
     (case loadAdmissionControllerConfig L w of
        Inl err \<Rightarrow> Return (Allowed ''error but allow for development'', w)
      | Inr None \<Rightarrow> Panic ''invalid memory address or nil pointer dereference''
      | Inr (Some config) \<Rightarrow>
          if \<not> NamespaceSelector_Match L (acc_InScopeNamespaceSelector config) (req_Namespace req)
          then Return (Allowed ''this namespace is out of scope'', w)
          else if Allow_Match L (acc_AllowKinds config) (req_Kind req)
          then Return (Allowed ''this kind is out of scope'', w)
          else case LoadConstraints L w of
            Inl err \<Rightarrow> Return (Allowed ''error but allow for development'', w)
          | Inr constraints \<Rightarrow>
              (let (results, w') = processConstraints L clock 0 req constraints w
               in Return (finishRequest L (\<lambda>i. clock (length constraints + i)) config req results w')))"

section \<open>Properties\<close>

lemma splitMessages_eq:
  "splitMessages results ds as =
     (ds @ map resultMessage (filter (\<lambda>r. \<not> res_Allow r) results),
      as @ map resultMessage (filter res_Allow results))"
  by (induction results arbitrary: ds as) auto

lemma getAccumulatedResult_Allow: "ar_Allow (getAccumulatedResult results) \<longleftrightarrow> list_all res_Allow results"
  by (auto simp: getAccumulatedResult_def splitMessages_eq filter_empty_conv list_all_iff)

lemma getAccumulatedResult_Message:
  "ar_Message (getAccumulatedResult results) =
     Join (map resultMessage (if list_all res_Allow results then results
                              else filter (\<lambda>r. \<not> res_Allow r) results)) '';''"
proof (cases "list_all res_Allow results")
  case True
  then have "filter res_Allow results = results" and "filter (\<lambda>r. \<not> res_Allow r) results = []"
    by (auto simp: list_all_iff filter_id_conv filter_empty_conv)
  with True show ?thesis by (simp add: getAccumulatedResult_def splitMessages_eq)
next
  case False
  then have "filter (\<lambda>r. \<not> res_Allow r) results \<noteq> []" by (auto simp: list_all_iff filter_empty_conv)
  with False show ?thesis by (simp add: getAccumulatedResult_def splitMessages_eq)
qed

lemma LoadConstraints_ok: "\<exists>cs. LoadConstraints L w = Inr cs"
  by (auto simp: LoadConstraints_def split: sum.splits)

lemma finishRequest_Denied_iff:
  "(\<exists>m. fst (finishRequest L now config req results w) = Denied m) \<longleftrightarrow>
     acc_Mode config \<noteq> ''detect'' \<and> \<not> list_all res_Allow results"
  by (simp add: finishRequest_def Let_def CheckIfDetectOnly_def getAccumulatedResult_Allow)

text \<open>The profiles that cover the request, each with the state its handler runs in.\<close>

fun handled ::
  "('n, 'd, 's, 'x) ac_lib_scheme \<Rightarrow> (nat \<Rightarrow> int) \<Rightarrow> nat \<Rightarrow> request \<Rightarrow> manifest_integrity_profile list
     \<Rightarrow> 's world \<Rightarrow> (manifest_integrity_profile \<times> int \<times> 's world) list" where
  "handled L clock i req [] w = []"
| "handled L clock i req (c # cs) w =
     (if matchCheck L req (mip_Match (mip_Spec c)) w
      then (c, clock i, w) # handled L clock (Suc i) req cs
             (snd (RequestHandler L (clock i) req (mip_Parameters (mip_Spec c)) w))
      else handled L clock (Suc i) req cs w)"

lemma processConstraints_allow_iff:
  "list_all res_Allow (fst (processConstraints L clock i req cs w)) \<longleftrightarrow>
     list_all (\<lambda>(c, now, v). res_Allow (fst (RequestHandler L now req (mip_Parameters (mip_Spec c)) v)))
       (handled L clock i req cs w)"
  by (induction cs arbitrary: i w)
     (simp_all add: Let_def case_prod_beta GetParametersFromConstraint_def)

lemma processConstraints_profiles:
  "map res_Profile (fst (processConstraints L clock i req cs w)) = map mip_Name cs"
  by (induction cs arbitrary: i w) (simp_all add: Let_def case_prod_beta)

lemma handled_sound:
  "(c, now, v) \<in> set (handled L clock i req cs w) \<Longrightarrow> c \<in> set cs \<and> matchCheck L req (mip_Match (mip_Spec c)) v"
  by (induction cs arbitrary: i w) (auto split: if_splits)

lemma denies_some_handled:
  "\<not> list_all res_Allow (fst (processConstraints L clock i req cs w)) \<longleftrightarrow>
     (\<exists>c now v. (c, now, v) \<in> set (handled L clock i req cs w) \<and>
        constraint_denies L req (mip_Parameters (mip_Spec c)) v)"
  unfolding processConstraints_allow_iff RequestHandler_denies_iff by (force simp: list_all_iff)

lemma ProcessRequest_in_scope:
  assumes "loadAdmissionControllerConfig L w = Inr (Some config)"
    and "NamespaceSelector_Match L (acc_InScopeNamespaceSelector config) (req_Namespace req)"
    and "\<not> Allow_Match L (acc_AllowKinds config) (req_Kind req)"
    and "LoadConstraints L w = Inr cs"
  shows "ProcessRequest L clock req w =
     Return (finishRequest L (\<lambda>i. clock (length cs + i)) config req
       (fst (processConstraints L clock 0 req cs w)) (snd (processConstraints L clock 0 req cs w)))"
  using assms by (simp add: ProcessRequest_def case_prod_beta)

lemma ProcessRequest_Denied_iff:
  "(\<exists>m w'. ProcessRequest L clock req w = Return (Denied m, w')) \<longleftrightarrow>
     (\<exists>config cs. loadAdmissionControllerConfig L w = Inr (Some config) \<and>
        NamespaceSelector_Match L (acc_InScopeNamespaceSelector config) (req_Namespace req) \<and>
        \<not> Allow_Match L (acc_AllowKinds config) (req_Kind req) \<and> acc_Mode config \<noteq> ''detect'' \<and>
        LoadConstraints L w = Inr cs \<and>
        \<not> list_all res_Allow (fst (processConstraints L clock 0 req cs w)))"
proof (cases "\<exists>config. loadAdmissionControllerConfig L w = Inr (Some config) \<and>
        NamespaceSelector_Match L (acc_InScopeNamespaceSelector config) (req_Namespace req) \<and>
        \<not> Allow_Match L (acc_AllowKinds config) (req_Kind req)")
  case True
  then obtain config where c: "loadAdmissionControllerConfig L w = Inr (Some config)"
    "NamespaceSelector_Match L (acc_InScopeNamespaceSelector config) (req_Namespace req)"
    "\<not> Allow_Match L (acc_AllowKinds config) (req_Kind req)" by blast
  obtain cs where cs: "LoadConstraints L w = Inr cs" using LoadConstraints_ok by blast
  have "(\<exists>m w'. finishRequest L now config req rs v = (Denied m, w')) \<longleftrightarrow>
      acc_Mode config \<noteq> ''detect'' \<and> \<not> list_all res_Allow rs" for now rs v
    using finishRequest_Denied_iff [of L now config req rs v] by (metis fst_conv surj_pair)
  then show ?thesis unfolding ProcessRequest_in_scope [OF c cs] using c cs by simp
next
  case False
  then show ?thesis by (auto simp: ProcessRequest_def split: sum.splits option.splits)
qed

section \<open>Stated properties\<close>

text \<open>C4: the webhook denies a request exactly when its configuration is there, the namespace
  is in scope, the kind is not exempted, the mode is not detection, and some profile that
  covers the request denies it: the request handler's policy fails for that profile, with
  enforcement on, in the state in which the profile is handled.\<close>

theorem admission_denied_iff_some_profile_denies:
  "(\<exists>m w'. ProcessRequest L clock req w = Return (Denied m, w')) \<longleftrightarrow>
     (\<exists>config cs c now v. loadAdmissionControllerConfig L w = Inr (Some config) \<and>
        NamespaceSelector_Match L (acc_InScopeNamespaceSelector config) (req_Namespace req) \<and>
        \<not> Allow_Match L (acc_AllowKinds config) (req_Kind req) \<and> acc_Mode config \<noteq> ''detect'' \<and>
        LoadConstraints L w = Inr cs \<and> (c, now, v) \<in> set (handled L clock 0 req cs w) \<and>
        constraint_denies L req (mip_Parameters (mip_Spec c)) v)"
  unfolding ProcessRequest_Denied_iff denies_some_handled by blast

text \<open>whenever the webhook denies a request, one of the profiles read from the API server
  covers it (its match condition holds in the state in which it was handled) and has
  enforcement on, by its own action or by the default of the request handler
  configuration.\<close>

theorem admission_denial_needs_enforcing_profile:
  assumes "ProcessRequest L clock req w = Return (Denied m, w')"
  shows "\<exists>cs c v loaded. LoadConstraints L w = Inr cs \<and> c \<in> set cs \<and>
     matchCheck L req (mip_Match (mip_Spec c)) v \<and> LoadRequestHandlerConfig L v = Inr loaded \<and>
     (case po_Action (mip_Parameters (mip_Spec c)) of
        Some a \<Rightarrow> AdmissionControl_Enforce a
      | None \<Rightarrow> (case loaded of None \<Rightarrow> False
                 | Some rh \<Rightarrow> AdmissionControl_Enforce (rhc_DefaultConstraintAction rh)))"
proof -
  from assms obtain cs c now v where "LoadConstraints L w = Inr cs"
    and h: "(c, now, v) \<in> set (handled L clock 0 req cs w)"
    and d: "constraint_denies L req (mip_Parameters (mip_Spec c)) v"
    using ProcessRequest_Denied_iff [of L clock req w] unfolding denies_some_handled by metis
  with handled_sound [OF h] constraint_denies_enforced [OF d] show ?thesis by blast
qed

definition sample_ac_clock :: "nat \<Rightarrow> int" where
  "sample_ac_clock i = 10 + int i"

text \<open>In the sample cluster the request handler configuration enforces by default.\<close>

theorem admission_denial_needs_enforcing_profile_witness:
  "\<exists>cs c v loaded. LoadConstraints sample_ac_lib sample_ac_world = Inr cs \<and> c \<in> set cs \<and>
     matchCheck sample_ac_lib (sample_request ''unsigned'') (mip_Match (mip_Spec c)) v \<and>
     LoadRequestHandlerConfig sample_ac_lib v = Inr loaded \<and>
     (case po_Action (mip_Parameters (mip_Spec c)) of
        Some a \<Rightarrow> AdmissionControl_Enforce a
      | None \<Rightarrow> (case loaded of None \<Rightarrow> False
                 | Some rh \<Rightarrow> AdmissionControl_Enforce (rhc_DefaultConstraintAction rh)))"
proof -
  let ?r = "ProcessRequest sample_ac_lib sample_ac_clock (sample_request ''unsigned'') sample_ac_world"
  have "case ?r of Return (Denied m, _) \<Rightarrow> True | _ \<Rightarrow> False" by code_simp
  then obtain m w' where "?r = Return (Denied m, w')"
    by (auto split: outcome.splits admission_response.splits)
  then show ?thesis by (rule admission_denial_needs_enforcing_profile)
qed

text \<open>the accumulated verdict allows exactly if every profile allows; its message joins
  the messages of the denying profiles, or of all profiles if none denies, each with the
  profile's name.\<close>

theorem accumulated_result_spec:
  "ar_Allow (getAccumulatedResult results) = list_all res_Allow results \<and>
   ar_Message (getAccumulatedResult results) =
     Join (map (\<lambda>r. ''['' @ res_Profile r @ '']'' @ res_Message r)
       (if list_all res_Allow results then results else filter (\<lambda>r. \<not> res_Allow r) results)) '';''"
  by (simp add: getAccumulatedResult_Allow getAccumulatedResult_Message resultMessage_def [abs_def])

text \<open>the webhook panics exactly when its configuration comes back as a nil pointer
  without an error, and in particular whenever the cluster configuration of the process
  cannot be obtained; in every other case it answers.\<close>

theorem admission_panics_iff_nil_config:
  "((\<exists>m. ProcessRequest L clock req w = Panic m) \<longleftrightarrow> loadAdmissionControllerConfig L w = Inr None) \<and>
   (\<forall>e. GetKubeConfig L w = Inl e \<longrightarrow> (\<exists>m. ProcessRequest L clock req w = Panic m))"
proof -
  have "(\<exists>m. ProcessRequest L clock req w = Panic m) \<longleftrightarrow> loadAdmissionControllerConfig L w = Inr None"
    by (auto simp: ProcessRequest_def case_prod_beta split: sum.splits option.splits)
  moreover have "GetKubeConfig L w = Inl e \<Longrightarrow> loadAdmissionControllerConfig L w = Inr None" for e
    by (simp add: loadAdmissionControllerConfig_def Let_def)
  ultimately show ?thesis by blast
qed

theorem admission_panics_iff_nil_config_witness:
  "\<exists>m. ProcessRequest (sample_ac_lib\<lparr>GetKubeConfig := \<lambda>w. Inl ''no kubeconfig''\<rparr>) sample_ac_clock
     (sample_request ''x'') sample_ac_world = Panic m"
  using admission_panics_iff_nil_config [of "sample_ac_lib\<lparr>GetKubeConfig := \<lambda>w. Inl ''no kubeconfig''\<rparr>"
      sample_ac_clock "sample_request ''x''" sample_ac_world]
  by (metis lib.select_convs(21) lib.surjective lib.update_convs(21))

lemma updateConstraints_allowed: "list_all res_Allow results \<Longrightarrow> updateConstraints L clock detect req results w = w"
  by (induction results arbitrary: clock) simp_all

text \<open>C28: A request that the shield cannot decide on is allowed by the webhook, however many enforcing profiles
  cover it. If the object of a request in scope cannot be decoded, or if it can and the request
  handler configuration fails to load, the answer is \<open>Allowed\<close>, no profile is updated and no event
  is written. Its message has one part for each profile, in their order: the name of the profile and,
  if it covers the request, what failed and the text of the error, otherwise that the request is
  not protected.\<close>

theorem undecided_requests_are_allowed:
  assumes config: "loadAdmissionControllerConfig L w = Inr (Some config)"
    and scope: "NamespaceSelector_Match L (acc_InScopeNamespaceSelector config) (req_Namespace req)"
      "\<not> Allow_Match L (acc_AllowKinds config) (req_Kind req)"
    and cs: "LoadConstraints L w = Inr cs"
    and cause: "UnmarshalUnstructured L (req_Object req) = Inl e \<and> cause = ''Failed to Unmarshal a requested object: '' @ e \<or>
      UnmarshalUnstructured L (req_Object req) = Inr obj \<and> LoadRequestHandlerConfig L w = Inl e \<and>
        cause = ''Failed to load request handler config: '' @ e"
  shows "ProcessRequest L clock req w =
     Return (Allowed (Join (map (\<lambda>c. ''['' @ mip_Name c @ '']'' @
         (if matchCheck L req (mip_Match (mip_Spec c)) w
          then ''allowed because not enforced: IntegrityShield failed to decide the response. '' @ cause
          else ''not protected'')) cs) '';''), w)"
proof -
  let ?result = "\<lambda>c. \<lparr>res_Allow = True, res_Message = (if matchCheck L req (mip_Match (mip_Spec c)) w
      then ''allowed because not enforced: IntegrityShield failed to decide the response. '' @ cause else ''not protected''),
      res_Profile = mip_Name c\<rparr>"
  have "RequestHandler L now req po w = (\<lparr>res_Allow = True,
      res_Message = ''allowed because not enforced: IntegrityShield failed to decide the response. '' @ cause, res_Profile = []\<rparr>, w)" for now po
    using cause by (auto simp: RequestHandler_undecodable RequestHandler_no_config)
  then have results: "processConstraints L clock i req ds w = (map ?result ds, w)" for i ds
    by (induction ds arbitrary: i) (simp_all add: Let_def)
  define rs where "rs = map ?result cs"
  have allow: "list_all res_Allow rs" by (simp add: rs_def list_all_iff)
  have "map resultMessage rs = map (\<lambda>c. ''['' @ mip_Name c @ '']'' @
      (if matchCheck L req (mip_Match (mip_Spec c)) w
       then ''allowed because not enforced: IntegrityShield failed to decide the response. '' @ cause else ''not protected'')) cs"
    by (simp add: rs_def resultMessage_def)
  with allow show ?thesis
    unfolding ProcessRequest_in_scope [OF config scope cs] results rs_def [symmetric]
    by (simp add: finishRequest_def Let_def getAccumulatedResult_Allow getAccumulatedResult_Message updateConstraints_allowed)
qed

text \<open>The sample profile covers and enforces; the object is empty.\<close>

theorem undecided_requests_are_allowed_witness:
  "ProcessRequest sample_ac_lib sample_ac_clock (sample_request []) sample_ac_world =
     Return (Allowed (''[p1]allowed because not enforced: IntegrityShield failed to decide the response. '' @
       ''Failed to Unmarshal a requested object: unexpected end of JSON input''), sample_ac_world)"
proof -
  let ?req = "sample_request []"
  have config: "loadAdmissionControllerConfig sample_ac_lib sample_ac_world = Inr (Some sample_ac_config)"
    and scope: "NamespaceSelector_Match sample_ac_lib (acc_InScopeNamespaceSelector sample_ac_config) (req_Namespace ?req)"
      "\<not> Allow_Match sample_ac_lib (acc_AllowKinds sample_ac_config) (req_Kind ?req)"
    and cs: "LoadConstraints sample_ac_lib sample_ac_world = Inr [sample_mip]"
    and cover: "matchCheck sample_ac_lib ?req (mip_Match (mip_Spec sample_mip)) sample_ac_world"
    by code_simp+
  have "UnmarshalUnstructured sample_ac_lib (req_Object ?req) = Inl ''unexpected end of JSON input''" by code_simp
  then show ?thesis
    using undecided_requests_are_allowed [OF config scope cs, of "''unexpected end of JSON input''"
        "''Failed to Unmarshal a requested object: '' @ ''unexpected end of JSON input''" JNull sample_ac_clock] cover
    by (simp add: sample_mip_def)
qed

text \<open>when the profiles cannot be listed, every request is allowed (or the webhook
  panics), and nothing is written.\<close>

theorem admission_fails_open:
  assumes "MIP_List L (w_cluster w) = Inl e"
  shows "(\<exists>m. ProcessRequest L clock req w = Return (Allowed m, w)) \<or> (\<exists>m. ProcessRequest L clock req w = Panic m)"
proof -
  have cs: "LoadConstraints L w = Inr []"
    using assms by (simp add: LoadConstraints_def split: sum.split)
  have "\<exists>m. finishRequest L now config req [] w = (Allowed m, w)" for now config
    by (simp add: finishRequest_def getAccumulatedResult_def Let_def)
  with cs show ?thesis by (auto simp: ProcessRequest_def split: sum.splits option.splits)
qed

theorem admission_fails_open_witness:
  "let L = sample_ac_lib\<lparr>MIP_List := \<lambda>s. Inl ''forbidden''\<rparr> in
   (\<exists>m. ProcessRequest L sample_ac_clock (sample_request ''unsigned'') sample_ac_world = Return (Allowed m, sample_ac_world)) \<or>
   (\<exists>m. ProcessRequest L sample_ac_clock (sample_request ''unsigned'') sample_ac_world = Panic m)"
  unfolding Let_def by (rule admission_fails_open) simp

end
