(* ===== verification/Resources.thy ===== *)
theory Resources
  imports Samples
begin

text \<open>
  \<^verbatim>\<open>integrity-shield-operator/api/v1\<close> and \<^verbatim>\<open>integrity-shield-operator/resources\<close>: the custom
  resource of the operator and the objects it builds from it. A Go map that may be nil is an
  \<open>option\<close>, because \<open>reflect.DeepEqual\<close> tells a nil map from an empty one; values of other
  packages that the operator only copies are kept as decoded. The decoded content of the
  cluster service version file is an argument.
\<close>

section \<open>The custom resource\<close>

type_synonym gomap = "(string \<rightharpoonup> string) option"

record api_container =
  api_Name :: string
  api_SelectorLabels :: gomap
  api_SecurityContext :: "json option"
  api_ImagePullPolicy :: string
  api_Image :: string
  api_Tag :: string
  api_Port :: "32 word"
  api_Resources :: json

record controller_container =
  cc_Name :: string
  cc_SelectorLabels :: gomap
  cc_SecurityContext :: "json option"
  cc_ImagePullPolicy :: string
  cc_Image :: string
  cc_Tag :: string
  cc_Port :: "32 word"
  cc_Resources :: json
  cc_LogLevel :: string
  cc_LogFormat :: string

record security_config =
  sc_APIServiceAccountName :: string
  sc_ObserverServiceAccountName :: string
  sc_ObserverRole :: string
  sc_ObserverRoleBinding :: string
  sc_APIRole :: string
  sc_APIRoleBinding :: string
  sc_PodSecurityPolicyName :: string
  sc_PodSecurityContext :: "json option"

record observer_container =
  oc_Enabled :: bool
  oc_Name :: string
  oc_SelectorLabels :: gomap
  oc_ImagePullPolicy :: string
  oc_Image :: string
  oc_Tag :: string
  oc_SecurityContext :: "json option"
  oc_LogLevel :: string
  oc_Interval :: string
  oc_ExportDetailResult :: bool
  oc_Provenanece :: bool
  oc_ResultDetailConfigName :: string
  oc_ResultDetailConfigKey :: string
  oc_Resources :: json

text \<open>\<open>admv1.Rule\<close> without its scope.\<close>

record adm_rule =
  rule_APIGroups :: "string list"
  rule_APIVersions :: "string list"
  rule_Resources :: "string list"

record shield_spec =
  spec_MaxSurge :: "json option"
  spec_MaxUnavailable :: "json option"
  spec_ReplicaCount :: "32 word option"
  spec_MetaLabels :: gomap
  spec_NodeSelector :: gomap
  spec_Affinity :: "json option"
  spec_Tolerations :: "json list"
  spec_Security :: security_config
  spec_API :: api_container
  spec_RequestHandlerConfigKey :: string
  spec_RequestHandlerConfigName :: string
  spec_RequestHandlerConfig :: string
  spec_ApiServiceName :: string
  spec_ApiServicePort :: "32 word"
  spec_ControllerContainer :: controller_container
  spec_AdmissionControllerConfigKey :: string
  spec_AdmissionControllerConfigName :: string
  spec_AdmissionControllerConfig :: string
  spec_Observer :: observer_container
  spec_APITlsSecretName :: string
  spec_WebhookServerTlsSecretName :: string
  spec_WebhookServiceName :: string
  spec_WebhookConfigName :: string
  spec_WebhookNamespacedResource :: adm_rule
  spec_WebhookClusterResource :: adm_rule
  spec_UseGatekeeper :: bool
  spec_Rego :: string

text \<open>The metadata of an object: what the operator reads or writes, the rest as decoded. The
  controller reference names the owner.\<close>

record object_meta =
  meta_Name :: string
  meta_Namespace :: string
  meta_Labels :: gomap
  meta_Controller :: "string option"
  meta_Finalizers :: "string list"
  meta_Deleting :: bool
  meta_rest :: json

definition new_meta :: "string \<Rightarrow> string \<Rightarrow> gomap \<Rightarrow> object_meta" where
  "new_meta name namespace labels =
     \<lparr>meta_Name = name, meta_Namespace = namespace, meta_Labels = labels, meta_Controller = None,
      meta_Finalizers = [], meta_Deleting = False, meta_rest = JNull\<rparr>"

record integrity_shield =
  is_Meta :: object_meta
  is_APIVersion :: string
  is_Kind :: string
  is_Spec :: shield_spec

abbreviation cr_Name :: "integrity_shield \<Rightarrow> string" where
  "cr_Name cr \<equiv> meta_Name (is_Meta cr)"

abbreviation cr_Namespace :: "integrity_shield \<Rightarrow> string" where
  "cr_Namespace cr \<equiv> meta_Namespace (is_Meta cr)"

section \<open>The built objects\<close>

datatype probe_handler =
    HTTPGet (probe_Path: string) (probe_Port: int) (probe_Scheme: string)
  | Exec (probe_Command: "string list")

record probe =
  pr_InitialDelaySeconds :: int
  pr_PeriodSeconds :: int
  pr_Handler :: probe_handler

record container_port =
  cp_Name :: string
  cp_ContainerPort :: "32 word"
  cp_Protocol :: string

record volume_mount =
  vm_MountPath :: string
  vm_Name :: string
  vm_ReadOnly :: bool

record env_var =
  env_Name :: string
  env_Value :: string

record k8s_container =
  ct_Command :: "string list"
  ct_Args :: "string list"
  ct_Name :: string
  ct_SecurityContext :: "json option"
  ct_Image :: string
  ct_ImagePullPolicy :: string
  ct_ReadinessProbe :: "probe option"
  ct_LivenessProbe :: "probe option"
  ct_Ports :: "container_port list"
  ct_VolumeMounts :: "volume_mount list"
  ct_Env :: "env_var list"
  ct_Resources :: json

datatype volume_source = SecretSource string int | EmptyDirSource

record volume =
  vol_Name :: string
  vol_Source :: volume_source

record pod_spec =
  ps_ServiceAccountName :: string
  ps_SecurityContext :: "json option"
  ps_Containers :: "k8s_container list"
  ps_NodeSelector :: gomap
  ps_Affinity :: "json option"
  ps_Tolerations :: "json list"
  ps_Volumes :: "volume list"

record pod_template =
  pt_Labels :: gomap
  pt_Annotations :: gomap
  pt_Spec :: pod_spec

record deployment_spec =
  ds_MaxSurge :: "json option"
  ds_MaxUnavailable :: "json option"
  ds_Replicas :: "32 word option"
  ds_Selector :: gomap
  ds_Template :: pod_template

record deployment =
  dep_Meta :: object_meta
  dep_Spec :: deployment_spec
  dep_AvailableReplicas :: int

record config_map =
  cmap_Meta :: object_meta
  cmap_Data :: "string \<rightharpoonup> string"

record secret =
  sec_Meta :: object_meta
  sec_Data :: "string \<rightharpoonup> bytes"
  sec_Type :: string

record service_account =
  sa_Meta :: object_meta

record policy_rule =
  pol_APIGroups :: "string list"
  pol_Resources :: "string list"
  pol_Verbs :: "string list"

record role =
  role_Meta :: object_meta
  role_Rules :: "policy_rule list"

record subject =
  sub_Kind :: string
  sub_Name :: string
  sub_Namespace :: string

record role_binding =
  rb_Meta :: object_meta
  rb_Subjects :: "subject list"
  rb_RoleRefKind :: string
  rb_RoleRefName :: string

record service =
  svc_Meta :: object_meta
  svc_Port :: "32 word"
  svc_TargetPort :: string
  svc_Selector :: gomap

record webhook_rule =
  wr_Operations :: "string list"
  wr_Rule :: adm_rule
  wr_Scope :: string

record validating_webhook =
  vw_Name :: string
  vw_ServiceName :: string
  vw_ServiceNamespace :: string
  vw_ServicePath :: string
  vw_CABundle :: bytes
  vw_Rules :: "webhook_rule list"
  vw_SideEffects :: string
  vw_TimeoutSeconds :: int
  vw_AdmissionReviewVersions :: "string list"

record webhook_configuration =
  wc_Meta :: object_meta
  wc_Webhooks :: "validating_webhook list"

record crd_names =
  cn_Kind :: string
  cn_Plural :: string
  cn_ListKind :: string
  cn_Singular :: string
  cn_ShortNames :: "string list"
  cn_Categories :: "string list"

text \<open>The spec of a custom resource definition. The schema of a version is kept as its JSON form;
  \<open>cdv_Other\<close> are the fields that the builders never set (deprecation, the scale subresource, printer
  columns), so that a definition found in the cluster may differ in any field.\<close>

record crd_version =
  cdv_Name :: string
  cdv_Served :: bool
  cdv_Storage :: bool
  cdv_Schema :: "json option"
  cdv_StatusSubresource :: bool
  cdv_Other :: json

record crd_spec =
  cds_Group :: string
  cds_Names :: crd_names
  cds_Scope :: string
  cds_Versions :: "crd_version list"
  cds_Conversion :: "json option"
  cds_PreserveUnknownFields :: bool

record crd =
  crd_Meta :: object_meta
  crd_Spec :: crd_spec

record constraint_template =
  tpl_Meta :: object_meta
  tpl_Kind :: string
  tpl_PreserveUnknownFields :: bool
  tpl_Target :: string
  tpl_Rego :: string

section \<open>deploy.go: images and volumes\<close>

definition GetVersion :: "json \<Rightarrow> string" where
  "GetVersion csv =
     (let spec = (case csv of JObj kvs \<Rightarrow> (case map_of kvs ''spec'' of Some (JObj sp) \<Rightarrow> sp | _ \<Rightarrow> []) | _ \<Rightarrow> [])
      in case map_of spec ''version'' of Some (JStr v) \<Rightarrow> v | _ \<Rightarrow> [])"

definition SetImageVersion :: "string \<Rightarrow> string \<Rightarrow> string" where
  "SetImageVersion image0 version =
     (let tmpImage = last (Split image0 ''/'');
          registry = Replace1 image0 tmpImage [];
          img = (if Contains_sub tmpImage '':'' then hd (Split tmpImage '':'') else tmpImage)
      in registry @ img @ '':'' @ version)"

definition imageFor :: "json \<Rightarrow> string \<Rightarrow> string \<Rightarrow> string" where
  "imageFor csv image0 tag =
     (if tag \<noteq> [] then SetImageVersion image0 tag else SetImageVersion image0 (GetVersion csv))"

definition SecretVolume :: "string \<Rightarrow> string \<Rightarrow> volume" where
  "SecretVolume name secretName = \<lparr>vol_Name = name, vol_Source = SecretSource secretName 420\<rparr>"

definition EmptyDirVolume :: "string \<Rightarrow> volume" where
  "EmptyDirVolume name = \<lparr>vol_Name = name, vol_Source = EmptyDirSource\<rparr>"

definition tlsMounts :: "string \<Rightarrow> volume_mount list" where
  "tlsMounts name =
     [\<lparr>vm_MountPath = ''/run/secrets/tls'', vm_Name = name, vm_ReadOnly = True\<rparr>,
      \<lparr>vm_MountPath = ''/tmp'', vm_Name = ''tmp'', vm_ReadOnly = False\<rparr>]"

section \<open>deploy.go: deployments\<close>

definition httpProbe :: "string \<Rightarrow> probe" where
  "httpProbe path = \<lparr>pr_InitialDelaySeconds = 10, pr_PeriodSeconds = 10, pr_Handler = HTTPGet path 8080 ''HTTPS''\<rparr>"

definition execProbe :: "string list \<Rightarrow> probe" where
  "execProbe cmd = \<lparr>pr_InitialDelaySeconds = 0, pr_PeriodSeconds = 0, pr_Handler = Exec cmd\<rparr>"

text \<open>The part of the three deployments that is built in the same way.\<close>

definition deploymentWith ::
  "integrity_shield \<Rightarrow> string \<Rightarrow> gomap \<Rightarrow> string \<Rightarrow> k8s_container \<Rightarrow> volume list \<Rightarrow> deployment" where
  "deploymentWith cr name selector serviceAccount ct volumes =
     \<lparr>dep_Meta = new_meta name (cr_Namespace cr) (spec_MetaLabels (is_Spec cr)),
      dep_Spec =
        \<lparr>ds_MaxSurge = spec_MaxSurge (is_Spec cr), ds_MaxUnavailable = spec_MaxUnavailable (is_Spec cr),
         ds_Replicas = spec_ReplicaCount (is_Spec cr), ds_Selector = selector,
         ds_Template =
           \<lparr>pt_Labels = selector, pt_Annotations = None,
            pt_Spec =
              \<lparr>ps_ServiceAccountName = serviceAccount,
               ps_SecurityContext = sc_PodSecurityContext (spec_Security (is_Spec cr)),
               ps_Containers = [ct], ps_NodeSelector = spec_NodeSelector (is_Spec cr),
               ps_Affinity = spec_Affinity (is_Spec cr), ps_Tolerations = spec_Tolerations (is_Spec cr),
               ps_Volumes = volumes\<rparr>\<rparr>\<rparr>,
      dep_AvailableReplicas = 0\<rparr>"

definition BuildDeploymentForIShieldAPI :: "json \<Rightarrow> integrity_shield \<Rightarrow> deployment" where
  "BuildDeploymentForIShieldAPI csv cr =
     (let spec = is_Spec cr; api = spec_API spec;
          apiContainer =
            \<lparr>ct_Command = [], ct_Args = [], ct_Name = api_Name api, ct_SecurityContext = api_SecurityContext api,
             ct_Image = imageFor csv (api_Image api) (api_Tag api), ct_ImagePullPolicy = api_ImagePullPolicy api,
             ct_ReadinessProbe = Some (httpProbe ''/health/readiness''),
             ct_LivenessProbe = Some (httpProbe ''/health/liveness''),
             ct_Ports = [\<lparr>cp_Name = ''ishield-api'', cp_ContainerPort = api_Port api, cp_Protocol = ''TCP''\<rparr>],
             ct_VolumeMounts = tlsMounts ''ishield-api-certs'',
             ct_Env =
               [\<lparr>env_Name = ''POD_NAMESPACE'', env_Value = cr_Namespace cr\<rparr>,
                \<lparr>env_Name = ''REQUEST_HANDLER_CONFIG_KEY'', env_Value = spec_RequestHandlerConfigKey spec\<rparr>,
                \<lparr>env_Name = ''REQUEST_HANDLER_CONFIG_NAME'', env_Value = spec_RequestHandlerConfigName spec\<rparr>],
             ct_Resources = api_Resources api\<rparr>
      in deploymentWith cr (api_Name api) (api_SelectorLabels api)
           (sc_APIServiceAccountName (spec_Security spec)) apiContainer
           [SecretVolume ''ishield-api-certs'' (spec_APITlsSecretName spec), EmptyDirVolume ''tmp''])"

definition BuildDeploymentForAdmissionController :: "json \<Rightarrow> integrity_shield \<Rightarrow> deployment" where
  "BuildDeploymentForAdmissionController csv cr =
     (let spec = is_Spec cr; cc = spec_ControllerContainer spec;
          serverContainer =
            \<lparr>ct_Command = [''/myapp/k8s-manifest-sigstore''], ct_Args = [], ct_Name = cc_Name cc,
             ct_SecurityContext = cc_SecurityContext cc,
             ct_Image = imageFor csv (cc_Image cc) (cc_Tag cc), ct_ImagePullPolicy = cc_ImagePullPolicy cc,
             ct_ReadinessProbe = Some (execProbe [''ls'']), ct_LivenessProbe = Some (execProbe [''ls'']),
             ct_Ports = [\<lparr>cp_Name = ''validator-port'', cp_ContainerPort = cc_Port cc, cp_Protocol = ''TCP''\<rparr>],
             ct_VolumeMounts = tlsMounts ''webhook-tls'',
             ct_Env =
               [\<lparr>env_Name = ''POD_NAMESPACE'', env_Value = cr_Namespace cr\<rparr>,
                \<lparr>env_Name = ''LOG_LEVEL'', env_Value = cc_LogLevel cc\<rparr>,
                \<lparr>env_Name = ''LOG_FORMAT'', env_Value = cc_LogFormat cc\<rparr>,
                \<lparr>env_Name = ''CONTROLLER_CONFIG_KEY'', env_Value = spec_AdmissionControllerConfigKey spec\<rparr>,
                \<lparr>env_Name = ''CONTROLLER_CONFIG_NAME'', env_Value = spec_AdmissionControllerConfigName spec\<rparr>,
                \<lparr>env_Name = ''REQUEST_HANDLER_CONFIG_KEY'', env_Value = spec_RequestHandlerConfigKey spec\<rparr>,
                \<lparr>env_Name = ''REQUEST_HANDLER_CONFIG_NAME'', env_Value = spec_RequestHandlerConfigName spec\<rparr>],
             ct_Resources = cc_Resources cc\<rparr>
      in deploymentWith cr (cc_Name cc) (cc_SelectorLabels cc)
           (sc_APIServiceAccountName (spec_Security spec)) serverContainer
           [SecretVolume ''webhook-tls'' (spec_WebhookServerTlsSecretName spec), EmptyDirVolume ''tmp''])"

definition BuildDeploymentForObserver :: "json \<Rightarrow> integrity_shield \<Rightarrow> deployment" where
  "BuildDeploymentForObserver csv cr =
     (let spec = is_Spec cr; oc = spec_Observer spec;
          serverContainer =
            \<lparr>ct_Command = [], ct_Args = [], ct_Name = oc_Name oc, ct_SecurityContext = oc_SecurityContext oc,
             ct_Image = imageFor csv (oc_Image oc) (oc_Tag oc), ct_ImagePullPolicy = oc_ImagePullPolicy oc,
             ct_ReadinessProbe = None, ct_LivenessProbe = None, ct_Ports = [],
             ct_VolumeMounts = [\<lparr>vm_MountPath = ''/tmp'', vm_Name = ''tmp'', vm_ReadOnly = False\<rparr>],
             ct_Env =
               [\<lparr>env_Name = ''POD_NAMESPACE'', env_Value = cr_Namespace cr\<rparr>,
                \<lparr>env_Name = ''LOG_LEVEL'', env_Value = oc_LogLevel oc\<rparr>,
                \<lparr>env_Name = ''REQUEST_HANDLER_CONFIG_KEY'', env_Value = spec_RequestHandlerConfigKey spec\<rparr>,
                \<lparr>env_Name = ''REQUEST_HANDLER_CONFIG_NAME'', env_Value = spec_RequestHandlerConfigName spec\<rparr>,
                \<lparr>env_Name = ''ENABLE_DETAIL_RESULT'', env_Value = FormatBool (oc_ExportDetailResult oc)\<rparr>,
                \<lparr>env_Name = ''ENABLE_PROVENANCE_RESULT'', env_Value = FormatBool (oc_Provenanece oc)\<rparr>,
                \<lparr>env_Name = ''OBSERVER_RESULT_CONFIG_NAME'', env_Value = oc_ResultDetailConfigName oc\<rparr>,
                \<lparr>env_Name = ''OBSERVER_RESULT_CONFIG_KEY'', env_Value = oc_ResultDetailConfigKey oc\<rparr>,
                \<lparr>env_Name = ''INTERVAL'', env_Value = oc_Interval oc\<rparr>],
             ct_Resources = oc_Resources oc\<rparr>
      in deploymentWith cr (oc_Name oc) (oc_SelectorLabels oc)
           (sc_ObserverServiceAccountName (spec_Security spec)) serverContainer [EmptyDirVolume ''tmp''])"

section \<open>deploy.go: comparison\<close>

definition EqualLabels :: "gomap \<Rightarrow> gomap \<Rightarrow> bool" where
  "EqualLabels found expected \<longleftrightarrow> found = expected"

definition EqualAnnotations :: "gomap \<Rightarrow> gomap \<Rightarrow> bool" where
  "EqualAnnotations found expected \<longleftrightarrow> found = expected"

definition EqualContainers :: "k8s_container \<Rightarrow> k8s_container \<Rightarrow> bool" where
  "EqualContainers expected found =
     (if ct_Name found \<noteq> ct_Name expected then False
      else if ct_Image found \<noteq> ct_Image expected then False
      else if ct_ImagePullPolicy found \<noteq> ct_ImagePullPolicy expected then False
      else if ct_VolumeMounts found \<noteq> ct_VolumeMounts expected then False
      else if ct_SecurityContext found \<noteq> ct_SecurityContext expected then False
      else if ct_Ports found \<noteq> ct_Ports expected then False
      else if ct_Args found \<noteq> ct_Args expected then False
      else if ct_Env found \<noteq> ct_Env expected then False
      else True)"

text \<open>The first containers are read without a check that there is one.\<close>

definition EqualPods :: "pod_template \<Rightarrow> pod_template \<Rightarrow> bool outcome" where
  "EqualPods expected found =
     (if \<not> EqualLabels (pt_Labels found) (pt_Labels expected) then Return False
      else if \<not> EqualAnnotations (pt_Annotations found) (pt_Annotations expected) then Return False
      else if ps_ServiceAccountName (pt_Spec found) \<noteq> ps_ServiceAccountName (pt_Spec expected) then Return False
      else if length (ps_Containers (pt_Spec found)) \<noteq> length (ps_Containers (pt_Spec expected)) then Return False
      else case (ps_Containers (pt_Spec expected), ps_Containers (pt_Spec found)) of
             (e # _, f # _) \<Rightarrow> Return (EqualContainers e f)
           | _ \<Rightarrow> Panic ''index out of range [0] with length 0'')"

definition EqualDeployments :: "deployment \<Rightarrow> deployment \<Rightarrow> bool outcome" where
  "EqualDeployments expected found =
     (if \<not> EqualLabels (meta_Labels (dep_Meta found)) (meta_Labels (dep_Meta expected)) then Return False
      else outcome_bind (EqualPods (ds_Template (dep_Spec expected)) (ds_Template (dep_Spec found)))
             (\<lambda>eq. Return (if \<not> eq then False else True)))"

section \<open>role.go\<close>

definition shieldLabels :: "integrity_shield \<Rightarrow> gomap" where
  "shieldLabels cr = Some
     [''app'' \<mapsto> cr_Name cr, ''app.kubernetes.io/name'' \<mapsto> cr_Name cr,
      ''app.kubernetes.io/managed-by'' \<mapsto> ''operator'', ''role'' \<mapsto> ''security'']"

abbreviation cr_Security :: "integrity_shield \<Rightarrow> security_config" where
  "cr_Security cr \<equiv> spec_Security (is_Spec cr)"

definition BuildServiceAccountForIShield :: "integrity_shield \<Rightarrow> service_account" where
  "BuildServiceAccountForIShield cr =
     \<lparr>sa_Meta = new_meta (sc_APIServiceAccountName (cr_Security cr)) (cr_Namespace cr) (shieldLabels cr)\<rparr>"

definition BuildServiceAccountForObserver :: "integrity_shield \<Rightarrow> service_account" where
  "BuildServiceAccountForObserver cr =
     \<lparr>sa_Meta = new_meta (sc_ObserverServiceAccountName (cr_Security cr)) (cr_Namespace cr) (shieldLabels cr)\<rparr>"

definition BuildClusterRoleForIShield :: "integrity_shield \<Rightarrow> role" where
  "BuildClusterRoleForIShield cr =
     \<lparr>role_Meta = new_meta (sc_APIRole (cr_Security cr)) (cr_Namespace cr) (shieldLabels cr),
      role_Rules =
        [\<lparr>pol_APIGroups = [''apis.integrityshield.io''], pol_Resources = [''manifestintegrityprofiles''],
          pol_Verbs = [''get'', ''list'', ''watch'', ''patch'', ''update'']\<rparr>,
         \<lparr>pol_APIGroups = [''''], pol_Resources = [''events''], pol_Verbs = [''create'', ''update'', ''get'']\<rparr>,
         \<lparr>pol_APIGroups = [''*''], pol_Resources = [''*''], pol_Verbs = [''get'', ''list'']\<rparr>]\<rparr>"

definition BuildClusterRoleBindingForIShield :: "integrity_shield \<Rightarrow> role_binding" where
  "BuildClusterRoleBindingForIShield cr =
     \<lparr>rb_Meta = new_meta (sc_APIRoleBinding (cr_Security cr)) (cr_Namespace cr) (shieldLabels cr),
      rb_Subjects = [\<lparr>sub_Kind = ''ServiceAccount'', sub_Name = sc_APIServiceAccountName (cr_Security cr),
                      sub_Namespace = cr_Namespace cr\<rparr>],
      rb_RoleRefKind = ''ClusterRole'', rb_RoleRefName = sc_APIRole (cr_Security cr)\<rparr>"

definition BuildRoleForIShield :: "integrity_shield \<Rightarrow> role" where
  "BuildRoleForIShield cr =
     \<lparr>role_Meta = new_meta (sc_APIRole (cr_Security cr)) (cr_Namespace cr) (shieldLabels cr),
      role_Rules = [\<lparr>pol_APIGroups = [''*''], pol_Resources = [''*''],
                     pol_Verbs = [''get'', ''list'', ''create'', ''update'']\<rparr>]\<rparr>"

definition BuildClusterRoleForObserver :: "integrity_shield \<Rightarrow> role" where
  "BuildClusterRoleForObserver cr =
     \<lparr>role_Meta = new_meta (sc_ObserverRole (cr_Security cr)) (cr_Namespace cr) (shieldLabels cr),
      role_Rules = [\<lparr>pol_APIGroups = [''*''], pol_Resources = [''*''], pol_Verbs = [''get'', ''list'']\<rparr>]\<rparr>"

definition BuildRoleForObserver :: "integrity_shield \<Rightarrow> role" where
  "BuildRoleForObserver cr =
     \<lparr>role_Meta = new_meta (sc_ObserverRole (cr_Security cr)) (cr_Namespace cr) (shieldLabels cr),
      role_Rules = [\<lparr>pol_APIGroups = [''apis.integrityshield.io'', ''''],
                     pol_Resources = [''manifestintegritystates'', ''configmaps''],
                     pol_Verbs = [''get'', ''list'', ''create'', ''watch'', ''patch'', ''update'']\<rparr>]\<rparr>"

definition BuildRoleBindingForIShield :: "integrity_shield \<Rightarrow> role_binding" where
  "BuildRoleBindingForIShield cr =
     \<lparr>rb_Meta = new_meta (sc_APIRoleBinding (cr_Security cr)) (cr_Namespace cr) (shieldLabels cr),
      rb_Subjects = [\<lparr>sub_Kind = ''ServiceAccount'', sub_Name = sc_APIServiceAccountName (cr_Security cr),
                      sub_Namespace = cr_Namespace cr\<rparr>,
                     \<lparr>sub_Kind = ''ServiceAccount'', sub_Name = sc_ObserverServiceAccountName (cr_Security cr),
                      sub_Namespace = cr_Namespace cr\<rparr>],
      rb_RoleRefKind = ''Role'', rb_RoleRefName = sc_APIRole (cr_Security cr)\<rparr>"

definition BuildRoleBindingForObserver :: "integrity_shield \<Rightarrow> role_binding" where
  "BuildRoleBindingForObserver cr =
     \<lparr>rb_Meta = new_meta (sc_ObserverRoleBinding (cr_Security cr)) (cr_Namespace cr) (shieldLabels cr),
      rb_Subjects = [\<lparr>sub_Kind = ''ServiceAccount'', sub_Name = sc_ObserverServiceAccountName (cr_Security cr),
                      sub_Namespace = cr_Namespace cr\<rparr>],
      rb_RoleRefKind = ''Role'', rb_RoleRefName = sc_ObserverRole (cr_Security cr)\<rparr>"

definition BuildClusterRoleBindingForObserver :: "integrity_shield \<Rightarrow> role_binding" where
  "BuildClusterRoleBindingForObserver cr =
     \<lparr>rb_Meta = new_meta (sc_ObserverRoleBinding (cr_Security cr)) (cr_Namespace cr) (shieldLabels cr),
      rb_Subjects = [\<lparr>sub_Kind = ''ServiceAccount'', sub_Name = sc_ObserverServiceAccountName (cr_Security cr),
                      sub_Namespace = cr_Namespace cr\<rparr>],
      rb_RoleRefKind = ''ClusterRole'', rb_RoleRefName = sc_ObserverRole (cr_Security cr)\<rparr>"

section \<open>webhook.go\<close>

definition BuildServiceForIShield :: "integrity_shield \<Rightarrow> service" where
  "BuildServiceForIShield cr =
     \<lparr>svc_Meta = new_meta (spec_WebhookServiceName (is_Spec cr)) (cr_Namespace cr) None,
      svc_Port = 443, svc_TargetPort = ''validator-port'',
      svc_Selector = cc_SelectorLabels (spec_ControllerContainer (is_Spec cr))\<rparr>"

definition BuildAPIServiceForIShield :: "integrity_shield \<Rightarrow> service" where
  "BuildAPIServiceForIShield cr =
     \<lparr>svc_Meta = new_meta (spec_ApiServiceName (is_Spec cr)) (cr_Namespace cr) None,
      svc_Port = spec_ApiServicePort (is_Spec cr), svc_TargetPort = ''ishield-api'',
      svc_Selector = api_SelectorLabels (spec_API (is_Spec cr))\<rparr>"

definition BuildValidatingWebhookConfigurationForIShield :: "integrity_shield \<Rightarrow> webhook_configuration" where
  "BuildValidatingWebhookConfigurationForIShield cr =
     \<lparr>wc_Meta = new_meta (spec_WebhookConfigName (is_Spec cr)) (cr_Namespace cr) None,
      wc_Webhooks =
        [\<lparr>vw_Name = ''ac-server.'' @ cr_Namespace cr @ ''.svc'',
          vw_ServiceName = spec_WebhookServiceName (is_Spec cr), vw_ServiceNamespace = cr_Namespace cr,
          vw_ServicePath = ''/validate-resource'', vw_CABundle = [],
          vw_Rules =
            [\<lparr>wr_Operations = [''CREATE'', ''UPDATE''], wr_Rule = spec_WebhookNamespacedResource (is_Spec cr),
              wr_Scope = ''Namespaced''\<rparr>,
             \<lparr>wr_Operations = [''CREATE'', ''UPDATE''], wr_Rule = spec_WebhookClusterResource (is_Spec cr),
              wr_Scope = ''Cluster''\<rparr>],
          vw_SideEffects = ''NoneOnDryRun'', vw_TimeoutSeconds = 10, vw_AdmissionReviewVersions = [''v1beta1'']\<rparr>]\<rparr>"

section \<open>secret.go, crd.go, gatekeeper.go, config.go\<close>

definition emptyTlsData :: "string \<rightharpoonup> bytes" where
  "emptyTlsData = [''tls.crt'' \<mapsto> [], ''tls.key'' \<mapsto> [], ''ca.crt'' \<mapsto> []]"

definition BuildTlsSecretForIShield :: "integrity_shield \<Rightarrow> secret" where
  "BuildTlsSecretForIShield cr =
     \<lparr>sec_Meta = new_meta (spec_APITlsSecretName (is_Spec cr)) (cr_Namespace cr) None,
      sec_Data = emptyTlsData, sec_Type = ''kubernetes.io/tls''\<rparr>"

definition BuildAPITlsSecretForIShield :: "integrity_shield \<Rightarrow> secret" where
  "BuildAPITlsSecretForIShield cr =
     \<lparr>sec_Meta = new_meta (spec_WebhookServerTlsSecretName (is_Spec cr)) (cr_Namespace cr) None,
      sec_Data = emptyTlsData, sec_Type = ''kubernetes.io/tls''\<rparr>"

definition buildCRD :: "string \<Rightarrow> string \<Rightarrow> crd_names \<Rightarrow> bool \<Rightarrow> crd" where
  "buildCRD name namespace crdNames namespaced =
     (let scope = (if \<not> namespaced then ''Cluster'' else ''Namespaced'')
      in \<lparr>crd_Meta = new_meta name namespace None,
          crd_Spec = \<lparr>cds_Group = ''apis.integrityshield.io'', cds_Names = crdNames, cds_Scope = scope,
                      cds_Versions =
                        [\<lparr>cdv_Name = ''v1'', cdv_Served = True, cdv_Storage = True,
                          cdv_Schema = Some (JObj [(''openAPIV3Schema'', JObj [(''x-kubernetes-preserve-unknown-fields'', JBool True)])]),
                          cdv_StatusSubresource = False, cdv_Other = JNull\<rparr>],
                      cds_Conversion = None, cds_PreserveUnknownFields = False\<rparr>\<rparr>)"

definition BuildManifestIntegrityProfileCRD :: "integrity_shield \<Rightarrow> crd" where
  "BuildManifestIntegrityProfileCRD cr =
     buildCRD ''manifestintegrityprofiles.apis.integrityshield.io'' (cr_Namespace cr)
       \<lparr>cn_Kind = ''ManifestIntegrityProfile'', cn_Plural = ''manifestintegrityprofiles'',
        cn_ListKind = ''ManifestIntegrityProfileList'', cn_Singular = ''manifestintegrityprofile'',
        cn_ShortNames = [''mip'', ''mips''], cn_Categories = []\<rparr> False"

definition BuildObserverResultCRD :: "integrity_shield \<Rightarrow> crd" where
  "BuildObserverResultCRD cr =
     buildCRD ''manifestintegritystates.apis.integrityshield.io'' (cr_Namespace cr)
       \<lparr>cn_Kind = ''ManifestIntegrityState'', cn_Plural = ''manifestintegritystates'',
        cn_ListKind = ''ManifestIntegrityStateList'', cn_Singular = ''manifestintegritystate'',
        cn_ShortNames = [''mis''], cn_Categories = []\<rparr> True"

definition BuildConstraintTemplateForIShield :: "integrity_shield \<Rightarrow> constraint_template" where
  "BuildConstraintTemplateForIShield cr =
     \<lparr>tpl_Meta = new_meta ''manifestintegrityconstraint'' (cr_Namespace cr) None,
      tpl_Kind = ''ManifestIntegrityConstraint'', tpl_PreserveUnknownFields = True,
      tpl_Target = ''admission.k8s.gatekeeper.sh'',
      tpl_Rego = Replace1 (spec_Rego (is_Spec cr)) ''REPLACE_WITH_SERVER_NAMESPSCE'' (cr_Namespace cr)\<rparr>"

definition BuildReqConfigForIShield :: "integrity_shield \<Rightarrow> config_map" where
  "BuildReqConfigForIShield cr =
     \<lparr>cmap_Meta = new_meta (spec_RequestHandlerConfigName (is_Spec cr)) (cr_Namespace cr) None,
      cmap_Data = [spec_RequestHandlerConfigKey (is_Spec cr) \<mapsto> spec_RequestHandlerConfig (is_Spec cr)]\<rparr>"

definition BuildACConfigForIShield :: "integrity_shield \<Rightarrow> config_map" where
  "BuildACConfigForIShield cr =
     \<lparr>cmap_Meta = new_meta (spec_AdmissionControllerConfigName (is_Spec cr)) (cr_Namespace cr) None,
      cmap_Data = [spec_AdmissionControllerConfigKey (is_Spec cr) \<mapsto> spec_AdmissionControllerConfig (is_Spec cr)]\<rparr>"

section \<open>Properties\<close>

lemma Split_single_None: "c \<notin> set s \<Longrightarrow> Split s [c] = [s]"
  using indexOf_singleton_None [of s c] by (subst Split.simps) simp

lemma indexOf_single_Some: "indexOf s [c] = Some i \<Longrightarrow> take i s = takeWhile (\<lambda>x. x \<noteq> c) s"
  by (induction s arbitrary: i) (auto simp: HasPrefix_def split: if_splits)

lemma hd_Split_single: "hd (Split s [c]) = takeWhile (\<lambda>x. x \<noteq> c) s"
proof (cases "indexOf s [c]")
  case None
  then have "c \<notin> set s" by (simp add: indexOf_singleton_None)
  then have "takeWhile (\<lambda>x. x \<noteq> c) s = s" by (auto simp: takeWhile_eq_all_conv)
  with Split_single_None [OF \<open>c \<notin> set s\<close>] show ?thesis by (metis list.sel(1))
next
  case (Some i)
  then show ?thesis by (subst Split.simps) (simp add: indexOf_single_Some)
qed

lemma indexOf_single_append: "c \<notin> set p \<Longrightarrow> indexOf (p @ c # t) [c] = Some (length p)"
  by (induction p) (auto simp: HasPrefix_def)

lemma last_Split_single: "c \<notin> set t \<Longrightarrow> last (Split (r @ c # t) [c]) = t"
proof (induction "length r" arbitrary: r rule: less_induct)
  case less
  show ?case
  proof (cases "c \<in> set r")
    case False
    then have "Split (r @ c # t) [c] = [r, t]"
      using less.prems by (subst Split.simps) (simp add: indexOf_single_append Split_single_None)
    then show ?thesis by simp
  next
    case True
    then obtain p q where r: "r = p @ c # q" and p: "c \<notin> set p" by (auto dest: split_list_first)
    have "Split (r @ c # t) [c] = p # Split (q @ c # t) [c]"
      using indexOf_single_append [OF p, of "q @ c # t"] r by (subst Split.simps) simp
    with less.hyps [of q] less.prems r show ?thesis by simp
  qed
qed

lemma last_Split_image:
  assumes "CHR ''/'' \<notin> set t" and "r = [] \<or> last r = CHR ''/''"
  shows "last (Split (r @ t) ''/'') = t"
proof (cases r rule: rev_cases)
  case Nil
  with assms(1) show ?thesis by (simp add: Split_single_None)
next
  case (snoc q c)
  with assms last_Split_single [of "CHR ''/''" t q] show ?thesis by simp
qed

lemma SetImageVersion_registry:
  assumes "CHR ''/'' \<notin> set t" and "r = [] \<or> last r = CHR ''/''" and "indexOf (r @ t) t = Some (length r)"
  shows "SetImageVersion (r @ t) v = r @ takeWhile (\<lambda>c. c \<noteq> CHR '':'') t @ '':'' @ v"
proof -
  have "Replace1 (r @ t) t [] = r" using assms(3) by (simp add: Replace1_def)
  moreover have "(if Contains_sub t '':'' then hd (Split t '':'') else t) = takeWhile (\<lambda>c. c \<noteq> CHR '':'') t"
  proof (cases "CHR '':'' \<in> set t")
    case True
    then show ?thesis by (simp add: Contains_sub_def indexOf_singleton_None hd_Split_single)
  next
    case False
    then have "takeWhile (\<lambda>c. c \<noteq> CHR '':'') t = t" by (auto simp: takeWhile_eq_all_conv)
    moreover from False have "\<not> Contains_sub t '':''" by (simp add: Contains_sub_def indexOf_singleton_None)
    ultimately show ?thesis by (simp only: if_False)
  qed
  ultimately show ?thesis
    using last_Split_image [OF assms(1,2)] by (simp add: SetImageVersion_def Let_def)
qed

lemma EqualDeployments_self:
  "ps_Containers (pt_Spec (ds_Template (dep_Spec d))) \<noteq> [] \<Longrightarrow>
   meta_Labels (dep_Meta d') = meta_Labels (dep_Meta d) \<Longrightarrow> dep_Spec d' = dep_Spec d \<Longrightarrow>
   EqualDeployments d d' = Return True"
  by (cases "ps_Containers (pt_Spec (ds_Template (dep_Spec d)))")
     (simp_all add: EqualDeployments_def EqualPods_def EqualContainers_def EqualLabels_def EqualAnnotations_def)

lemma built_containers [simp]:
  "ps_Containers (pt_Spec (ds_Template (dep_Spec (BuildDeploymentForIShieldAPI csv cr)))) \<noteq> []"
  "ps_Containers (pt_Spec (ds_Template (dep_Spec (BuildDeploymentForAdmissionController csv cr)))) \<noteq> []"
  "ps_Containers (pt_Spec (ds_Template (dep_Spec (BuildDeploymentForObserver csv cr)))) \<noteq> []"
  by (simp_all add: BuildDeploymentForIShieldAPI_def BuildDeploymentForAdmissionController_def
      BuildDeploymentForObserver_def deploymentWith_def Let_def)

text \<open>The environment that the container of a deployment starts with.\<close>

definition containerEnv :: "deployment \<Rightarrow> string \<rightharpoonup> string" where
  "containerEnv d =
     map_of (map (\<lambda>e. (env_Name e, env_Value e)) (ct_Env (hd (ps_Containers (pt_Spec (ds_Template (dep_Spec d)))))))"

lemma deployed_env:
  "d \<in> {BuildDeploymentForIShieldAPI csv cr, BuildDeploymentForAdmissionController csv cr,
         BuildDeploymentForObserver csv cr} \<Longrightarrow>
   containerEnv d ''POD_NAMESPACE'' = Some (cr_Namespace cr) \<and>
   containerEnv d ''REQUEST_HANDLER_CONFIG_KEY'' = Some (spec_RequestHandlerConfigKey (is_Spec cr)) \<and>
   containerEnv d ''REQUEST_HANDLER_CONFIG_NAME'' = Some (spec_RequestHandlerConfigName (is_Spec cr))"
  by (auto simp: containerEnv_def BuildDeploymentForIShieldAPI_def
      BuildDeploymentForAdmissionController_def BuildDeploymentForObserver_def deploymentWith_def Let_def)

lemma admission_env:
  "containerEnv (BuildDeploymentForAdmissionController csv cr) ''CONTROLLER_CONFIG_KEY'' =
     Some (spec_AdmissionControllerConfigKey (is_Spec cr))"
  "containerEnv (BuildDeploymentForAdmissionController csv cr) ''CONTROLLER_CONFIG_NAME'' =
     Some (spec_AdmissionControllerConfigName (is_Spec cr))"
  by (simp_all add: containerEnv_def BuildDeploymentForAdmissionController_def deploymentWith_def Let_def)

lemma observer_env:
  "containerEnv (BuildDeploymentForObserver csv cr) ''ENABLE_DETAIL_RESULT'' =
     Some (FormatBool (oc_ExportDetailResult (spec_Observer (is_Spec cr))))"
  "containerEnv (BuildDeploymentForObserver csv cr) ''ENABLE_PROVENANCE_RESULT'' =
     Some (FormatBool (oc_Provenanece (spec_Observer (is_Spec cr))))"
  "containerEnv (BuildDeploymentForObserver csv cr) ''INTERVAL'' = Some (oc_Interval (spec_Observer (is_Spec cr)))"
  by (simp_all add: containerEnv_def BuildDeploymentForObserver_def deploymentWith_def Let_def)

section \<open>Stated properties\<close>

text \<open>the version is put behind the name of an image, an existing tag is replaced and the
  registry path is kept, if the last path component does not occur earlier in the image
  name.\<close>

theorem set_image_version_spec:
  assumes "CHR ''/'' \<notin> set t" and "r = [] \<or> last r = CHR ''/''" and "indexOf (r @ t) t = Some (length r)"
  shows "SetImageVersion (r @ t) v = r @ takeWhile (\<lambda>c. c \<noteq> CHR '':'') t @ '':'' @ v"
  using assms by (rule SetImageVersion_registry)

theorem set_image_version_spec_witness:
  "SetImageVersion ''quay.io/team/shield:0.1'' ''0.2'' = ''quay.io/team/shield:0.2''"
  using set_image_version_spec [of "''shield:0.1''" "''quay.io/team/''" "''0.2''"] by (simp add: HasPrefix_def)

text \<open>an image whose last path component is also its first one loses its registry: the
  first occurrence is the one removed.\<close>

theorem set_image_version_repeated_name:
  assumes "CHR ''/'' \<notin> set t" and "CHR '':'' \<notin> set t" and "t \<noteq> []"
  shows "SetImageVersion (t @ ''/'' @ t) v = ''/'' @ t @ t @ '':'' @ v"
proof -
  have "indexOf (t @ ''/'' @ t) t = Some 0"
    using assms(3) by (cases t) (auto simp: HasPrefix_def)
  then have "Replace1 (t @ ''/'' @ t) t [] = ''/'' @ t" by (simp add: Replace1_def)
  moreover have "last (Split (t @ ''/'' @ t) ''/'') = t"
    using last_Split_single [OF assms(1), of t] by simp
  moreover have "\<not> Contains_sub t '':''"
    using assms(2) by (simp add: Contains_sub_def indexOf_singleton_None)
  ultimately show ?thesis by (simp add: SetImageVersion_def Let_def)
qed

theorem set_image_version_repeated_name_witness:
  "SetImageVersion ''shield/shield'' ''0.2'' = ''/shieldshield:0.2''"
  using set_image_version_repeated_name [of "''shield''" "''0.2''"] by simp

section \<open>Samples\<close>

definition sample_shield :: integrity_shield where
  "sample_shield =
     \<lparr>is_Meta = new_meta ''integrity-shield-server'' ''shield-system'' None,
      is_APIVersion = ''apis.integrityshield.io/v1'', is_Kind = ''IntegrityShield'',
      is_Spec =
        \<lparr>spec_MaxSurge = None, spec_MaxUnavailable = None, spec_ReplicaCount = Some 1, spec_MetaLabels = None,
         spec_NodeSelector = None, spec_Affinity = None, spec_Tolerations = [],
         spec_Security = \<lparr>sc_APIServiceAccountName = ''api-sa'', sc_ObserverServiceAccountName = ''obs-sa'',
           sc_ObserverRole = ''obs-role'', sc_ObserverRoleBinding = ''obs-rb'', sc_APIRole = ''api-role'',
           sc_APIRoleBinding = ''api-rb'', sc_PodSecurityPolicyName = [], sc_PodSecurityContext = None\<rparr>,
         spec_API = \<lparr>api_Name = ''api'', api_SelectorLabels = Some [''app'' \<mapsto> ''api''], api_SecurityContext = None,
           api_ImagePullPolicy = ''Always'', api_Image = ''quay.io/is/api'', api_Tag = ''1'', api_Port = 8080,
           api_Resources = JNull\<rparr>,
         spec_RequestHandlerConfigKey = ''config.yaml'', spec_RequestHandlerConfigName = ''rh-config'',
         spec_RequestHandlerConfig = ''sample'', spec_ApiServiceName = ''api-svc'', spec_ApiServicePort = 8123,
         spec_ControllerContainer = \<lparr>cc_Name = ''ac'', cc_SelectorLabels = Some [''app'' \<mapsto> ''ac''], cc_SecurityContext = None,
           cc_ImagePullPolicy = ''Always'', cc_Image = ''quay.io/is/ac'', cc_Tag = ''1'', cc_Port = 9443,
           cc_Resources = JNull, cc_LogLevel = ''info'', cc_LogFormat = ''json''\<rparr>,
         spec_AdmissionControllerConfigKey = ''config.yaml'', spec_AdmissionControllerConfigName = ''ac-config'',
         spec_AdmissionControllerConfig = ''ac'',
         spec_Observer = \<lparr>oc_Enabled = False, oc_Name = ''observer'', oc_SelectorLabels = Some [''app'' \<mapsto> ''observer''],
           oc_ImagePullPolicy = ''Always'', oc_Image = ''quay.io/is/observer'', oc_Tag = ''1'',
           oc_SecurityContext = None, oc_LogLevel = ''info'', oc_Interval = ''5'', oc_ExportDetailResult = True,
           oc_Provenanece = False, oc_ResultDetailConfigName = ''detail'', oc_ResultDetailConfigKey = ''config.yaml'',
           oc_Resources = JNull\<rparr>,
         spec_APITlsSecretName = ''api-tls'', spec_WebhookServerTlsSecretName = ''ac-tls'',
         spec_WebhookServiceName = ''ac-svc'', spec_WebhookConfigName = ''ac-webhook'',
         spec_WebhookNamespacedResource = \<lparr>rule_APIGroups = [''*''], rule_APIVersions = [''*''], rule_Resources = [''*'']\<rparr>,
         spec_WebhookClusterResource = \<lparr>rule_APIGroups = [''*''], rule_APIVersions = [''*''], rule_Resources = [''*'']\<rparr>,
         spec_UseGatekeeper = False, spec_Rego = []\<rparr>\<rparr>"

end
