(* ===== verification/Cert.thy ===== *)
theory Cert
  imports Prelude
begin

text \<open>
  \<^verbatim>\<open>integrity-shield-operator/cert/cert.go\<close>: the self-signed certificate authority and the
  server certificate of a service. Key generation, signing and encoding are functions of
  the Go crypto packages; the \<open>i\<close>-th key of a call comes from \<open>rsa_GenerateKey i\<close>.
\<close>

record x509_certificate =
  x_SerialNumber :: int
  x_CommonName :: string
  x_IsCA :: bool
  x_ExtKeyUsage :: "string list"
  x_KeyUsage :: "string list"
  x_BasicConstraintsValid :: bool
  x_NotBefore :: int
  x_NotAfter :: int
  x_DNSNames :: "string list"

text \<open>\<open>CreateCertificate template parent pub priv\<close>.\<close>

record 'k crypto =
  rsa_GenerateKey :: "nat \<Rightarrow> 'k result"
  rsa_PublicKey :: "'k \<Rightarrow> bytes"
  CreateCertificate :: "x509_certificate \<Rightarrow> x509_certificate \<Rightarrow> bytes \<Rightarrow> 'k \<Rightarrow> bytes result"
  MarshalPKCS1PrivateKey :: "'k \<Rightarrow> bytes"
  pem_Encode :: "string \<Rightarrow> bytes \<Rightarrow> bytes result"
  AddTwoYears :: "int \<Rightarrow> int"

definition caTemplate :: "('k, 'x) crypto_scheme \<Rightarrow> int \<Rightarrow> string \<Rightarrow> x509_certificate" where
  "caTemplate K now svcName =
     \<lparr>x_SerialNumber = 2020, x_CommonName = svcName @ ''_ca'', x_IsCA = True, x_ExtKeyUsage = [''ClientAuth'', ''ServerAuth''],
      x_KeyUsage = [''DigitalSignature'', ''CertSign''], x_BasicConstraintsValid = True,
      x_NotBefore = now, x_NotAfter = AddTwoYears K now, x_DNSNames = []\<rparr>"

definition serverTemplate :: "('k, 'x) crypto_scheme \<Rightarrow> int \<Rightarrow> string \<Rightarrow> string \<Rightarrow> x509_certificate" where
  "serverTemplate K now svcName NS =
     (let cn = svcName @ ''.'' @ NS @ ''.svc''
      in \<lparr>x_SerialNumber = 2020, x_CommonName = cn, x_IsCA = False, x_ExtKeyUsage = [''ClientAuth'', ''ServerAuth''],
          x_KeyUsage = [''DigitalSignature''], x_BasicConstraintsValid = False,
          x_NotBefore = now, x_NotAfter = AddTwoYears K now, x_DNSNames = [cn]\<rparr>)"

text \<open>The result is \<open>(ca.crt, tls.key, tls.crt)\<close>.\<close>

definition GenerateCert ::
  "('k, 'x) crypto_scheme \<Rightarrow> int \<Rightarrow> string \<Rightarrow> string \<Rightarrow> (bytes \<times> bytes \<times> bytes) result" where
  "GenerateCert K now svcName NS =
     (case rsa_GenerateKey K 0 of Inl e \<Rightarrow> Inl e
      | Inr caKey \<Rightarrow>
     (let ca = caTemplate K now svcName in
      case CreateCertificate K ca ca (rsa_PublicKey K caKey) caKey of Inl e \<Rightarrow> Inl e
      | Inr caBytes \<Rightarrow>
     (case pem_Encode K ''CERTIFICATE'' caBytes of Inl e \<Rightarrow> Inl e
      | Inr caPEM \<Rightarrow>
     (case pem_Encode K ''RSA PRIVATE KEY'' (MarshalPKCS1PrivateKey K caKey) of Inl e \<Rightarrow> Inl e
      | Inr _ \<Rightarrow>
     (case rsa_GenerateKey K 1 of Inl e \<Rightarrow> Inl e
      | Inr tlsKey \<Rightarrow>
     (case pem_Encode K ''RSA PRIVATE KEY'' (MarshalPKCS1PrivateKey K tlsKey) of Inl e \<Rightarrow> Inl e
      | Inr tlsPrivKeyPEM \<Rightarrow>
     (case CreateCertificate K (serverTemplate K now svcName NS) ca (rsa_PublicKey K tlsKey) caKey of Inl e \<Rightarrow> Inl e
      | Inr certBytes \<Rightarrow>
     (case pem_Encode K ''CERTIFICATE'' certBytes of Inl e \<Rightarrow> Inl e
      | Inr certPEM \<Rightarrow> Inr (caPEM, tlsPrivKeyPEM, certPEM)))))))))"

text \<open>On success the three files are the encodings of the self-signed authority, of the key of
  the server certificate, and of a certificate for the service's DNS name that the
  authority's key signed.\<close>

lemma GenerateCert_ok:
  assumes "GenerateCert K now svcName NS = Inr (caPEM, keyPEM, certPEM)"
  shows "\<exists>caKey tlsKey caBytes certBytes.
     rsa_GenerateKey K 0 = Inr caKey \<and> rsa_GenerateKey K 1 = Inr tlsKey \<and>
     CreateCertificate K (caTemplate K now svcName) (caTemplate K now svcName) (rsa_PublicKey K caKey) caKey = Inr caBytes \<and>
     CreateCertificate K (serverTemplate K now svcName NS) (caTemplate K now svcName) (rsa_PublicKey K tlsKey) caKey = Inr certBytes \<and>
     pem_Encode K ''CERTIFICATE'' caBytes = Inr caPEM \<and>
     pem_Encode K ''RSA PRIVATE KEY'' (MarshalPKCS1PrivateKey K tlsKey) = Inr keyPEM \<and>
     pem_Encode K ''CERTIFICATE'' certBytes = Inr certPEM"
  using assms by (auto simp: GenerateCert_def Let_def split: sum.splits)

end
