(* ===== verification/Reconciler.thy ===== *)
theory Reconciler
  imports Resources Cert
begin

text \<open>
  \<^verbatim>\<open>integrity-shield-operator/controllers\<close>: one pass of the reconcile loop. Every
  \<open>createOrUpdate\<close> function compares one expected object with the cluster and creates or
  updates it; a pass ends at the first function that returns an error or asks for a requeue.
  The controller-runtime client is a parameter: \<open>Get\<close>, \<open>Create\<close>, \<open>Update\<close> and \<open>Delete\<close> over a
  cluster state, with the two errors the code tells apart.
\<close>

section \<open>Objects and the client\<close>

datatype kind =
    CRDKind | ConfigMapKind | ServiceAccountKind | ClusterRoleKind | ClusterRoleBindingKind | RoleKind
  | RoleBindingKind | SecretKind | DeploymentKind | ServiceKind | WebhookKind | TemplateKind | EventKind | ShieldKind

datatype kobject =
    KCRD crd
  | KConfigMap config_map
  | KServiceAccount service_account
  | KClusterRole role
  | KClusterRoleBinding role_binding
  | KRole role
  | KRoleBinding role_binding
  | KSecret secret
  | KDeployment deployment
  | KService service
  | KWebhook webhook_configuration
  | KTemplate constraint_template
  | KEvent event
  | KShield integrity_shield

datatype api_error = NotFound | AlreadyExists | OtherError string

record ctrl_result =
  Requeue :: bool
  RequeueAfter :: nat

type_synonym 's rec = "(ctrl_result \<times> api_error option) \<times> 's"

text \<open>\<open>Client_Get s k ns n\<close> decodes into the type of the kind; an object of another kind is a
  decoding error of the caller below.\<close>

record ('k, 's) op_client = "'k crypto" +
  SetControllerReference :: "integrity_shield \<Rightarrow> kobject \<Rightarrow> kobject result"
  Client_Get :: "'s \<Rightarrow> kind \<Rightarrow> string \<Rightarrow> string \<Rightarrow> api_error + kobject"
  Client_Create :: "'s \<Rightarrow> kobject \<Rightarrow> api_error + 's"
  Client_Update :: "'s \<Rightarrow> kobject \<Rightarrow> api_error + 's"
  Client_Delete :: "'s \<Rightarrow> kobject \<Rightarrow> api_error + 's"

definition noRequeue :: ctrl_result where
  "noRequeue = \<lparr>Requeue = False, RequeueAfter = 0\<rparr>"

definition requeueNow :: ctrl_result where
  "requeueNow = \<lparr>Requeue = True, RequeueAfter = 0\<rparr>"

definition requeueSoon :: ctrl_result where
  "requeueSoon = \<lparr>Requeue = True, RequeueAfter = 1\<rparr>"

definition decodeError :: api_error where
  "decodeError = OtherError ''object of another kind''"

section \<open>integrityshield.go: the shared shape\<close>

text \<open>Creating an expected object: an object that exists already is left to the next pass.\<close>

definition createNew :: "('k, 's, 'x) op_client_scheme \<Rightarrow> kobject \<Rightarrow> 's \<Rightarrow> 's rec" where
  "createNew C expected s =
     (case Client_Create C s expected of
        Inl e \<Rightarrow> if e = AlreadyExists then ((requeueNow, None), s) else ((noRequeue, Some e), s)
      | Inr s' \<Rightarrow> ((requeueSoon, None), s'))"

text \<open>The common shape of the \<open>createOrUpdate\<close> functions: set the owner, look the object up,
  create it if it is not there, and otherwise go on with the found one.\<close>

definition createOrUpdate ::
  "('k, 's, 'x) op_client_scheme \<Rightarrow> integrity_shield \<Rightarrow> kind \<Rightarrow> string \<Rightarrow> string \<Rightarrow> kobject
     \<Rightarrow> (kobject \<Rightarrow> kobject \<Rightarrow> 's \<Rightarrow> 's rec) \<Rightarrow> 's \<Rightarrow> 's rec" where
  "createOrUpdate C inst k ns name expected0 onFound s =
     (case SetControllerReference C inst expected0 of
        Inl e \<Rightarrow> ((noRequeue, Some (OtherError e)), s)
      | Inr expected \<Rightarrow>
     (case Client_Get C s k ns name of
        Inl e \<Rightarrow> if e = NotFound then createNew C expected s else ((noRequeue, Some e), s)
      | Inr found \<Rightarrow> onFound expected found s))"

definition keepFound :: "kobject \<Rightarrow> kobject \<Rightarrow> 's \<Rightarrow> 's rec" where
  "keepFound expected found s = ((noRequeue, None), s)"

definition deleteObject :: "('k, 's, 'x) op_client_scheme \<Rightarrow> kind \<Rightarrow> string \<Rightarrow> 's \<Rightarrow> 's rec" where
  "deleteObject C k name s =
     (case Client_Get C s k [] name of
        Inr found \<Rightarrow>
          (case Client_Delete C s found of
             Inl e \<Rightarrow> ((noRequeue, Some e), s)
           | Inr s' \<Rightarrow> ((requeueSoon, None), s'))
      | Inl e \<Rightarrow> if e = NotFound then ((requeueSoon, None), s) else ((noRequeue, Some e), s))"

section \<open>Custom resource definitions\<close>

definition createOrUpdateCRD ::
  "('k, 's, 'x) op_client_scheme \<Rightarrow> integrity_shield \<Rightarrow> crd \<Rightarrow> 's \<Rightarrow> 's rec" where
  "createOrUpdateCRD C inst expected =
     createOrUpdate C inst CRDKind [] (meta_Name (crd_Meta expected)) (KCRD expected)
       (\<lambda>e f s. case (e, f) of
          (KCRD expected, KCRD found) \<Rightarrow>
            if crd_Spec expected \<noteq> crd_Spec found
            then (case Client_Update C s (KCRD (expected\<lparr>crd_Meta := crd_Meta found\<rparr>)) of
                    Inl e \<Rightarrow> ((noRequeue, Some e), s)
                  | Inr s' \<Rightarrow> ((noRequeue, None), s'))
            else ((noRequeue, None), s)
        | _ \<Rightarrow> ((noRequeue, Some decodeError), s))"

definition deleteCRD :: "('k, 's, 'x) op_client_scheme \<Rightarrow> crd \<Rightarrow> 's \<Rightarrow> 's rec" where
  "deleteCRD C expected = deleteObject C CRDKind (meta_Name (crd_Meta expected))"

definition createOrUpdateManifestIntegrityProfileCRD where
  "createOrUpdateManifestIntegrityProfileCRD C inst = createOrUpdateCRD C inst (BuildManifestIntegrityProfileCRD inst)"

definition deleteManifestIntegrityProfileCRD where
  "deleteManifestIntegrityProfileCRD C inst = deleteCRD C (BuildManifestIntegrityProfileCRD inst)"

definition createOrUpdateObserverResultCRD where
  "createOrUpdateObserverResultCRD C inst = createOrUpdateCRD C inst (BuildObserverResultCRD inst)"

definition deleteObserverResultCRD where
  "deleteObserverResultCRD C inst = deleteCRD C (BuildObserverResultCRD inst)"

section \<open>Config maps\<close>

definition createOrUpdateConfigMap ::
  "('k, 's, 'x) op_client_scheme \<Rightarrow> integrity_shield \<Rightarrow> config_map \<Rightarrow> 's \<Rightarrow> 's rec" where
  "createOrUpdateConfigMap C inst expected =
     createOrUpdate C inst ConfigMapKind (meta_Namespace (cmap_Meta expected)) (meta_Name (cmap_Meta expected))
       (KConfigMap expected) keepFound"

definition createOrUpdateRequestHandlerConfig where
  "createOrUpdateRequestHandlerConfig C inst = createOrUpdateConfigMap C inst (BuildReqConfigForIShield inst)"

definition createOrUpdateACConfig where
  "createOrUpdateACConfig C inst = createOrUpdateConfigMap C inst (BuildACConfigForIShield inst)"

section \<open>Service accounts and roles\<close>

definition createOrUpdateServiceAccount ::
  "('k, 's, 'x) op_client_scheme \<Rightarrow> integrity_shield \<Rightarrow> service_account \<Rightarrow> 's \<Rightarrow> 's rec" where
  "createOrUpdateServiceAccount C inst expected =
     createOrUpdate C inst ServiceAccountKind (cr_Namespace inst) (meta_Name (sa_Meta expected))
       (KServiceAccount expected) keepFound"

definition createOrUpdateClusterRole ::
  "('k, 's, 'x) op_client_scheme \<Rightarrow> integrity_shield \<Rightarrow> role \<Rightarrow> 's \<Rightarrow> 's rec" where
  "createOrUpdateClusterRole C inst expected =
     createOrUpdate C inst ClusterRoleKind [] (meta_Name (role_Meta expected)) (KClusterRole expected) keepFound"

definition deleteClusterRole :: "('k, 's, 'x) op_client_scheme \<Rightarrow> role \<Rightarrow> 's \<Rightarrow> 's rec" where
  "deleteClusterRole C expected = deleteObject C ClusterRoleKind (meta_Name (role_Meta expected))"

definition createOrUpdateClusterRoleBinding ::
  "('k, 's, 'x) op_client_scheme \<Rightarrow> integrity_shield \<Rightarrow> role_binding \<Rightarrow> 's \<Rightarrow> 's rec" where
  "createOrUpdateClusterRoleBinding C inst expected =
     createOrUpdate C inst ClusterRoleBindingKind [] (meta_Name (rb_Meta expected)) (KClusterRoleBinding expected) keepFound"

definition deleteClusterRoleBinding :: "('k, 's, 'x) op_client_scheme \<Rightarrow> role_binding \<Rightarrow> 's \<Rightarrow> 's rec" where
  "deleteClusterRoleBinding C expected = deleteObject C ClusterRoleBindingKind (meta_Name (rb_Meta expected))"

definition createOrUpdateRole ::
  "('k, 's, 'x) op_client_scheme \<Rightarrow> integrity_shield \<Rightarrow> role \<Rightarrow> 's \<Rightarrow> 's rec" where
  "createOrUpdateRole C inst expected =
     createOrUpdate C inst RoleKind (cr_Namespace inst) (meta_Name (role_Meta expected)) (KRole expected) keepFound"

definition createOrUpdateRoleBinding ::
  "('k, 's, 'x) op_client_scheme \<Rightarrow> integrity_shield \<Rightarrow> role_binding \<Rightarrow> 's \<Rightarrow> 's rec" where
  "createOrUpdateRoleBinding C inst expected =
     createOrUpdate C inst RoleBindingKind (cr_Namespace inst) (meta_Name (rb_Meta expected)) (KRoleBinding expected) keepFound"

definition createOrUpdateIShieldApiServiceAccount where
  "createOrUpdateIShieldApiServiceAccount C inst = createOrUpdateServiceAccount C inst (BuildServiceAccountForIShield inst)"

definition createOrUpdateObserverServiceAccount where
  "createOrUpdateObserverServiceAccount C inst = createOrUpdateServiceAccount C inst (BuildServiceAccountForObserver inst)"

definition createOrUpdateClusterRoleBindingForIShield where
  "createOrUpdateClusterRoleBindingForIShield C inst = createOrUpdateClusterRoleBinding C inst (BuildClusterRoleBindingForIShield inst)"

definition deleteClusterRoleBindingForIShield where
  "deleteClusterRoleBindingForIShield C inst = deleteClusterRoleBinding C (BuildClusterRoleBindingForIShield inst)"

definition createOrUpdateClusterRoleBindingForObserver where
  "createOrUpdateClusterRoleBindingForObserver C inst = createOrUpdateClusterRoleBinding C inst (BuildClusterRoleBindingForObserver inst)"

definition deleteClusterRoleBindingForObserver where
  "deleteClusterRoleBindingForObserver C inst = deleteClusterRoleBinding C (BuildClusterRoleBindingForObserver inst)"

definition createOrUpdateClusterRoleForIShield where
  "createOrUpdateClusterRoleForIShield C inst = createOrUpdateClusterRole C inst (BuildClusterRoleForIShield inst)"

definition deleteClusterRoleForIShield where
  "deleteClusterRoleForIShield C inst = deleteClusterRole C (BuildClusterRoleForIShield inst)"

definition createOrUpdateClusterRoleForObserver where
  "createOrUpdateClusterRoleForObserver C inst = createOrUpdateClusterRole C inst (BuildClusterRoleForObserver inst)"

definition deleteClusterRoleForObserver where
  "deleteClusterRoleForObserver C inst = deleteClusterRole C (BuildClusterRoleForObserver inst)"

definition createOrUpdateRoleBindingForIShield where
  "createOrUpdateRoleBindingForIShield C inst = createOrUpdateRoleBinding C inst (BuildRoleBindingForIShield inst)"

definition createOrUpdateRoleBindingForObserver where
  "createOrUpdateRoleBindingForObserver C inst = createOrUpdateRoleBinding C inst (BuildRoleBindingForObserver inst)"

definition createOrUpdateRoleForIShield where
  "createOrUpdateRoleForIShield C inst = createOrUpdateRole C inst (BuildRoleForIShield inst)"

definition createOrUpdateRoleForObserver where
  "createOrUpdateRoleForObserver C inst = createOrUpdateRole C inst (BuildRoleForObserver inst)"

section \<open>Secrets\<close>

definition createOrUpdateSecret ::
  "('k, 's, 'x) op_client_scheme \<Rightarrow> integrity_shield \<Rightarrow> secret \<Rightarrow> 's \<Rightarrow> 's rec" where
  "createOrUpdateSecret C inst expected =
     createOrUpdate C inst SecretKind (cr_Namespace inst) (meta_Name (sec_Meta expected)) (KSecret expected) keepFound"

text \<open>A failing generation is logged and leaves empty values.\<close>

definition addCertValues ::
  "('k, 's, 'x) op_client_scheme \<Rightarrow> int \<Rightarrow> integrity_shield \<Rightarrow> secret \<Rightarrow> string \<Rightarrow> secret" where
  "addCertValues C now inst expected serviceName =
     (let (ca, tlsKey, tlsCert) = or_zero ([], [], []) (GenerateCert C now serviceName (cr_Namespace inst))
      in if sec_Data expected ''ca.crt'' \<noteq> None \<and> sec_Data expected ''tls.crt'' \<noteq> None \<and> sec_Data expected ''tls.key'' \<noteq> None
         then expected\<lparr>sec_Data := (sec_Data expected)(''tls.crt'' \<mapsto> tlsCert, ''tls.key'' \<mapsto> tlsKey, ''ca.crt'' \<mapsto> ca)\<rparr>
         else expected)"

definition createOrUpdateTlsSecret where
  "createOrUpdateTlsSecret C now inst =
     createOrUpdateSecret C inst (addCertValues C now inst (BuildTlsSecretForIShield inst) (spec_ApiServiceName (is_Spec inst)))"

definition createOrUpdateACTlsSecret where
  "createOrUpdateACTlsSecret C now inst =
     createOrUpdateSecret C inst (addCertValues C now inst (BuildAPITlsSecretForIShield inst) (spec_WebhookServiceName (is_Spec inst)))"

section \<open>Deployments\<close>

text \<open>Comparing the deployments can panic, so the result is an \<open>outcome\<close>.\<close>

definition createOrUpdateDeployment ::
  "('k, 's, 'x) op_client_scheme \<Rightarrow> integrity_shield \<Rightarrow> deployment \<Rightarrow> 's \<Rightarrow> 's rec outcome" where
  "createOrUpdateDeployment C inst expected0 s =
     (case SetControllerReference C inst (KDeployment expected0) of
        Inl e \<Rightarrow> Return ((noRequeue, Some (OtherError e)), s)
      | Inr expected \<Rightarrow>
     (case Client_Get C s DeploymentKind (cr_Namespace inst) (meta_Name (dep_Meta expected0)) of
        Inl e \<Rightarrow> Return (if e = NotFound then createNew C expected s else ((noRequeue, Some e), s))
      | Inr found \<Rightarrow>
     (case (expected, found) of
        (KDeployment expected, KDeployment found) \<Rightarrow>
          outcome_bind (EqualDeployments expected found) (\<lambda>eq.
            if \<not> eq
            then (case Client_Update C s (KDeployment
                     (found\<lparr>dep_Meta := (dep_Meta found)\<lparr>meta_Labels := meta_Labels (dep_Meta expected)\<rparr>,
                            dep_Spec := dep_Spec expected\<rparr>)) of
                    Inl e \<Rightarrow> Return ((noRequeue, Some e), s)
                  | Inr s' \<Rightarrow> Return ((requeueNow, None), s'))
            else Return ((noRequeue, None), s))
      | _ \<Rightarrow> Return ((noRequeue, Some decodeError), s))))"

definition createOrUpdateIShieldAPIDeployment where
  "createOrUpdateIShieldAPIDeployment C csv inst = createOrUpdateDeployment C inst (BuildDeploymentForIShieldAPI csv inst)"

definition createOrUpdateAdmissionControllerDeployment where
  "createOrUpdateAdmissionControllerDeployment C csv inst =
     createOrUpdateDeployment C inst (BuildDeploymentForAdmissionController csv inst)"

definition createOrUpdateObserverDeployment where
  "createOrUpdateObserverDeployment C csv inst = createOrUpdateDeployment C inst (BuildDeploymentForObserver csv inst)"

definition isDeploymentAvailable ::
  "('k, 's, 'x) op_client_scheme \<Rightarrow> json \<Rightarrow> integrity_shield \<Rightarrow> 's \<Rightarrow> bool" where
  "isDeploymentAvailable C csv inst s =
     (let expected = BuildDeploymentForAdmissionController csv inst
      in case Client_Get C s DeploymentKind (meta_Namespace (dep_Meta expected)) (meta_Name (dep_Meta expected)) of
           Inl _ \<Rightarrow> False
         | Inr (KDeployment found) \<Rightarrow> if dep_AvailableReplicas found > 0 then True else False
         | Inr _ \<Rightarrow> False)"

section \<open>Services\<close>

definition createOrUpdateService ::
  "('k, 's, 'x) op_client_scheme \<Rightarrow> integrity_shield \<Rightarrow> service \<Rightarrow> 's \<Rightarrow> 's rec" where
  "createOrUpdateService C inst expected =
     createOrUpdate C inst ServiceKind (cr_Namespace inst) (meta_Name (svc_Meta expected)) (KService expected) keepFound"

definition createOrUpdateWebhookService where
  "createOrUpdateWebhookService C inst = createOrUpdateService C inst (BuildServiceForIShield inst)"

definition createOrUpdateAPIService where
  "createOrUpdateAPIService C inst = createOrUpdateService C inst (BuildAPIServiceForIShield inst)"

section \<open>The webhook configuration\<close>

definition webhookEventMessage :: "string \<Rightarrow> string" where
  "webhookEventMessage webhookName =
     ''[IntegrityShieldEvent] IntegrityShield reconciled MutatingWebhookConfiguration \"'' @ webhookName @ ''\"''"

definition newWebhookEvent :: "int \<Rightarrow> integrity_shield \<Rightarrow> string \<Rightarrow> string \<Rightarrow> event" where
  "newWebhookEvent now inst evtName webhookName =
     \<lparr>ev_Name = evtName, ev_Namespace = cr_Namespace inst,
      ev_Annotations = [(''integrityshield.io/eventType'', ''integrityshield.io/eventType'')],
      ev_InvolvedObject = \<lparr>or_Namespace = cr_Namespace inst, or_APIVersion = is_APIVersion inst,
        or_Kind = is_Kind inst, or_Name = cr_Name inst\<rparr>,
      ev_Type = ''IntegrityShield'', ev_Source = ''IntegrityShield'', ev_ReportingController = ''IntegrityShield'',
      ev_ReportingInstance = evtName, ev_Action = evtName, ev_Reason = ''webhook-reconciled'',
      ev_FirstTimestamp = now, ev_Message = webhookEventMessage webhookName, ev_Count = 1,
      ev_EventTime = now, ev_LastTimestamp = now\<rparr>"

definition createOrUpdateWebhookEvent ::
  "('k, 's, 'x) op_client_scheme \<Rightarrow> int \<Rightarrow> integrity_shield \<Rightarrow> string \<Rightarrow> string \<Rightarrow> 's \<Rightarrow> api_error option \<times> 's" where
  "createOrUpdateWebhookEvent C now inst evtName webhookName s =
     (let expected = newWebhookEvent now inst evtName webhookName
      in case Client_Get C s EventKind (ev_Namespace expected) (ev_Name expected) of
           Inl e \<Rightarrow>
             if e = NotFound
             then (case Client_Create C s (KEvent expected) of
                     Inl e \<Rightarrow> if e = AlreadyExists then (None, s) else (Some e, s)
                   | Inr s' \<Rightarrow> (None, s'))
             else (Some e, s)
         | Inr (KEvent found) \<Rightarrow>
             (case Client_Update C s (KEvent (found\<lparr>ev_Count := ev_Count found + 1, ev_EventTime := now,
                     ev_LastTimestamp := now, ev_Message := webhookEventMessage webhookName,
                     ev_Reason := ''webhook-reconciled'', ev_ReportingController := ''IntegrityShield'',
                     ev_ReportingInstance := evtName\<rparr>)) of
                Inl e \<Rightarrow> (Some e, s)
              | Inr s' \<Rightarrow> (None, s'))
         | Inr _ \<Rightarrow> (Some decodeError, s))"

text \<open>\<open>expected.Webhooks[0].ClientConfig.CABundle = cabundle\<close>; the built configuration has one
  webhook.\<close>

definition setCABundle :: "bytes \<Rightarrow> webhook_configuration \<Rightarrow> webhook_configuration" where
  "setCABundle cabundle wc =
     wc\<lparr>wc_Webhooks := (case wc_Webhooks wc of [] \<Rightarrow> [] | h # hs \<Rightarrow> h\<lparr>vw_CABundle := cabundle\<rparr> # hs)\<rparr>"

text \<open>The CA bundle from the secret of the webhook server; a failing lookup leaves it empty.\<close>

definition loadCABundle ::
  "('k, 's, 'x) op_client_scheme \<Rightarrow> integrity_shield \<Rightarrow> 's \<Rightarrow> bytes option" where
  "loadCABundle C inst s =
     (case Client_Get C s SecretKind (cr_Namespace inst) (spec_WebhookServerTlsSecretName (is_Spec inst)) of
        Inr (KSecret secret) \<Rightarrow> sec_Data secret ''ca.crt''
      | _ \<Rightarrow> None)"

definition createOrUpdateWebhook ::
  "('k, 's, 'x) op_client_scheme \<Rightarrow> int \<Rightarrow> integrity_shield \<Rightarrow> 's \<Rightarrow> 's rec" where
  "createOrUpdateWebhook C now inst s =
     (let expected0 = BuildValidatingWebhookConfigurationForIShield inst;
          name = meta_Name (wc_Meta expected0)
      in case SetControllerReference C inst (KWebhook expected0) of
           Inl e \<Rightarrow> ((noRequeue, Some (OtherError e)), s)
         | Inr expected \<Rightarrow>
        (case Client_Get C s WebhookKind [] name of
           Inl e \<Rightarrow>
             if e = NotFound
             then let expected = (case (loadCABundle C inst s, expected) of
                        (Some ca, KWebhook wc) \<Rightarrow> KWebhook (setCABundle ca wc) | _ \<Rightarrow> expected)
                  in case Client_Create C s expected of
                       Inl e \<Rightarrow> if e = AlreadyExists then ((requeueNow, None), s) else ((noRequeue, Some e), s)
                     | Inr s1 \<Rightarrow>
                         ((requeueSoon, None), snd (createOrUpdateWebhookEvent C now inst ''ishield-webhook-reconciled'' name s1))
             else ((noRequeue, Some e), s)
         | Inr _ \<Rightarrow> ((noRequeue, None), s)))"

definition deleteWebhook :: "('k, 's, 'x) op_client_scheme \<Rightarrow> integrity_shield \<Rightarrow> 's \<Rightarrow> 's rec" where
  "deleteWebhook C inst = deleteObject C WebhookKind (meta_Name (wc_Meta (BuildValidatingWebhookConfigurationForIShield inst)))"

section \<open>Gatekeeper\<close>

definition createOrUpdateConstraintTemplate ::
  "('k, 's, 'x) op_client_scheme \<Rightarrow> integrity_shield \<Rightarrow> 's \<Rightarrow> 's rec" where
  "createOrUpdateConstraintTemplate C inst =
     (let expected = BuildConstraintTemplateForIShield inst
      in createOrUpdate C inst TemplateKind (cr_Namespace inst) (meta_Name (tpl_Meta expected)) (KTemplate expected) keepFound)"

definition isGatekeeperAvailable :: "('k, 's, 'x) op_client_scheme \<Rightarrow> 's \<Rightarrow> bool" where
  "isGatekeeperAvailable C s =
     (case Client_Get C s CRDKind [] ''constrainttemplates.templates.gatekeeper.sh'' of
        Inl _ \<Rightarrow> False | Inr _ \<Rightarrow> True)"

definition deleteConstraintTemplate :: "('k, 's, 'x) op_client_scheme \<Rightarrow> integrity_shield \<Rightarrow> 's \<Rightarrow> 's rec" where
  "deleteConstraintTemplate C inst = deleteObject C TemplateKind (meta_Name (tpl_Meta (BuildConstraintTemplateForIShield inst)))"

section \<open>integrityshield\_controller.go\<close>

definition CleanupFinalizerName :: string where
  "CleanupFinalizerName = ''cleanup.finalizers.integrityshield.io''"

fun containsString :: "string list \<Rightarrow> string \<Rightarrow> bool" where
  "containsString [] s = False"
| "containsString (item # items) s = (if item = s then True else containsString items s)"

fun removeString :: "string list \<Rightarrow> string \<Rightarrow> string list" where
  "removeString [] s = []"
| "removeString (item # items) s = (if item = s then removeString items s else item # removeString items s)"

text \<open>A sequence of calls of which the first that returns an error or a requeue ends the pass.\<close>

fun runSteps :: "('s \<Rightarrow> 's rec outcome) list \<Rightarrow> 's \<Rightarrow> 's rec outcome" where
  "runSteps [] s = Return ((noRequeue, None), s)"
| "runSteps (f # fs) s =
     outcome_bind (f s) (\<lambda>((recResult, recErr), s').
       if recErr \<noteq> None \<or> Requeue recResult then Return ((recResult, recErr), s')
       else runSteps fs s')"

definition plain :: "('s \<Rightarrow> 's rec) \<Rightarrow> 's \<Rightarrow> 's rec outcome" where
  "plain f s = Return (f s)"

definition commonSteps :: "('k, 's, 'x) op_client_scheme \<Rightarrow> integrity_shield \<Rightarrow> ('s \<Rightarrow> 's rec outcome) list" where
  "commonSteps C inst =
     [plain (createOrUpdateRequestHandlerConfig C inst),
      plain (createOrUpdateIShieldApiServiceAccount C inst),
      plain (createOrUpdateRoleForIShield C inst),
      plain (createOrUpdateRoleBindingForIShield C inst),
      plain (createOrUpdateClusterRoleForIShield C inst),
      plain (createOrUpdateClusterRoleBindingForIShield C inst)]"

definition observerSteps ::
  "('k, 's, 'x) op_client_scheme \<Rightarrow> json \<Rightarrow> integrity_shield \<Rightarrow> ('s \<Rightarrow> 's rec outcome) list" where
  "observerSteps C csv inst =
     [plain (createOrUpdateObserverResultCRD C inst),
      plain (createOrUpdateObserverServiceAccount C inst),
      plain (createOrUpdateClusterRoleForObserver C inst),
      plain (createOrUpdateClusterRoleBindingForObserver C inst),
      plain (createOrUpdateRoleForObserver C inst),
      plain (createOrUpdateRoleBindingForObserver C inst),
      createOrUpdateObserverDeployment C csv inst]"

definition gatekeeperSteps ::
  "('k, 's, 'x) op_client_scheme \<Rightarrow> json \<Rightarrow> int \<Rightarrow> integrity_shield \<Rightarrow> ('s \<Rightarrow> 's rec outcome) list" where
  "gatekeeperSteps C csv now inst =
     [plain (createOrUpdateTlsSecret C now inst),
      createOrUpdateIShieldAPIDeployment C csv inst,
      plain (createOrUpdateAPIService C inst)]"

definition templateStep :: "('k, 's, 'x) op_client_scheme \<Rightarrow> integrity_shield \<Rightarrow> 's \<Rightarrow> 's rec outcome" where
  "templateStep C inst = plain (\<lambda>s. if isGatekeeperAvailable C s then createOrUpdateConstraintTemplate C inst s
                                     else ((requeueNow, None), s))"

definition admissionSteps ::
  "('k, 's, 'x) op_client_scheme \<Rightarrow> json \<Rightarrow> int \<Rightarrow> integrity_shield \<Rightarrow> ('s \<Rightarrow> 's rec outcome) list" where
  "admissionSteps C csv now inst =
     [plain (createOrUpdateManifestIntegrityProfileCRD C inst),
      plain (createOrUpdateACConfig C inst),
      plain (createOrUpdateACTlsSecret C now inst),
      createOrUpdateAdmissionControllerDeployment C csv inst,
      plain (createOrUpdateWebhookService C inst)]"

definition webhookStep ::
  "('k, 's, 'x) op_client_scheme \<Rightarrow> json \<Rightarrow> int \<Rightarrow> integrity_shield \<Rightarrow> 's \<Rightarrow> 's rec outcome" where
  "webhookStep C csv now inst =
     plain (\<lambda>s. if isDeploymentAvailable C csv inst s then createOrUpdateWebhook C now inst s else deleteWebhook C inst s)"

definition installSteps ::
  "('k, 's, 'x) op_client_scheme \<Rightarrow> json \<Rightarrow> int \<Rightarrow> integrity_shield \<Rightarrow> ('s \<Rightarrow> 's rec outcome) list" where
  "installSteps C csv now inst =
     commonSteps C inst @
     (if oc_Enabled (spec_Observer (is_Spec inst)) then observerSteps C csv inst else []) @
     (if spec_UseGatekeeper (is_Spec inst) then gatekeeperSteps C csv now inst else admissionSteps C csv now inst)"

definition lastStep ::
  "('k, 's, 'x) op_client_scheme \<Rightarrow> json \<Rightarrow> int \<Rightarrow> integrity_shield \<Rightarrow> 's \<Rightarrow> 's rec outcome" where
  "lastStep C csv now inst =
     (if spec_UseGatekeeper (is_Spec inst) then templateStep C inst else webhookStep C csv now inst)"

text \<open>The deletions: the first error ends the sequence, requeue results are dropped.\<close>

fun runDeletes :: "('s \<Rightarrow> 's rec) list \<Rightarrow> 's \<Rightarrow> api_error option \<times> 's" where
  "runDeletes [] s = (None, s)"
| "runDeletes (f # fs) s =
     (let ((_, err), s') = f s in if err \<noteq> None then (err, s') else runDeletes fs s')"

definition deleteSteps :: "('k, 's, 'x) op_client_scheme \<Rightarrow> integrity_shield \<Rightarrow> ('s \<Rightarrow> 's rec) list" where
  "deleteSteps C inst =
     [deleteClusterRoleForIShield C inst, deleteClusterRoleBindingForIShield C inst] @
     (if spec_UseGatekeeper (is_Spec inst)
      then [\<lambda>s. if isGatekeeperAvailable C s then deleteConstraintTemplate C inst s else ((noRequeue, None), s)]
      else [deleteWebhook C inst, deleteManifestIntegrityProfileCRD C inst]) @
     (if oc_Enabled (spec_Observer (is_Spec inst))
      then [deleteClusterRoleForObserver C inst, deleteClusterRoleBindingForObserver C inst, deleteObserverResultCRD C inst]
      else [])"

definition deleteClusterScopedChildrenResources ::
  "('k, 's, 'x) op_client_scheme \<Rightarrow> integrity_shield \<Rightarrow> 's \<Rightarrow> api_error option \<times> 's" where
  "deleteClusterScopedChildrenResources C inst s = runDeletes (deleteSteps C inst) s"

definition Reconcile ::
  "('k, 's, 'x) op_client_scheme \<Rightarrow> json \<Rightarrow> int \<Rightarrow> string \<Rightarrow> string \<Rightarrow> 's \<Rightarrow> 's rec outcome" where
  "Reconcile C csv now ns name s =
     (case Client_Get C s ShieldKind ns name of
        Inl e \<Rightarrow> Return (if e = NotFound then ((noRequeue, None), s) else ((noRequeue, Some e), s))
      | Inr (KShield inst) \<Rightarrow>
          if meta_Deleting (is_Meta inst)
          then if containsString (meta_Finalizers (is_Meta inst)) CleanupFinalizerName
               then (case deleteClusterScopedChildrenResources C inst s of
                       (Some err, s') \<Rightarrow> Return ((noRequeue, Some err), s')
                     | (None, s') \<Rightarrow>
                         (case Client_Update C s' (KShield (inst\<lparr>is_Meta := (is_Meta inst)
                                 \<lparr>meta_Finalizers := removeString (meta_Finalizers (is_Meta inst)) CleanupFinalizerName\<rparr>\<rparr>)) of
                            Inl err \<Rightarrow> Return ((noRequeue, Some err), s')
                          | Inr s'' \<Rightarrow> Return ((noRequeue, None), s'')))
               else Return ((noRequeue, None), s)
          else runSteps (installSteps C csv now inst @ [lastStep C csv now inst]) s
      | Inr _ \<Rightarrow> Return ((noRequeue, Some decodeError), s))"

end
