(* ===== verification/Startup.thy ===== *)
theory Startup
  imports ShieldMain AdmissionController Reconciler
begin

text \<open>
  The \<open>main\<close> functions of the shield (\<^verbatim>\<open>shield/main.go\<close>), of the admission controller
  (\<^verbatim>\<open>webhook/admission-controller/main.go\<close>) and of the operator
  (\<^verbatim>\<open>integrity-shield-operator/main.go\<close>), and that what they serve is where the objects built
  by the operator look for it. The servers and managers themselves (\<^verbatim>\<open>net/http\<close>, \<^verbatim>\<open>crypto/tls\<close>,
  controller-runtime) are parameters.
\<close>

section \<open>shield/main.go\<close>

definition tlsDir :: string where "tlsDir = ''/run/secrets/tls''"

definition tlsCertFile :: string where "tlsCertFile = ''tls.crt''"

definition tlsKeyFile :: string where "tlsKeyFile = ''tls.key''"

definition shield_init :: "('n, 'd, 's, 'x) lib_scheme \<Rightarrow> 's world \<Rightarrow> 's world" where
  "shield_init L w = Cosign_Init L (w\<lparr>w_logFormat := JSONFormatter\<rparr>)"

record 'p api_server =
  srv_Addr :: string
  srv_Certificate :: 'p
  srv_MinVersion :: string

text \<open>\<open>load files cert key\<close> is \<open>tls.LoadX509KeyPair\<close>; \<open>listen\<close> is \<open>ListenAndServeTLS\<close> with the error that
  it ends with, if it ends.\<close>

definition shield_main ::
  "((string \<rightharpoonup> bytes) \<Rightarrow> string \<Rightarrow> string \<Rightarrow> 'p result) \<Rightarrow> ('p api_server \<Rightarrow> string option) \<Rightarrow> 's world \<Rightarrow> 'p api_server outcome" where
  "shield_main load listen w =
     (let tlsCertPath = PathJoin tlsDir tlsCertFile; tlsKeyPath = PathJoin tlsDir tlsKeyFile
      in case load (w_files w) tlsCertPath tlsKeyPath of
           Inl err \<Rightarrow> Panic (''unable to load certs: '' @ err)
         | Inr pair \<Rightarrow>
             (let serverObj = \<lparr>srv_Addr = '':8080'', srv_Certificate = pair, srv_MinVersion = ''TLS12''\<rparr>
              in case listen serverObj of
                   Some err \<Rightarrow> Panic (''Fail to run integrity shield api: '' @ err)
                 | None \<Rightarrow> Return serverObj))"

section \<open>Command line flags\<close>

text \<open>The values that \<open>flag.Parse\<close> found on the command line; \<open>None\<close> for a flag that is not given. A
  command line that does not parse ends the process there.\<close>

record main_flags =
  fl_MetricsAddr :: "string option"
  fl_ProbeAddr :: "string option"
  fl_LeaderElection :: "bool option"

text \<open>\<open>flag.StringVar\<close> and \<open>flag.BoolVar\<close>: the given value or the default.\<close>

definition flagVar :: "'a \<Rightarrow> 'a option \<Rightarrow> 'a" where
  "flagVar dflt v = (case v of None \<Rightarrow> dflt | Some x \<Rightarrow> x)"

record manager_options =
  mo_MetricsBindAddress :: string
  mo_Port :: int
  mo_HealthProbeBindAddress :: string
  mo_LeaderElection :: bool
  mo_LeaderElectionID :: string
  mo_CertDir :: string

section \<open>webhook/admission-controller/main.go\<close>

definition Handle ::
  "('n, 'd, 's, 'x) ac_lib_scheme \<Rightarrow> (nat \<Rightarrow> int) \<Rightarrow> request \<Rightarrow> 's world \<Rightarrow> (admission_response \<times> 's world) outcome" where
  "Handle L clock req w = ProcessRequest L clock req w"

definition ac_options :: "main_flags \<Rightarrow> manager_options" where
  "ac_options args =
     \<lparr>mo_MetricsBindAddress = flagVar '':8080'' (fl_MetricsAddr args), mo_Port = 9443, mo_HealthProbeBindAddress = [],
      mo_LeaderElection = flagVar False (fl_LeaderElection args),
      mo_LeaderElectionID = ''22a603b9.sigstore.dev'', mo_CertDir = tlsDir\<rparr>"

text \<open>The routes of the webhook server.\<close>

definition ac_route ::
  "('n, 'd, 's, 'x) ac_lib_scheme \<Rightarrow> string \<Rightarrow> ((nat \<Rightarrow> int) \<Rightarrow> request \<Rightarrow> 's world \<Rightarrow> (admission_response \<times> 's world) outcome) option" where
  "ac_route L path = (if path = ''/validate-resource'' then Some (Handle L) else None)"

text \<open>\<open>NewManager\<close>, with the lookup of the cluster configuration, and \<open>Start\<close> of controller-runtime;
  the result is the exit code.\<close>

definition ac_main :: "(manager_options \<Rightarrow> 'm result) \<Rightarrow> ('m \<Rightarrow> string option) \<Rightarrow> main_flags \<Rightarrow> nat" where
  "ac_main NewManager Start args =
     (case NewManager (ac_options args) of
        Inl err \<Rightarrow> 1
      | Inr mgr \<Rightarrow> (case Start mgr of Some err \<Rightarrow> 1 | None \<Rightarrow> 0))"

section \<open>integrity-shield-operator/main.go\<close>

definition operator_options :: "main_flags \<Rightarrow> manager_options" where
  "operator_options args =
     \<lparr>mo_MetricsBindAddress = flagVar '':8080'' (fl_MetricsAddr args), mo_Port = 9443,
      mo_HealthProbeBindAddress = flagVar '':8081'' (fl_ProbeAddr args),
      mo_LeaderElection = flagVar False (fl_LeaderElection args),
      mo_LeaderElectionID = ''0a5e7a77.integrityshield.io'', mo_CertDir = []\<rparr>"

text \<open>The manager's methods as functions that return the error, if any. \<open>NewManager\<close> includes the
  lookup of the cluster configuration, whose failure ends the process with exit code 1 as well;
  \<open>Controller_Complete mgr k\<close> is \<open>ctrl.NewControllerManagedBy(mgr).For(k).Complete(r)\<close>.\<close>

record 'm manager_lib =
  NewManager :: "manager_options \<Rightarrow> 'm result"
  Controller_Complete :: "'m \<Rightarrow> kind \<Rightarrow> string option"
  AddHealthzCheck :: "'m \<Rightarrow> string option"
  AddReadyzCheck :: "'m \<Rightarrow> string option"
  Manager_Start :: "'m \<Rightarrow> string option"

definition SetupWithManager :: "'m manager_lib \<Rightarrow> 'm \<Rightarrow> string option" where
  "SetupWithManager M mgr = Controller_Complete M mgr ShieldKind"

definition operator_main :: "'m manager_lib \<Rightarrow> main_flags \<Rightarrow> nat" where
  "operator_main M args =
     (case NewManager M (operator_options args) of
        Inl err \<Rightarrow> 1
      | Inr mgr \<Rightarrow>
          if SetupWithManager M mgr \<noteq> None then 1
          else if AddHealthzCheck M mgr \<noteq> None then 1
          else if AddReadyzCheck M mgr \<noteq> None then 1
          else if Manager_Start M mgr \<noteq> None then 1
          else 0)"

section \<open>Properties\<close>

lemma built_pod_template:
  "ds_Template (dep_Spec (deploymentWith cr name selector sa ct vs)) =
     \<lparr>pt_Labels = selector, pt_Annotations = None,
      pt_Spec = \<lparr>ps_ServiceAccountName = sa, ps_SecurityContext = sc_PodSecurityContext (spec_Security (is_Spec cr)),
        ps_Containers = [ct], ps_NodeSelector = spec_NodeSelector (is_Spec cr), ps_Affinity = spec_Affinity (is_Spec cr),
        ps_Tolerations = spec_Tolerations (is_Spec cr), ps_Volumes = vs\<rparr>\<rparr>"
  by (simp add: deploymentWith_def)

text \<open>C17: A call of the registered webhook ends at the admission handler: the webhook names the service
  that the operator creates, the service selects the pods of the admission controller and
  targets a port that its container declares, the path is the one that is registered for the
  handler, and the declared port is the one that the server listens on exactly when the custom
  resource says 9443.\<close>

theorem webhook_call_reaches_handler:
  "\<exists>h c p. wc_Webhooks (BuildValidatingWebhookConfigurationForIShield i) = [h] \<and>
     vw_ServiceName h = meta_Name (svc_Meta (BuildServiceForIShield i)) \<and>
     vw_ServiceNamespace h = meta_Namespace (svc_Meta (BuildServiceForIShield i)) \<and>
     svc_Port (BuildServiceForIShield i) = 443 \<and>
     svc_Selector (BuildServiceForIShield i) =
       pt_Labels (ds_Template (dep_Spec (BuildDeploymentForAdmissionController csv i))) \<and>
     ps_Containers (pt_Spec (ds_Template (dep_Spec (BuildDeploymentForAdmissionController csv i)))) = [c] \<and>
     ct_Ports c = [p] \<and> cp_Name p = svc_TargetPort (BuildServiceForIShield i) \<and>
     ac_route L (vw_ServicePath h) = Some (ProcessRequest L) \<and>
     (uint (cp_ContainerPort p) = mo_Port (ac_options args) \<longleftrightarrow> cc_Port (spec_ControllerContainer (is_Spec i)) = 9443)"
proof -
  have "Handle L = ProcessRequest L" by (intro ext) (simp add: Handle_def)
  moreover have "uint x = 9443 \<longleftrightarrow> x = 9443" for x :: "32 word"
  proof -
    have "uint (9443 :: 32 word) = 9443" by simp
    then show ?thesis by (metis word_uint_eq_iff)
  qed
  ultimately show ?thesis
    by (simp add: BuildValidatingWebhookConfigurationForIShield_def BuildServiceForIShield_def ac_route_def
        BuildDeploymentForAdmissionController_def Let_def built_pod_template ac_options_def new_meta_def)
qed

text \<open>The probes of the deployed API server succeed: they ask for a path that the server answers
  with status 200 and no change of state, on the port and over the protocol it serves.\<close>

theorem deployed_api_answers_probes:
  "\<exists>c ready live. ps_Containers (pt_Spec (ds_Template (dep_Spec (BuildDeploymentForIShieldAPI csv i)))) = [c] \<and>
     ct_ReadinessProbe c = Some ready \<and> ct_LivenessProbe c = Some live \<and>
     (\<forall>p\<in>{ready, live}. \<exists>path rsp. pr_Handler p = HTTPGet path 8080 ''HTTPS'' \<and>
        serve L now path r w = Return (rsp, w) \<and> rw_Status rsp = Some 200)"
  by (simp add: BuildDeploymentForIShieldAPI_def Let_def built_pod_template httpProbe_def serve_def
      checkReadiness_def checkLiveness_def rw_Write_def WriteHeader_def new_response_def)

text \<open>The process of the operator ends with exit code 0 only if no step of its start and run
  failed, and with 1 otherwise.\<close>

theorem operator_exit_code:
  "operator_main M args =
     (if \<exists>mgr. NewManager M (operator_options args) = Inr mgr \<and>
           (\<forall>step\<in>{SetupWithManager M, AddHealthzCheck M, AddReadyzCheck M, Manager_Start M}. step mgr = None)
      then 0 else 1)"
  by (auto simp: operator_main_def split: sum.split)

lemma tls_paths: "PathJoin tlsDir tlsCertFile = ''/run/secrets/tls/tls.crt''" "PathJoin tlsDir tlsKeyFile = ''/run/secrets/tls/tls.key''"
  by code_simp+

end
