(* ===== verification/Convergence.thy ===== *)
theory Convergence
  imports Reconciler
begin

text \<open>
  What the reconcile loop of the operator achieves. The first part is the contract of a single
  \<open>createOrUpdate\<close> function, a locale interpreted on those functions of the model that only
  create: it holds for every client. The second part assumes that the API server behaves as a
  store of objects and shows that repeated passes install every required object and then
  leave the cluster alone, that the webhook is only registered while the admission controller
  is available, and that the finalizer is only removed after the cleanup.
\<close>

section \<open>The contract of a creating step\<close>

locale creation_step =
  fixes step :: "('k, 's, 'x) op_client_scheme \<Rightarrow> integrity_shield \<Rightarrow> 's \<Rightarrow> 's rec"
    and target :: "integrity_shield \<Rightarrow> kind \<times> string \<times> string"
  assumes on_found: "target i = (k, ns, n) \<Longrightarrow> Client_Get C s k ns n = Inr x \<Longrightarrow>
      step C i s = ((noRequeue, None), s) \<or> (\<exists>e. step C i s = ((noRequeue, Some e), s))"
    and on_error: "target i = (k, ns, n) \<Longrightarrow> Client_Get C s k ns n = Inl e \<Longrightarrow>
      Requeue (fst (fst (step C i s))) \<or> snd (fst (step C i s)) \<noteq> None"
    and one_write: "snd (step C i s) = s \<or> (\<exists>x. Client_Create C s x = Inr (snd (step C i s)))"
begin

text \<open>A pass goes beyond the step only if the object is there, and then nothing was written.\<close>

lemma continues_only_if_found:
  assumes "target i = (k, ns, n)" and "step C i s = ((r, None), s')" and "\<not> Requeue r"
  shows "(\<exists>x. Client_Get C s k ns n = Inr x) \<and> s' = s"
proof (cases "Client_Get C s k ns n")
  case (Inl e)
  with on_error [OF assms(1) Inl] assms(2,3) show ?thesis by simp
next
  case (Inr x)
  with on_found [OF assms(1) Inr] assms(2) show ?thesis by auto
qed

lemma existing_object_is_kept:
  assumes "target i = (k, ns, n)" and "Client_Get C s k ns n = Inr x"
  shows "snd (step C i s) = s \<and> \<not> Requeue (fst (fst (step C i s)))"
  using on_found [OF assms] by (auto simp: noRequeue_def)

end

lemma result_simps [simp]:
  "Requeue noRequeue = False" "Requeue requeueNow = True" "Requeue requeueSoon = True"
  by (simp_all add: noRequeue_def requeueNow_def requeueSoon_def)

lemma createOrUpdate_creation_step:
  fixes step :: "('k, 's, 'x) op_client_scheme \<Rightarrow> integrity_shield \<Rightarrow> 's \<Rightarrow> 's rec"
  assumes "\<And>C i s. step C i s = createOrUpdate C i (fst (target i)) (fst (snd (target i))) (snd (snd (target i))) (obj C i) keepFound s"
  shows "creation_step step target"
proof
  fix C :: "('k, 's, 'x) op_client_scheme" and i s k ns n x
  assume "target i = (k, ns, n)" and "Client_Get C s k ns n = Inr x"
  then show "step C i s = ((noRequeue, None), s) \<or> (\<exists>e. step C i s = ((noRequeue, Some e), s))"
    by (simp add: assms createOrUpdate_def keepFound_def split: sum.split)
next
  fix C :: "('k, 's, 'x) op_client_scheme" and i s k ns n e
  assume "target i = (k, ns, n)" and "Client_Get C s k ns n = Inl e"
  then show "Requeue (fst (fst (step C i s))) \<or> snd (fst (step C i s)) \<noteq> None"
    by (simp add: assms createOrUpdate_def createNew_def split: sum.split)
next
  fix C :: "('k, 's, 'x) op_client_scheme" and i s
  show "snd (step C i s) = s \<or> (\<exists>x. Client_Create C s x = Inr (snd (step C i s)))"
    by (auto simp: assms createOrUpdate_def createNew_def keepFound_def split: sum.split)
qed

interpretation request_handler_config: creation_step createOrUpdateRequestHandlerConfig
  "\<lambda>i. (ConfigMapKind, meta_Namespace (cmap_Meta (BuildReqConfigForIShield i)), meta_Name (cmap_Meta (BuildReqConfigForIShield i)))"
  by (rule createOrUpdate_creation_step [where obj = "\<lambda>C i. KConfigMap (BuildReqConfigForIShield i)"])
     (simp add: createOrUpdateRequestHandlerConfig_def createOrUpdateConfigMap_def)

interpretation ac_config: creation_step createOrUpdateACConfig
  "\<lambda>i. (ConfigMapKind, meta_Namespace (cmap_Meta (BuildACConfigForIShield i)), meta_Name (cmap_Meta (BuildACConfigForIShield i)))"
  by (rule createOrUpdate_creation_step [where obj = "\<lambda>C i. KConfigMap (BuildACConfigForIShield i)"])
     (simp add: createOrUpdateACConfig_def createOrUpdateConfigMap_def)

interpretation api_service_account: creation_step createOrUpdateIShieldApiServiceAccount
  "\<lambda>i. (ServiceAccountKind, cr_Namespace i, meta_Name (sa_Meta (BuildServiceAccountForIShield i)))"
  by (rule createOrUpdate_creation_step [where obj = "\<lambda>C i. KServiceAccount (BuildServiceAccountForIShield i)"])
     (simp add: createOrUpdateIShieldApiServiceAccount_def createOrUpdateServiceAccount_def)

interpretation observer_service_account: creation_step createOrUpdateObserverServiceAccount
  "\<lambda>i. (ServiceAccountKind, cr_Namespace i, meta_Name (sa_Meta (BuildServiceAccountForObserver i)))"
  by (rule createOrUpdate_creation_step [where obj = "\<lambda>C i. KServiceAccount (BuildServiceAccountForObserver i)"])
     (simp add: createOrUpdateObserverServiceAccount_def createOrUpdateServiceAccount_def)

interpretation shield_role: creation_step createOrUpdateRoleForIShield
  "\<lambda>i. (RoleKind, cr_Namespace i, meta_Name (role_Meta (BuildRoleForIShield i)))"
  by (rule createOrUpdate_creation_step [where obj = "\<lambda>C i. KRole (BuildRoleForIShield i)"])
     (simp add: createOrUpdateRoleForIShield_def createOrUpdateRole_def)

interpretation observer_role: creation_step createOrUpdateRoleForObserver
  "\<lambda>i. (RoleKind, cr_Namespace i, meta_Name (role_Meta (BuildRoleForObserver i)))"
  by (rule createOrUpdate_creation_step [where obj = "\<lambda>C i. KRole (BuildRoleForObserver i)"])
     (simp add: createOrUpdateRoleForObserver_def createOrUpdateRole_def)

interpretation shield_role_binding: creation_step createOrUpdateRoleBindingForIShield
  "\<lambda>i. (RoleBindingKind, cr_Namespace i, meta_Name (rb_Meta (BuildRoleBindingForIShield i)))"
  by (rule createOrUpdate_creation_step [where obj = "\<lambda>C i. KRoleBinding (BuildRoleBindingForIShield i)"])
     (simp add: createOrUpdateRoleBindingForIShield_def createOrUpdateRoleBinding_def)

interpretation observer_role_binding: creation_step createOrUpdateRoleBindingForObserver
  "\<lambda>i. (RoleBindingKind, cr_Namespace i, meta_Name (rb_Meta (BuildRoleBindingForObserver i)))"
  by (rule createOrUpdate_creation_step [where obj = "\<lambda>C i. KRoleBinding (BuildRoleBindingForObserver i)"])
     (simp add: createOrUpdateRoleBindingForObserver_def createOrUpdateRoleBinding_def)

interpretation shield_cluster_role: creation_step createOrUpdateClusterRoleForIShield
  "\<lambda>i. (ClusterRoleKind, [], meta_Name (role_Meta (BuildClusterRoleForIShield i)))"
  by (rule createOrUpdate_creation_step [where obj = "\<lambda>C i. KClusterRole (BuildClusterRoleForIShield i)"])
     (simp add: createOrUpdateClusterRoleForIShield_def createOrUpdateClusterRole_def)

interpretation observer_cluster_role: creation_step createOrUpdateClusterRoleForObserver
  "\<lambda>i. (ClusterRoleKind, [], meta_Name (role_Meta (BuildClusterRoleForObserver i)))"
  by (rule createOrUpdate_creation_step [where obj = "\<lambda>C i. KClusterRole (BuildClusterRoleForObserver i)"])
     (simp add: createOrUpdateClusterRoleForObserver_def createOrUpdateClusterRole_def)

interpretation shield_cluster_role_binding: creation_step createOrUpdateClusterRoleBindingForIShield
  "\<lambda>i. (ClusterRoleBindingKind, [], meta_Name (rb_Meta (BuildClusterRoleBindingForIShield i)))"
  by (rule createOrUpdate_creation_step [where obj = "\<lambda>C i. KClusterRoleBinding (BuildClusterRoleBindingForIShield i)"])
     (simp add: createOrUpdateClusterRoleBindingForIShield_def createOrUpdateClusterRoleBinding_def)

interpretation observer_cluster_role_binding: creation_step createOrUpdateClusterRoleBindingForObserver
  "\<lambda>i. (ClusterRoleBindingKind, [], meta_Name (rb_Meta (BuildClusterRoleBindingForObserver i)))"
  by (rule createOrUpdate_creation_step [where obj = "\<lambda>C i. KClusterRoleBinding (BuildClusterRoleBindingForObserver i)"])
     (simp add: createOrUpdateClusterRoleBindingForObserver_def createOrUpdateClusterRoleBinding_def)

interpretation webhook_service: creation_step createOrUpdateWebhookService
  "\<lambda>i. (ServiceKind, cr_Namespace i, meta_Name (svc_Meta (BuildServiceForIShield i)))"
  by (rule createOrUpdate_creation_step [where obj = "\<lambda>C i. KService (BuildServiceForIShield i)"])
     (simp add: createOrUpdateWebhookService_def createOrUpdateService_def)

interpretation api_service: creation_step createOrUpdateAPIService
  "\<lambda>i. (ServiceKind, cr_Namespace i, meta_Name (svc_Meta (BuildAPIServiceForIShield i)))"
  by (rule createOrUpdate_creation_step [where obj = "\<lambda>C i. KService (BuildAPIServiceForIShield i)"])
     (simp add: createOrUpdateAPIService_def createOrUpdateService_def)

interpretation gatekeeper_template: creation_step createOrUpdateConstraintTemplate
  "\<lambda>i. (TemplateKind, cr_Namespace i, meta_Name (tpl_Meta (BuildConstraintTemplateForIShield i)))"
  by (rule createOrUpdate_creation_step [where obj = "\<lambda>C i. KTemplate (BuildConstraintTemplateForIShield i)"])
     (simp add: createOrUpdateConstraintTemplate_def Let_def)

lemma addCertValues_Meta [simp]: "sec_Meta (addCertValues C now i x svc) = sec_Meta x"
  by (simp add: addCertValues_def case_prod_beta Let_def)

interpretation api_tls_secret: creation_step "\<lambda>C. createOrUpdateTlsSecret C now"
  "\<lambda>i. (SecretKind, cr_Namespace i, meta_Name (sec_Meta (BuildTlsSecretForIShield i)))" for now
  by (rule createOrUpdate_creation_step [where obj = "\<lambda>C i. KSecret (addCertValues C now i (BuildTlsSecretForIShield i)
        (spec_ApiServiceName (is_Spec i)))"])
     (simp add: createOrUpdateTlsSecret_def createOrUpdateSecret_def)

interpretation ac_tls_secret: creation_step "\<lambda>C. createOrUpdateACTlsSecret C now"
  "\<lambda>i. (SecretKind, cr_Namespace i, meta_Name (sec_Meta (BuildAPITlsSecretForIShield i)))" for now
  by (rule createOrUpdate_creation_step [where obj = "\<lambda>C i. KSecret (addCertValues C now i (BuildAPITlsSecretForIShield i)
        (spec_WebhookServiceName (is_Spec i)))"])
     (simp add: createOrUpdateACTlsSecret_def createOrUpdateSecret_def)

section \<open>The API server as a store\<close>

definition clusterScoped :: "kind \<Rightarrow> bool" where
  "clusterScoped k \<longleftrightarrow> k \<in> {CRDKind, ClusterRoleKind, ClusterRoleBindingKind, WebhookKind, TemplateKind}"

type_synonym obj_key = "kind \<times> string \<times> string"

definition keyOf :: "kind \<Rightarrow> string \<Rightarrow> string \<Rightarrow> obj_key" where
  "keyOf k ns n = (k, if clusterScoped k then [] else ns, n)"

definition metaKey :: "kind \<Rightarrow> object_meta \<Rightarrow> obj_key" where
  "metaKey k m = keyOf k (meta_Namespace m) (meta_Name m)"

fun objKey :: "kobject \<Rightarrow> obj_key" where
  "objKey (KCRD x) = metaKey CRDKind (crd_Meta x)"
| "objKey (KConfigMap x) = metaKey ConfigMapKind (cmap_Meta x)"
| "objKey (KServiceAccount x) = metaKey ServiceAccountKind (sa_Meta x)"
| "objKey (KClusterRole x) = metaKey ClusterRoleKind (role_Meta x)"
| "objKey (KClusterRoleBinding x) = metaKey ClusterRoleBindingKind (rb_Meta x)"
| "objKey (KRole x) = metaKey RoleKind (role_Meta x)"
| "objKey (KRoleBinding x) = metaKey RoleBindingKind (rb_Meta x)"
| "objKey (KSecret x) = metaKey SecretKind (sec_Meta x)"
| "objKey (KDeployment x) = metaKey DeploymentKind (dep_Meta x)"
| "objKey (KService x) = metaKey ServiceKind (svc_Meta x)"
| "objKey (KWebhook x) = metaKey WebhookKind (wc_Meta x)"
| "objKey (KTemplate x) = metaKey TemplateKind (tpl_Meta x)"
| "objKey (KEvent x) = keyOf EventKind (ev_Namespace x) (ev_Name x)"
| "objKey (KShield x) = metaKey ShieldKind (is_Meta x)"

definition owned :: "string \<Rightarrow> object_meta \<Rightarrow> object_meta" where
  "owned owner m = m\<lparr>meta_Controller := Some owner\<rparr>"

fun withController :: "string \<Rightarrow> kobject \<Rightarrow> kobject" where
  "withController n (KCRD x) = KCRD (x\<lparr>crd_Meta := owned n (crd_Meta x)\<rparr>)"
| "withController n (KConfigMap x) = KConfigMap (x\<lparr>cmap_Meta := owned n (cmap_Meta x)\<rparr>)"
| "withController n (KServiceAccount x) = KServiceAccount (x\<lparr>sa_Meta := owned n (sa_Meta x)\<rparr>)"
| "withController n (KClusterRole x) = KClusterRole (x\<lparr>role_Meta := owned n (role_Meta x)\<rparr>)"
| "withController n (KClusterRoleBinding x) = KClusterRoleBinding (x\<lparr>rb_Meta := owned n (rb_Meta x)\<rparr>)"
| "withController n (KRole x) = KRole (x\<lparr>role_Meta := owned n (role_Meta x)\<rparr>)"
| "withController n (KRoleBinding x) = KRoleBinding (x\<lparr>rb_Meta := owned n (rb_Meta x)\<rparr>)"
| "withController n (KSecret x) = KSecret (x\<lparr>sec_Meta := owned n (sec_Meta x)\<rparr>)"
| "withController n (KDeployment x) = KDeployment (x\<lparr>dep_Meta := owned n (dep_Meta x)\<rparr>)"
| "withController n (KService x) = KService (x\<lparr>svc_Meta := owned n (svc_Meta x)\<rparr>)"
| "withController n (KWebhook x) = KWebhook (x\<lparr>wc_Meta := owned n (wc_Meta x)\<rparr>)"
| "withController n (KTemplate x) = KTemplate (x\<lparr>tpl_Meta := owned n (tpl_Meta x)\<rparr>)"
| "withController n (KEvent x) = KEvent x"
| "withController n (KShield x) = KShield (x\<lparr>is_Meta := owned n (is_Meta x)\<rparr>)"

lemma owned_simps [simp]:
  "meta_Name (owned n m) = meta_Name m" "meta_Namespace (owned n m) = meta_Namespace m"
  "meta_Labels (owned n m) = meta_Labels m"
  by (simp_all add: owned_def)

lemma objKey_withController [simp]: "objKey (withController n x) = objKey x"
  by (cases x) (simp_all add: metaKey_def)

text \<open>The updates that the API server refuses: the selector of a deployment and the group, scope,
  kind and plural name of a custom resource definition cannot be changed.\<close>

definition accepts :: "kobject \<Rightarrow> kobject \<Rightarrow> bool" where
  "accepts old new =
     (case (old, new) of
        (KDeployment d, KDeployment e) \<Rightarrow> ds_Selector (dep_Spec e) = ds_Selector (dep_Spec d)
      | (KCRD c, KCRD e) \<Rightarrow>
          cds_Group (crd_Spec e) = cds_Group (crd_Spec c) \<and> cds_Scope (crd_Spec e) = cds_Scope (crd_Spec c) \<and>
          cn_Kind (cds_Names (crd_Spec e)) = cn_Kind (cds_Names (crd_Spec c)) \<and>
          cn_Plural (cds_Names (crd_Spec e)) = cn_Plural (cds_Names (crd_Spec c))
      | _ \<Rightarrow> True)"

text \<open>An instance under deletion is dropped when an update removes its last finalizer.\<close>

definition finalized :: "kobject \<Rightarrow> bool" where
  "finalized x = (case x of KShield i \<Rightarrow> meta_Deleting (is_Meta i) \<and> meta_Finalizers (is_Meta i) = [] | _ \<Rightarrow> False)"

text \<open>What the operator relies on: \<open>V s\<close> gives the objects in a cluster state by kind, namespace
  (empty for cluster-scoped kinds) and name. A lookup returns the stored object or the
  not-found error; creating a missing object, an accepted update of a present one and a deletion
  succeed and change that object only, a refused update is an error; setting the controller
  reference only sets the owner. The server stores what is written: it does not fill in defaults.\<close>

definition store_laws :: "('k, 's, 'x) op_client_scheme \<Rightarrow> ('s \<Rightarrow> obj_key \<rightharpoonup> kobject) \<Rightarrow> bool" where
  "store_laws C V \<longleftrightarrow>
     (\<forall>s k ns n. Client_Get C s k ns n = (case V s (keyOf k ns n) of None \<Rightarrow> Inl NotFound | Some x \<Rightarrow> Inr x)) \<and>
     (\<forall>s x. V s (objKey x) = None \<longrightarrow> (\<exists>s'. Client_Create C s x = Inr s' \<and> V s' = (V s)(objKey x \<mapsto> x))) \<and>
     (\<forall>s x y. V s (objKey x) = Some y \<longrightarrow>
        (if accepts y x
         then \<exists>s'. Client_Update C s x = Inr s' \<and> V s' = (V s)(objKey x := if finalized x then None else Some x)
         else \<exists>e. Client_Update C s x = Inl e)) \<and>
     (\<forall>s x. V s (objKey x) \<noteq> None \<longrightarrow> (\<exists>s'. Client_Delete C s x = Inr s' \<and> V s' = (V s)(objKey x := None))) \<and>
     (\<forall>s k x. V s k = Some x \<longrightarrow> objKey x = k) \<and>
     (\<forall>i x. SetControllerReference C i x = Inr (withController (cr_Name i) x))"

lemma store_get: "store_laws C V \<Longrightarrow>
    Client_Get C s k ns n = (case V s (keyOf k ns n) of None \<Rightarrow> Inl NotFound | Some x \<Rightarrow> Inr x)"
  by (simp add: store_laws_def)

lemma store_create: "store_laws C V \<Longrightarrow> V s (objKey x) = None \<Longrightarrow>
    \<exists>s'. Client_Create C s x = Inr s' \<and> V s' = (V s)(objKey x \<mapsto> x)"
  by (simp add: store_laws_def)

lemma store_write: "store_laws C V \<Longrightarrow> V s (objKey x) = Some y \<Longrightarrow> accepts y x \<Longrightarrow>
    \<exists>s'. Client_Update C s x = Inr s' \<and> V s' = (V s)(objKey x := if finalized x then None else Some x)"
  unfolding store_laws_def by meson

lemma store_refuse: "store_laws C V \<Longrightarrow> V s (objKey x) = Some y \<Longrightarrow> \<not> accepts y x \<Longrightarrow> \<exists>e. Client_Update C s x = Inl e"
  unfolding store_laws_def by meson

lemma store_update: "store_laws C V \<Longrightarrow> V s (objKey x) = Some y \<Longrightarrow> accepts y x \<Longrightarrow> \<not> finalized x \<Longrightarrow>
    \<exists>s'. Client_Update C s x = Inr s' \<and> V s' = (V s)(objKey x \<mapsto> x)"
  using store_write [of C V s x y] by simp

lemma finalized_simps [simp]:
  "\<not> finalized (KCRD c)" "\<not> finalized (KDeployment d)" "\<not> finalized (KEvent e)"
  "finalized (KShield i) = (meta_Deleting (is_Meta i) \<and> meta_Finalizers (is_Meta i) = [])"
  by (simp_all add: finalized_def)

lemma accepts_simps [simp]: "accepts y (KEvent e)" "accepts y (KShield i)"
  by (cases y; simp add: accepts_def)+

lemma store_delete: "store_laws C V \<Longrightarrow> V s (objKey x) = Some y \<Longrightarrow>
    \<exists>s'. Client_Delete C s x = Inr s' \<and> V s' = (V s)(objKey x := None)"
  unfolding store_laws_def by blast

lemma store_key: "store_laws C V \<Longrightarrow> V s k = Some x \<Longrightarrow> objKey x = k"
  unfolding store_laws_def by blast

lemma store_owner: "store_laws C V \<Longrightarrow> SetControllerReference C i x = Inr (withController (cr_Name i) x)"
  by (simp add: store_laws_def)

section \<open>Goals of the steps\<close>

text \<open>A goal is an object that has to be there, what has to hold of it, and which objects in its
  place the server lets the operator amend.\<close>

type_synonym goal = "obj_key \<times> (kobject \<Rightarrow> bool) \<times> (kobject \<Rightarrow> bool)"

abbreviation wanted :: "goal \<Rightarrow> kobject \<Rightarrow> bool" where
  "wanted g \<equiv> fst (snd g)"

abbreviation amendable :: "goal \<Rightarrow> kobject \<Rightarrow> bool" where
  "amendable g \<equiv> snd (snd g)"

definition reached :: "('s \<Rightarrow> obj_key \<rightharpoonup> kobject) \<Rightarrow> 's \<Rightarrow> goal \<Rightarrow> bool" where
  "reached V s g = (case V s (fst g) of None \<Rightarrow> False | Some x \<Rightarrow> wanted g x)"

text \<open>An object in the place of the goal is neither what is wanted nor can it be made so.\<close>

definition blocked :: "('s \<Rightarrow> obj_key \<rightharpoonup> kobject) \<Rightarrow> 's \<Rightarrow> goal \<Rightarrow> bool" where
  "blocked V s g = (case V s (fst g) of None \<Rightarrow> False | Some x \<Rightarrow> \<not> wanted g x \<and> \<not> amendable g x)"

lemma reached_not_blocked: "reached V s g \<Longrightarrow> \<not> blocked V s g"
  by (simp add: reached_def blocked_def split: option.splits)

text \<open>A step that leaves a reached goal alone, fails on a blocked one and otherwise reaches it in one
  go, touching no other object.\<close>

definition reaches :: "('s \<Rightarrow> obj_key \<rightharpoonup> kobject) \<Rightarrow> ('s \<Rightarrow> 's rec outcome) \<Rightarrow> goal \<Rightarrow> bool" where
  "reaches V f g \<longleftrightarrow>
     (\<forall>s. if reached V s g then f s = Return ((noRequeue, None), s)
          else if blocked V s g then \<exists>e. f s = Return ((noRequeue, Some e), s)
          else (\<exists>r s'. f s = Return ((r, None), s') \<and> reached V s' g \<and> (\<forall>k. k \<noteq> fst g \<longrightarrow> V s' k = V s k)))"

lemma createNew_store:
  assumes "store_laws C V" and "V s (objKey x) = None"
  shows "\<exists>s'. createNew C x s = ((requeueSoon, None), s') \<and> V s' = (V s)(objKey x \<mapsto> x)"
  using store_create [OF assms] by (auto simp: createNew_def)

lemma reachesI:
  assumes "\<And>s. reached V s g \<Longrightarrow> f s = Return ((noRequeue, None), s)"
    and "\<And>s. blocked V s g \<Longrightarrow> \<exists>e. f s = Return ((noRequeue, Some e), s)"
    and "\<And>s. \<not> reached V s g \<Longrightarrow> \<not> blocked V s g \<Longrightarrow>
           \<exists>r s' y. f s = Return ((r, None), s') \<and> V s' = (V s)(fst g \<mapsto> y) \<and> wanted g y"
  shows "reaches V f g"
  unfolding reaches_def
proof
  fix s
  consider "reached V s g" | "\<not> reached V s g" "blocked V s g" | "\<not> reached V s g" "\<not> blocked V s g" by blast
  then show "if reached V s g then f s = Return ((noRequeue, None), s)
      else if blocked V s g then \<exists>e. f s = Return ((noRequeue, Some e), s)
      else (\<exists>r s'. f s = Return ((r, None), s') \<and> reached V s' g \<and> (\<forall>k. k \<noteq> fst g \<longrightarrow> V s' k = V s k))"
  proof cases
    case 3
    from assms(3) [OF this] obtain r s' y
      where "f s = Return ((r, None), s')" and "V s' = (V s)(fst g \<mapsto> y)" and "wanted g y" by blast
    with 3 show ?thesis by (simp add: reached_def)
  qed (simp_all add: assms)
qed

lemma createOrUpdate_reaches:
  assumes laws: "store_laws C V" and key: "objKey x = keyOf k ns n"
  shows "reaches V (plain (createOrUpdate C i k ns n x keepFound)) (keyOf k ns n, \<lambda>_. True, \<lambda>_. True)"
proof (rule reachesI)
  fix s
  assume "reached V s (keyOf k ns n, \<lambda>_. True, \<lambda>_. True)"
  then show "plain (createOrUpdate C i k ns n x keepFound) s = Return ((noRequeue, None), s)"
    by (auto simp: plain_def createOrUpdate_def store_owner [OF laws] store_get [OF laws] keepFound_def reached_def
        split: option.splits)
next
  fix s
  assume "\<not> reached V s (keyOf k ns n, \<lambda>_. True, \<lambda>_. True)"
  then have none: "V s (keyOf k ns n) = None"
    by (simp add: reached_def split: option.splits)
  with createNew_store [OF laws, of s "withController (cr_Name i) x"] key
  obtain s' where "createNew C (withController (cr_Name i) x) s = ((requeueSoon, None), s')"
    and "V s' = (V s)(keyOf k ns n \<mapsto> withController (cr_Name i) x)" by auto
  with none show "\<exists>r s' y. plain (createOrUpdate C i k ns n x keepFound) s = Return ((r, None), s') \<and>
        V s' = (V s)(fst (keyOf k ns n, \<lambda>_. True, \<lambda>_. True) \<mapsto> y) \<and> wanted (keyOf k ns n, \<lambda>_. True, \<lambda>_. True) y"
    by (intro exI [of _ requeueSoon] exI [of _ s'] exI [of _ "withController (cr_Name i) x"])
       (simp add: plain_def createOrUpdate_def store_owner [OF laws] store_get [OF laws])
qed (auto simp: blocked_def split: option.splits)

text \<open>A custom resource definition is brought to the built specification.\<close>

definition crdGoal :: "crd \<Rightarrow> goal" where
  "crdGoal expected =
     (metaKey CRDKind (crd_Meta expected), \<lambda>x. case x of KCRD found \<Rightarrow> crd_Spec found = crd_Spec expected | _ \<Rightarrow> False,
      \<lambda>x. accepts x (KCRD expected))"

lemma CRD_kind: "objKey x = metaKey CRDKind m \<Longrightarrow> \<exists>c. x = KCRD c"
  by (cases x) (simp_all add: metaKey_def keyOf_def)

lemma deployment_kind: "objKey x = metaKey DeploymentKind m \<Longrightarrow> \<exists>d. x = KDeployment d"
  by (cases x) (simp_all add: metaKey_def keyOf_def)

lemma accepts_spec:
  "crd_Spec c = crd_Spec e \<Longrightarrow> accepts y (KCRD c) = accepts y (KCRD e)"
  "dep_Spec d = dep_Spec f \<Longrightarrow> accepts y (KDeployment d) = accepts y (KDeployment f)"
  by (cases y; simp add: accepts_def)+

lemma createOrUpdateCRD_found:
  assumes laws: "store_laws C V" and at: "V s (metaKey CRDKind (crd_Meta expected)) = Some (KCRD found)"
  shows "createOrUpdateCRD C i expected s =
     (if crd_Spec expected \<noteq> crd_Spec found
      then (case Client_Update C s (KCRD (expected\<lparr>crd_Meta := crd_Meta found\<rparr>)) of
              Inl e \<Rightarrow> ((noRequeue, Some e), s) | Inr s' \<Rightarrow> ((noRequeue, None), s'))
      else ((noRequeue, None), s))"
proof -
  have key: "keyOf CRDKind [] (meta_Name (crd_Meta expected)) = metaKey CRDKind (crd_Meta expected)"
    by (simp add: metaKey_def keyOf_def clusterScoped_def)
  show ?thesis
    using at by (simp add: createOrUpdateCRD_def createOrUpdate_def store_owner [OF laws] store_get [OF laws] key owned_def)
qed

lemma createOrUpdateCRD_reaches:
  assumes laws: "store_laws C V"
  shows "reaches V (plain (createOrUpdateCRD C i expected)) (crdGoal expected)"
proof (rule reachesI)
  let ?key = "metaKey CRDKind (crd_Meta expected)"
  have crd: "\<exists>found. x = KCRD found \<and> objKey (KCRD (expected\<lparr>crd_Meta := crd_Meta found\<rparr>)) = ?key"
    if "V s ?key = Some x" for s x
    using store_key [OF laws that] CRD_kind by fastforce
  have spec: "accepts y (KCRD (expected\<lparr>crd_Meta := m\<rparr>)) = accepts y (KCRD expected)" for y m
    by (rule accepts_spec) simp
  {
    fix s
    assume "reached V s (crdGoal expected)"
    then obtain found where "V s ?key = Some (KCRD found)" and "crd_Spec found = crd_Spec expected"
      by (auto simp: reached_def crdGoal_def split: option.splits kobject.splits)
    then show "plain (createOrUpdateCRD C i expected) s = Return ((noRequeue, None), s)"
      by (simp add: plain_def createOrUpdateCRD_found [OF laws])
  next
    fix s
    assume block: "blocked V s (crdGoal expected)"
    then obtain x where x: "V s ?key = Some x" by (auto simp: blocked_def crdGoal_def split: option.splits)
    with crd obtain found where found: "x = KCRD found" "objKey (KCRD (expected\<lparr>crd_Meta := crd_Meta found\<rparr>)) = ?key" by blast
    with block x have "\<not> accepts x (KCRD (expected\<lparr>crd_Meta := crd_Meta found\<rparr>))" and "crd_Spec expected \<noteq> crd_Spec found"
      by (auto simp: blocked_def crdGoal_def spec)
    with store_refuse [OF laws, of s "KCRD (expected\<lparr>crd_Meta := crd_Meta found\<rparr>)" x] x found
    show "\<exists>e. plain (createOrUpdateCRD C i expected) s = Return ((noRequeue, Some e), s)"
      by (auto simp: plain_def createOrUpdateCRD_found [OF laws])
  next
    fix s
    assume missing: "\<not> reached V s (crdGoal expected)" and free: "\<not> blocked V s (crdGoal expected)"
    have key: "keyOf CRDKind [] (meta_Name (crd_Meta expected)) = ?key"
      by (simp add: metaKey_def keyOf_def clusterScoped_def)
    show "\<exists>r s' y. plain (createOrUpdateCRD C i expected) s = Return ((r, None), s') \<and>
        V s' = (V s)(fst (crdGoal expected) \<mapsto> y) \<and> wanted (crdGoal expected) y"
    proof (cases "V s ?key")
      case None
      let ?new = "withController (cr_Name i) (KCRD expected)"
      have "objKey ?new = ?key" by (simp add: metaKey_def)
      with None createNew_store [OF laws, of s ?new]
      obtain s' where "createNew C ?new s = ((requeueSoon, None), s')" and "V s' = (V s)(?key \<mapsto> ?new)" by metis
      with None show ?thesis
        by (intro exI [of _ requeueSoon] exI [of _ s'] exI [of _ ?new])
           (simp add: plain_def createOrUpdateCRD_def createOrUpdate_def store_owner [OF laws] store_get [OF laws] key crdGoal_def)
    next
      case (Some x)
      with crd obtain found where found: "x = KCRD found" and newKey: "objKey (KCRD (expected\<lparr>crd_Meta := crd_Meta found\<rparr>)) = ?key"
        by blast
      let ?new = "KCRD (expected\<lparr>crd_Meta := crd_Meta found\<rparr>)"
      from missing free Some found have "crd_Spec expected \<noteq> crd_Spec found" and "accepts x ?new"
        by (auto simp: reached_def blocked_def crdGoal_def spec)
      with Some newKey store_update [OF laws, of s ?new]
      obtain s' where "Client_Update C s ?new = Inr s'" and "V s' = (V s)(?key \<mapsto> ?new)" by auto
      with Some found \<open>crd_Spec expected \<noteq> crd_Spec found\<close> show ?thesis
        by (intro exI [of _ noRequeue] exI [of _ s'] exI [of _ ?new])
           (simp add: plain_def createOrUpdateCRD_found [OF laws] crdGoal_def)
    qed
  }
qed

text \<open>A deployment is brought to a state that the comparison accepts.\<close>

definition deploymentGoal :: "deployment \<Rightarrow> goal" where
  "deploymentGoal expected =
     (metaKey DeploymentKind (dep_Meta expected),
      \<lambda>x. case x of KDeployment found \<Rightarrow> EqualDeployments expected found = Return True | _ \<Rightarrow> False,
      \<lambda>x. accepts x (KDeployment expected))"

lemma EqualDeployments_owned [simp]:
  "EqualDeployments (d\<lparr>dep_Meta := owned n (dep_Meta d)\<rparr>) found = EqualDeployments d found"
  by (simp add: EqualDeployments_def)

lemma EqualDeployments_total:
  assumes "ps_Containers (pt_Spec (ds_Template (dep_Spec d))) \<noteq> []"
  shows "\<exists>b. EqualDeployments d found = Return b"
  using assms by (auto simp: EqualDeployments_def EqualPods_def split: list.split)

lemma createOrUpdateDeployment_kept:
  assumes "store_laws C V" and "meta_Namespace (dep_Meta expected) = cr_Namespace i" and "reached V s (deploymentGoal expected)"
  shows "createOrUpdateDeployment C i expected s = Return ((noRequeue, None), s)"
  using assms(3)
  by (auto simp: createOrUpdateDeployment_def store_owner [OF assms(1)] store_get [OF assms(1)] assms(2)
      reached_def deploymentGoal_def metaKey_def split: option.splits kobject.splits)

text \<open>A deployment that is missing, or differs and may be changed, is written with the expected
  specification; one that may not be changed is an error.\<close>

lemma createOrUpdateDeployment_differs:
  assumes laws: "store_laws C V" and ns: "meta_Namespace (dep_Meta expected) = cr_Namespace i"
    and cts: "ps_Containers (pt_Spec (ds_Template (dep_Spec expected))) \<noteq> []" and missing: "\<not> reached V s (deploymentGoal expected)"
    and at: "V s (metaKey DeploymentKind (dep_Meta expected)) = Some x"
  obtains found where "x = KDeployment found" and "objKey (KDeployment (found\<lparr>dep_Meta := (dep_Meta found)
        \<lparr>meta_Labels := meta_Labels (dep_Meta expected)\<rparr>, dep_Spec := dep_Spec expected\<rparr>)) = metaKey DeploymentKind (dep_Meta expected)"
    and "createOrUpdateDeployment C i expected s =
      (case Client_Update C s (KDeployment (found\<lparr>dep_Meta := (dep_Meta found)
          \<lparr>meta_Labels := meta_Labels (dep_Meta expected)\<rparr>, dep_Spec := dep_Spec expected\<rparr>)) of
         Inl e \<Rightarrow> Return ((noRequeue, Some e), s) | Inr s' \<Rightarrow> Return ((requeueNow, None), s'))"
proof -
  let ?key = "metaKey DeploymentKind (dep_Meta expected)"
  have key: "keyOf DeploymentKind (cr_Namespace i) (meta_Name (dep_Meta expected)) = ?key" by (simp add: metaKey_def ns)
  from store_key [OF laws at] have xkey: "objKey x = ?key" .
  with deployment_kind obtain found where found: "x = KDeployment found" by blast
  with at missing EqualDeployments_total [OF cts, of found]
  have differs: "EqualDeployments expected found = Return False" by (auto simp: reached_def deploymentGoal_def)
  show ?thesis
  proof (rule that [OF found])
    show "objKey (KDeployment (found\<lparr>dep_Meta := (dep_Meta found)
        \<lparr>meta_Labels := meta_Labels (dep_Meta expected)\<rparr>, dep_Spec := dep_Spec expected\<rparr>)) = ?key"
      using xkey found by (simp add: metaKey_def)
  qed (use at differs found in \<open>simp add: createOrUpdateDeployment_def store_owner [OF laws] store_get [OF laws] key\<close>)
qed

lemma createOrUpdateDeployment_written:
  assumes laws: "store_laws C V" and ns: "meta_Namespace (dep_Meta expected) = cr_Namespace i"
    and cts: "ps_Containers (pt_Spec (ds_Template (dep_Spec expected))) \<noteq> []" and missing: "\<not> reached V s (deploymentGoal expected)"
    and free: "\<not> blocked V s (deploymentGoal expected)"
  shows "\<exists>r s' d. createOrUpdateDeployment C i expected s = Return ((r, None), s') \<and>
           V s' = (V s)(metaKey DeploymentKind (dep_Meta expected) \<mapsto> KDeployment d) \<and>
           dep_Spec d = dep_Spec expected \<and> meta_Labels (dep_Meta d) = meta_Labels (dep_Meta expected)"
proof (cases "V s (metaKey DeploymentKind (dep_Meta expected))")
  case None
  let ?key = "metaKey DeploymentKind (dep_Meta expected)"
  let ?owned = "expected\<lparr>dep_Meta := owned (cr_Name i) (dep_Meta expected)\<rparr>"
  have key: "keyOf DeploymentKind (cr_Namespace i) (meta_Name (dep_Meta expected)) = ?key" by (simp add: metaKey_def ns)
  have "objKey (KDeployment ?owned) = ?key" by (simp add: metaKey_def)
  with None createNew_store [OF laws, of s "KDeployment ?owned"]
  obtain s' where "createNew C (KDeployment ?owned) s = ((requeueSoon, None), s')"
    and "V s' = (V s)(?key \<mapsto> KDeployment ?owned)" by metis
  with None show ?thesis
    by (intro exI [of _ requeueSoon] exI [of _ s'] exI [of _ ?owned])
       (simp add: createOrUpdateDeployment_def store_owner [OF laws] store_get [OF laws] key)
next
  case (Some x)
  let ?key = "metaKey DeploymentKind (dep_Meta expected)"
  from createOrUpdateDeployment_differs [OF laws ns cts missing Some] obtain found where found: "x = KDeployment found"
      and newKey: "objKey (KDeployment (found\<lparr>dep_Meta := (dep_Meta found)
        \<lparr>meta_Labels := meta_Labels (dep_Meta expected)\<rparr>, dep_Spec := dep_Spec expected\<rparr>)) = ?key"
      and step: "createOrUpdateDeployment C i expected s =
        (case Client_Update C s (KDeployment (found\<lparr>dep_Meta := (dep_Meta found)
          \<lparr>meta_Labels := meta_Labels (dep_Meta expected)\<rparr>, dep_Spec := dep_Spec expected\<rparr>)) of
         Inl e \<Rightarrow> Return ((noRequeue, Some e), s) | Inr s' \<Rightarrow> Return ((requeueNow, None), s'))" .
  let ?new = "found\<lparr>dep_Meta := (dep_Meta found)\<lparr>meta_Labels := meta_Labels (dep_Meta expected)\<rparr>, dep_Spec := dep_Spec expected\<rparr>"
  have "accepts x (KDeployment ?new) = accepts x (KDeployment expected)" by (rule accepts_spec) simp
  with missing free Some have "accepts x (KDeployment ?new)" by (simp add: reached_def blocked_def deploymentGoal_def)
  with Some newKey store_update [OF laws, of s "KDeployment ?new"]
  obtain s' where "Client_Update C s (KDeployment ?new) = Inr s'" and "V s' = (V s)(?key \<mapsto> KDeployment ?new)" by auto
  then show ?thesis by (intro exI [of _ requeueNow] exI [of _ s'] exI [of _ ?new]) (simp add: step)
qed

lemma createOrUpdateDeployment_blocked:
  assumes laws: "store_laws C V" and ns: "meta_Namespace (dep_Meta expected) = cr_Namespace i"
    and cts: "ps_Containers (pt_Spec (ds_Template (dep_Spec expected))) \<noteq> []" and block: "blocked V s (deploymentGoal expected)"
  shows "\<exists>e. createOrUpdateDeployment C i expected s = Return ((noRequeue, Some e), s)"
proof -
  from block obtain x where x: "V s (metaKey DeploymentKind (dep_Meta expected)) = Some x"
    by (auto simp: blocked_def deploymentGoal_def split: option.splits)
  from block have missing: "\<not> reached V s (deploymentGoal expected)" using reached_not_blocked by metis
  from createOrUpdateDeployment_differs [OF laws ns cts missing x] obtain found where
      newKey: "objKey (KDeployment (found\<lparr>dep_Meta := (dep_Meta found)
        \<lparr>meta_Labels := meta_Labels (dep_Meta expected)\<rparr>, dep_Spec := dep_Spec expected\<rparr>)) = metaKey DeploymentKind (dep_Meta expected)"
      and step: "createOrUpdateDeployment C i expected s =
        (case Client_Update C s (KDeployment (found\<lparr>dep_Meta := (dep_Meta found)
          \<lparr>meta_Labels := meta_Labels (dep_Meta expected)\<rparr>, dep_Spec := dep_Spec expected\<rparr>)) of
         Inl e \<Rightarrow> Return ((noRequeue, Some e), s) | Inr s' \<Rightarrow> Return ((requeueNow, None), s'))" .
  let ?new = "found\<lparr>dep_Meta := (dep_Meta found)\<lparr>meta_Labels := meta_Labels (dep_Meta expected)\<rparr>, dep_Spec := dep_Spec expected\<rparr>"
  have "accepts x (KDeployment ?new) = accepts x (KDeployment expected)" by (rule accepts_spec) simp
  with block x have "\<not> accepts x (KDeployment ?new)" by (simp add: blocked_def deploymentGoal_def)
  with store_refuse [OF laws, of s "KDeployment ?new" x] x newKey show ?thesis unfolding step by auto
qed

lemma createOrUpdateDeployment_reaches:
  assumes laws: "store_laws C V" and ns: "meta_Namespace (dep_Meta expected) = cr_Namespace i"
    and cts: "ps_Containers (pt_Spec (ds_Template (dep_Spec expected))) \<noteq> []"
  shows "reaches V (createOrUpdateDeployment C i expected) (deploymentGoal expected)"
proof (rule reachesI)
  fix s
  assume "\<not> reached V s (deploymentGoal expected)" and "\<not> blocked V s (deploymentGoal expected)"
  from createOrUpdateDeployment_written [OF laws ns cts this] obtain r s' d
    where "createOrUpdateDeployment C i expected s = Return ((r, None), s')"
      and "V s' = (V s)(metaKey DeploymentKind (dep_Meta expected) \<mapsto> KDeployment d)"
      and "EqualDeployments expected d = Return True" using EqualDeployments_self [OF cts] by blast
  then show "\<exists>r s' y. createOrUpdateDeployment C i expected s = Return ((r, None), s') \<and>
      V s' = (V s)(fst (deploymentGoal expected) \<mapsto> y) \<and> wanted (deploymentGoal expected) y"
    by (intro exI [of _ r] exI [of _ s'] exI [of _ "KDeployment d"]) (simp add: deploymentGoal_def)
qed (rule createOrUpdateDeployment_kept [OF laws ns] createOrUpdateDeployment_blocked [OF laws ns cts], assumption)+

section \<open>A pass over the steps\<close>

lemma reaches_cases:
  assumes "reaches V f g"
  obtains (done_before) "reached V s g" "f s = Return ((noRequeue, None), s)"
  | (refused) e where "\<not> reached V s g" "blocked V s g" "f s = Return ((noRequeue, Some e), s)"
  | (works) r s' where "\<not> reached V s g" "\<not> blocked V s g" "f s = Return ((r, None), s')" "reached V s' g"
      "\<forall>k. k \<noteq> fst g \<longrightarrow> V s' k = V s k"
proof -
  consider "reached V s g" | "\<not> reached V s g" "blocked V s g" | "\<not> reached V s g" "\<not> blocked V s g" by blast
  then show ?thesis
  proof cases
    case 1
    with assms show ?thesis unfolding reaches_def by (intro done_before) simp_all
  next
    case 2
    with assms obtain e where "f s = Return ((noRequeue, Some e), s)" unfolding reaches_def by meson
    with 2 show ?thesis by (rule refused)
  next
    case 3
    with assms obtain r s' where "f s = Return ((r, None), s')" and "reached V s' g" and "\<forall>k. k \<noteq> fst g \<longrightarrow> V s' k = V s k"
      unfolding reaches_def by meson
    with 3 show ?thesis by (rule works)
  qed
qed

text \<open>Two goals for the same object have to ask for the same.\<close>

definition compatible :: "goal set \<Rightarrow> bool" where
  "compatible G \<longleftrightarrow> (\<forall>g\<in>G. \<forall>h\<in>G. fst g = fst h \<longrightarrow> snd g = snd h)"

lemma compatible_eq: "compatible G \<Longrightarrow> g \<in> G \<Longrightarrow> h \<in> G \<Longrightarrow> fst g = fst h \<Longrightarrow> g = h"
  unfolding compatible_def by (cases g, cases h) fastforce

text \<open>What a pass keeps: the objects of the goals already reached, and the objects outside a set of
  keys. It does not block a goal.\<close>

definition progress :: "('s \<Rightarrow> obj_key \<rightharpoonup> kobject) \<Rightarrow> goal set \<Rightarrow> obj_key set \<Rightarrow> 's \<Rightarrow> 's \<Rightarrow> bool" where
  "progress V G K s s' \<longleftrightarrow>
     (\<forall>g\<in>G. reached V s g \<longrightarrow> V s' (fst g) = V s (fst g)) \<and> (\<forall>g\<in>G. blocked V s' g \<longrightarrow> blocked V s g) \<and>
     (\<forall>k. k \<notin> K \<longrightarrow> V s' k = V s k)"

lemma progress_refl [simp]: "progress V G K s s"
  by (simp add: progress_def)

lemma progress_reached: "progress V G K s s' \<Longrightarrow> g \<in> G \<Longrightarrow> reached V s g \<Longrightarrow> reached V s' g"
  by (simp add: progress_def reached_def)

lemma progress_blocked: "progress V G K s s' \<Longrightarrow> g \<in> G \<Longrightarrow> blocked V s' g \<Longrightarrow> blocked V s g"
  unfolding progress_def by blast

lemma progress_trans: "progress V G K s s' \<Longrightarrow> progress V G K s' s'' \<Longrightarrow> progress V G K s s''"
  unfolding progress_def by (metis reached_def)

lemma progress_step:
  assumes "compatible G" and "g \<in> G" and "fst ` G \<subseteq> K"
    and "\<not> reached V s g" and "reached V s' g" and "\<forall>k. k \<noteq> fst g \<longrightarrow> V s' k = V s k"
  shows "progress V G K s s'"
  unfolding progress_def
proof (intro conjI ballI impI allI)
  fix h
  assume "h \<in> G" and "reached V s h"
  with assms(4) compatible_eq [OF assms(1) \<open>h \<in> G\<close> assms(2)] have "fst h \<noteq> fst g" by auto
  with assms(6) show "V s' (fst h) = V s (fst h)" by blast
next
  fix h
  assume "h \<in> G" and block: "blocked V s' h"
  with reached_not_blocked [OF assms(5)] compatible_eq [OF assms(1) \<open>h \<in> G\<close> assms(2)] have "fst h \<noteq> fst g" by auto
  with assms(6) have "V s' (fst h) = V s (fst h)" by blast
  with block show "blocked V s h" by (simp add: blocked_def)
next
  fix k
  assume "k \<notin> K"
  with assms(2,3) have "k \<noteq> fst g" by blast
  with assms(6) show "V s' k = V s k" by blast
qed

definition harmless :: "('s \<Rightarrow> obj_key \<rightharpoonup> kobject) \<Rightarrow> goal set \<Rightarrow> obj_key set \<Rightarrow> ('s \<Rightarrow> 's rec outcome) \<Rightarrow> bool" where
  "harmless V G K f \<longleftrightarrow> (\<forall>s. \<exists>r s'. f s = Return (r, s') \<and> progress V G K s s')"

lemma runSteps_single: "harmless V G K l \<Longrightarrow> \<exists>r s'. runSteps [l] s = Return (r, s') \<and> progress V G K s s'"
proof -
  assume "harmless V G K l"
  then obtain r e s' where "l s = Return ((r, e), s')" and "progress V G K s s'"
    unfolding harmless_def by (metis prod.collapse)
  then show ?thesis by (cases "e \<noteq> None \<or> Requeue r") auto
qed

text \<open>A pass reaches a further goal, or it fails on a blocked one, or it comes to the last step.\<close>

lemma runSteps_pass:
  assumes "list_all2 (reaches V) fs gs" and "compatible G" and "set gs \<subseteq> G" and "fst ` G \<subseteq> K" and "harmless V G K l"
  shows "\<exists>r s'. runSteps (fs @ [l]) s = Return (r, s') \<and> progress V G K s s' \<and>
           (if \<forall>g\<in>set gs. reached V s g then runSteps (fs @ [l]) s = runSteps [l] s
            else (\<exists>g\<in>set gs. \<not> reached V s g \<and> reached V s' g) \<or> (\<exists>g\<in>set gs. blocked V s g) \<and> snd r \<noteq> None)"
  using assms(1,3)
proof (induction arbitrary: s rule: list_all2_induct)
  case Nil
  with runSteps_single [OF assms(5)] show ?case by simp
next
  case (Cons f fs g gs)
  from Cons.prems have g: "g \<in> G" and gs: "set gs \<subseteq> G" by auto
  from \<open>reaches V f g\<close> show ?case
  proof (cases rule: reaches_cases [where s = s])
    case done_before
    then have eq: "runSteps ((f # fs) @ [l]) s = runSteps (fs @ [l]) s" by simp
    have all: "(\<forall>h\<in>set (g # gs). reached V s h) = (\<forall>h\<in>set gs. reached V s h)"
      and ex: "\<And>s'. (\<exists>h\<in>set (g # gs). \<not> reached V s h \<and> reached V s' h) = (\<exists>h\<in>set gs. \<not> reached V s h \<and> reached V s' h)"
      and block: "(\<exists>h\<in>set (g # gs). blocked V s h) = (\<exists>h\<in>set gs. blocked V s h)"
      using done_before(1) reached_not_blocked [OF done_before(1)] by simp_all
    show ?thesis unfolding eq all ex block by (rule Cons.IH [OF gs])
  next
    case (refused e)
    then show ?thesis by (intro exI [of _ "(noRequeue, Some e)"] exI [of _ s]) simp
  next
    case (works r s')
    have here: "progress V G K s s'" by (rule progress_step [OF assms(2) g assms(4) works(1,4,5)])
    show ?thesis
    proof (cases "Requeue r")
      case True
      with works here show ?thesis by auto
    next
      case False
      from Cons.IH [OF gs, of s'] obtain r2 s2
        where "runSteps (fs @ [l]) s' = Return (r2, s2)" and "progress V G K s' s2" by blast
      with False works here g show ?thesis
        by (auto intro: progress_trans progress_reached)
    qed
  qed
qed

section \<open>The goals of an installation\<close>

definition presentGoal :: "kind \<Rightarrow> object_meta \<Rightarrow> goal" where
  "presentGoal k m = (metaKey k m, \<lambda>_. True, \<lambda>_. True)"

definition commonGoals :: "integrity_shield \<Rightarrow> goal list" where
  "commonGoals i =
     [presentGoal ConfigMapKind (cmap_Meta (BuildReqConfigForIShield i)),
      presentGoal ServiceAccountKind (sa_Meta (BuildServiceAccountForIShield i)),
      presentGoal RoleKind (role_Meta (BuildRoleForIShield i)),
      presentGoal RoleBindingKind (rb_Meta (BuildRoleBindingForIShield i)),
      presentGoal ClusterRoleKind (role_Meta (BuildClusterRoleForIShield i)),
      presentGoal ClusterRoleBindingKind (rb_Meta (BuildClusterRoleBindingForIShield i))]"

definition observerGoals :: "json \<Rightarrow> integrity_shield \<Rightarrow> goal list" where
  "observerGoals csv i =
     [crdGoal (BuildObserverResultCRD i),
      presentGoal ServiceAccountKind (sa_Meta (BuildServiceAccountForObserver i)),
      presentGoal ClusterRoleKind (role_Meta (BuildClusterRoleForObserver i)),
      presentGoal ClusterRoleBindingKind (rb_Meta (BuildClusterRoleBindingForObserver i)),
      presentGoal RoleKind (role_Meta (BuildRoleForObserver i)),
      presentGoal RoleBindingKind (rb_Meta (BuildRoleBindingForObserver i)),
      deploymentGoal (BuildDeploymentForObserver csv i)]"

definition gatekeeperGoals :: "json \<Rightarrow> integrity_shield \<Rightarrow> goal list" where
  "gatekeeperGoals csv i =
     [presentGoal SecretKind (sec_Meta (BuildTlsSecretForIShield i)),
      deploymentGoal (BuildDeploymentForIShieldAPI csv i),
      presentGoal ServiceKind (svc_Meta (BuildAPIServiceForIShield i))]"

definition admissionGoals :: "json \<Rightarrow> integrity_shield \<Rightarrow> goal list" where
  "admissionGoals csv i =
     [crdGoal (BuildManifestIntegrityProfileCRD i),
      presentGoal ConfigMapKind (cmap_Meta (BuildACConfigForIShield i)),
      presentGoal SecretKind (sec_Meta (BuildAPITlsSecretForIShield i)),
      deploymentGoal (BuildDeploymentForAdmissionController csv i),
      presentGoal ServiceKind (svc_Meta (BuildServiceForIShield i))]"

text \<open>Everything a live instance asks for, before the constraint template or the webhook.\<close>

definition installGoals :: "json \<Rightarrow> integrity_shield \<Rightarrow> goal list" where
  "installGoals csv i =
     commonGoals i @
     (if oc_Enabled (spec_Observer (is_Spec i)) then observerGoals csv i else []) @
     (if spec_UseGatekeeper (is_Spec i) then gatekeeperGoals csv i else admissionGoals csv i)"

lemma present_reaches:
  assumes "store_laws C V" and "objKey x = keyOf k ns n" and "metaKey k m = keyOf k ns n"
  shows "reaches V (plain (createOrUpdate C i k ns n x keepFound)) (presentGoal k m)"
  unfolding presentGoal_def assms(3) by (rule createOrUpdate_reaches [OF assms(1,2)])

lemma sec_Meta_addCertValues [simp]: "sec_Meta (addCertValues C now i x svc) = sec_Meta x"
  by (simp add: addCertValues_def Let_def split: prod.split)

lemma built_namespaces [simp]:
  "meta_Namespace (dep_Meta (BuildDeploymentForIShieldAPI csv i)) = cr_Namespace i"
  "meta_Namespace (dep_Meta (BuildDeploymentForAdmissionController csv i)) = cr_Namespace i"
  "meta_Namespace (dep_Meta (BuildDeploymentForObserver csv i)) = cr_Namespace i"
  by (simp_all add: BuildDeploymentForIShieldAPI_def BuildDeploymentForAdmissionController_def
      BuildDeploymentForObserver_def deploymentWith_def Let_def new_meta_def)

lemmas built_metas =
  BuildReqConfigForIShield_def BuildACConfigForIShield_def BuildServiceAccountForIShield_def
  BuildServiceAccountForObserver_def BuildRoleForIShield_def BuildRoleForObserver_def
  BuildRoleBindingForIShield_def BuildRoleBindingForObserver_def BuildClusterRoleForIShield_def
  BuildClusterRoleForObserver_def BuildClusterRoleBindingForIShield_def BuildClusterRoleBindingForObserver_def
  BuildTlsSecretForIShield_def BuildAPITlsSecretForIShield_def BuildAPIServiceForIShield_def
  BuildServiceForIShield_def new_meta_def metaKey_def keyOf_def clusterScoped_def

lemma commonSteps_reach: "store_laws C V \<Longrightarrow> list_all2 (reaches V) (commonSteps C i) (commonGoals i)"
  unfolding commonSteps_def commonGoals_def createOrUpdateRequestHandlerConfig_def createOrUpdateConfigMap_def
    createOrUpdateIShieldApiServiceAccount_def createOrUpdateServiceAccount_def
    createOrUpdateRoleForIShield_def createOrUpdateRole_def
    createOrUpdateRoleBindingForIShield_def createOrUpdateRoleBinding_def
    createOrUpdateClusterRoleForIShield_def createOrUpdateClusterRole_def
    createOrUpdateClusterRoleBindingForIShield_def createOrUpdateClusterRoleBinding_def
  by (intro list.rel_intros present_reaches) (simp_all add: built_metas)

lemma observerSteps_reach: "store_laws C V \<Longrightarrow> list_all2 (reaches V) (observerSteps C csv i) (observerGoals csv i)"
  unfolding observerSteps_def observerGoals_def createOrUpdateObserverResultCRD_def
    createOrUpdateObserverServiceAccount_def createOrUpdateServiceAccount_def
    createOrUpdateClusterRoleForObserver_def createOrUpdateClusterRole_def
    createOrUpdateClusterRoleBindingForObserver_def createOrUpdateClusterRoleBinding_def
    createOrUpdateRoleForObserver_def createOrUpdateRole_def
    createOrUpdateRoleBindingForObserver_def createOrUpdateRoleBinding_def createOrUpdateObserverDeployment_def
  by (intro list.rel_intros present_reaches createOrUpdateCRD_reaches createOrUpdateDeployment_reaches)
     (simp_all add: built_metas)

lemma gatekeeperSteps_reach:
  "store_laws C V \<Longrightarrow> list_all2 (reaches V) (gatekeeperSteps C csv now i) (gatekeeperGoals csv i)"
  unfolding gatekeeperSteps_def gatekeeperGoals_def createOrUpdateTlsSecret_def createOrUpdateSecret_def
    createOrUpdateIShieldAPIDeployment_def createOrUpdateAPIService_def createOrUpdateService_def
  by (intro list.rel_intros present_reaches createOrUpdateDeployment_reaches) (simp_all add: built_metas)

lemma admissionSteps_reach:
  "store_laws C V \<Longrightarrow> list_all2 (reaches V) (admissionSteps C csv now i) (admissionGoals csv i)"
  unfolding admissionSteps_def admissionGoals_def createOrUpdateManifestIntegrityProfileCRD_def
    createOrUpdateACConfig_def createOrUpdateConfigMap_def createOrUpdateACTlsSecret_def createOrUpdateSecret_def
    createOrUpdateAdmissionControllerDeployment_def createOrUpdateWebhookService_def createOrUpdateService_def
  by (intro list.rel_intros present_reaches createOrUpdateCRD_reaches createOrUpdateDeployment_reaches)
     (simp_all add: built_metas)

lemma installSteps_reach:
  "store_laws C V \<Longrightarrow> list_all2 (reaches V) (installSteps C csv now i) (installGoals csv i)"
  unfolding installSteps_def installGoals_def
  by (intro list_all2_appendI commonSteps_reach)
     (simp_all add: observerSteps_reach gatekeeperSteps_reach admissionSteps_reach)

section \<open>The last step\<close>

definition changesOnly :: "('s \<Rightarrow> obj_key \<rightharpoonup> kobject) \<Rightarrow> obj_key set \<Rightarrow> 's \<Rightarrow> 's \<Rightarrow> bool" where
  "changesOnly V K s s' \<longleftrightarrow> (\<forall>k. k \<notin> K \<longrightarrow> V s' k = V s k)"

lemma changesOnly_refl [simp]: "changesOnly V K s s"
  by (simp add: changesOnly_def)

lemma changesOnly_upd: "V s' = (V s)(k := x) \<Longrightarrow> k \<in> K \<Longrightarrow> changesOnly V K s s'"
  by (auto simp: changesOnly_def)

lemma changesOnly_trans: "changesOnly V K s s' \<Longrightarrow> changesOnly V K s' s'' \<Longrightarrow> changesOnly V K s s''"
  by (simp add: changesOnly_def)

lemma changesOnly_mono: "changesOnly V K s s' \<Longrightarrow> K \<subseteq> K' \<Longrightarrow> changesOnly V K' s s'"
  unfolding changesOnly_def by blast

lemma changesOnly_eq: "changesOnly V K s s' \<Longrightarrow> k \<notin> K \<Longrightarrow> V s' k = V s k"
  unfolding changesOnly_def by blast

lemma changesOnly_progress:
  assumes "changesOnly V L s s'" and "fst ` G \<inter> L = {}" and "L \<subseteq> K"
  shows "progress V G K s s'"
  unfolding progress_def
proof (intro conjI ballI impI allI)
  fix g
  assume "g \<in> G"
  with assms(2) have "fst g \<notin> L" by blast
  with assms(1) show same: "V s' (fst g) = V s (fst g)" by (rule changesOnly_eq)
  show "blocked V s' g \<Longrightarrow> blocked V s g" by (simp add: blocked_def same)
next
  fix k
  assume "k \<notin> K"
  with assms(3) have "k \<notin> L" by blast
  with assms(1) show "V s' k = V s k" by (rule changesOnly_eq)
qed

lemma fst_keyOf [simp]: "fst (keyOf k ns n) = k"
  by (simp add: keyOf_def)

lemma fst_metaKey [simp]: "fst (metaKey k m) = k"
  by (simp add: metaKey_def)

lemma deleteObject_exact:
  assumes laws: "store_laws C V"
  shows "\<exists>s'. deleteObject C k n s = ((requeueSoon, None), s') \<and> V s' = (V s)(keyOf k [] n := None)"
proof (cases "V s (keyOf k [] n)")
  case None
  then have "V s = (V s)(keyOf k [] n := None)" by auto
  with None show ?thesis by (simp add: deleteObject_def store_get [OF laws])
next
  case (Some x)
  with store_key [OF laws] have "objKey x = keyOf k [] n" .
  with Some store_delete [OF laws, of s x] show ?thesis by (auto simp: deleteObject_def store_get [OF laws])
qed

lemma createOrUpdateWebhookEvent_store:
  assumes laws: "store_laws C V"
  shows "changesOnly V {keyOf EventKind (cr_Namespace i) evt} s (snd (createOrUpdateWebhookEvent C now i evt wh s))"
proof -
  let ?e = "newWebhookEvent now i evt wh"
  let ?key = "keyOf EventKind (cr_Namespace i) evt"
  have names: "ev_Namespace ?e = cr_Namespace i" "ev_Name ?e = evt" by (simp_all add: newWebhookEvent_def)
  show ?thesis
  proof (cases "V s ?key")
    case None
    with store_create [OF laws, of s "KEvent ?e"] obtain s'
      where "Client_Create C s (KEvent ?e) = Inr s'" and "V s' = (V s)(?key \<mapsto> KEvent ?e)" by (auto simp: names)
    with None show ?thesis
      by (auto simp: createOrUpdateWebhookEvent_def Let_def names store_get [OF laws] intro: changesOnly_upd)
  next
    case (Some x)
    show ?thesis
    proof (cases "\<exists>found. x = KEvent found")
      case True
      then obtain found where x: "x = KEvent found" by blast
      with store_key [OF laws Some] have key: "objKey (KEvent found) = ?key" by simp
      let ?new = "KEvent (found\<lparr>ev_Count := ev_Count found + 1, ev_EventTime := now,
          ev_LastTimestamp := now, ev_Message := webhookEventMessage wh,
          ev_Reason := ''webhook-reconciled'', ev_ReportingController := ''IntegrityShield'',
          ev_ReportingInstance := evt\<rparr>)"
      from key have "objKey ?new = ?key" by simp
      with Some store_update [OF laws, of s ?new] obtain s'
        where "Client_Update C s ?new = Inr s'" and "V s' = (V s)(?key \<mapsto> ?new)" by auto
      with Some x show ?thesis
        by (auto simp: createOrUpdateWebhookEvent_def Let_def names store_get [OF laws] intro: changesOnly_upd)
    next
      case False
      with Some show ?thesis
        by (cases x) (auto simp: createOrUpdateWebhookEvent_def Let_def names store_get [OF laws])
    qed
  qed
qed

definition webhookKey :: "integrity_shield \<Rightarrow> obj_key" where
  "webhookKey i = keyOf WebhookKind [] (spec_WebhookConfigName (is_Spec i))"

definition webhookEventKey :: "integrity_shield \<Rightarrow> obj_key" where
  "webhookEventKey i = keyOf EventKind (cr_Namespace i) ''ishield-webhook-reconciled''"

definition serverSecretKey :: "integrity_shield \<Rightarrow> obj_key" where
  "serverSecretKey i = keyOf SecretKind (cr_Namespace i) (spec_WebhookServerTlsSecretName (is_Spec i))"

text \<open>The webhook configuration that has to be registered: the built one, owned by the instance, with
  the CA certificate of the secret of the webhook server as the bundle of its webhook.\<close>

definition registeredWebhook ::
  "('s \<Rightarrow> obj_key \<rightharpoonup> kobject) \<Rightarrow> integrity_shield \<Rightarrow> 's \<Rightarrow> webhook_configuration" where
  "registeredWebhook V i s =
     (let built = BuildValidatingWebhookConfigurationForIShield i;
          trust = (\<lambda>ca. map (\<lambda>h. h\<lparr>vw_CABundle := ca\<rparr>) (wc_Webhooks built))
      in built\<lparr>wc_Meta := owned (cr_Name i) (wc_Meta built),
               wc_Webhooks := (case V s (serverSecretKey i) of
                  Some (KSecret x) \<Rightarrow> (case sec_Data x ''ca.crt'' of Some ca \<Rightarrow> trust ca | None \<Rightarrow> wc_Webhooks built)
                | _ \<Rightarrow> wc_Webhooks built)\<rparr>)"

lemma registeredWebhook_hook:
  "V s (serverSecretKey i) = Some (KSecret x) \<Longrightarrow> sec_Data x ''ca.crt'' = Some ca \<Longrightarrow>
   wc_Webhooks (registeredWebhook V i s) = [(hd (wc_Webhooks (BuildValidatingWebhookConfigurationForIShield i)))\<lparr>vw_CABundle := ca\<rparr>]"
  by (simp add: registeredWebhook_def BuildValidatingWebhookConfigurationForIShield_def)

text \<open>It is what the code puts together from the built configuration and the bundle it looks up.\<close>

lemma registeredWebhook_code:
  assumes "store_laws C V"
  shows "registeredWebhook V i s =
     (let built = BuildValidatingWebhookConfigurationForIShield i; wc = built\<lparr>wc_Meta := owned (cr_Name i) (wc_Meta built)\<rparr>
      in case loadCABundle C i s of Some ca \<Rightarrow> setCABundle ca wc | None \<Rightarrow> wc)"
  by (simp add: loadCABundle_def store_get [OF assms] registeredWebhook_def serverSecretKey_def Let_def setCABundle_def
      BuildValidatingWebhookConfigurationForIShield_def split: option.split kobject.split)

lemma metaKey_registeredWebhook [simp]: "metaKey WebhookKind (wc_Meta (registeredWebhook V i s)) = webhookKey i"
  by (simp add: registeredWebhook_def Let_def webhookKey_def metaKey_def keyOf_def clusterScoped_def
      BuildValidatingWebhookConfigurationForIShield_def new_meta_def)

lemma webhook_name [simp]:
  "meta_Name (wc_Meta (BuildValidatingWebhookConfigurationForIShield i)) = spec_WebhookConfigName (is_Spec i)"
  by (simp add: BuildValidatingWebhookConfigurationForIShield_def new_meta_def)

lemma createOrUpdateWebhook_present:
  assumes laws: "store_laws C V" and "V s (webhookKey i) = Some x"
  shows "createOrUpdateWebhook C now i s = ((noRequeue, None), s)"
  using assms(2) by (simp add: createOrUpdateWebhook_def Let_def store_owner [OF laws] store_get [OF laws] webhookKey_def)

lemma createOrUpdateWebhook_missing:
  assumes laws: "store_laws C V" and none: "V s (webhookKey i) = None"
  shows "\<exists>s'. createOrUpdateWebhook C now i s = ((requeueSoon, None), s') \<and>
           changesOnly V {webhookKey i, webhookEventKey i} s s' \<and> V s' (webhookKey i) = Some (KWebhook (registeredWebhook V i s))"
proof -
  let ?wc = "KWebhook (registeredWebhook V i s)"
  from none store_create [OF laws, of s ?wc] obtain s1
    where create: "Client_Create C s ?wc = Inr s1" and s1: "V s1 = (V s)(webhookKey i \<mapsto> ?wc)" by auto
  let ?s2 = "snd (createOrUpdateWebhookEvent C now i ''ishield-webhook-reconciled'' (spec_WebhookConfigName (is_Spec i)) s1)"
  have event: "changesOnly V {webhookEventKey i} s1 ?s2"
    unfolding webhookEventKey_def by (rule createOrUpdateWebhookEvent_store [OF laws])
  then have "V ?s2 (webhookKey i) = V s1 (webhookKey i)"
    by (rule changesOnly_eq) (simp add: webhookKey_def webhookEventKey_def keyOf_def)
  moreover have "changesOnly V {webhookKey i, webhookEventKey i} s ?s2"
  proof (rule changesOnly_trans)
    show "changesOnly V {webhookKey i, webhookEventKey i} s s1" by (rule changesOnly_upd [OF s1]) simp
    from event show "changesOnly V {webhookKey i, webhookEventKey i} s1 ?s2" by (rule changesOnly_mono) simp
  qed
  moreover have "createOrUpdateWebhook C now i s = ((requeueSoon, None), ?s2)"
    using create none unfolding registeredWebhook_code [OF laws]
    by (cases "loadCABundle C i s")
       (simp_all add: createOrUpdateWebhook_def Let_def store_owner [OF laws] store_get [OF laws] webhookKey_def)
  ultimately show ?thesis using s1 by simp
qed

definition templateKey :: "integrity_shield \<Rightarrow> obj_key" where
  "templateKey i = metaKey TemplateKind (tpl_Meta (BuildConstraintTemplateForIShield i))"

text \<open>The objects of the last step are no goals of the steps before.\<close>

definition lateKeys :: "integrity_shield \<Rightarrow> obj_key set" where
  "lateKeys i = {templateKey i, webhookKey i, webhookEventKey i}"

lemma createTemplate_reaches:
  assumes "store_laws C V"
  shows "reaches V (plain (createOrUpdateConstraintTemplate C i)) (templateKey i, \<lambda>_. True, \<lambda>_. True)"
  unfolding createOrUpdateConstraintTemplate_def Let_def templateKey_def presentGoal_def [symmetric]
  by (rule present_reaches [OF assms]) (simp_all add: metaKey_def keyOf_def clusterScoped_def)

lemma templateStep_store:
  assumes laws: "store_laws C V"
  shows "\<exists>r s'. templateStep C i s = Return (r, s') \<and> changesOnly V (lateKeys i) s s'"
proof (cases "isGatekeeperAvailable C s")
  case True
  from createTemplate_reaches [OF laws, of i] show ?thesis
  proof (cases rule: reaches_cases [where s = s])
    case (works r s')
    then have "changesOnly V {templateKey i} s s'" unfolding changesOnly_def by simp
    then have "changesOnly V (lateKeys i) s s'" by (rule changesOnly_mono) (simp add: lateKeys_def)
    with True works(3) show ?thesis by (auto simp: templateStep_def plain_def)
  qed (use True in \<open>simp_all add: templateStep_def plain_def\<close>)
next
  case False
  then show ?thesis by (simp add: templateStep_def plain_def)
qed

lemma deleteWebhook_store:
  assumes laws: "store_laws C V"
  shows "\<exists>s'. deleteWebhook C i s = ((requeueSoon, None), s') \<and> changesOnly V {webhookKey i} s s' \<and> V s' (webhookKey i) = None"
proof -
  from deleteObject_exact [OF laws] obtain s'
    where "deleteWebhook C i s = ((requeueSoon, None), s')" and upd: "V s' = (V s)(webhookKey i := None)"
    unfolding deleteWebhook_def webhookKey_def webhook_name by blast
  moreover from changesOnly_upd [OF upd] have "changesOnly V {webhookKey i} s s'" by simp
  ultimately show ?thesis by simp
qed

lemma webhookStep_store:
  assumes laws: "store_laws C V"
  shows "\<exists>r s'. webhookStep C csv now i s = Return (r, s') \<and> changesOnly V (lateKeys i) s s'"
proof (cases "isDeploymentAvailable C csv i s")
  case True
  show ?thesis
  proof (cases "V s (webhookKey i)")
    case None
    from createOrUpdateWebhook_missing [OF laws None, of now] obtain s'
      where "createOrUpdateWebhook C now i s = ((requeueSoon, None), s')" and "changesOnly V {webhookKey i, webhookEventKey i} s s'"
      by blast
    moreover from this(2) have "changesOnly V (lateKeys i) s s'" by (rule changesOnly_mono) (simp add: lateKeys_def)
    ultimately show ?thesis using True by (simp add: webhookStep_def plain_def)
  next
    case (Some x)
    with createOrUpdateWebhook_present [OF laws Some] True show ?thesis by (simp add: webhookStep_def plain_def)
  qed
next
  case False
  from deleteWebhook_store [OF laws] obtain s'
    where "deleteWebhook C i s = ((requeueSoon, None), s')" and "changesOnly V {webhookKey i} s s'" by blast
  moreover from this(2) have "changesOnly V (lateKeys i) s s'" by (rule changesOnly_mono) (simp add: lateKeys_def)
  ultimately show ?thesis using False by (simp add: webhookStep_def plain_def)
qed

lemma lastStep_store:
  assumes laws: "store_laws C V"
  shows "\<exists>r s'. lastStep C csv now i s = Return (r, s') \<and> changesOnly V (lateKeys i) s s'"
proof (cases "spec_UseGatekeeper (is_Spec i)")
  case True
  with templateStep_store [OF laws, of i s] show ?thesis unfolding lastStep_def by simp
next
  case False
  with webhookStep_store [OF laws, of csv now i s] show ?thesis unfolding lastStep_def by simp
qed

lemma lastStep_harmless:
  assumes laws: "store_laws C V" and "fst ` G \<inter> lateKeys i = {}" and "lateKeys i \<subseteq> K"
  shows "harmless V G K (lastStep C csv now i)"
  unfolding harmless_def
proof
  fix s
  from lastStep_store [OF laws] obtain r s'
    where "lastStep C csv now i s = Return (r, s')" and "changesOnly V (lateKeys i) s s'" by blast
  moreover from this(2) have "progress V G K s s'" by (rule changesOnly_progress [OF _ assms(2,3)])
  ultimately show "\<exists>r s'. lastStep C csv now i s = Return (r, s') \<and> progress V G K s s'" by auto
qed

text \<open>The deployments of an instance have to have names of their own.\<close>

definition deploymentsDistinct :: "integrity_shield \<Rightarrow> bool" where
  "deploymentsDistinct i \<longleftrightarrow>
     (let sp = is_Spec i
      in oc_Enabled (spec_Observer sp) \<longrightarrow>
           oc_Name (spec_Observer sp) \<noteq> (if spec_UseGatekeeper sp then api_Name (spec_API sp)
                                          else cc_Name (spec_ControllerContainer sp)))"

lemma installGoals_kinds:
  "g \<in> set (installGoals csv i) \<Longrightarrow> fst (fst g) \<notin> {ShieldKind, TemplateKind, WebhookKind, EventKind}"
  by (auto simp: installGoals_def commonGoals_def observerGoals_def gatekeeperGoals_def admissionGoals_def
      presentGoal_def crdGoal_def deploymentGoal_def split: if_splits)

lemma built_names [simp]:
  "meta_Name (dep_Meta (BuildDeploymentForIShieldAPI csv i)) = api_Name (spec_API (is_Spec i))"
  "meta_Name (dep_Meta (BuildDeploymentForAdmissionController csv i)) = cc_Name (spec_ControllerContainer (is_Spec i))"
  "meta_Name (dep_Meta (BuildDeploymentForObserver csv i)) = oc_Name (spec_Observer (is_Spec i))"
  "meta_Name (crd_Meta (BuildManifestIntegrityProfileCRD i)) = ''manifestintegrityprofiles.apis.integrityshield.io''"
  "meta_Name (crd_Meta (BuildObserverResultCRD i)) = ''manifestintegritystates.apis.integrityshield.io''"
  by (simp_all add: BuildDeploymentForIShieldAPI_def BuildDeploymentForAdmissionController_def
      BuildDeploymentForObserver_def deploymentWith_def Let_def new_meta_def
      BuildManifestIntegrityProfileCRD_def BuildObserverResultCRD_def buildCRD_def)

lemma metaKey_eq:
  "metaKey k m = metaKey k' m' \<longleftrightarrow>
     k = k' \<and> meta_Name m = meta_Name m' \<and> (clusterScoped k \<or> meta_Namespace m = meta_Namespace m')"
  by (auto simp: metaKey_def keyOf_def)

text \<open>Only goals about custom resource definitions and deployments ask for more than presence.\<close>

lemmas goal_lists = installGoals_def commonGoals_def observerGoals_def gatekeeperGoals_def admissionGoals_def

lemma installGoals_present:
  "g \<in> set (installGoals csv i) \<Longrightarrow> fst (fst g) \<notin> {CRDKind, DeploymentKind} \<Longrightarrow> snd g = (\<lambda>_. True, \<lambda>_. True)"
  by (auto simp: goal_lists presentGoal_def crdGoal_def deploymentGoal_def split: if_splits)

definition detailedGoals :: "json \<Rightarrow> integrity_shield \<Rightarrow> goal set" where
  "detailedGoals csv i =
     (if oc_Enabled (spec_Observer (is_Spec i))
      then {crdGoal (BuildObserverResultCRD i), deploymentGoal (BuildDeploymentForObserver csv i)} else {}) \<union>
     (if spec_UseGatekeeper (is_Spec i) then {deploymentGoal (BuildDeploymentForIShieldAPI csv i)}
      else {crdGoal (BuildManifestIntegrityProfileCRD i), deploymentGoal (BuildDeploymentForAdmissionController csv i)})"

lemma installGoals_detailed:
  "g \<in> set (installGoals csv i) \<Longrightarrow> fst (fst g) \<in> {CRDKind, DeploymentKind} \<Longrightarrow> g \<in> detailedGoals csv i"
  by (auto simp: goal_lists presentGoal_def detailedGoals_def split: if_splits)

lemma detailedGoals_compatible: "deploymentsDistinct i \<Longrightarrow> compatible (detailedGoals csv i)"
  by (auto simp: compatible_def detailedGoals_def crdGoal_def deploymentGoal_def metaKey_eq deploymentsDistinct_def Let_def
      split: if_splits)

lemma installGoals_compatible:
  assumes "deploymentsDistinct i"
  shows "compatible (set (installGoals csv i))"
  unfolding compatible_def
proof (intro ballI impI)
  fix g h
  assume in_goals: "g \<in> set (installGoals csv i)" "h \<in> set (installGoals csv i)" and same: "fst g = fst h"
  show "snd g = snd h"
  proof (cases "fst (fst g) \<in> {CRDKind, DeploymentKind}")
    case True
    with in_goals same have "g \<in> detailedGoals csv i" "h \<in> detailedGoals csv i"
      by (simp_all add: installGoals_detailed)
    with same detailedGoals_compatible [OF assms, of csv] show ?thesis unfolding compatible_def by blast
  next
    case False
    with in_goals same show ?thesis by (simp add: installGoals_present)
  qed
qed

section \<open>Passes of the reconcile loop\<close>

definition shieldKey :: "string \<Rightarrow> string \<Rightarrow> obj_key" where
  "shieldKey ns name = keyOf ShieldKind ns name"

definition liveInstance :: "('s \<Rightarrow> obj_key \<rightharpoonup> kobject) \<Rightarrow> string \<Rightarrow> string \<Rightarrow> integrity_shield \<Rightarrow> 's \<Rightarrow> bool" where
  "liveInstance V ns name i s \<longleftrightarrow> V s (shieldKey ns name) = Some (KShield i) \<and> \<not> meta_Deleting (is_Meta i)"

text \<open>Passes at the given times, each in the state that the one before left.\<close>

fun reconcilePasses ::
  "('k, 's, 'x) op_client_scheme \<Rightarrow> json \<Rightarrow> string \<Rightarrow> string \<Rightarrow> int list \<Rightarrow> 's \<Rightarrow> 's outcome" where
  "reconcilePasses C csv ns name [] s = Return s"
| "reconcilePasses C csv ns name (now # later) s =
     outcome_bind (Reconcile C csv now ns name s) (\<lambda>(_, s'). reconcilePasses C csv ns name later s')"

text \<open>No object that the instance asks for is in the place of one that the server does not let the
  operator change: a deployment of the same name has the same selector.\<close>

definition unblocked :: "('s \<Rightarrow> obj_key \<rightharpoonup> kobject) \<Rightarrow> json \<Rightarrow> integrity_shield \<Rightarrow> 's \<Rightarrow> bool" where
  "unblocked V csv i s \<longleftrightarrow> (\<forall>g\<in>set (installGoals csv i). \<not> blocked V s g)"

lemma unblocked_progress: "progress V (set (installGoals csv i)) K s s' \<Longrightarrow> unblocked V csv i s \<Longrightarrow> unblocked V csv i s'"
  unfolding unblocked_def by (meson progress_blocked)

definition missingGoals :: "('s \<Rightarrow> obj_key \<rightharpoonup> kobject) \<Rightarrow> json \<Rightarrow> integrity_shield \<Rightarrow> 's \<Rightarrow> goal set" where
  "missingGoals V csv i s = {g \<in> set (installGoals csv i). \<not> reached V s g}"

lemma finite_missingGoals [simp]: "finite (missingGoals V csv i s)"
  by (simp add: missingGoals_def)

lemma Reconcile_live:
  assumes "store_laws C V" and "liveInstance V ns name i s"
  shows "Reconcile C csv now ns name s = runSteps (installSteps C csv now i @ [lastStep C csv now i]) s"
  using assms(2) by (simp add: Reconcile_def store_get [OF assms(1)] liveInstance_def shieldKey_def)

text \<open>The objects that the reconcile loop of an instance may write.\<close>

definition managedKeys :: "json \<Rightarrow> integrity_shield \<Rightarrow> obj_key set" where
  "managedKeys csv i = fst ` set (installGoals csv i) \<union> lateKeys i"

lemma installGoals_not_late: "fst ` set (installGoals csv i) \<inter> lateKeys i = {}"
  using installGoals_kinds by (fastforce simp: lateKeys_def templateKey_def webhookKey_def webhookEventKey_def)

lemma shieldKey_not_managed: "shieldKey ns name \<notin> managedKeys csv i"
  using installGoals_kinds
  by (fastforce simp: managedKeys_def shieldKey_def lateKeys_def templateKey_def webhookKey_def webhookEventKey_def metaKey_def keyOf_def)

lemma Reconcile_pass:
  assumes laws: "store_laws C V" and live: "liveInstance V ns name i s" and names: "deploymentsDistinct i"
  shows "\<exists>r s'. Reconcile C csv now ns name s = Return (r, s') \<and> liveInstance V ns name i s' \<and>
           progress V (set (installGoals csv i)) (managedKeys csv i) s s' \<and>
           (if missingGoals V csv i s = {} then Reconcile C csv now ns name s = runSteps [lastStep C csv now i] s
            else missingGoals V csv i s' \<subset> missingGoals V csv i s \<or> \<not> unblocked V csv i s \<and> snd r \<noteq> None)"
proof -
  let ?G = "set (installGoals csv i)" and ?K = "managedKeys csv i"
  have keys: "fst ` ?G \<subseteq> ?K" by (simp add: managedKeys_def)
  have late: "harmless V ?G ?K (lastStep C csv now i)"
    by (rule lastStep_harmless [OF laws installGoals_not_late]) (simp add: managedKeys_def)
  from runSteps_pass [OF installSteps_reach [OF laws] installGoals_compatible [OF names] subset_refl keys late, of now s]
  obtain r s' where run: "Reconcile C csv now ns name s = Return (r, s')"
    and prog: "progress V ?G ?K s s'"
    and rest: "if \<forall>g\<in>?G. reached V s g
               then Reconcile C csv now ns name s = runSteps [lastStep C csv now i] s
               else (\<exists>g\<in>?G. \<not> reached V s g \<and> reached V s' g) \<or> (\<exists>g\<in>?G. blocked V s g) \<and> snd r \<noteq> None"
    unfolding Reconcile_live [OF laws live, of csv now, symmetric] by blast
  have live': "liveInstance V ns name i s'"
    using prog live shieldKey_not_managed [of ns name csv i] unfolding progress_def liveInstance_def by metis
  have sub: "missingGoals V csv i s' \<subseteq> missingGoals V csv i s"
    unfolding missingGoals_def using progress_reached [OF prog] by blast
  have none: "missingGoals V csv i s = {} \<longleftrightarrow> (\<forall>g\<in>?G. reached V s g)"
    unfolding missingGoals_def by blast
  show ?thesis
  proof (cases "\<forall>g\<in>?G. reached V s g")
    case True
    with rest have "Reconcile C csv now ns name s = runSteps [lastStep C csv now i] s" by (simp only: if_True)
    with True none run live' prog show ?thesis
      by (intro exI [of _ r] exI [of _ s']) (simp del: runSteps.simps)
  next
    case False
    with rest have "(\<exists>g\<in>?G. \<not> reached V s g \<and> reached V s' g) \<or> (\<exists>g\<in>?G. blocked V s g) \<and> snd r \<noteq> None"
      by (simp only: if_False)
    then have "missingGoals V csv i s \<noteq> missingGoals V csv i s' \<or> \<not> unblocked V csv i s \<and> snd r \<noteq> None"
      unfolding missingGoals_def unblocked_def by blast
    with sub have "missingGoals V csv i s' \<subset> missingGoals V csv i s \<or> \<not> unblocked V csv i s \<and> snd r \<noteq> None" by blast
    moreover have "missingGoals V csv i s \<noteq> {}" using False none by blast
    ultimately show ?thesis using run live' prog by (intro exI [of _ r] exI [of _ s']) (simp del: runSteps.simps)
  qed
qed

lemma progress_missing:
  assumes "progress V (set (installGoals csv i)) K s s'"
  shows "missingGoals V csv i s' \<subseteq> missingGoals V csv i s"
  unfolding missingGoals_def using progress_reached [OF assms] by blast

lemma Reconcile_done:
  assumes "store_laws C V" and "liveInstance V ns name i s" and "deploymentsDistinct i" and "missingGoals V csv i s = {}"
  shows "Reconcile C csv now ns name s = runSteps [lastStep C csv now i] s"
proof -
  from Reconcile_pass [OF assms(1-3), of csv now] obtain r s'
    where "Reconcile C csv now ns name s = Return (r, s')" and pass: "if missingGoals V csv i s = {} then Reconcile C csv now ns name s = runSteps [lastStep C csv now i] s
           else missingGoals V csv i s' \<subset> missingGoals V csv i s \<or> \<not> unblocked V csv i s \<and> snd r \<noteq> None" by blast
  from pass show ?thesis by (simp only: assms(4) if_True)
qed

lemma Reconcile_works:
  assumes "store_laws C V" and "liveInstance V ns name i s" and "deploymentsDistinct i" and "missingGoals V csv i s \<noteq> {}"
  shows "\<exists>r s'. Reconcile C csv now ns name s = Return (r, s') \<and>
           (missingGoals V csv i s' \<subset> missingGoals V csv i s \<or> \<not> unblocked V csv i s \<and> snd r \<noteq> None)"
proof -
  from Reconcile_pass [OF assms(1-3), of csv now] obtain r s'
    where "Reconcile C csv now ns name s = Return (r, s')"
      and "if missingGoals V csv i s = {} then Reconcile C csv now ns name s = runSteps [lastStep C csv now i] s
           else missingGoals V csv i s' \<subset> missingGoals V csv i s \<or> \<not> unblocked V csv i s \<and> snd r \<noteq> None" by blast
  with assms(4) show ?thesis by auto
qed

lemma missingGoals_bound: "card (missingGoals V csv i s) \<le> 18"
proof -
  have "card (missingGoals V csv i s) \<le> card (set (installGoals csv i))"
    by (rule card_mono) (auto simp: missingGoals_def)
  also have "\<dots> \<le> length (installGoals csv i)" by (rule card_length)
  also have "\<dots> \<le> 18" by (simp add: goal_lists)
  finally show ?thesis .
qed

definition gatekeeperKey :: obj_key where
  "gatekeeperKey = keyOf CRDKind [] ''constrainttemplates.templates.gatekeeper.sh''"

text \<open>Nothing is left to do: every object of the installation is there, and the constraint template
  with the Gatekeeper or the webhook of an available admission controller is registered.\<close>

definition installed ::
  "('k, 's, 'x) op_client_scheme \<Rightarrow> ('s \<Rightarrow> obj_key \<rightharpoonup> kobject) \<Rightarrow> json \<Rightarrow> integrity_shield \<Rightarrow> 's \<Rightarrow> bool" where
  "installed C V csv i s \<longleftrightarrow>
     (\<forall>g\<in>set (installGoals csv i). reached V s g) \<and>
     (if spec_UseGatekeeper (is_Spec i) then V s gatekeeperKey \<noteq> None \<and> V s (templateKey i) \<noteq> None
      else isDeploymentAvailable C csv i s \<and> V s (webhookKey i) \<noteq> None)"

lemma isGatekeeperAvailable_store: "store_laws C V \<Longrightarrow> isGatekeeperAvailable C s \<longleftrightarrow> V s gatekeeperKey \<noteq> None"
  by (simp add: isGatekeeperAvailable_def store_get gatekeeperKey_def split: option.split)

lemma templateStep_idle:
  assumes laws: "store_laws C V"
  shows "runSteps [templateStep C i] s = Return ((noRequeue, None), s) \<longleftrightarrow> V s gatekeeperKey \<noteq> None \<and> V s (templateKey i) \<noteq> None"
proof (cases "V s gatekeeperKey")
  case None
  then show ?thesis
    by (simp add: templateStep_def plain_def isGatekeeperAvailable_store [OF laws] noRequeue_def requeueNow_def)
next
  case (Some c)
  then have step: "templateStep C i s = plain (createOrUpdateConstraintTemplate C i) s"
    by (simp add: templateStep_def plain_def isGatekeeperAvailable_store [OF laws])
  from createTemplate_reaches [OF laws, of i] show ?thesis
  proof (cases rule: reaches_cases [where s = s])
    case done_before
    with step Some show ?thesis by (simp add: reached_def split: option.splits)
  next
    case (refused e)
    then show ?thesis by (auto simp: blocked_def split: option.splits)
  next
    case (works r s')
    then have "s' \<noteq> s" by auto
    with works step show ?thesis by (auto simp: reached_def split: option.splits)
  qed
qed

lemma webhookStep_idle:
  assumes laws: "store_laws C V"
  shows "runSteps [webhookStep C csv now i] s = Return ((noRequeue, None), s) \<longleftrightarrow>
           isDeploymentAvailable C csv i s \<and> V s (webhookKey i) \<noteq> None"
proof (cases "isDeploymentAvailable C csv i s")
  case True
  show ?thesis
  proof (cases "V s (webhookKey i)")
    case None
    from createOrUpdateWebhook_missing [OF laws None, of now] obtain s'
      where "createOrUpdateWebhook C now i s = ((requeueSoon, None), s')" by blast
    with True None show ?thesis by (simp add: webhookStep_def plain_def noRequeue_def requeueSoon_def)
  next
    case (Some x)
    with True createOrUpdateWebhook_present [OF laws Some] show ?thesis by (simp add: webhookStep_def plain_def)
  qed
next
  case False
  from deleteWebhook_store [OF laws] obtain s'
    where "deleteWebhook C i s = ((requeueSoon, None), s')" by blast
  with False show ?thesis by (simp add: webhookStep_def plain_def noRequeue_def requeueSoon_def)
qed

text \<open>What the last step has done: the constraint template is there if the Gatekeeper is, and the
  webhook is registered exactly while the admission controller is available.\<close>

definition lastDone ::
  "('k, 's, 'x) op_client_scheme \<Rightarrow> ('s \<Rightarrow> obj_key \<rightharpoonup> kobject) \<Rightarrow> json \<Rightarrow> integrity_shield \<Rightarrow> 's \<Rightarrow> bool" where
  "lastDone C V csv i s \<longleftrightarrow>
     (if spec_UseGatekeeper (is_Spec i) then V s gatekeeperKey \<noteq> None \<longrightarrow> V s (templateKey i) \<noteq> None
      else V s (webhookKey i) \<noteq> None \<longleftrightarrow> isDeploymentAvailable C csv i s)"

lemma isDeploymentAvailable_cong:
  assumes "store_laws C V"
    and "V s' (fst (deploymentGoal (BuildDeploymentForAdmissionController csv i))) =
         V s (fst (deploymentGoal (BuildDeploymentForAdmissionController csv i)))"
  shows "isDeploymentAvailable C csv i s' = isDeploymentAvailable C csv i s"
  using assms(2) by (simp add: isDeploymentAvailable_def Let_def store_get [OF assms(1)] deploymentGoal_def metaKey_def)

lemma runSteps_one: "runSteps [l] s = Return (r, s') \<Longrightarrow> l s = Return (r, s') \<or> (\<exists>q. l s = Return ((q, None), s'))"
  by (cases "l s") (auto split: if_splits)

lemma templateStep_done:
  assumes laws: "store_laws C V" and step: "templateStep C i s = Return (r, s')"
  shows "V s' gatekeeperKey \<noteq> None \<longrightarrow> V s' (templateKey i) \<noteq> None"
proof (cases "isGatekeeperAvailable C s")
  case True
  with step have "plain (createOrUpdateConstraintTemplate C i) s = Return (r, s')" by (simp add: templateStep_def plain_def)
  with createTemplate_reaches [OF laws, of i] have "reached V s' (templateKey i, \<lambda>_. True, \<lambda>_. True)"
    by (cases rule: reaches_cases [where s = s]) (auto simp: blocked_def split: option.splits)
  then show ?thesis by (auto simp: reached_def split: option.splits)
next
  case False
  with step show ?thesis by (simp add: templateStep_def plain_def isGatekeeperAvailable_store [OF laws])
qed

lemma webhookStep_done:
  assumes laws: "store_laws C V" and step: "webhookStep C csv now i s = Return (r, s')"
  shows "V s' (webhookKey i) \<noteq> None \<longleftrightarrow> isDeploymentAvailable C csv i s"
  using step deleteWebhook_store [OF laws, of i s] createOrUpdateWebhook_missing [OF laws, of s i now]
    createOrUpdateWebhook_present [OF laws, of s i _ now]
  by (cases "isDeploymentAvailable C csv i s"; cases "V s (webhookKey i)") (auto simp: webhookStep_def plain_def)

lemma lastStep_done:
  assumes laws: "store_laws C V" and step: "lastStep C csv now i s = Return (r, s')"
  shows "lastDone C V csv i s'"
proof (cases "spec_UseGatekeeper (is_Spec i)")
  case True
  with step templateStep_done [OF laws, of i s r s'] show ?thesis by (simp add: lastStep_def lastDone_def)
next
  case False
  from lastStep_store [OF laws, of csv now i s] step have late: "changesOnly V (lateKeys i) s s'" by simp
  have "fst (deploymentGoal (BuildDeploymentForAdmissionController csv i)) \<notin> lateKeys i"
    by (simp add: deploymentGoal_def lateKeys_def templateKey_def webhookKey_def webhookEventKey_def metaKey_def keyOf_def)
  from isDeploymentAvailable_cong [OF laws changesOnly_eq [OF late this]] False step webhookStep_done [OF laws, of csv now i s r s']
  show ?thesis by (simp add: lastStep_def lastDone_def)
qed

text \<open>Passes shrink the set of missing objects until it is empty and keep it empty; one more pass does
  the last step.\<close>

lemma reconcilePasses_install:
  assumes laws: "store_laws C V" and names: "deploymentsDistinct i"
  shows "liveInstance V ns name i s \<Longrightarrow> unblocked V csv i s \<Longrightarrow> card (missingGoals V csv i s) \<le> length later \<Longrightarrow>
    \<exists>s'. reconcilePasses C csv ns name later s = Return s' \<and> liveInstance V ns name i s' \<and> missingGoals V csv i s' = {} \<and>
      (card (missingGoals V csv i s) < length later \<longrightarrow> lastDone C V csv i s')"
proof (induction later arbitrary: s)
  case Nil
  then show ?case by simp
next
  case (Cons now later)
  from Reconcile_pass [OF laws Cons.prems(1) names, of csv now] obtain r s'
    where run: "Reconcile C csv now ns name s = Return (r, s')" and live: "liveInstance V ns name i s'"
      and prog: "progress V (set (installGoals csv i)) (managedKeys csv i) s s'"
      and rest: "if missingGoals V csv i s = {} then Reconcile C csv now ns name s = runSteps [lastStep C csv now i] s
                 else missingGoals V csv i s' \<subset> missingGoals V csv i s \<or> \<not> unblocked V csv i s \<and> snd r \<noteq> None" by blast
  note free = unblocked_progress [OF prog Cons.prems(2)]
  show ?case
  proof (cases "missingGoals V csv i s = {}")
    case True
    with progress_missing [OF prog] have none: "missingGoals V csv i s' = {}" by simp
    from True rest run have "runSteps [lastStep C csv now i] s = Return (r, s')" by (simp only: if_True)
    from runSteps_one [OF this] lastStep_done [OF laws] have "lastDone C V csv i s'" by blast
    with Cons.IH [OF live free] none run live show ?thesis by (cases later) auto
  next
    case False
    with rest Cons.prems(2) have "missingGoals V csv i s' \<subset> missingGoals V csv i s" by auto
    then have "card (missingGoals V csv i s') < card (missingGoals V csv i s)" by (rule psubset_card_mono [rotated]) simp
    with Cons.prems(3) Cons.IH [OF live free] run show ?thesis by auto
  qed
qed

lemma Reconcile_idle_iff:
  assumes "store_laws C V" and "liveInstance V ns name i s" and "deploymentsDistinct i"
  shows "Reconcile C csv now ns name s = Return ((noRequeue, None), s) \<longleftrightarrow> installed C V csv i s"
proof (cases "missingGoals V csv i s = {}")
  case True
  then have all: "\<forall>g\<in>set (installGoals csv i). reached V s g" unfolding missingGoals_def by blast
  note run = Reconcile_done [OF assms True, of now]
  show ?thesis
  proof (cases "spec_UseGatekeeper (is_Spec i)")
    case True
    with all show ?thesis
      unfolding run installed_def lastStep_def by (simp add: templateStep_idle [OF assms(1)] del: runSteps.simps)
  next
    case False
    with all show ?thesis
      unfolding run installed_def lastStep_def by (simp add: webhookStep_idle [OF assms(1)] del: runSteps.simps)
  qed
next
  case False
  then have "\<not> installed C V csv i s" unfolding installed_def missingGoals_def by blast
  moreover from Reconcile_works [OF assms False, of now]
  have "Reconcile C csv now ns name s \<noteq> Return ((noRequeue, None), s)" by auto
  ultimately show ?thesis by simp
qed

text \<open>C13: A pass of the reconcile loop leaves the cluster alone and asks for no further pass
  exactly when the installation is complete.\<close>

theorem reconcile_idle_iff_installed:
  assumes "store_laws C V" and "liveInstance V ns name i s" and "deploymentsDistinct i"
  shows "Reconcile C csv now ns name s = Return ((noRequeue, None), s) \<longleftrightarrow> installed C V csv i s"
  by (rule Reconcile_idle_iff [OF assms])

text \<open>C5: Against an API server that stores what is written and refuses changes of selectors, the passes
  of the reconcile loop never panic and install everything: take a live instance whose deployments
  have names of their own and are not in the place of deployments with another selector. After
  nineteen passes every object that it asks for is there, its deployments accepted by the
  comparison and its resource definitions as built, whatever else the cluster held before; the
  constraint template is there if the Gatekeeper is, or else the webhook is registered exactly while
  the admission controller is available.\<close>

theorem reconcile_converges:
  assumes "store_laws C V" and "liveInstance V ns name i s" and "deploymentsDistinct i" and "unblocked V csv i s"
    and "19 \<le> length later"
  shows "\<exists>s'. reconcilePasses C csv ns name later s = Return s' \<and> liveInstance V ns name i s' \<and>
           (\<forall>g\<in>set (installGoals csv i). reached V s' g) \<and> lastDone C V csv i s'"
proof -
  from missingGoals_bound [of V csv i s] assms(5) have "card (missingGoals V csv i s) < length later" by linarith
  with reconcilePasses_install [OF assms(1,3,2,4), of later] show ?thesis unfolding missingGoals_def by auto
qed

text \<open>C12: A pass that finds all the other objects installed makes the webhook follow the admission
  controller: while its deployment is available a missing webhook is registered with the
  certificate under \<^verbatim>\<open>ca.crt\<close> in the server's secret, a registered one is kept as it is (also with an
  outdated certificate), and while the deployment is not available the webhook is removed and
  another pass is asked for. Nothing else changes but the event.\<close>

theorem webhook_follows_deployment:
  assumes "store_laws C V" and "liveInstance V ns name i s" and "deploymentsDistinct i"
    and "\<forall>g\<in>set (installGoals csv i). reached V s g" and "\<not> spec_UseGatekeeper (is_Spec i)"
  shows "\<exists>r s'. Reconcile C csv now ns name s = Return ((r, None), s') \<and> changesOnly V {webhookKey i, webhookEventKey i} s s' \<and>
           (if isDeploymentAvailable C csv i s
            then V s' (webhookKey i) = Some (case V s (webhookKey i) of None \<Rightarrow> KWebhook (registeredWebhook V i s) | Some x \<Rightarrow> x)
            else V s' (webhookKey i) = None \<and> Requeue r)"
proof -
  from assms(4) have "missingGoals V csv i s = {}" unfolding missingGoals_def by blast
  from Reconcile_done [OF assms(1-3) this, of now] assms(5)
  have run: "Reconcile C csv now ns name s = runSteps [webhookStep C csv now i] s" by (simp add: lastStep_def)
  show ?thesis
  proof (cases "isDeploymentAvailable C csv i s")
    case True
    show ?thesis
    proof (cases "V s (webhookKey i)")
      case None
      from createOrUpdateWebhook_missing [OF assms(1) None, of now] obtain s'
        where "createOrUpdateWebhook C now i s = ((requeueSoon, None), s')" and "changesOnly V {webhookKey i, webhookEventKey i} s s'"
          and "V s' (webhookKey i) = Some (KWebhook (registeredWebhook V i s))" by blast
      with True None show ?thesis
        unfolding run by (intro exI [of _ requeueSoon] exI [of _ s']) (simp add: webhookStep_def plain_def)
    next
      case (Some x)
      with True createOrUpdateWebhook_present [OF assms(1) Some] show ?thesis
        unfolding run by (intro exI [of _ noRequeue] exI [of _ s]) (simp add: webhookStep_def plain_def)
    qed
  next
    case False
    from deleteWebhook_store [OF assms(1)] obtain s'
      where "deleteWebhook C i s = ((requeueSoon, None), s')" and "changesOnly V {webhookKey i} s s'"
        and "V s' (webhookKey i) = None" by blast
    moreover from this(2) have "changesOnly V {webhookKey i, webhookEventKey i} s s'" by (rule changesOnly_mono) simp
    ultimately have "deleteWebhook C i s = ((requeueSoon, None), s')" "changesOnly V {webhookKey i, webhookEventKey i} s s'"
      "V s' (webhookKey i) = None" by simp_all
    with False show ?thesis
      unfolding run by (intro exI [of _ requeueSoon] exI [of _ s']) (simp add: webhookStep_def plain_def)
  qed
qed

section \<open>Deletion\<close>

text \<open>The cluster-scoped objects of an instance, which its deletion has to remove itself. The
  constraint template is only looked for while the Gatekeeper is there.\<close>

definition clusterChildren :: "integrity_shield \<Rightarrow> bool \<Rightarrow> (kind \<times> string) list" where
  "clusterChildren i gatekeeper =
     [(ClusterRoleKind, sc_APIRole (cr_Security i)), (ClusterRoleBindingKind, sc_APIRoleBinding (cr_Security i))] @
     (if spec_UseGatekeeper (is_Spec i)
      then if gatekeeper then [(TemplateKind, ''manifestintegrityconstraint'')] else []
      else [(WebhookKind, spec_WebhookConfigName (is_Spec i)), (CRDKind, ''manifestintegrityprofiles.apis.integrityshield.io'')]) @
     (if oc_Enabled (spec_Observer (is_Spec i))
      then [(ClusterRoleKind, sc_ObserverRole (cr_Security i)), (ClusterRoleBindingKind, sc_ObserverRoleBinding (cr_Security i)),
            (CRDKind, ''manifestintegritystates.apis.integrityshield.io'')]
      else [])"

definition clusterKeys :: "(kind \<times> string) list \<Rightarrow> obj_key set" where
  "clusterKeys kns = (\<lambda>(k, n). keyOf k [] n) ` set kns"

text \<open>What the deletion relies on: a lookup sees the stored objects, and a deletion or update that does
  not fail does what it says. Any of them may fail.\<close>

definition deletion_laws :: "('k, 's, 'x) op_client_scheme \<Rightarrow> ('s \<Rightarrow> obj_key \<rightharpoonup> kobject) \<Rightarrow> bool" where
  "deletion_laws C V \<longleftrightarrow>
     (\<forall>s k ns n. Client_Get C s k ns n = (case V s (keyOf k ns n) of None \<Rightarrow> Inl NotFound | Some x \<Rightarrow> Inr x)) \<and>
     (\<forall>s x s'. V s (objKey x) \<noteq> None \<and> Client_Delete C s x = Inr s' \<longrightarrow> V s' = (V s)(objKey x := None)) \<and>
     (\<forall>s x s'. V s (objKey x) \<noteq> None \<and> Client_Update C s x = Inr s' \<longrightarrow>
        V s' = (V s)(objKey x := if finalized x then None else Some x)) \<and>
     (\<forall>s k x. V s k = Some x \<longrightarrow> objKey x = k)"

lemma deletion_lawsD:
  assumes "deletion_laws C V"
  shows "Client_Get C s k ns n = (case V s (keyOf k ns n) of None \<Rightarrow> Inl NotFound | Some x \<Rightarrow> Inr x)"
    and "V s (objKey x) = Some y \<Longrightarrow> Client_Delete C s x = Inr s' \<Longrightarrow> V s' = (V s)(objKey x := None)"
    and "V s (objKey x) = Some y \<Longrightarrow> Client_Update C s x = Inr s' \<Longrightarrow> V s' = (V s)(objKey x := if finalized x then None else Some x)"
    and "V s key = Some x \<Longrightarrow> objKey x = key"
proof -
  note laws = assms [unfolded deletion_laws_def]
  show "Client_Get C s k ns n = (case V s (keyOf k ns n) of None \<Rightarrow> Inl NotFound | Some x \<Rightarrow> Inr x)"
    using conjunct1 [OF laws] by blast
  show "V s (objKey x) = Some y \<Longrightarrow> Client_Delete C s x = Inr s' \<Longrightarrow> V s' = (V s)(objKey x := None)"
    using laws [THEN conjunct2, THEN conjunct1, rule_format, of s x s'] by simp
  show "V s (objKey x) = Some y \<Longrightarrow> Client_Update C s x = Inr s' \<Longrightarrow> V s' = (V s)(objKey x := if finalized x then None else Some x)"
    using laws [THEN conjunct2, THEN conjunct2, THEN conjunct1, rule_format, of s x s'] by simp
  show "V s key = Some x \<Longrightarrow> objKey x = key"
    using laws [THEN conjunct2, THEN conjunct2, THEN conjunct2, rule_format, of s key x] .
qed

lemma store_deletion_laws:
  assumes "store_laws C V"
  shows "deletion_laws C V"
  unfolding deletion_laws_def
proof (intro conjI allI impI)
  fix s x s'
  assume "V s (objKey x) \<noteq> None \<and> Client_Update C s x = Inr s'"
  then obtain y where y: "V s (objKey x) = Some y" and up: "Client_Update C s x = Inr s'" by blast
  then have "accepts y x" using store_refuse [OF assms y] by fastforce
  with store_write [OF assms y] up show "V s' = (V s)(objKey x := if finalized x then None else Some x)" by simp
next
  fix s x s'
  assume "V s (objKey x) \<noteq> None \<and> Client_Delete C s x = Inr s'"
  then show "V s' = (V s)(objKey x := None)" using store_delete [OF assms, of s x] by auto
qed (simp_all add: store_get [OF assms] store_key [OF assms])

lemma deleteObject_may_fail:
  assumes laws: "deletion_laws C V"
  shows "\<exists>r e s'. deleteObject C k n s = ((r, e), s') \<and> (if e = None then V s' = (V s)(keyOf k [] n := None) else s' = s)"
proof (cases "V s (keyOf k [] n)")
  case None
  then have "V s = (V s)(keyOf k [] n := None)" by auto
  with None show ?thesis by (simp add: deleteObject_def deletion_lawsD(1) [OF laws])
next
  case (Some x)
  with deletion_lawsD(4) [OF laws] have "objKey x = keyOf k [] n" .
  with Some deletion_lawsD(2) [OF laws, of s x] show ?thesis
    by (cases "Client_Delete C s x") (auto simp: deleteObject_def deletion_lawsD(1) [OF laws])
qed

text \<open>The deletions remove some of the objects, and all of them if none failed.\<close>

lemma runDeletes_objects:
  assumes laws: "deletion_laws C V"
  shows "\<exists>e s' D. runDeletes (map (\<lambda>(k, n). deleteObject C k n) kns) s = (e, s') \<and> V s' = V s |` (- D) \<and>
     D \<subseteq> clusterKeys kns \<and> (e = None \<longrightarrow> D = clusterKeys kns)"
proof (induction kns arbitrary: s)
  case Nil
  show ?case by (intro exI [of _ None] exI [of _ s] exI [of _ "{}"]) (simp add: clusterKeys_def restrict_map_def)
next
  case (Cons kn kns)
  obtain k n where kn: "kn = (k, n)" by force
  from deleteObject_may_fail [OF laws, of k n s] obtain r e s1
    where del: "deleteObject C k n s = ((r, e), s1)"
      and s1: "if e = None then V s1 = (V s)(keyOf k [] n := None) else s1 = s" by blast
  show ?case
  proof (cases e)
    case (Some err)
    with s1 del kn show ?thesis by (intro exI [of _ e] exI [of _ s] exI [of _ "{}"]) (simp add: restrict_map_def)
  next
    case None
    from Cons.IH [of s1] obtain e' s' D where run: "runDeletes (map (\<lambda>(k, n). deleteObject C k n) kns) s1 = (e', s')"
      and D: "V s' = V s1 |` (- D)" "D \<subseteq> clusterKeys kns" "e' = None \<longrightarrow> D = clusterKeys kns" by blast
    have "V s' = V s |` (- insert (keyOf k [] n) D)"
      unfolding D(1) using None s1 by (intro ext) (simp add: restrict_map_def)
    with D run del kn None show ?thesis
      by (intro exI [of _ e'] exI [of _ s'] exI [of _ "insert (keyOf k [] n) D"]) (auto simp: clusterKeys_def)
  qed
qed

lemma runDeletes_append:
  "runDeletes (fs @ gs) s = (case runDeletes fs s of (None, s') \<Rightarrow> runDeletes gs s' | (Some e, s') \<Rightarrow> (Some e, s'))"
  by (induction fs arbitrary: s) (simp_all split: prod.split option.split)

lemma deleteSteps_objects:
  assumes laws: "deletion_laws C V"
  shows "runDeletes (deleteSteps C i) s =
           runDeletes (map (\<lambda>(k, n). deleteObject C k n) (clusterChildren i (V s gatekeeperKey \<noteq> None))) s"
proof -
  let ?two = "[deleteClusterRoleForIShield C i, deleteClusterRoleBindingForIShield C i]"
  let ?kns = "[(ClusterRoleKind, sc_APIRole (cr_Security i)), (ClusterRoleBindingKind, sc_APIRoleBinding (cr_Security i))]"
  let ?cc = "clusterChildren i (V s gatekeeperKey \<noteq> None)"
  have two: "?two = map (\<lambda>(k, n). deleteObject C k n) ?kns"
    by (simp add: deleteClusterRoleForIShield_def deleteClusterRole_def deleteClusterRoleBindingForIShield_def
        deleteClusterRoleBinding_def built_metas)
  have children: "map (\<lambda>(k, n). deleteObject C k n) ?cc = ?two @ map (\<lambda>(k, n). deleteObject C k n) (drop 2 ?cc)"
    unfolding two by (simp add: clusterChildren_def)
  have steps: "deleteSteps C i = ?two @ drop 2 (deleteSteps C i)" by (simp add: deleteSteps_def)
  have rest: "drop 2 (deleteSteps C i) =
      (if spec_UseGatekeeper (is_Spec i)
       then [\<lambda>s. if isGatekeeperAvailable C s then deleteConstraintTemplate C i s else ((noRequeue, None), s)]
       else [deleteWebhook C i, deleteManifestIntegrityProfileCRD C i]) @
      (if oc_Enabled (spec_Observer (is_Spec i))
       then [deleteClusterRoleForObserver C i, deleteClusterRoleBindingForObserver C i, deleteObserverResultCRD C i] else [])"
    by (simp add: deleteSteps_def)
  from runDeletes_objects [OF laws, of ?kns s] obtain e s' D
    where run: "runDeletes ?two s = (e, s')" and V: "V s' = V s |` (- D)" "D \<subseteq> clusterKeys ?kns" unfolding two by blast
  have "gatekeeperKey \<notin> clusterKeys ?kns" by (simp add: clusterKeys_def gatekeeperKey_def keyOf_def)
  with V have "V s' gatekeeperKey = V s gatekeeperKey" by (auto simp: restrict_map_def)
  then have same: "isGatekeeperAvailable C s' \<longleftrightarrow> V s gatekeeperKey \<noteq> None"
    by (simp add: isGatekeeperAvailable_def deletion_lawsD(1) [OF laws] gatekeeperKey_def split: option.split)
  have "runDeletes (drop 2 (deleteSteps C i)) s' = runDeletes (map (\<lambda>(k, n). deleteObject C k n) (drop 2 ?cc)) s'"
    unfolding rest
    by (simp add: clusterChildren_def same deleteConstraintTemplate_def
        deleteWebhook_def deleteManifestIntegrityProfileCRD_def deleteCRD_def deleteClusterRoleForObserver_def
        deleteClusterRole_def deleteClusterRoleBindingForObserver_def deleteClusterRoleBinding_def
        deleteObserverResultCRD_def built_metas BuildConstraintTemplateForIShield_def)
  then show ?thesis
    unfolding children by (subst steps) (simp add: runDeletes_append run del: append.simps runDeletes.simps split: option.split)
qed

definition withoutFinalizer :: "integrity_shield \<Rightarrow> integrity_shield" where
  "withoutFinalizer i = i\<lparr>is_Meta := (is_Meta i)
     \<lparr>meta_Finalizers := List.filter (\<lambda>f. f \<noteq> CleanupFinalizerName) (meta_Finalizers (is_Meta i))\<rparr>\<rparr>"

lemma containsString_iff: "containsString xs x \<longleftrightarrow> x \<in> set xs"
  by (induction xs) auto

lemma removeString_filter: "removeString xs x = List.filter (\<lambda>y. y \<noteq> x) xs"
  by (induction xs) auto

text \<open>What a complete deletion leaves: no cluster-scoped object of the instance, and of the instance
  the other finalizers, if there are any.\<close>

definition afterDeletion :: "(obj_key \<rightharpoonup> kobject) \<Rightarrow> obj_key \<Rightarrow> integrity_shield \<Rightarrow> obj_key \<rightharpoonup> kobject" where
  "afterDeletion objects key i =
     (objects |` (- clusterKeys (clusterChildren i (objects gatekeeperKey \<noteq> None))))
       (key := if \<forall>f\<in>set (meta_Finalizers (is_Meta i)). f = CleanupFinalizerName then None else Some (KShield (withoutFinalizer i)))"

lemma shieldKey_not_child: "shieldKey ns name \<notin> clusterKeys (clusterChildren i g)"
  by (auto simp: clusterKeys_def clusterChildren_def shieldKey_def keyOf_def split: if_splits)

lemma Reconcile_finalizes:
  assumes laws: "deletion_laws C V" and at: "V s (shieldKey ns name) = Some (KShield i)" and del: "meta_Deleting (is_Meta i)"
    and fin: "CleanupFinalizerName \<in> set (meta_Finalizers (is_Meta i))"
  shows "\<exists>e s'. Reconcile C csv now ns name s = Return ((noRequeue, e), s') \<and>
     (if e = None then V s' = afterDeletion (V s) (shieldKey ns name) i
      else V s' (shieldKey ns name) = Some (KShield i) \<and>
        (\<forall>k. V s' k = V s k \<or> k \<in> clusterKeys (clusterChildren i (V s gatekeeperKey \<noteq> None)) \<and> V s' k = None)) \<and>
     (e \<noteq> None \<longrightarrow> (\<exists>s1. deleteClusterScopedChildrenResources C i s = (e, s1) \<or>
        (deleteClusterScopedChildrenResources C i s = (None, s1) \<and> Client_Update C s1 (KShield (withoutFinalizer i)) = Inl (the e))))"
proof -
  let ?cc = "clusterChildren i (V s gatekeeperKey \<noteq> None)" and ?key = "shieldKey ns name"
  let ?new = "KShield (withoutFinalizer i)"
  from runDeletes_objects [OF laws, of ?cc s] obtain e s1 D
    where run: "deleteClusterScopedChildrenResources C i s = (e, s1)" and V1: "V s1 = V s |` (- D)" "D \<subseteq> clusterKeys ?cc"
      and all: "e = None \<longrightarrow> D = clusterKeys ?cc"
    unfolding deleteClusterScopedChildrenResources_def deleteSteps_objects [OF laws] by blast
  have left: "V s1 ?key = Some (KShield i)" "\<forall>k. V s1 k = V s k \<or> k \<in> clusterKeys ?cc \<and> V s1 k = None"
    using V1 at shieldKey_not_child [of ns name i] by (auto simp: restrict_map_def)
  have code: "Reconcile C csv now ns name s =
      (case e of Some err \<Rightarrow> Return ((noRequeue, Some err), s1)
       | None \<Rightarrow> (case Client_Update C s1 ?new of Inl err \<Rightarrow> Return ((noRequeue, Some err), s1) | Inr s2 \<Rightarrow> Return ((noRequeue, None), s2)))"
    using at del fin run
    by (simp add: Reconcile_def deletion_lawsD(1) [OF laws] shieldKey_def containsString_iff withoutFinalizer_def removeString_filter
        split: option.split)
  show ?thesis
  proof (cases e)
    case (Some err)
    with code run left show ?thesis by (intro exI [of _ e] exI [of _ s1]) auto
  next
    case None
    show ?thesis
    proof (cases "Client_Update C s1 ?new")
      case (Inl err)
      with None code run left show ?thesis by (intro exI [of _ "Some err"] exI [of _ s1]) auto
    next
      case (Inr s2)
      from deletion_lawsD(4) [OF laws at] have key: "objKey ?new = ?key" by (simp add: metaKey_def withoutFinalizer_def)
      have "finalized ?new \<longleftrightarrow> (\<forall>f\<in>set (meta_Finalizers (is_Meta i)). f = CleanupFinalizerName)"
        using del by (simp add: withoutFinalizer_def filter_empty_conv)
      with deletion_lawsD(3) [OF laws _ Inr, of "KShield i"] left(1) key V1(1) all None
      have "V s2 = afterDeletion (V s) ?key i" by (simp add: afterDeletion_def)
      with Inr None code show ?thesis by (intro exI [of _ None] exI [of _ s2]) simp
    qed
  qed
qed

lemma deleteObject_store:
  assumes laws: "store_laws C V"
  shows "\<exists>s'. deleteObject C k n s = ((requeueSoon, None), s')"
  using deleteObject_exact [OF laws] by blast

lemma runDeletes_store:
  assumes laws: "store_laws C V"
  shows "fst (runDeletes (map (\<lambda>(k, n). deleteObject C k n) kns) s) = None"
proof (induction kns arbitrary: s)
  case (Cons kn kns)
  obtain k n where kn: "kn = (k, n)" by force
  from deleteObject_store [OF laws] obtain s' where "deleteObject C k n s = ((requeueSoon, None), s')" by blast
  with Cons.IH kn show ?case by simp
qed simp

lemma Reconcile_finalizes_store:
  assumes laws: "store_laws C V" and at: "V s (shieldKey ns name) = Some (KShield i)" and "meta_Deleting (is_Meta i)"
    and "CleanupFinalizerName \<in> set (meta_Finalizers (is_Meta i))"
  shows "\<exists>s'. Reconcile C csv now ns name s = Return ((noRequeue, None), s') \<and> V s' = afterDeletion (V s) (shieldKey ns name) i"
proof -
  note weak = store_deletion_laws [OF laws]
  from Reconcile_finalizes [OF weak at assms(3,4), of csv now] obtain e s'
    where run: "Reconcile C csv now ns name s = Return ((noRequeue, e), s')"
      and V: "if e = None then V s' = afterDeletion (V s) (shieldKey ns name) i
        else V s' (shieldKey ns name) = Some (KShield i) \<and>
          (\<forall>k. V s' k = V s k \<or> k \<in> clusterKeys (clusterChildren i (V s gatekeeperKey \<noteq> None)) \<and> V s' k = None)"
      and err: "e \<noteq> None \<longrightarrow> (\<exists>s1. deleteClusterScopedChildrenResources C i s = (e, s1) \<or>
        (deleteClusterScopedChildrenResources C i s = (None, s1) \<and> Client_Update C s1 (KShield (withoutFinalizer i)) = Inl (the e)))"
    by blast
  let ?cc = "clusterChildren i (V s gatekeeperKey \<noteq> None)"
  from runDeletes_objects [OF weak, of ?cc s] runDeletes_store [OF laws, of ?cc s] obtain s1
    where run1: "deleteClusterScopedChildrenResources C i s = (None, s1)" and "V s1 = V s |` (- clusterKeys ?cc)"
    unfolding deleteClusterScopedChildrenResources_def deleteSteps_objects [OF weak] by force
  then have "V s1 (shieldKey ns name) = Some (KShield i)" using at shieldKey_not_child [of ns name i] by (simp add: restrict_map_def)
  moreover have "objKey (KShield (withoutFinalizer i)) = shieldKey ns name"
    using store_key [OF laws at] by (simp add: metaKey_def withoutFinalizer_def)
  ultimately obtain s2 where "Client_Update C s1 (KShield (withoutFinalizer i)) = Inr s2"
    using store_write [OF laws, of s1 "KShield (withoutFinalizer i)" "KShield i"] by auto
  with err run1 have "e = None" by auto
  with run V show ?thesis by auto
qed

text \<open>C10: Deleting an instance that carries the finalizer removes every cluster-scoped object of the
  instance and only then the finalizer, whatever the API server refuses: if the pass returns no
  error these objects are gone, the other finalizers of the instance are kept, the instance
  disappears if there are none, and all other objects stay; if a deletion or the final update
  fails the pass returns an error, the instance keeps its finalizer, and nothing but
  cluster-scoped objects of the instance was removed. A server that refuses nothing lets the pass
  succeed.\<close>

theorem deletion_removes_cluster_objects:
  assumes "deletion_laws C V" and "V s (shieldKey ns name) = Some (KShield i)" and "meta_Deleting (is_Meta i)"
    and "CleanupFinalizerName \<in> set (meta_Finalizers (is_Meta i))"
  shows "\<exists>e s'. Reconcile C csv now ns name s = Return ((noRequeue, e), s') \<and>
     (if e = None then V s' = afterDeletion (V s) (shieldKey ns name) i
      else V s' (shieldKey ns name) = Some (KShield i) \<and>
        (\<forall>k. V s' k = V s k \<or> k \<in> clusterKeys (clusterChildren i (V s gatekeeperKey \<noteq> None)) \<and> V s' k = None)) \<and>
     (store_laws C V \<longrightarrow> e = None)"
proof (cases "store_laws C V")
  case True
  from Reconcile_finalizes_store [OF True assms(2-4), of csv now] obtain s'
    where "Reconcile C csv now ns name s = Return ((noRequeue, None), s')" and "V s' = afterDeletion (V s) (shieldKey ns name) i" by blast
  then show ?thesis by (intro exI [of _ None] exI [of _ s']) simp
next
  case False
  with Reconcile_finalizes [OF assms, of csv now] show ?thesis by blast
qed

section \<open>The certificate of the webhook\<close>

lemma loadCABundle_stored:
  assumes "store_laws C V"
    and "V s (keyOf SecretKind (cr_Namespace i) (spec_WebhookServerTlsSecretName (is_Spec i))) = Some (KSecret x)"
  shows "loadCABundle C i s = sec_Data x ''ca.crt''"
  using assms(2) by (simp add: loadCABundle_def store_get [OF assms(1)])

lemma addCertValues_data:
  assumes "GenerateCert C now svc (cr_Namespace i) = Inr (ca, key, crt)"
    and "sec_Data x = [''tls.crt'' \<mapsto> a, ''tls.key'' \<mapsto> b, ''ca.crt'' \<mapsto> c]"
  shows "sec_Data (addCertValues C now i x svc) = [''tls.crt'' \<mapsto> crt, ''tls.key'' \<mapsto> key, ''ca.crt'' \<mapsto> ca]"
  using assms by (auto simp: addCertValues_def or_zero_def Let_def)

lemma createOrUpdateSecret_new:
  assumes laws: "store_laws C V" and ns: "meta_Namespace (sec_Meta x) = cr_Namespace i"
    and none: "V s (keyOf SecretKind (cr_Namespace i) (meta_Name (sec_Meta x))) = None"
  shows "\<exists>y. V (snd (createOrUpdateSecret C i x s)) (keyOf SecretKind (cr_Namespace i) (meta_Name (sec_Meta x))) = Some (KSecret y) \<and>
           sec_Data y = sec_Data x"
proof -
  let ?y = "withController (cr_Name i) (KSecret x)" and ?key = "keyOf SecretKind (cr_Namespace i) (meta_Name (sec_Meta x))"
  have "objKey ?y = ?key" by (simp add: metaKey_def ns)
  with none createNew_store [OF laws, of s ?y] obtain s'
    where "createNew C ?y s = ((requeueSoon, None), s')" and "V s' ?key = Some ?y" by (metis fun_upd_same)
  with none show ?thesis
    by (simp add: createOrUpdateSecret_def createOrUpdate_def store_owner [OF laws] store_get [OF laws])
qed

lemma createOrUpdateACTlsSecret_new:
  assumes laws: "store_laws C V" and none: "V s (serverSecretKey i) = None"
    and cert: "GenerateCert C now (spec_WebhookServiceName (is_Spec i)) (cr_Namespace i) = Inr (ca, key, crt)"
  shows "\<exists>x. V (snd (createOrUpdateACTlsSecret C now i s)) (serverSecretKey i) = Some (KSecret x) \<and>
           sec_Data x = [''tls.crt'' \<mapsto> crt, ''tls.key'' \<mapsto> key, ''ca.crt'' \<mapsto> ca]"
proof -
  let ?x = "addCertValues C now i (BuildAPITlsSecretForIShield i) (spec_WebhookServiceName (is_Spec i))"
  have "sec_Data ?x = [''tls.crt'' \<mapsto> crt, ''tls.key'' \<mapsto> key, ''ca.crt'' \<mapsto> ca]"
    by (rule addCertValues_data [OF cert]) (simp add: BuildAPITlsSecretForIShield_def emptyTlsData_def)
  moreover have "sec_Meta ?x = new_meta (spec_WebhookServerTlsSecretName (is_Spec i)) (cr_Namespace i) None"
    by (simp add: BuildAPITlsSecretForIShield_def)
  ultimately show ?thesis
    using createOrUpdateSecret_new [OF laws, of ?x i s] none
    by (simp add: createOrUpdateACTlsSecret_def serverSecretKey_def new_meta_def)
qed

text \<open>C14: The API server can trust the admission controller: let the secret of the webhook server be
  created with a generated certificate and be unchanged when the webhook is registered for the
  first time. Then the stored webhook configuration has as its bundle the generated certificate
  authority, and the server's certificate in the secret is issued by that authority for the DNS
  name of the service that the webhook calls.\<close>

theorem webhook_trusts_server_certificate:
  assumes "store_laws C V" and "V s (serverSecretKey i) = None"
    and "GenerateCert C now (spec_WebhookServiceName (is_Spec i)) (cr_Namespace i) = Inr (ca, key, crt)"
    and "V s2 (serverSecretKey i) = V (snd (createOrUpdateACTlsSecret C now i s)) (serverSecretKey i)"
    and "V s2 (webhookKey i) = None"
  shows "\<exists>x wc h caKey tlsKey issuer caBytes srv crtBytes.
     V s2 (serverSecretKey i) = Some (KSecret x) \<and> sec_Data x ''tls.crt'' = Some crt \<and> sec_Data x ''tls.key'' = Some key \<and>
     V (snd (createOrUpdateWebhook C later i s2)) (webhookKey i) = Some (KWebhook wc) \<and> wc_Webhooks wc = [h] \<and> vw_CABundle h = ca \<and>
     rsa_GenerateKey C 0 = Inr caKey \<and> rsa_GenerateKey C 1 = Inr tlsKey \<and> x_IsCA issuer \<and>
     CreateCertificate C issuer issuer (rsa_PublicKey C caKey) caKey = Inr caBytes \<and> pem_Encode C ''CERTIFICATE'' caBytes = Inr ca \<and>
     CreateCertificate C srv issuer (rsa_PublicKey C tlsKey) caKey = Inr crtBytes \<and> pem_Encode C ''CERTIFICATE'' crtBytes = Inr crt \<and>
     x_DNSNames srv = [vw_ServiceName h @ ''.'' @ vw_ServiceNamespace h @ ''.svc'']"
proof -
  let ?svc = "spec_WebhookServiceName (is_Spec i)"
  let ?issuer = "caTemplate C now ?svc" and ?srv = "serverTemplate C now ?svc (cr_Namespace i)"
  from createOrUpdateACTlsSecret_new [OF assms(1-3)] assms(4) obtain x
    where x: "V s2 (serverSecretKey i) = Some (KSecret x)"
      and data: "sec_Data x = [''tls.crt'' \<mapsto> crt, ''tls.key'' \<mapsto> key, ''ca.crt'' \<mapsto> ca]" by auto
  let ?h = "(hd (wc_Webhooks (BuildValidatingWebhookConfigurationForIShield i)))\<lparr>vw_CABundle := ca\<rparr>"
  let ?wc = "registeredWebhook V i s2"
  have stored: "V (snd (createOrUpdateWebhook C later i s2)) (webhookKey i) = Some (KWebhook ?wc)"
    using createOrUpdateWebhook_missing [OF assms(1,5), of later] by auto
  have hook: "wc_Webhooks ?wc = [?h]" using registeredWebhook_hook [of V s2 i x ca] x data by simp
  have dns: "x_DNSNames ?srv = [vw_ServiceName ?h @ ''.'' @ vw_ServiceNamespace ?h @ ''.svc'']"
    by (simp add: serverTemplate_def Let_def BuildValidatingWebhookConfigurationForIShield_def)
  have authority: "x_IsCA ?issuer" by (simp add: caTemplate_def)
  from GenerateCert_ok [OF assms(3)] obtain caKey tlsKey caBytes certBytes
    where issued: "rsa_GenerateKey C 0 = Inr caKey" "rsa_GenerateKey C 1 = Inr tlsKey"
      "CreateCertificate C ?issuer ?issuer (rsa_PublicKey C caKey) caKey = Inr caBytes"
      "CreateCertificate C ?srv ?issuer (rsa_PublicKey C tlsKey) caKey = Inr certBytes"
      "pem_Encode C ''CERTIFICATE'' caBytes = Inr ca" "pem_Encode C ''CERTIFICATE'' certBytes = Inr crt" by auto
  show ?thesis
    by (rule exI [of _ x], rule exI [of _ ?wc], rule exI [of _ ?h], rule exI [of _ caKey], rule exI [of _ tlsKey], rule exI [of _ ?issuer],
        rule exI [of _ caBytes], rule exI [of _ ?srv], rule exI [of _ certBytes])
       (simp add: x data stored hook authority issued [simplified] dns)
qed

section \<open>A store\<close>

text \<open>An API server that keeps the objects in a map. Entries under a key that is not theirs are
  not visible.\<close>

definition storeView :: "(obj_key \<rightharpoonup> kobject) \<Rightarrow> obj_key \<rightharpoonup> kobject" where
  "storeView s k = (case s k of Some x \<Rightarrow> if objKey x = k then Some x else None | None \<Rightarrow> None)"

definition sample_client :: "(nat, obj_key \<rightharpoonup> kobject) op_client" where
  "sample_client =
     \<lparr>rsa_GenerateKey = Inr, rsa_PublicKey = (\<lambda>k. replicate k (CHR ''p'')),
      CreateCertificate = (\<lambda>t parent pub priv. Inr (x_CommonName t @ ''<'' @ x_CommonName parent)),
      MarshalPKCS1PrivateKey = (\<lambda>k. replicate k (CHR ''k'')), pem_Encode = (\<lambda>kind bytes. Inr (kind @ bytes)),
      AddTwoYears = (\<lambda>t. t + 63072000),
      SetControllerReference = (\<lambda>i x. Inr (withController (cr_Name i) x)),
      Client_Get = (\<lambda>s k ns n. case storeView s (keyOf k ns n) of None \<Rightarrow> Inl NotFound | Some x \<Rightarrow> Inr x),
      Client_Create = (\<lambda>s x. if storeView s (objKey x) = None then Inr (s(objKey x \<mapsto> x)) else Inl AlreadyExists),
      Client_Update = (\<lambda>s x. case storeView s (objKey x) of None \<Rightarrow> Inl NotFound
         | Some y \<Rightarrow> if accepts y x then Inr (s(objKey x := if finalized x then None else Some x)) else Inl (OtherError ''field is immutable'')),
      Client_Delete = (\<lambda>s x. if storeView s (objKey x) = None then Inl NotFound else Inr (s(objKey x := None)))\<rparr>"

lemma storeView_upd [simp]: "storeView (s(objKey x \<mapsto> x)) = (storeView s)(objKey x \<mapsto> x)"
  by (rule ext) (simp add: storeView_def)

lemma storeView_del [simp]: "storeView (s(k := None)) = (storeView s)(k := None)"
  by (rule ext) (simp add: storeView_def)

lemma storeView_key: "storeView s k = Some x \<Longrightarrow> objKey x = k"
  by (auto simp: storeView_def split: option.splits if_splits)

lemma sample_store_laws: "store_laws sample_client storeView"
  unfolding store_laws_def by (auto simp: sample_client_def storeView_key)

text \<open>The objects of an installation of the sample instance, its admission controller available.\<close>

definition sample_objects :: "kobject list" where
  "sample_objects =
     [KShield sample_shield, KConfigMap (BuildReqConfigForIShield sample_shield),
      KServiceAccount (BuildServiceAccountForIShield sample_shield), KRole (BuildRoleForIShield sample_shield),
      KRoleBinding (BuildRoleBindingForIShield sample_shield), KClusterRole (BuildClusterRoleForIShield sample_shield),
      KClusterRoleBinding (BuildClusterRoleBindingForIShield sample_shield),
      KCRD (BuildManifestIntegrityProfileCRD sample_shield), KConfigMap (BuildACConfigForIShield sample_shield),
      KSecret (BuildAPITlsSecretForIShield sample_shield),
      KDeployment ((BuildDeploymentForAdmissionController JNull sample_shield)\<lparr>dep_AvailableReplicas := 1\<rparr>),
      KService (BuildServiceForIShield sample_shield)]"

definition sample_cluster :: "obj_key \<rightharpoonup> kobject" where
  "sample_cluster = map_of (map (\<lambda>x. (objKey x, x)) sample_objects)"

definition empty_cluster :: "obj_key \<rightharpoonup> kobject" where
  "empty_cluster = [shieldKey ''shield-system'' ''integrity-shield-server'' \<mapsto> KShield sample_shield]"

lemma map_of_objKey: "map_of (map (\<lambda>x. (objKey x, x)) xs) k = Some x \<Longrightarrow> objKey x = k"
  by (auto dest: map_of_SomeD)

lemma storeView_cluster: "storeView (map_of (map (\<lambda>x. (objKey x, x)) xs)) = map_of (map (\<lambda>x. (objKey x, x)) xs)"
  by (rule ext) (auto simp: storeView_def dest: map_of_objKey split: option.split)

lemma sample_deployments_distinct: "deploymentsDistinct sample_shield"
  by (simp add: deploymentsDistinct_def sample_shield_def)

lemma sample_shield_key: "metaKey ShieldKind (is_Meta sample_shield) = shieldKey ''shield-system'' ''integrity-shield-server''"
  by (simp add: sample_shield_def metaKey_def shieldKey_def new_meta_def)

lemma sample_shield_live: "\<not> meta_Deleting (is_Meta sample_shield)"
  by (simp add: sample_shield_def new_meta_def)

lemma empty_cluster_live: "liveInstance storeView ''shield-system'' ''integrity-shield-server'' sample_shield empty_cluster"
  by (simp add: liveInstance_def storeView_def empty_cluster_def sample_shield_key sample_shield_live)

lemma empty_cluster_unblocked: "unblocked storeView JNull sample_shield empty_cluster"
  unfolding unblocked_def blocked_def
proof
  fix g
  assume "g \<in> set (installGoals JNull sample_shield)"
  from installGoals_kinds [OF this] have "storeView empty_cluster (fst g) = None"
    by (auto simp: storeView_def empty_cluster_def shieldKey_def keyOf_def)
  then show "\<not> (case storeView empty_cluster (fst g) of None \<Rightarrow> False | Some x \<Rightarrow> \<not> wanted g x \<and> \<not> amendable g x)" by simp
qed

theorem reconcile_converges_witness:
  "\<exists>s'. reconcilePasses sample_client JNull ''shield-system'' ''integrity-shield-server'' (replicate 19 0) empty_cluster = Return s' \<and>
     liveInstance storeView ''shield-system'' ''integrity-shield-server'' sample_shield s' \<and>
     (\<forall>g\<in>set (installGoals JNull sample_shield). reached storeView s' g) \<and> lastDone sample_client storeView JNull sample_shield s'"
  by (rule reconcile_converges [OF sample_store_laws empty_cluster_live sample_deployments_distinct empty_cluster_unblocked]) simp

lemma sample_keys:
  "map objKey sample_objects =
     [(ShieldKind, ''shield-system'', ''integrity-shield-server''), (ConfigMapKind, ''shield-system'', ''rh-config''),
      (ServiceAccountKind, ''shield-system'', ''api-sa''), (RoleKind, ''shield-system'', ''api-role''),
      (RoleBindingKind, ''shield-system'', ''api-rb''), (ClusterRoleKind, [], ''api-role''), (ClusterRoleBindingKind, [], ''api-rb''),
      (CRDKind, [], ''manifestintegrityprofiles.apis.integrityshield.io''), (ConfigMapKind, ''shield-system'', ''ac-config''),
      (SecretKind, ''shield-system'', ''ac-tls''), (DeploymentKind, ''shield-system'', ''ac''),
      (ServiceKind, ''shield-system'', ''ac-svc'')]"
  by (simp add: sample_objects_def built_metas) (simp add: sample_shield_def new_meta_def)

lemma sample_at:
  assumes "x \<in> set sample_objects"
  shows "storeView sample_cluster (objKey x) = Some x"
proof -
  have "distinct (map objKey sample_objects)" by (simp add: sample_keys)
  then have "distinct (map fst (map (\<lambda>x. (objKey x, x)) sample_objects))" by (simp add: comp_def)
  with assms show ?thesis
    unfolding sample_cluster_def storeView_cluster by (intro map_of_is_SomeI) auto
qed

lemma sample_cluster_live: "liveInstance storeView ''shield-system'' ''integrity-shield-server'' sample_shield sample_cluster"
  using sample_at [of "KShield sample_shield"]
  by (simp add: liveInstance_def sample_shield_key sample_shield_live sample_objects_def)

lemma sample_available: "isDeploymentAvailable sample_client JNull sample_shield sample_cluster"
proof -
  let ?d = "KDeployment ((BuildDeploymentForAdmissionController JNull sample_shield)\<lparr>dep_AvailableReplicas := 1\<rparr>)"
  have "storeView sample_cluster (objKey ?d) = Some ?d" by (rule sample_at) (simp add: sample_objects_def)
  then show ?thesis
    by (simp add: isDeploymentAvailable_def store_get [OF sample_store_laws] Let_def metaKey_def)
qed

lemma sample_cluster_installed: "\<forall>g\<in>set (installGoals JNull sample_shield). reached storeView sample_cluster g"
proof -
  let ?d = "BuildDeploymentForAdmissionController JNull sample_shield"
  have hit: "reached storeView sample_cluster (objKey x, P, Q)" if "x \<in> set sample_objects" and "P x" for x P Q
    using that by (simp add: reached_def sample_at)
  have eq: "EqualDeployments ?d (?d\<lparr>dep_AvailableReplicas := 1\<rparr>) = Return True"
    by (rule EqualDeployments_self) simp_all
  have goals: "map fst (installGoals JNull sample_shield) = map objKey (tl sample_objects)"
    by (simp add: goal_lists sample_objects_def presentGoal_def crdGoal_def deploymentGoal_def sample_shield_def)
  have holds: "list_all2 (\<lambda>g x. wanted g x) (installGoals JNull sample_shield) (tl sample_objects)"
    using eq
    by (simp add: goal_lists sample_objects_def presentGoal_def crdGoal_def deploymentGoal_def) (simp add: sample_shield_def)
  show ?thesis
  proof
    fix g
    assume "g \<in> set (installGoals JNull sample_shield)"
    then obtain n where n: "n < length (installGoals JNull sample_shield)" and g: "g = installGoals JNull sample_shield ! n"
      by (metis in_set_conv_nth)
    let ?x = "tl sample_objects ! n"
    from holds n have len: "n < length (tl sample_objects)" and "wanted g ?x" by (simp_all add: list_all2_conv_all_nth g)
    moreover from goals n len have "fst g = objKey ?x" by (metis g nth_map)
    moreover from len nth_mem [of "Suc n" sample_objects] have "?x \<in> set sample_objects" by (simp add: nth_tl)
    ultimately show "reached storeView sample_cluster g" using hit [of ?x "wanted g" "amendable g"] by (cases g) simp
  qed
qed

theorem reconcile_idle_iff_installed_witness:
  "Reconcile sample_client JNull 0 ''shield-system'' ''integrity-shield-server'' sample_cluster
     = Return ((noRequeue, None), sample_cluster) \<longleftrightarrow>
   installed sample_client storeView JNull sample_shield sample_cluster"
  by (rule reconcile_idle_iff_installed [OF sample_store_laws sample_cluster_live sample_deployments_distinct])

theorem webhook_follows_deployment_witness:
  "\<exists>r s'. Reconcile sample_client JNull 0 ''shield-system'' ''integrity-shield-server'' sample_cluster = Return ((r, None), s') \<and>
     changesOnly storeView {webhookKey sample_shield, webhookEventKey sample_shield} sample_cluster s' \<and>
     storeView s' (webhookKey sample_shield) \<noteq> None"
proof -
  have "\<not> spec_UseGatekeeper (is_Spec sample_shield)" by (simp add: sample_shield_def)
  from webhook_follows_deployment [OF sample_store_laws sample_cluster_live sample_deployments_distinct
      sample_cluster_installed this, of 0] sample_available
  show ?thesis by auto
qed

definition deleted_shield :: integrity_shield where
  "deleted_shield = sample_shield\<lparr>is_Meta := (is_Meta sample_shield)
     \<lparr>meta_Deleting := True, meta_Finalizers := [''foregroundDeletion'', CleanupFinalizerName]\<rparr>\<rparr>"

definition deleting_cluster :: "obj_key \<rightharpoonup> kobject" where
  "deleting_cluster = sample_cluster(shieldKey ''shield-system'' ''integrity-shield-server'' \<mapsto> KShield deleted_shield)"

lemma deleting_cluster_shield:
  "storeView deleting_cluster (shieldKey ''shield-system'' ''integrity-shield-server'') = Some (KShield deleted_shield)"
  by (simp add: deleting_cluster_def storeView_def deleted_shield_def metaKey_def shieldKey_def)
     (simp add: sample_shield_def new_meta_def)

theorem deletion_removes_cluster_objects_witness:
  "\<exists>s'. Reconcile sample_client JNull 0 ''shield-system'' ''integrity-shield-server'' deleting_cluster
          = Return ((noRequeue, None), s') \<and>
     storeView s' (ClusterRoleKind, [], ''api-role'') = None \<and>
     storeView s' (ConfigMapKind, ''shield-system'', ''rh-config'')
       = storeView deleting_cluster (ConfigMapKind, ''shield-system'', ''rh-config'')"
proof -
  let ?key = "shieldKey ''shield-system'' ''integrity-shield-server''"
  have del: "meta_Deleting (is_Meta deleted_shield)"
    and fin: "CleanupFinalizerName \<in> set (meta_Finalizers (is_Meta deleted_shield))"
    by (simp_all add: deleted_shield_def)
  have role: "(ClusterRoleKind, [], ''api-role'') \<in> clusterKeys (clusterChildren deleted_shield g)" for g
    by (simp add: clusterKeys_def clusterChildren_def keyOf_def clusterScoped_def deleted_shield_def sample_shield_def)
  have cm: "(ConfigMapKind, ''shield-system'', ''rh-config'') \<notin> clusterKeys (clusterChildren deleted_shield g)" for g
    by (auto simp: clusterKeys_def clusterChildren_def keyOf_def split: if_splits)
  from deletion_removes_cluster_objects [where V = storeView and s = deleting_cluster and i = deleted_shield,
      OF store_deletion_laws [OF sample_store_laws] deleting_cluster_shield del fin, of JNull 0] sample_store_laws
  obtain s' where "Reconcile sample_client JNull 0 ''shield-system'' ''integrity-shield-server'' deleting_cluster = Return ((noRequeue, None), s')"
    and "storeView s' = afterDeletion (storeView deleting_cluster) ?key deleted_shield" by auto
  with role cm show ?thesis by (simp add: afterDeletion_def restrict_map_def shieldKey_def keyOf_def)
qed

theorem webhook_trusts_server_certificate_witness:
  "\<exists>wc h. storeView (snd (createOrUpdateWebhook sample_client 0 sample_shield
          (snd (createOrUpdateACTlsSecret sample_client 0 sample_shield empty_cluster)))) (webhookKey sample_shield) = Some (KWebhook wc) \<and>
       wc_Webhooks wc = [h] \<and> vw_CABundle h = ''CERTIFICATEac-svc_ca<ac-svc_ca''"
proof -
  let ?s2 = "snd (createOrUpdateACTlsSecret sample_client 0 sample_shield empty_cluster)"
  have none: "storeView empty_cluster (serverSecretKey sample_shield) = None" "storeView empty_cluster (webhookKey sample_shield) = None"
    by (simp_all add: storeView_def empty_cluster_def serverSecretKey_def webhookKey_def shieldKey_def keyOf_def)
  have cert: "GenerateCert sample_client 0 (spec_WebhookServiceName (is_Spec sample_shield)) (cr_Namespace sample_shield)
      = Inr (''CERTIFICATEac-svc_ca<ac-svc_ca'', ''RSA PRIVATE KEYk'', ''CERTIFICATEac-svc.shield-system.svc<ac-svc_ca'')"
    by (simp add: GenerateCert_def sample_client_def caTemplate_def serverTemplate_def Let_def sample_shield_def new_meta_def)
  have "reaches storeView (plain (createOrUpdateACTlsSecret sample_client 0 sample_shield)) (presentGoal SecretKind (sec_Meta (BuildAPITlsSecretForIShield sample_shield)))"
    using admissionSteps_reach [OF sample_store_laws, of JNull 0 sample_shield] by (simp add: admissionSteps_def admissionGoals_def)
  then have "storeView ?s2 (webhookKey sample_shield) = storeView empty_cluster (webhookKey sample_shield)"
    by (cases rule: reaches_cases [where s = empty_cluster])
       (auto simp: plain_def presentGoal_def webhookKey_def metaKey_def keyOf_def)
  with none(2) have free: "storeView ?s2 (webhookKey sample_shield) = None" by simp
  from webhook_trusts_server_certificate [where V = storeView and s = empty_cluster and ?s2.0 = ?s2 and later = 0,
      OF sample_store_laws none(1) cert refl free] show ?thesis by blast
qed

section \<open>Existing objects\<close>

text \<open>An existing object is never brought up to date by the creating steps, whatever the client
  does: a request handler configuration that differs from the one in the instance stays as it is and
  the pass is neither ended nor repeated for it.\<close>

theorem existing_configuration_is_kept:
  assumes "Client_Get C s ConfigMapKind (cr_Namespace i) (spec_RequestHandlerConfigName (is_Spec i)) = Inr x"
  shows "snd (createOrUpdateRequestHandlerConfig C i s) = s \<and>
         \<not> Requeue (fst (fst (createOrUpdateRequestHandlerConfig C i s)))"
  by (rule request_handler_config.existing_object_is_kept [OF refl])
     (use assms in \<open>simp add: BuildReqConfigForIShield_def new_meta_def\<close>)

theorem existing_configuration_is_kept_witness:
  "snd (createOrUpdateRequestHandlerConfig sample_client sample_shield
     [(ConfigMapKind, ''shield-system'', ''rh-config'') \<mapsto>
        KConfigMap ((BuildReqConfigForIShield sample_shield)\<lparr>cmap_Data := Map.empty\<rparr>)])
   = [(ConfigMapKind, ''shield-system'', ''rh-config'') \<mapsto>
        KConfigMap ((BuildReqConfigForIShield sample_shield)\<lparr>cmap_Data := Map.empty\<rparr>)]"
proof -
  let ?x = "KConfigMap ((BuildReqConfigForIShield sample_shield)\<lparr>cmap_Data := Map.empty\<rparr>)"
  have "Client_Get sample_client [(ConfigMapKind, ''shield-system'', ''rh-config'') \<mapsto> ?x] ConfigMapKind
      (cr_Namespace sample_shield) (spec_RequestHandlerConfigName (is_Spec sample_shield)) = Inr ?x"
    by (simp add: sample_client_def storeView_def built_metas) (simp add: sample_shield_def new_meta_def)
  from existing_configuration_is_kept [OF this] show ?thesis by simp
qed

end
