(* ===== verification/Runs.thy ===== *)
theory Runs
  imports Convergence
begin

text \<open>
  Runs of the operator. A pass writes only the objects that belong to the instance; the work
  queue of the controller comes to rest; and in every state that the operator and its
  environment reach together, a registered webhook carries the certificate authority of the
  webhook server. The interleaving is a step relation: a pass of the reconcile loop, or a change
  of the cluster by somebody else.
\<close>

section \<open>What a pass writes\<close>

lemma Reconcile_deletes:
  assumes "store_laws C V" and "V s (shieldKey ns name) = Some (KShield i)" and "meta_Deleting (is_Meta i)"
  shows "\<exists>r s'. Reconcile C csv now ns name s = Return ((r, None), s') \<and>
           changesOnly V (insert (shieldKey ns name) (clusterKeys (clusterChildren i (V s gatekeeperKey \<noteq> None)))) s s'"
proof (cases "CleanupFinalizerName \<in> set (meta_Finalizers (is_Meta i))")
  case True
  let ?K = "clusterKeys (clusterChildren i (V s gatekeeperKey \<noteq> None))"
  from Reconcile_finalizes_store [OF assms True] obtain s'
    where run: "Reconcile C csv now ns name s = Return ((noRequeue, None), s')"
      and V: "V s' = afterDeletion (V s) (shieldKey ns name) i" by blast
  have "changesOnly V (insert (shieldKey ns name) ?K) s s'"
    unfolding changesOnly_def by (auto simp: V afterDeletion_def restrict_map_def)
  with run show ?thesis by blast
next
  case False
  with assms(2,3) have "Reconcile C csv now ns name s = Return ((noRequeue, None), s)"
    by (simp add: Reconcile_def store_get [OF assms(1)] shieldKey_def containsString_iff)
  then show ?thesis by simp
qed

lemma clusterChildren_managed: "clusterKeys (clusterChildren i g) \<subseteq> managedKeys csv i"
proof -
  have keys:
    "keyOf ClusterRoleKind [] (sc_APIRole (cr_Security i)) = metaKey ClusterRoleKind (role_Meta (BuildClusterRoleForIShield i))"
    "keyOf ClusterRoleBindingKind [] (sc_APIRoleBinding (cr_Security i)) = metaKey ClusterRoleBindingKind (rb_Meta (BuildClusterRoleBindingForIShield i))"
    "keyOf ClusterRoleKind [] (sc_ObserverRole (cr_Security i)) = metaKey ClusterRoleKind (role_Meta (BuildClusterRoleForObserver i))"
    "keyOf ClusterRoleBindingKind [] (sc_ObserverRoleBinding (cr_Security i)) = metaKey ClusterRoleBindingKind (rb_Meta (BuildClusterRoleBindingForObserver i))"
    "keyOf CRDKind [] ''manifestintegrityprofiles.apis.integrityshield.io'' = metaKey CRDKind (crd_Meta (BuildManifestIntegrityProfileCRD i))"
    "keyOf CRDKind [] ''manifestintegritystates.apis.integrityshield.io'' = metaKey CRDKind (crd_Meta (BuildObserverResultCRD i))"
    "keyOf TemplateKind [] ''manifestintegrityconstraint'' = templateKey i"
    "keyOf WebhookKind [] (spec_WebhookConfigName (is_Spec i)) = webhookKey i"
    by (simp_all add: built_metas templateKey_def webhookKey_def BuildConstraintTemplateForIShield_def)
  show ?thesis
    by (cases "spec_UseGatekeeper (is_Spec i)"; cases "oc_Enabled (spec_Observer (is_Spec i))"; cases g)
       (simp_all add: clusterKeys_def clusterChildren_def keys managedKeys_def goal_lists presentGoal_def crdGoal_def lateKeys_def)
qed

text \<open>C11: The operator writes only what belongs to its instance: a pass never panics, and every
  object other than the instance, the objects it asks for, and the constraint template or
  webhook with its event is the same afterwards.\<close>

theorem reconcile_touches_only_its_objects:
  assumes "store_laws C V" and "V s (shieldKey ns name) = Some (KShield i)" and "deploymentsDistinct i"
  shows "\<exists>r s'. Reconcile C csv now ns name s = Return (r, s') \<and>
           changesOnly V (insert (shieldKey ns name) (managedKeys csv i)) s s'"
proof (cases "meta_Deleting (is_Meta i)")
  case True
  from Reconcile_deletes [OF assms(1,2) True] obtain r s'
    where run: "Reconcile C csv now ns name s = Return ((r, None), s')"
      and "changesOnly V (insert (shieldKey ns name) (clusterKeys (clusterChildren i (V s gatekeeperKey \<noteq> None)))) s s'" by blast
  from this(2) have "changesOnly V (insert (shieldKey ns name) (managedKeys csv i)) s s'"
    using clusterChildren_managed by (rule changesOnly_mono [OF _ insert_mono])
  with run show ?thesis by blast
next
  case False
  with assms(2) have "liveInstance V ns name i s" by (simp add: liveInstance_def)
  from Reconcile_pass [OF assms(1) this assms(3)] obtain r s'
    where "Reconcile C csv now ns name s = Return (r, s')"
      and "progress V (set (installGoals csv i)) (managedKeys csv i) s s'" by blast
  then show ?thesis by (auto simp: changesOnly_def progress_def)
qed

theorem reconcile_touches_only_its_objects_witness:
  "\<exists>r s'. Reconcile sample_client JNull 0 ''shield-system'' ''integrity-shield-server'' empty_cluster = Return (r, s') \<and>
     changesOnly storeView (insert (shieldKey ''shield-system'' ''integrity-shield-server'') (managedKeys JNull sample_shield))
       empty_cluster s'"
proof -
  from empty_cluster_live have "storeView empty_cluster (shieldKey ''shield-system'' ''integrity-shield-server'') = Some (KShield sample_shield)"
    by (simp add: liveInstance_def)
  from reconcile_touches_only_its_objects [where V = storeView, OF sample_store_laws this sample_deployments_distinct]
  show ?thesis .
qed

section \<open>The work queue comes to rest\<close>

text \<open>The work queue of the controller runs passes until one returns without an error and without
  asking for another; \<open>None\<close> if the given passes do not suffice.\<close>

fun settle ::
  "('k, 's, 'x) op_client_scheme \<Rightarrow> json \<Rightarrow> string \<Rightarrow> string \<Rightarrow> int list \<Rightarrow> 's \<Rightarrow> 's option outcome" where
  "settle C csv ns name [] s = Return None"
| "settle C csv ns name (now # later) s =
     outcome_bind (Reconcile C csv now ns name s) (\<lambda>((r, e), s').
       if Requeue r \<or> e \<noteq> None then settle C csv ns name later s' else Return (Some s'))"

text \<open>A step without an error has reached its goal.\<close>

lemma reaches_ok:
  assumes "reaches V f g" and "compatible G" and "g \<in> G" and "fst ` G \<subseteq> K" and "f s = Return ((r, None), s')"
  shows "progress V G K s s'" and "reached V s' g"
proof -
  have "progress V G K s s' \<and> reached V s' g"
    using assms(1)
  proof (cases rule: reaches_cases [where s = s])
    case (works q s2)
    with progress_step [OF assms(2-4) works(1,4,5)] assms(5) show ?thesis by simp
  qed (use assms(5) in simp_all)
  then show "progress V G K s s'" and "reached V s' g" by simp_all
qed

lemma reaches_returns: "reaches V f g \<Longrightarrow> \<exists>r e s'. f s = Return ((r, e), s')"
  by (cases rule: reaches_cases [where s = s]) auto

text \<open>A sequence that runs to its end passed a state in which all its goals were reached.\<close>

lemma runSteps_end:
  assumes "list_all2 (reaches V) fs gs" and "compatible G" and "set gs \<subseteq> G" and "fst ` G \<subseteq> K"
  shows "runSteps (fs @ [l]) s = Return ((r, None), s') \<Longrightarrow> \<not> Requeue r \<Longrightarrow>
    \<exists>s1. runSteps [l] s1 = Return ((r, None), s') \<and> progress V G K s s1 \<and> (\<forall>g\<in>set gs. reached V s1 g)"
  using assms(1,3)
proof (induction arbitrary: s rule: list_all2_induct)
  case Nil
  then show ?case by (intro exI [of _ s]) (simp del: runSteps.simps)
next
  case (Cons f fs g gs)
  from Cons.prems have g: "g \<in> G" and gs: "set gs \<subseteq> G" by auto
  from reaches_returns [OF \<open>reaches V f g\<close>, of s] Cons.prems(1) obtain q s2 where step: "f s = Return ((q, None), s2)"
    by fastforce
  from reaches_ok [OF \<open>reaches V f g\<close> assms(2) g assms(4) step] have here: "progress V G K s s2" and "reached V s2 g" .
  show ?case
  proof (cases "Requeue q")
    case True
    with step Cons.prems show ?thesis by simp
  next
    case False
    with step Cons.prems(1) have "runSteps (fs @ [l]) s2 = Return ((r, None), s')" by simp
    from Cons.IH [OF this Cons.prems(2) gs] obtain s1
      where "runSteps [l] s1 = Return ((r, None), s')" and "progress V G K s2 s1" and "\<forall>g\<in>set gs. reached V s1 g" by blast
    with here progress_reached [OF \<open>progress V G K s2 s1\<close> g \<open>reached V s2 g\<close>] show ?thesis
      by (intro exI [of _ s1]) (simp add: progress_trans del: runSteps.simps)
  qed
qed

lemma metaKey_gatekeeper:
  "metaKey k m = gatekeeperKey \<longleftrightarrow> k = CRDKind \<and> meta_Name m = ''constrainttemplates.templates.gatekeeper.sh''"
  by (auto simp: gatekeeperKey_def metaKey_def keyOf_def clusterScoped_def)

lemma gatekeeperKey_not_goal: "g \<in> set (installGoals csv i) \<Longrightarrow> fst g \<noteq> gatekeeperKey"
proof
  assume "g \<in> set (installGoals csv i)" and eq: "fst g = gatekeeperKey"
  moreover from eq have "fst (fst g) = CRDKind" by (simp add: gatekeeperKey_def)
  ultimately have "g \<in> detailedGoals csv i" by (simp add: installGoals_detailed)
  with eq show False
    by (auto simp: detailedGoals_def crdGoal_def deploymentGoal_def metaKey_gatekeeper split: if_splits)
qed

lemma gatekeeperKey_not_managed: "gatekeeperKey \<notin> managedKeys csv i"
proof -
  have "gatekeeperKey \<notin> lateKeys i"
    by (simp add: lateKeys_def templateKey_def webhookKey_def webhookEventKey_def gatekeeperKey_def metaKey_def keyOf_def)
  moreover have "gatekeeperKey \<notin> fst ` set (installGoals csv i)" by (metis gatekeeperKey_not_goal imageE)
  ultimately show ?thesis by (simp add: managedKeys_def)
qed

text \<open>What the last step waits for: the Gatekeeper, or the running admission controller.\<close>

definition ready ::
  "('k, 's, 'x) op_client_scheme \<Rightarrow> ('s \<Rightarrow> obj_key \<rightharpoonup> kobject) \<Rightarrow> json \<Rightarrow> integrity_shield \<Rightarrow> 's \<Rightarrow> bool" where
  "ready C V csv i s \<longleftrightarrow>
     (if spec_UseGatekeeper (is_Spec i) then V s gatekeeperKey \<noteq> None
      else reached V s (deploymentGoal (BuildDeploymentForAdmissionController csv i)) \<and> isDeploymentAvailable C csv i s)"

lemma ready_progress:
  assumes "store_laws C V" and "progress V (set (installGoals csv i)) (managedKeys csv i) s s'" and "ready C V csv i s"
  shows "ready C V csv i s'"
proof (cases "spec_UseGatekeeper (is_Spec i)")
  case True
  have "V s' gatekeeperKey = V s gatekeeperKey"
    using assms(2) gatekeeperKey_not_managed [of csv i] unfolding progress_def by blast
  with True assms(3) show ?thesis by (simp add: ready_def)
next
  case False
  let ?g = "deploymentGoal (BuildDeploymentForAdmissionController csv i)"
  from False have g: "?g \<in> set (installGoals csv i)" by (simp add: goal_lists)
  from False assms(3) have "reached V s ?g" and avail: "isDeploymentAvailable C csv i s" by (simp_all add: ready_def)
  with assms(2) g have "V s' (fst ?g) = V s (fst ?g)" unfolding progress_def by blast
  with isDeploymentAvailable_cong [OF assms(1) this] avail \<open>reached V s ?g\<close> False show ?thesis
    by (simp add: ready_def reached_def)
qed

lemma lateKeys_progress:
  assumes "changesOnly V (lateKeys i) s s'"
  shows "progress V (set (installGoals csv i)) (managedKeys csv i) s s'"
  by (rule changesOnly_progress [OF assms installGoals_not_late]) (simp add: managedKeys_def)

lemma createTemplate_works:
  assumes "store_laws C V"
  shows "\<exists>r s'. createOrUpdateConstraintTemplate C i s = ((r, None), s') \<and> reached V s' (templateKey i, \<lambda>_. True, \<lambda>_. True)"
  using createTemplate_reaches [OF assms, of i]
  by (cases rule: reaches_cases [where s = s]) (auto simp: plain_def blocked_def split: option.splits)

lemma templateStep_reached:
  assumes "store_laws C V" and "isGatekeeperAvailable C s" and "templateStep C i s = Return (r, s')"
  shows "reached V s' (templateKey i, \<lambda>_. True, \<lambda>_. True)"
  using createTemplate_works [OF assms(1), of i s] assms(2,3) by (auto simp: templateStep_def plain_def)

text \<open>A pass that ends without an error or a requeue leaves a complete installation.\<close>

lemma lastStep_settled:
  assumes laws: "store_laws C V" and all: "\<forall>g\<in>set (installGoals csv i). reached V s g"
    and run: "runSteps [lastStep C csv now i] s = Return ((r, None), s')" and ended: "\<not> Requeue r"
  shows "installed C V csv i s'"
proof (cases "spec_UseGatekeeper (is_Spec i)")
  case True
  with run have step: "runSteps [templateStep C i] s = Return ((r, None), s')" by (simp add: lastStep_def)
  have avail: "isGatekeeperAvailable C s"
    using step ended by (cases "isGatekeeperAvailable C s") (auto simp: templateStep_def plain_def)
  from templateStep_store [OF laws, of i s] obtain q s1
    where t: "templateStep C i s = Return (q, s1)" and late: "changesOnly V (lateKeys i) s s1" by blast
  from t step have s1: "s' = s1" by (cases q) (auto split: if_splits)
  have "reached V s1 (templateKey i, \<lambda>_. True, \<lambda>_. True)"
    using templateStep_reached [OF laws avail t] .
  moreover have "V s1 gatekeeperKey = V s gatekeeperKey"
    by (rule changesOnly_eq [OF late]) (use gatekeeperKey_not_managed in \<open>auto simp: managedKeys_def\<close>)
  moreover have "\<forall>g\<in>set (installGoals csv i). reached V s1 g"
    using all progress_reached [OF lateKeys_progress [OF late]] by blast
  ultimately show ?thesis
    using True avail s1 by (simp add: installed_def isGatekeeperAvailable_store [OF laws] reached_def split: option.splits)
next
  case False
  with run have step: "runSteps [webhookStep C csv now i] s = Return ((r, None), s')" by (simp add: lastStep_def)
  have avail: "isDeploymentAvailable C csv i s"
    using step ended deleteWebhook_store [OF laws, of i s]
    by (cases "isDeploymentAvailable C csv i s") (auto simp: webhookStep_def plain_def)
  show ?thesis
  proof (cases "V s (webhookKey i)")
    case None
    from createOrUpdateWebhook_missing [OF laws None, of now] avail step ended show ?thesis
      by (auto simp: webhookStep_def plain_def)
  next
    case (Some x)
    with createOrUpdateWebhook_present [OF laws Some, of now] avail step have "s' = s"
      by (simp add: webhookStep_def plain_def)
    with Some all avail False show ?thesis by (simp add: installed_def)
  qed
qed

lemma Reconcile_settled:
  assumes laws: "store_laws C V" and live: "liveInstance V ns name i s" and names: "deploymentsDistinct i"
    and run: "Reconcile C csv now ns name s = Return ((r, None), s')" and ended: "\<not> Requeue r"
  shows "installed C V csv i s'"
proof -
  have keys: "fst ` set (installGoals csv i) \<subseteq> managedKeys csv i" by (simp add: managedKeys_def)
  from runSteps_end [OF installSteps_reach [OF laws] installGoals_compatible [OF names] subset_refl keys
      run [unfolded Reconcile_live [OF laws live]] ended]
  obtain s1 where "runSteps [lastStep C csv now i] s1 = Return ((r, None), s')"
    and "\<forall>g\<in>set (installGoals csv i). reached V s1 g" by blast
  with lastStep_settled [OF laws _ _ ended] show ?thesis by blast
qed

lemma lastStep_no_error:
  assumes laws: "store_laws C V"
  shows "\<exists>r s'. lastStep C csv now i s = Return ((r, None), s')"
proof (cases "spec_UseGatekeeper (is_Spec i)")
  case True
  from createTemplate_works [OF laws, of i s] True show ?thesis by (auto simp: lastStep_def templateStep_def plain_def)
next
  case False
  from deleteWebhook_store [OF laws, of i s] obtain s1 where "deleteWebhook C i s = ((requeueSoon, None), s1)" by blast
  moreover have "\<exists>r s'. createOrUpdateWebhook C now i s = ((r, None), s')"
    using createOrUpdateWebhook_missing [OF laws, of s i now] createOrUpdateWebhook_present [OF laws, of s i _ now]
    by (cases "V s (webhookKey i)") auto
  ultimately show ?thesis using False by (auto simp: lastStep_def webhookStep_def plain_def)
qed

lemma runSteps_no_error:
  assumes "list_all2 (reaches V) fs gs" and "\<And>s. \<exists>r s'. l s = Return ((r, None), s')"
    and "compatible G" and "set gs \<subseteq> G" and "fst ` G \<subseteq> K"
  shows "(\<forall>g\<in>set gs. \<not> blocked V s g) \<Longrightarrow> \<exists>r s'. runSteps (fs @ [l]) s = Return ((r, None), s')"
  using assms(1,4)
proof (induction arbitrary: s rule: list_all2_induct)
  case Nil
  from assms(2) obtain r s' where "l s = Return ((r, None), s')" by blast
  then show ?case by (cases "Requeue r") auto
next
  case (Cons f fs g gs)
  from Cons.prems have g: "g \<in> G" and gs: "set gs \<subseteq> G" and "\<not> blocked V s g" by auto
  from \<open>reaches V f g\<close> \<open>\<not> blocked V s g\<close> obtain q s2 where step: "f s = Return ((q, None), s2)"
    by (cases rule: reaches_cases [where s = s]) auto
  have "\<forall>h\<in>set gs. \<not> blocked V s2 h"
  proof
    fix h
    assume h: "h \<in> set gs"
    with Cons.prems(1) have "\<not> blocked V s h" by simp
    with progress_blocked [OF reaches_ok(1) [OF \<open>reaches V f g\<close> assms(3) g assms(5) step], of h] gs h show "\<not> blocked V s2 h"
      by (meson subsetD)
  qed
  from Cons.IH [OF this gs] step show ?case by auto
qed

lemma Reconcile_no_error:
  assumes "store_laws C V" and "liveInstance V ns name i s" and "deploymentsDistinct i" and "unblocked V csv i s"
  shows "\<exists>r s'. Reconcile C csv now ns name s = Return ((r, None), s')"
  unfolding Reconcile_live [OF assms(1,2)]
  by (rule runSteps_no_error [OF installSteps_reach [OF assms(1)] lastStep_no_error [OF assms(1)]
        installGoals_compatible [OF assms(3)] subset_refl subset_refl assms(4) [unfolded unblocked_def]])

text \<open>With everything else in place, one pass registers the webhook or the template.\<close>

lemma Reconcile_registers:
  assumes laws: "store_laws C V" and live: "liveInstance V ns name i s" and names: "deploymentsDistinct i"
    and free: "unblocked V csv i s" and none: "missingGoals V csv i s = {}" and ok: "ready C V csv i s"
  shows "\<exists>r s'. Reconcile C csv now ns name s = Return ((r, None), s') \<and> liveInstance V ns name i s' \<and> installed C V csv i s'"
proof -
  from Reconcile_pass [OF laws live names, of csv now] obtain q s'
    where run: "Reconcile C csv now ns name s = Return (q, s')" and live': "liveInstance V ns name i s'"
      and prog: "progress V (set (installGoals csv i)) (managedKeys csv i) s s'" by blast
  from run Reconcile_no_error [OF laws live names free, of now] obtain r where q: "q = (r, None)" by auto
  have step: "runSteps [lastStep C csv now i] s = Return ((r, None), s')"
    using run Reconcile_done [OF laws live names none, of now] by (simp only: q)
  from none have all: "\<forall>g\<in>set (installGoals csv i). reached V s g" unfolding missingGoals_def by blast
  then have all': "\<forall>g\<in>set (installGoals csv i). reached V s' g" using progress_reached [OF prog] by blast
  from ready_progress [OF laws prog ok] have ok': "ready C V csv i s'" .
  have "installed C V csv i s'"
  proof (cases "spec_UseGatekeeper (is_Spec i)")
    case True
    with ok have avail: "isGatekeeperAvailable C s" by (simp add: ready_def isGatekeeperAvailable_store [OF laws])
    obtain p s1 where p: "createOrUpdateConstraintTemplate C i s = ((p, None), s1)"
      and "reached V s1 (templateKey i, \<lambda>_. True, \<lambda>_. True)" using createTemplate_works [OF laws, of i s] by blast
    moreover from p step True avail have "s' = s1"
      by (auto simp: lastStep_def templateStep_def plain_def split: if_splits)
    ultimately show ?thesis using True all' ok' by (simp add: installed_def ready_def reached_def split: option.splits)
  next
    case False
    with ok have avail: "isDeploymentAvailable C csv i s" by (simp add: ready_def)
    have "V s' (webhookKey i) \<noteq> None"
    proof (cases "V s (webhookKey i)")
      case None
      from createOrUpdateWebhook_missing [OF laws None, of now] step False avail show ?thesis
        by (auto simp: lastStep_def webhookStep_def plain_def)
    next
      case (Some x)
      with createOrUpdateWebhook_present [OF laws Some, of now] step False avail show ?thesis
        by (simp add: lastStep_def webhookStep_def plain_def)
    qed
    with False all' ok' show ?thesis by (simp add: installed_def ready_def)
  qed
  with run q live' show ?thesis by blast
qed

lemma settle_installs:
  assumes laws: "store_laws C V" and names: "deploymentsDistinct i"
  shows "liveInstance V ns name i s \<Longrightarrow> ready C V csv i s \<Longrightarrow> unblocked V csv i s \<Longrightarrow> card (missingGoals V csv i s) + 2 \<le> length later \<Longrightarrow>
    \<exists>s'. settle C csv ns name later s = Return (Some s') \<and> installed C V csv i s'"
proof (induction later arbitrary: s)
  case Nil
  then show ?case by simp
next
  case (Cons now later)
  note live = Cons.prems(1) and free = Cons.prems(3)
  show ?case
  proof (cases "missingGoals V csv i s = {}")
    case True
    from Reconcile_registers [OF laws live names free True Cons.prems(2), of now] obtain r s'
      where run: "Reconcile C csv now ns name s = Return ((r, None), s')"
        and live': "liveInstance V ns name i s'" and inst: "installed C V csv i s'" by blast
    from Cons.prems(4) True obtain now' later' where later: "later = now' # later'" by (cases later) auto
    from Reconcile_idle_iff [OF laws live' names, of csv now'] inst
    have "Reconcile C csv now' ns name s' = Return ((noRequeue, None), s')" by simp
    with run inst later show ?thesis by simp
  next
    case False
    from Reconcile_pass [OF laws live names, of csv now] False free obtain q s'
      where run: "Reconcile C csv now ns name s = Return (q, s')" and live': "liveInstance V ns name i s'"
        and prog: "progress V (set (installGoals csv i)) (managedKeys csv i) s s'"
        and less: "missingGoals V csv i s' \<subset> missingGoals V csv i s" by auto
    from run Reconcile_no_error [OF laws live names free, of now] obtain r where q: "q = (r, None)" by auto
    from psubset_card_mono [OF _ less] Cons.prems(4) have "card (missingGoals V csv i s') + 2 \<le> length later" by simp
    from Cons.IH [OF live' ready_progress [OF laws prog Cons.prems(2)] unblocked_progress [OF prog free] this] obtain s2
      where "settle C csv ns name later s' = Return (Some s2)" and "installed C V csv i s2" by blast
    with run q Reconcile_settled [OF laws live names, of csv now r s'] show ?thesis
      by (cases "Requeue r") auto
  qed
qed

text \<open>C8: The work queue comes to rest: while the Gatekeeper is there, or the admission controller is
  running, and no deployment with another selector is in the way, at most twenty passes are needed
  until one asks for no further pass, and then the installation is complete.\<close>

theorem reconcile_settles:
  assumes "store_laws C V" and "liveInstance V ns name i s" and "deploymentsDistinct i" and "ready C V csv i s"
    and "unblocked V csv i s" and "20 \<le> length later"
  shows "\<exists>s'. settle C csv ns name later s = Return (Some s') \<and> installed C V csv i s'"
proof -
  have "card (missingGoals V csv i s) + 2 \<le> length later" using missingGoals_bound [of V csv i s] assms(6) by linarith
  then show ?thesis by (rule settle_installs [OF assms(1,3,2,4,5)])
qed

theorem reconcile_settles_witness:
  "\<exists>s'. settle sample_client JNull ''shield-system'' ''integrity-shield-server'' (replicate 20 0) sample_cluster = Return (Some s') \<and>
     installed sample_client storeView JNull sample_shield s'"
proof -
  have gk: "\<not> spec_UseGatekeeper (is_Spec sample_shield)" by (simp add: sample_shield_def)
  then have "deploymentGoal (BuildDeploymentForAdmissionController JNull sample_shield) \<in> set (installGoals JNull sample_shield)"
    by (simp add: goal_lists)
  with gk sample_cluster_installed sample_available have "ready sample_client storeView JNull sample_shield sample_cluster"
    by (simp add: ready_def)
  moreover have "unblocked storeView JNull sample_shield sample_cluster"
    unfolding unblocked_def using sample_cluster_installed reached_not_blocked by metis
  ultimately show ?thesis
    using reconcile_settles [OF sample_store_laws sample_cluster_live sample_deployments_distinct] by simp
qed

section \<open>The operator and its environment\<close>

text \<open>Somebody else may change the cluster between two passes in any way but for the three objects
  that the certificate of the webhook depends on: the instance, the secret of the webhook
  server and the webhook configuration. The webhook configuration may be removed, and while there
  is none the secret may be removed or replaced by one with another certificate authority.\<close>

inductive cluster_step ::
  "('k, 's, 'x) op_client_scheme \<Rightarrow> ('s \<Rightarrow> obj_key \<rightharpoonup> kobject) \<Rightarrow> json \<Rightarrow> string \<Rightarrow> string \<Rightarrow> integrity_shield \<Rightarrow> 's \<Rightarrow> 's \<Rightarrow> bool"
  for C V csv ns name i where
  pass: "Reconcile C csv now ns name s = Return (r, s') \<Longrightarrow> cluster_step C V csv ns name i s s'"
| change: "V s' (shieldKey ns name) = V s (shieldKey ns name) \<Longrightarrow> V s' (serverSecretKey i) = V s (serverSecretKey i) \<Longrightarrow>
     V s' (webhookKey i) = V s (webhookKey i) \<Longrightarrow> cluster_step C V csv ns name i s s'"
| unregister: "V s' = (V s)(webhookKey i := None) \<Longrightarrow> cluster_step C V csv ns name i s s'"
| drop_secret: "V s (webhookKey i) = None \<Longrightarrow> V s' = (V s)(serverSecretKey i := None) \<Longrightarrow> cluster_step C V csv ns name i s s'"
| renew_secret: "V s (webhookKey i) = None \<Longrightarrow> sec_Data sec ''ca.crt'' \<noteq> None \<Longrightarrow>
     V s' = (V s)(serverSecretKey i \<mapsto> KSecret sec) \<Longrightarrow> cluster_step C V csv ns name i s s'"

text \<open>The secret has a certificate authority, and a registered webhook has the same one.\<close>

definition trustInvariant :: "('s \<Rightarrow> obj_key \<rightharpoonup> kobject) \<Rightarrow> integrity_shield \<Rightarrow> 's \<Rightarrow> bool" where
  "trustInvariant V i s \<longleftrightarrow>
     (\<forall>x. V s (serverSecretKey i) = Some x \<longrightarrow> (\<exists>sec ca. x = KSecret sec \<and> sec_Data sec ''ca.crt'' = Some ca)) \<and>
     (\<forall>x. V s (webhookKey i) = Some x \<longrightarrow>
        (\<exists>wc h sec. x = KWebhook wc \<and> wc_Webhooks wc = [h] \<and> V s (serverSecretKey i) = Some (KSecret sec) \<and>
           sec_Data sec ''ca.crt'' = Some (vw_CABundle h)))"

lemma trustInvariant_cong:
  assumes "V s' (serverSecretKey i) = V s (serverSecretKey i)" and "V s' (webhookKey i) = V s (webhookKey i)"
  shows "trustInvariant V i s' = trustInvariant V i s"
  using assms by (simp add: trustInvariant_def)

lemma trustInvariant_changesOnly:
  assumes "changesOnly V K s s'" and "serverSecretKey i \<notin> K" and "webhookKey i \<notin> K"
  shows "trustInvariant V i s' = trustInvariant V i s"
  by (rule trustInvariant_cong) (rule changesOnly_eq [OF assms(1)], fact)+

definition keeps :: "('s \<Rightarrow> bool) \<Rightarrow> ('s \<Rightarrow> 's rec outcome) \<Rightarrow> bool" where
  "keeps I f \<longleftrightarrow> (\<forall>s r s'. I s \<longrightarrow> f s = Return (r, s') \<longrightarrow> I s')"

lemma keepsD: "keeps I f \<Longrightarrow> I s \<Longrightarrow> f s = Return (r, s') \<Longrightarrow> I s'"
  unfolding keeps_def by blast

text \<open>An invariant of the steps is one of the sequence; the last step may rely on the goals.\<close>

lemma runSteps_keeps:
  assumes "list_all2 (reaches V) fs gs" and "compatible G" and "set gs \<subseteq> G" and "fst ` G \<subseteq> K"
    and "\<forall>f\<in>set fs. keeps I f"
    and last: "\<And>s r s'. I s \<Longrightarrow> (\<forall>g\<in>G' \<union> set gs. reached V s g) \<Longrightarrow> l s = Return (r, s') \<Longrightarrow> I s'"
    and "G' \<subseteq> G"
  shows "I s \<Longrightarrow> (\<forall>g\<in>G'. reached V s g) \<Longrightarrow> runSteps (fs @ [l]) s = Return (r, s') \<Longrightarrow> I s'"
  using assms(1,3,5,7) last
proof (induction arbitrary: s G' rule: list_all2_induct)
  case Nil
  from Nil.prems(3) obtain q s1 where "l s = Return (q, s1)" and "s' = s1"
    by (cases "l s") (auto split: if_splits)
  with Nil.prems(1,2,7) show ?case by simp
next
  case (Cons f fs g gs)
  from Cons.prems have g: "g \<in> G" and gs: "set gs \<subseteq> G" and f: "keeps I f" and fs: "\<forall>f\<in>set fs. keeps I f" by auto
  from reaches_returns [OF \<open>reaches V f g\<close>] obtain q e s2 where step: "f s = Return ((q, e), s2)" by blast
  from keepsD [OF f Cons.prems(1) step] have I2: "I s2" .
  show ?case
  proof (cases "e \<noteq> None \<or> Requeue q")
    case True
    with step Cons.prems(3) I2 show ?thesis by auto
  next
    case False
    then have ok: "f s = Return ((q, None), s2)" using step by simp
    note here = reaches_ok [OF \<open>reaches V f g\<close> assms(2) g assms(4) ok]
    have goals: "\<forall>h\<in>insert g G'. reached V s2 h"
      using here(2) progress_reached [OF here(1)] Cons.prems(2,6) by blast
    have rest: "runSteps (fs @ [l]) s2 = Return (r, s')" using False step Cons.prems(3) by simp
    have sub: "insert g G' \<subseteq> G" using g Cons.prems(6) by blast
    have last': "\<And>s r s'. I s \<Longrightarrow> (\<forall>h\<in>insert g G' \<union> set gs. reached V s h) \<Longrightarrow> l s = Return (r, s') \<Longrightarrow> I s'"
      by (rule Cons.prems(7)) simp_all
    show ?thesis by (rule Cons.IH [OF I2 goals rest gs fs sub last'])
  qed
qed

lemma reaches_changesOnly:
  assumes "reaches V f g" and "f s = Return (r, s')"
  shows "changesOnly V {fst g} s s'"
  using assms(1)
  by (cases rule: reaches_cases [where s = s]) (use assms(2) in \<open>simp_all add: changesOnly_def\<close>)

lemma reaches_keeps:
  assumes "reaches V f g" and "fst (fst g) \<notin> {SecretKind, WebhookKind}"
  shows "keeps (trustInvariant V i) f"
  unfolding keeps_def
proof (intro allI impI)
  fix s r s'
  assume inv: "trustInvariant V i s" and step: "f s = Return (r, s')"
  from reaches_changesOnly [OF assms(1) step] have only: "changesOnly V {fst g} s s'" .
  have "fst (serverSecretKey i) \<noteq> fst (fst g)" "fst (webhookKey i) \<noteq> fst (fst g)"
    using assms(2) by (auto simp: serverSecretKey_def webhookKey_def)
  then have "serverSecretKey i \<notin> {fst g}" and "webhookKey i \<notin> {fst g}" by (simp_all, fastforce+)
  with trustInvariant_changesOnly [OF only] inv show "trustInvariant V i s'" by simp
qed

lemma list_reaches_keeps:
  assumes "list_all2 (reaches V) fs gs" and "\<forall>g\<in>set gs. fst (fst g) \<notin> {SecretKind, WebhookKind}"
  shows "\<forall>f\<in>set fs. keeps (trustInvariant V i) f"
  using assms by (induction rule: list_all2_induct) (auto intro: reaches_keeps)

lemma addCertValues_has_ca:
  "sec_Data x ''ca.crt'' \<noteq> None \<Longrightarrow> \<exists>ca. sec_Data (addCertValues C now i x svc) ''ca.crt'' = Some ca"
  by (auto simp: addCertValues_def Let_def split: prod.split)

lemma ACTlsSecret_keeps:
  assumes laws: "store_laws C V"
  shows "keeps (trustInvariant V i) (plain (createOrUpdateACTlsSecret C now i))"
  unfolding keeps_def
proof (intro allI impI)
  fix s r s'
  assume inv: "trustInvariant V i s" and step: "plain (createOrUpdateACTlsSecret C now i) s = Return (r, s')"
  let ?x = "addCertValues C now i (BuildAPITlsSecretForIShield i) (spec_WebhookServiceName (is_Spec i))"
  have key: "objKey (withController (cr_Name i) (KSecret ?x)) = serverSecretKey i"
    by (simp add: serverSecretKey_def built_metas owned_def)
  show "trustInvariant V i s'"
  proof (cases "V s (serverSecretKey i)")
    case None
    with createNew_store [OF laws, of s "withController (cr_Name i) (KSecret ?x)"] key obtain s1
      where "createNew C (withController (cr_Name i) (KSecret ?x)) s = ((requeueSoon, None), s1)"
        and V: "V s1 = (V s)(serverSecretKey i \<mapsto> withController (cr_Name i) (KSecret ?x))" by metis
    with None step have "s' = s1"
      by (simp add: plain_def createOrUpdateACTlsSecret_def createOrUpdateSecret_def createOrUpdate_def store_owner [OF laws]
          store_get [OF laws] serverSecretKey_def BuildAPITlsSecretForIShield_def new_meta_def)
    moreover have "V s (webhookKey i) = None"
      using None inv unfolding trustInvariant_def by (cases "V s (webhookKey i)") auto
    moreover have "\<exists>ca. sec_Data ?x ''ca.crt'' = Some ca"
      by (rule addCertValues_has_ca) (simp add: BuildAPITlsSecretForIShield_def emptyTlsData_def)
    moreover have "webhookKey i \<noteq> serverSecretKey i" by (simp add: webhookKey_def serverSecretKey_def keyOf_def)
    ultimately show ?thesis using V by (auto simp: trustInvariant_def)
  next
    case (Some x)
    with step have "s' = s"
      by (simp add: plain_def createOrUpdateACTlsSecret_def createOrUpdateSecret_def createOrUpdate_def store_owner [OF laws]
          store_get [OF laws] serverSecretKey_def BuildAPITlsSecretForIShield_def new_meta_def keepFound_def)
    with inv show ?thesis by simp
  qed
qed

lemma installSteps_keep:
  assumes laws: "store_laws C V" and "\<not> spec_UseGatekeeper (is_Spec i)"
  shows "\<forall>f\<in>set (installSteps C csv now i). keeps (trustInvariant V i) f"
proof -
  have "\<forall>f\<in>set (commonSteps C i). keeps (trustInvariant V i) f"
    by (rule list_reaches_keeps [OF commonSteps_reach [OF laws]]) (simp add: commonGoals_def presentGoal_def)
  moreover have "\<forall>f\<in>set (observerSteps C csv i). keeps (trustInvariant V i) f"
    by (rule list_reaches_keeps [OF observerSteps_reach [OF laws]])
       (simp add: observerGoals_def presentGoal_def crdGoal_def deploymentGoal_def)
  moreover have "\<forall>f\<in>set (admissionSteps C csv now i). keeps (trustInvariant V i) f"
  proof -
    have "list_all2 (reaches V) (admissionSteps C csv now i) (admissionGoals csv i)" by (rule admissionSteps_reach [OF laws])
    with ACTlsSecret_keeps [OF laws] show ?thesis
      by (auto simp: admissionSteps_def admissionGoals_def presentGoal_def crdGoal_def deploymentGoal_def
          elim: reaches_keeps)
  qed
  ultimately show ?thesis using assms(2) by (auto simp: installSteps_def split: if_splits)
qed

lemma webhookStep_trust:
  assumes laws: "store_laws C V" and inv: "trustInvariant V i s" and secret: "V s (serverSecretKey i) \<noteq> None"
    and step: "webhookStep C csv now i s = Return (r, s')"
  shows "trustInvariant V i s'"
proof -
  from secret inv obtain sec ca where sec: "V s (serverSecretKey i) = Some (KSecret sec)" and ca: "sec_Data sec ''ca.crt'' = Some ca"
    unfolding trustInvariant_def by blast
  have ne: "serverSecretKey i \<noteq> webhookKey i" "serverSecretKey i \<noteq> webhookEventKey i"
    by (simp_all add: webhookKey_def serverSecretKey_def webhookEventKey_def keyOf_def)
  show ?thesis
  proof (cases "isDeploymentAvailable C csv i s")
    case avail: True
    show ?thesis
    proof (cases "V s (webhookKey i)")
      case None
      from createOrUpdateWebhook_missing [OF laws None, of now] avail step
      have late: "changesOnly V {webhookKey i, webhookEventKey i} s s'"
        and wh: "V s' (webhookKey i) = Some (KWebhook (registeredWebhook V i s))"
        by (auto simp: webhookStep_def plain_def)
      from changesOnly_eq [OF late] ne sec have "V s' (serverSecretKey i) = Some (KSecret sec)" by simp
      moreover from registeredWebhook_hook [of V s i sec ca, OF sec ca]
      have "\<exists>h. wc_Webhooks (registeredWebhook V i s) = [h] \<and> vw_CABundle h = ca" by simp
      ultimately show ?thesis using wh ca unfolding trustInvariant_def by auto
    next
      case (Some x)
      with createOrUpdateWebhook_present [OF laws Some, of now] avail step inv show ?thesis
        by (simp add: webhookStep_def plain_def)
    qed
  next
    case False
    from deleteWebhook_store [OF laws, of i s] False step
    have late: "changesOnly V {webhookKey i} s s'" and "V s' (webhookKey i) = None"
      by (auto simp: webhookStep_def plain_def)
    moreover from changesOnly_eq [OF late] ne sec have "V s' (serverSecretKey i) = Some (KSecret sec)" by simp
    ultimately show ?thesis using ca unfolding trustInvariant_def by auto
  qed
qed

lemma Reconcile_trust:
  assumes laws: "store_laws C V" and live: "liveInstance V ns name i s" and names: "deploymentsDistinct i"
    and gk: "\<not> spec_UseGatekeeper (is_Spec i)" and inv: "trustInvariant V i s"
    and run: "Reconcile C csv now ns name s = Return (r, s')"
  shows "trustInvariant V i s'"
proof (rule runSteps_keeps [where G' = "{}" and l = "lastStep C csv now i" and I = "trustInvariant V i",
      OF installSteps_reach [OF laws] installGoals_compatible [OF names] subset_refl subset_refl installSteps_keep [OF laws gk] _ _ inv])
  show "runSteps (installSteps C csv now i @ [lastStep C csv now i]) s = Return (r, s')"
    using run by (simp only: Reconcile_live [OF laws live])
  fix s r s'
  assume "trustInvariant V i s" and goals: "\<forall>g\<in>{} \<union> set (installGoals csv i). reached V s g"
    and step: "lastStep C csv now i s = Return (r, s')"
  have "presentGoal SecretKind (sec_Meta (BuildAPITlsSecretForIShield i)) \<in> set (installGoals csv i)"
    using gk by (simp add: goal_lists)
  with goals have "reached V s (presentGoal SecretKind (sec_Meta (BuildAPITlsSecretForIShield i)))" by blast
  then have "V s (serverSecretKey i) \<noteq> None"
    by (auto simp: reached_def presentGoal_def serverSecretKey_def built_metas split: option.splits)
  with webhookStep_trust [OF laws \<open>trustInvariant V i s\<close>] step gk show "trustInvariant V i s'" by (simp add: lastStep_def)
qed simp_all

inductive reachable ::
  "('k, 's, 'x) op_client_scheme \<Rightarrow> ('s \<Rightarrow> obj_key \<rightharpoonup> kobject) \<Rightarrow> json \<Rightarrow> string \<Rightarrow> string \<Rightarrow> integrity_shield \<Rightarrow> 's \<Rightarrow> 's \<Rightarrow> bool"
  for C V csv ns name i s0 where
  start: "reachable C V csv ns name i s0 s0"
| next_step: "reachable C V csv ns name i s0 s \<Longrightarrow> cluster_step C V csv ns name i s s' \<Longrightarrow> reachable C V csv ns name i s0 s'"

lemma cluster_step_trust:
  assumes laws: "store_laws C V" and names: "deploymentsDistinct i" and gk: "\<not> spec_UseGatekeeper (is_Spec i)"
    and live: "liveInstance V ns name i s" and inv: "trustInvariant V i s" and step: "cluster_step C V csv ns name i s s'"
  shows "liveInstance V ns name i s' \<and> trustInvariant V i s'"
  using step
proof (cases rule: cluster_step.cases)
  case (pass now r)
  from Reconcile_pass [OF laws live names, of csv now] pass have "liveInstance V ns name i s'" by auto
  with Reconcile_trust [OF laws live names gk inv pass] show ?thesis by simp
next
  case change
  with live inv trustInvariant_cong [of V s' i s] show ?thesis by (simp add: liveInstance_def)
next
  case unregister
  with live inv show ?thesis
    by (simp add: liveInstance_def trustInvariant_def shieldKey_def webhookKey_def serverSecretKey_def keyOf_def)
next
  case drop_secret
  with live inv show ?thesis
    by (simp add: liveInstance_def trustInvariant_def shieldKey_def webhookKey_def serverSecretKey_def keyOf_def)
next
  case (renew_secret sec)
  with live inv show ?thesis
    by (auto simp: liveInstance_def trustInvariant_def shieldKey_def webhookKey_def serverSecretKey_def keyOf_def)
qed

text \<open>C6: The webhook trusts the stored authority. Start with a live instance without the Gatekeeper whose
  deployments have names of their own, no registered webhook, and no secret of the webhook server
  or one with a certificate authority. In every state that passes of the operator and changes by
  others reach from there, a registered webhook has as its bundle the authority in that secret,
  provided that the others leave the instance alone, do not write the webhook other than removing
  it, and touch the secret only while no webhook is registered, leaving an authority in it.\<close>

theorem webhook_trust_is_invariant:
  assumes "store_laws C V" and "deploymentsDistinct i" and "\<not> spec_UseGatekeeper (is_Spec i)"
    and "liveInstance V ns name i s0" and "V s0 (webhookKey i) = None"
    and "V s0 (serverSecretKey i) = None \<or> (\<exists>sec. V s0 (serverSecretKey i) = Some (KSecret sec) \<and> sec_Data sec ''ca.crt'' \<noteq> None)"
    and "reachable C V csv ns name i s0 s" and "V s (webhookKey i) = Some x"
  shows "\<exists>wc h sec. x = KWebhook wc \<and> wc_Webhooks wc = [h] \<and> V s (serverSecretKey i) = Some (KSecret sec) \<and>
           sec_Data sec ''ca.crt'' = Some (vw_CABundle h)"
proof -
  have "liveInstance V ns name i s \<and> trustInvariant V i s"
    using assms(7)
  proof (induction rule: reachable.induct)
    case start
    with assms(4-6) show ?case by (auto simp: trustInvariant_def)
  next
    case (next_step s s')
    with cluster_step_trust [OF assms(1-3)] show ?case by blast
  qed
  with assms(8) show ?thesis unfolding trustInvariant_def by blast
qed

definition no_secret_cluster :: "obj_key \<rightharpoonup> kobject" where
  "no_secret_cluster = sample_cluster(serverSecretKey sample_shield := None)"

lemma no_secret_cluster_facts:
  "liveInstance storeView ''shield-system'' ''integrity-shield-server'' sample_shield no_secret_cluster"
  "storeView no_secret_cluster (serverSecretKey sample_shield) = None"
  "storeView no_secret_cluster (webhookKey sample_shield) = None"
proof -
  have "shieldKey ns n \<noteq> serverSecretKey sample_shield" for ns n
    by (simp add: shieldKey_def serverSecretKey_def keyOf_def)
  with sample_cluster_live show "liveInstance storeView ''shield-system'' ''integrity-shield-server'' sample_shield no_secret_cluster"
    by (simp add: liveInstance_def no_secret_cluster_def)
  show "storeView no_secret_cluster (serverSecretKey sample_shield) = None" by (simp add: no_secret_cluster_def)
  have "webhookKey sample_shield \<notin> set (map objKey sample_objects)"
    unfolding sample_keys by (simp add: webhookKey_def keyOf_def)
  then have "sample_cluster (webhookKey sample_shield) = None"
    unfolding sample_cluster_def by (auto simp: map_of_eq_None_iff)
  then show "storeView no_secret_cluster (webhookKey sample_shield) = None"
    by (simp add: no_secret_cluster_def storeView_def)
qed

lemma no_secret_cluster_missing:
  "missingGoals storeView JNull sample_shield no_secret_cluster \<subseteq>
     {presentGoal SecretKind (sec_Meta (BuildAPITlsSecretForIShield sample_shield))}"
proof
  fix g
  assume "g \<in> missingGoals storeView JNull sample_shield no_secret_cluster"
  then have g: "g \<in> set (installGoals JNull sample_shield)" and open_goal: "\<not> reached storeView no_secret_cluster g"
    by (simp_all add: missingGoals_def)
  have same: "fst g = serverSecretKey sample_shield"
  proof (rule ccontr)
    assume "fst g \<noteq> serverSecretKey sample_shield"
    with open_goal have "\<not> reached storeView sample_cluster g" by (simp add: reached_def no_secret_cluster_def)
    with g sample_cluster_installed show False by blast
  qed
  then have "fst (fst g) \<notin> {CRDKind, DeploymentKind}" by (simp add: serverSecretKey_def)
  with g have "snd g = (\<lambda>_. True, \<lambda>_. True)" by (rule installGoals_present)
  with same show "g \<in> {presentGoal SecretKind (sec_Meta (BuildAPITlsSecretForIShield sample_shield))}"
    by (cases g) (simp add: presentGoal_def serverSecretKey_def built_metas)
qed

theorem webhook_trust_is_invariant_witness:
  "\<exists>s wc h sec. reachable sample_client storeView JNull ''shield-system'' ''integrity-shield-server'' sample_shield no_secret_cluster s \<and>
     storeView s (webhookKey sample_shield) = Some (KWebhook wc) \<and> wc_Webhooks wc = [h] \<and>
     storeView s (serverSecretKey sample_shield) = Some (KSecret sec) \<and> sec_Data sec ''ca.crt'' = Some (vw_CABundle h)"
proof -
  let ?ns = "''shield-system''" and ?name = "''integrity-shield-server''"
  let ?reach = "reachable sample_client storeView JNull ?ns ?name sample_shield no_secret_cluster"
  note facts = no_secret_cluster_facts
  have gk: "\<not> spec_UseGatekeeper (is_Spec sample_shield)" by (simp add: sample_shield_def)
  have goal: "deploymentGoal (BuildDeploymentForAdmissionController JNull sample_shield) \<in> set (installGoals JNull sample_shield)"
    using gk by (simp add: goal_lists)
  have dep: "storeView no_secret_cluster (fst (deploymentGoal (BuildDeploymentForAdmissionController JNull sample_shield))) =
      storeView sample_cluster (fst (deploymentGoal (BuildDeploymentForAdmissionController JNull sample_shield)))"
    by (simp add: no_secret_cluster_def deploymentGoal_def serverSecretKey_def metaKey_def keyOf_def)
  have ready: "ready sample_client storeView JNull sample_shield no_secret_cluster"
    using gk goal sample_cluster_installed sample_available isDeploymentAvailable_cong [where V = storeView, OF sample_store_laws dep] dep
    by (auto simp: ready_def reached_def)
  from Reconcile_pass [OF sample_store_laws facts(1) sample_deployments_distinct, of JNull 0] obtain r s1
    where run1: "Reconcile sample_client JNull 0 ?ns ?name no_secret_cluster = Return (r, s1)"
      and live1: "liveInstance storeView ?ns ?name sample_shield s1"
      and prog: "progress storeView (set (installGoals JNull sample_shield)) (managedKeys JNull sample_shield) no_secret_cluster s1"
      and less: "if missingGoals storeView JNull sample_shield no_secret_cluster = {}
        then Reconcile sample_client JNull 0 ?ns ?name no_secret_cluster = runSteps [lastStep sample_client JNull 0 sample_shield] no_secret_cluster
        else missingGoals storeView JNull sample_shield s1 \<subset> missingGoals storeView JNull sample_shield no_secret_cluster \<or>
          \<not> unblocked storeView JNull sample_shield no_secret_cluster \<and> snd r \<noteq> None"
    by blast
  have free: "unblocked storeView JNull sample_shield no_secret_cluster"
    unfolding unblocked_def
  proof
    fix g
    assume g: "g \<in> set (installGoals JNull sample_shield)"
    show "\<not> blocked storeView no_secret_cluster g"
    proof (cases "reached storeView no_secret_cluster g")
      case False
      with g no_secret_cluster_missing have "g = presentGoal SecretKind (sec_Meta (BuildAPITlsSecretForIShield sample_shield))"
        by (auto simp: missingGoals_def)
      then show ?thesis by (simp add: blocked_def presentGoal_def split: option.split)
    qed (rule reached_not_blocked)
  qed
  have "missingGoals storeView JNull sample_shield s1 = {}"
  proof (cases "missingGoals storeView JNull sample_shield no_secret_cluster = {}")
    case True
    with progress_missing [OF prog] show ?thesis by simp
  next
    case False
    with less free have "missingGoals storeView JNull sample_shield s1 \<subset> missingGoals storeView JNull sample_shield no_secret_cluster"
      by (simp only: if_False simp_thms)
    with no_secret_cluster_missing show ?thesis by blast
  qed
  from Reconcile_registers [OF sample_store_laws live1 sample_deployments_distinct unblocked_progress [OF prog free] this ready_progress [OF sample_store_laws prog ready], of 0]
  obtain q s2 where run2: "Reconcile sample_client JNull 0 ?ns ?name s1 = Return (q, s2)"
    and "installed sample_client storeView JNull sample_shield s2" by blast
  then obtain x where x: "storeView s2 (webhookKey sample_shield) = Some x" using gk by (auto simp: installed_def)
  have reach: "?reach s2"
    by (rule next_step [OF next_step [OF start pass [OF run1]] pass [OF run2]])
  from webhook_trust_is_invariant [where V = storeView, OF sample_store_laws sample_deployments_distinct gk facts(1,3) _ reach x] facts(2) reach x
  show ?thesis by blast
qed

end
