(* ===== verification/Validity.thy ===== *)
theory Validity
  imports Runs
begin

text \<open>
  The deployments that the operator writes are well formed. The API server refuses a deployment
  without a selector or whose selector does not match its own pods, whose containers mount a volume
  that the pod does not have, or in which a name is used twice; a pass of the reconcile loop writes
  no such deployment if the instance gives selectors. The last section is about the changes of an
  instance that the comparison of deployments does not see.
\<close>

section \<open>Well-formed deployments\<close>

definition validContainer :: "string set \<Rightarrow> k8s_container \<Rightarrow> bool" where
  "validContainer volumes c \<longleftrightarrow>
     distinct (map env_Name (ct_Env c)) \<and> distinct (map cp_Name (ct_Ports c)) \<and>
     distinct (map vm_MountPath (ct_VolumeMounts c)) \<and> vm_Name ` set (ct_VolumeMounts c) \<subseteq> volumes"

definition validPod :: "pod_spec \<Rightarrow> bool" where
  "validPod p \<longleftrightarrow>
     ps_Containers p \<noteq> [] \<and> distinct (map ct_Name (ps_Containers p)) \<and> distinct (map vol_Name (ps_Volumes p)) \<and>
     list_all (validContainer (set (map vol_Name (ps_Volumes p)))) (ps_Containers p)"

text \<open>A selector is given and not empty.\<close>

definition given :: "gomap \<Rightarrow> bool" where
  "given selector \<longleftrightarrow> (\<exists>m. selector = Some m \<and> dom m \<noteq> {})"

text \<open>A selector selects the pods with at least its labels.\<close>

definition selects :: "gomap \<Rightarrow> gomap \<Rightarrow> bool" where
  "selects selector labels = (case (selector, labels) of (Some m, Some l) \<Rightarrow> m \<subseteq>\<^sub>m l | _ \<Rightarrow> False)"

definition validDeployment :: "deployment \<Rightarrow> bool" where
  "validDeployment d \<longleftrightarrow>
     given (ds_Selector (dep_Spec d)) \<and> selects (ds_Selector (dep_Spec d)) (pt_Labels (ds_Template (dep_Spec d))) \<and>
     validPod (pt_Spec (ds_Template (dep_Spec d)))"

text \<open>The deployments of a state that were not there in the state \<open>s0\<close> are valid.\<close>

definition deploymentsValid :: "('s \<Rightarrow> obj_key \<rightharpoonup> kobject) \<Rightarrow> 's \<Rightarrow> 's \<Rightarrow> bool" where
  "deploymentsValid V s0 s \<longleftrightarrow>
     (\<forall>k d. V s k = Some (KDeployment d) \<longrightarrow> V s0 k = Some (KDeployment d) \<or> validDeployment d)"

definition selectorsGiven :: "integrity_shield \<Rightarrow> bool" where
  "selectorsGiven i \<longleftrightarrow>
     (let sp = is_Spec i
      in given (if spec_UseGatekeeper sp then api_SelectorLabels (spec_API sp) else cc_SelectorLabels (spec_ControllerContainer sp)) \<and>
         (oc_Enabled (spec_Observer sp) \<longrightarrow> given (oc_SelectorLabels (spec_Observer sp))))"

lemmas valid_defs = validDeployment_def validPod_def validContainer_def

lemma given_selects: "given m \<Longrightarrow> selects m m"
  by (auto simp: given_def selects_def)

lemma built_deployments_valid:
  "given (api_SelectorLabels (spec_API (is_Spec i))) \<Longrightarrow> validDeployment (BuildDeploymentForIShieldAPI csv i)"
  "given (cc_SelectorLabels (spec_ControllerContainer (is_Spec i))) \<Longrightarrow> validDeployment (BuildDeploymentForAdmissionController csv i)"
  "given (oc_SelectorLabels (spec_Observer (is_Spec i))) \<Longrightarrow> validDeployment (BuildDeploymentForObserver csv i)"
  by (simp_all add: given_selects valid_defs BuildDeploymentForIShieldAPI_def BuildDeploymentForAdmissionController_def
      BuildDeploymentForObserver_def Let_def deploymentWith_def tlsMounts_def SecretVolume_def EmptyDirVolume_def)

lemma validDeployment_spec: "dep_Spec d = dep_Spec e \<Longrightarrow> validDeployment d = validDeployment e"
  by (simp add: validDeployment_def)

section \<open>The steps keep deployments well formed\<close>

lemma deploymentsValid_upd:
  assumes "V s' = (V s)(k \<mapsto> KDeployment d)" and "validDeployment d" and "deploymentsValid V s0 s"
  shows "deploymentsValid V s0 s'"
  using assms by (auto simp: deploymentsValid_def)

lemma deploymentsValid_changesOnly:
  assumes laws: "store_laws C V" and only: "changesOnly V K s s'" and kinds: "\<forall>k\<in>K. fst k \<noteq> DeploymentKind"
    and valid: "deploymentsValid V s0 s"
  shows "deploymentsValid V s0 s'"
  unfolding deploymentsValid_def
proof (intro allI impI)
  fix k d
  assume at: "V s' k = Some (KDeployment d)"
  with store_key [OF laws] have "objKey (KDeployment d) = k" .
  then have "fst k = DeploymentKind" by (auto simp: metaKey_def keyOf_def)
  with kinds have "k \<notin> K" by blast
  with changesOnly_eq [OF only] at have "V s k = Some (KDeployment d)" by metis
  with valid show "V s0 k = Some (KDeployment d) \<or> validDeployment d" unfolding deploymentsValid_def by blast
qed

lemma reaches_keeps_valid:
  assumes "store_laws C V" and "reaches V f g" and "fst (fst g) \<noteq> DeploymentKind"
  shows "keeps (deploymentsValid V s0) f"
  unfolding keeps_def
  using reaches_changesOnly [OF assms(2)] deploymentsValid_changesOnly [OF assms(1)] assms(3) by blast

lemma createOrUpdateDeployment_keeps_valid:
  assumes laws: "store_laws C V" and expected: "validDeployment expected"
    and ns: "meta_Namespace (dep_Meta expected) = cr_Namespace i"
  shows "keeps (deploymentsValid V s0) (createOrUpdateDeployment C i expected)"
  unfolding keeps_def
proof (intro allI impI)
  fix s r s'
  assume valid: "deploymentsValid V s0 s" and step: "createOrUpdateDeployment C i expected s = Return (r, s')"
  have cts: "ps_Containers (pt_Spec (ds_Template (dep_Spec expected))) \<noteq> []"
    using expected by (simp add: validDeployment_def validPod_def)
  show "deploymentsValid V s0 s'"
  proof (cases "reached V s (deploymentGoal expected)")
    case True
    with createOrUpdateDeployment_kept [OF laws ns] step valid show ?thesis by simp
  next
    case False
    show ?thesis
    proof (cases "blocked V s (deploymentGoal expected)")
      case True
      from createOrUpdateDeployment_blocked [OF laws ns cts True] step valid show ?thesis by auto
    next
      case free: False
      from createOrUpdateDeployment_written [OF laws ns cts False free] step obtain d
        where "V s' = (V s)(metaKey DeploymentKind (dep_Meta expected) \<mapsto> KDeployment d)" and "dep_Spec d = dep_Spec expected" by auto
      with validDeployment_spec [of d expected] expected valid show ?thesis by (auto intro: deploymentsValid_upd)
    qed
  qed
qed

lemma deployment_steps_keep_valid:
  assumes "store_laws C V"
  shows "given (api_SelectorLabels (spec_API (is_Spec i))) \<Longrightarrow> keeps (deploymentsValid V s0) (createOrUpdateIShieldAPIDeployment C csv i)"
    and "given (cc_SelectorLabels (spec_ControllerContainer (is_Spec i))) \<Longrightarrow>
      keeps (deploymentsValid V s0) (createOrUpdateAdmissionControllerDeployment C csv i)"
    and "given (oc_SelectorLabels (spec_Observer (is_Spec i))) \<Longrightarrow> keeps (deploymentsValid V s0) (createOrUpdateObserverDeployment C csv i)"
  unfolding createOrUpdateIShieldAPIDeployment_def createOrUpdateAdmissionControllerDeployment_def
    createOrUpdateObserverDeployment_def
  by (rule createOrUpdateDeployment_keeps_valid [OF assms]; simp add: built_deployments_valid)+

lemma installSteps_keep_valid:
  assumes laws: "store_laws C V" and "selectorsGiven i"
  shows "\<forall>f\<in>set (installSteps C csv now i). keeps (deploymentsValid V s0) f"
proof -
  note other = reaches_keeps_valid [OF laws]
  from assms(2) have sel: "spec_UseGatekeeper (is_Spec i) \<Longrightarrow> given (api_SelectorLabels (spec_API (is_Spec i)))"
    "\<not> spec_UseGatekeeper (is_Spec i) \<Longrightarrow> given (cc_SelectorLabels (spec_ControllerContainer (is_Spec i)))"
    "oc_Enabled (spec_Observer (is_Spec i)) \<Longrightarrow> given (oc_SelectorLabels (spec_Observer (is_Spec i)))"
    by (simp_all add: selectorsGiven_def Let_def)
  note keep = deployment_steps_keep_valid [OF laws, of i s0 csv]
  have common: "\<forall>f\<in>set (commonSteps C i). keeps (deploymentsValid V s0) f"
    using commonSteps_reach [OF laws, of i]
    by (auto simp: commonSteps_def commonGoals_def presentGoal_def elim: other)
  have observer: "\<forall>f\<in>set (observerSteps C csv i). keeps (deploymentsValid V s0) f" if "oc_Enabled (spec_Observer (is_Spec i))"
    using observerSteps_reach [OF laws, of csv i] keep(3) [OF sel(3) [OF that]]
    by (auto simp: observerSteps_def observerGoals_def presentGoal_def crdGoal_def elim: other)
  have gatekeeper: "\<forall>f\<in>set (gatekeeperSteps C csv now i). keeps (deploymentsValid V s0) f" if "spec_UseGatekeeper (is_Spec i)"
    using gatekeeperSteps_reach [OF laws, of csv now i] keep(1) [OF sel(1) [OF that]]
    by (auto simp: gatekeeperSteps_def gatekeeperGoals_def presentGoal_def elim: other)
  have admission: "\<forall>f\<in>set (admissionSteps C csv now i). keeps (deploymentsValid V s0) f" if "\<not> spec_UseGatekeeper (is_Spec i)"
    using admissionSteps_reach [OF laws, of csv now i] keep(2) [OF sel(2) [OF that]]
    by (auto simp: admissionSteps_def admissionGoals_def presentGoal_def crdGoal_def elim: other)
  show ?thesis using common observer gatekeeper admission by (auto simp: installSteps_def split: if_splits)
qed

lemma lateKeys_kinds: "\<forall>k\<in>lateKeys i. fst k \<noteq> DeploymentKind"
  by (simp add: lateKeys_def templateKey_def webhookKey_def webhookEventKey_def metaKey_def keyOf_def)

lemma lastStep_keeps_valid:
  assumes laws: "store_laws C V" and valid: "deploymentsValid V s0 s" and step: "lastStep C csv now i s = Return (r, s')"
  shows "deploymentsValid V s0 s'"
proof -
  have "changesOnly V (lateKeys i) s s'"
    using step templateStep_store [OF laws, of i s] webhookStep_store [OF laws, of csv now i s]
    by (cases "spec_UseGatekeeper (is_Spec i)") (auto simp: lastStep_def)
  from deploymentsValid_changesOnly [OF laws this lateKeys_kinds valid] show ?thesis .
qed

section \<open>A pass keeps deployments well formed\<close>

lemma Reconcile_keeps_valid:
  assumes laws: "store_laws C V" and live: "liveInstance V ns name i s" and names: "deploymentsDistinct i"
    and sel: "selectorsGiven i" and valid: "deploymentsValid V s0 s" and run: "Reconcile C csv now ns name s = Return (r, s')"
  shows "deploymentsValid V s0 s'"
  by (rule runSteps_keeps [where G' = "{}" and l = "lastStep C csv now i" and I = "deploymentsValid V s0" and s = s and r = r,
      OF installSteps_reach [OF laws] installGoals_compatible [OF names] subset_refl subset_refl installSteps_keep_valid [OF laws sel]])
     (use lastStep_keeps_valid [OF laws] valid run in \<open>simp_all add: Reconcile_live [OF laws live]\<close>)

lemma clusterKeys_kinds: "\<forall>k\<in>insert (shieldKey ns name) (clusterKeys (clusterChildren i g)). fst k \<noteq> DeploymentKind"
  by (auto simp: shieldKey_def clusterKeys_def clusterChildren_def keyOf_def split: if_splits)

lemma deploymentsValid_refl [simp]: "deploymentsValid V s s"
  by (simp add: deploymentsValid_def)

text \<open>C15: The operator writes only well-formed deployments: a pass for an instance whose deployments have
  names of their own and are given selectors, live or under deletion, returns, and every
  deployment that is in the cluster afterwards was there before in the same form or is one that
  the server accepts: its selector is given and selects its own pods, its containers mount only
  volumes of the pod, and no container, volume, port, environment variable or mount path of it is
  named twice.\<close>

theorem reconcile_writes_valid_deployments:
  assumes "store_laws C V" and "V s (shieldKey ns name) = Some (KShield i)" and "deploymentsDistinct i" and "selectorsGiven i"
  shows "\<exists>r s'. Reconcile C csv now ns name s = Return (r, s') \<and>
     (\<forall>k d. V s' k = Some (KDeployment d) \<longrightarrow> V s k = Some (KDeployment d) \<or> validDeployment d)"
  unfolding deploymentsValid_def [symmetric]
proof (cases "meta_Deleting (is_Meta i)")
  case True
  from Reconcile_deletes [OF assms(1,2) True] obtain r s'
    where "Reconcile C csv now ns name s = Return ((r, None), s')"
      and "changesOnly V (insert (shieldKey ns name) (clusterKeys (clusterChildren i (V s gatekeeperKey \<noteq> None)))) s s'" by blast
  with deploymentsValid_changesOnly [OF assms(1) _ clusterKeys_kinds deploymentsValid_refl]
  show "\<exists>r s'. Reconcile C csv now ns name s = Return (r, s') \<and> deploymentsValid V s s'" by blast
next
  case False
  with assms(2) have live: "liveInstance V ns name i s" by (simp add: liveInstance_def)
  from Reconcile_pass [OF assms(1) live assms(3), of csv now] obtain r s'
    where "Reconcile C csv now ns name s = Return (r, s')" by blast
  with Reconcile_keeps_valid [OF assms(1) live assms(3,4) deploymentsValid_refl]
  show "\<exists>r s'. Reconcile C csv now ns name s = Return (r, s') \<and> deploymentsValid V s s'" by blast
qed

theorem reconcile_writes_valid_deployments_witness:
  "\<exists>r s'. Reconcile sample_client JNull 0 ''shield-system'' ''integrity-shield-server'' empty_cluster = Return (r, s') \<and>
     (\<forall>k d. storeView s' k = Some (KDeployment d) \<longrightarrow> storeView empty_cluster k = Some (KDeployment d) \<or> validDeployment d)"
proof -
  from empty_cluster_live have at: "storeView empty_cluster (shieldKey ''shield-system'' ''integrity-shield-server'') = Some (KShield sample_shield)"
    by (simp add: liveInstance_def)
  have "selectorsGiven sample_shield" by (simp add: selectorsGiven_def given_def sample_shield_def)
  from reconcile_writes_valid_deployments [where V = storeView, OF sample_store_laws at sample_deployments_distinct this]
  show ?thesis .
qed

section \<open>Changes that are not rolled out\<close>

text \<open>An instance with another number of replicas and another rollout strategy.\<close>

definition rescaled :: "32 word option \<Rightarrow> json option \<Rightarrow> json option \<Rightarrow> integrity_shield \<Rightarrow> integrity_shield" where
  "rescaled n surge unavailable i =
     i\<lparr>is_Spec := (is_Spec i)\<lparr>spec_ReplicaCount := n, spec_MaxSurge := surge, spec_MaxUnavailable := unavailable\<rparr>\<rparr>"

lemma rescaled_simps [simp]:
  "is_Meta (rescaled n a b i) = is_Meta i" "spec_UseGatekeeper (is_Spec (rescaled n a b i)) = spec_UseGatekeeper (is_Spec i)"
  "spec_Observer (is_Spec (rescaled n a b i)) = spec_Observer (is_Spec i)"
  "spec_API (is_Spec (rescaled n a b i)) = spec_API (is_Spec i)"
  "spec_ControllerContainer (is_Spec (rescaled n a b i)) = spec_ControllerContainer (is_Spec i)"
  by (simp_all add: rescaled_def)

text \<open>The comparison of deployments sees the metadata and the pod template only, the server the
  selector.\<close>

lemma deploymentGoal_cong:
  assumes "dep_Meta d = dep_Meta e" and "ds_Template (dep_Spec d) = ds_Template (dep_Spec e)"
    and "ds_Selector (dep_Spec d) = ds_Selector (dep_Spec e)"
  shows "deploymentGoal d = deploymentGoal e"
proof -
  have "EqualDeployments d = EqualDeployments e" by (rule ext) (simp add: EqualDeployments_def assms)
  moreover have "accepts y (KDeployment d) = accepts y (KDeployment e)" for y
    by (cases y) (simp_all add: accepts_def assms(3))
  ultimately show ?thesis unfolding deploymentGoal_def assms(1) by (simp only:)
qed

lemma rescaled_deployments [simp]:
  "deploymentGoal (BuildDeploymentForIShieldAPI csv (rescaled n a b i)) = deploymentGoal (BuildDeploymentForIShieldAPI csv i)"
  "deploymentGoal (BuildDeploymentForAdmissionController csv (rescaled n a b i)) =
     deploymentGoal (BuildDeploymentForAdmissionController csv i)"
  "deploymentGoal (BuildDeploymentForObserver csv (rescaled n a b i)) = deploymentGoal (BuildDeploymentForObserver csv i)"
  by (rule deploymentGoal_cong;
      simp add: BuildDeploymentForIShieldAPI_def BuildDeploymentForAdmissionController_def
        BuildDeploymentForObserver_def Let_def deploymentWith_def rescaled_def)+

lemma rescaled_goals: "installGoals csv (rescaled n a b i) = installGoals csv i"
  by (simp add: goal_lists presentGoal_def crdGoal_def built_metas)
     (simp add: rescaled_def BuildManifestIntegrityProfileCRD_def BuildObserverResultCRD_def)

lemma rescaled_keys: "webhookKey (rescaled n a b i) = webhookKey i" "templateKey (rescaled n a b i) = templateKey i"
  by (simp_all add: webhookKey_def templateKey_def rescaled_def BuildConstraintTemplateForIShield_def)

lemma rescaled_installed:
  assumes "store_laws C V"
  shows "installed C V csv (rescaled n a b i) s = installed C V csv i s"
proof -
  have "isDeploymentAvailable C csv (rescaled n a b i) s = isDeploymentAvailable C csv i s"
    by (simp add: isDeploymentAvailable_def Let_def BuildDeploymentForAdmissionController_def deploymentWith_def rescaled_def)
  then show ?thesis by (simp add: installed_def rescaled_goals rescaled_keys)
qed


text \<open>C40: A changed number of replicas or rollout strategy is never rolled out: after an installation
  for some instance is complete, a pass for the same instance with any other replica count and
  strategy ends successfully without touching the cluster, although the deployments that it
  would build are different.\<close>

theorem rescaling_is_not_rolled_out:
  assumes "store_laws C V" and "deploymentsDistinct i" and "installed C V csv i s"
    and "liveInstance V ns name (rescaled n surge unavailable i) s"
  shows "Reconcile C csv now ns name s = Return ((noRequeue, None), s) \<and>
    ds_Replicas (dep_Spec (BuildDeploymentForAdmissionController csv (rescaled n surge unavailable i))) = n"
proof
  from assms(2) have "deploymentsDistinct (rescaled n surge unavailable i)" by (auto simp: deploymentsDistinct_def Let_def)
  with Reconcile_idle_iff [OF assms(1,4)] rescaled_installed [OF assms(1)] assms(3)
  show "Reconcile C csv now ns name s = Return ((noRequeue, None), s)" by simp
  show "ds_Replicas (dep_Spec (BuildDeploymentForAdmissionController csv (rescaled n surge unavailable i))) = n"
    by (simp add: BuildDeploymentForAdmissionController_def Let_def deploymentWith_def rescaled_def)
qed

text \<open>The sample installation with its webhook, after the number of replicas was set to three.\<close>

definition rescaled_cluster :: "obj_key \<rightharpoonup> kobject" where
  "rescaled_cluster = sample_cluster
     (webhookKey sample_shield \<mapsto> KWebhook (BuildValidatingWebhookConfigurationForIShield sample_shield),
      shieldKey ''shield-system'' ''integrity-shield-server'' \<mapsto> KShield (rescaled (Some 3) None None sample_shield))"

lemma rescaled_cluster_view:
  "storeView rescaled_cluster = (storeView sample_cluster)
     (webhookKey sample_shield \<mapsto> KWebhook (BuildValidatingWebhookConfigurationForIShield sample_shield),
      shieldKey ''shield-system'' ''integrity-shield-server'' \<mapsto> KShield (rescaled (Some 3) None None sample_shield))"
proof -
  let ?w = "KWebhook (BuildValidatingWebhookConfigurationForIShield sample_shield)"
  let ?i = "KShield (rescaled (Some 3) None None sample_shield)"
  have "objKey ?w = webhookKey sample_shield"
    by (simp add: webhookKey_def BuildValidatingWebhookConfigurationForIShield_def built_metas)
  moreover have "objKey ?i = shieldKey ''shield-system'' ''integrity-shield-server''" by (simp add: sample_shield_key)
  ultimately show ?thesis unfolding rescaled_cluster_def by (metis storeView_upd)
qed

lemma rescaled_cluster_installed: "installed sample_client storeView JNull sample_shield rescaled_cluster"
proof -
  have gk: "\<not> spec_UseGatekeeper (is_Spec sample_shield)" by (simp add: sample_shield_def)
  have other: "storeView rescaled_cluster (fst g) = storeView sample_cluster (fst g)"
    if g: "g \<in> set (installGoals JNull sample_shield)" for g
  proof -
    from g have "fst g \<in> managedKeys JNull sample_shield" by (simp add: managedKeys_def)
    then have "fst g \<noteq> shieldKey ''shield-system'' ''integrity-shield-server''" using shieldKey_not_managed by metis
    moreover have "webhookKey sample_shield \<notin> fst ` set (installGoals JNull sample_shield)"
      using installGoals_not_late [of JNull sample_shield] unfolding lateKeys_def by blast
    then have "fst g \<noteq> webhookKey sample_shield" using imageI [OF g, of fst] by metis
    ultimately show ?thesis by (simp add: rescaled_cluster_view)
  qed
  have "deploymentGoal (BuildDeploymentForAdmissionController JNull sample_shield) \<in> set (installGoals JNull sample_shield)"
    using gk by (simp add: goal_lists)
  from isDeploymentAvailable_cong [where V = storeView, OF sample_store_laws other [OF this]] sample_available
  have "isDeploymentAvailable sample_client JNull sample_shield rescaled_cluster" by simp
  moreover have "reached storeView rescaled_cluster g" if "g \<in> set (installGoals JNull sample_shield)" for g
    using sample_cluster_installed that other [OF that] by (simp add: reached_def)
  moreover have "storeView rescaled_cluster (webhookKey sample_shield) \<noteq> None"
    by (simp add: rescaled_cluster_view)
  ultimately show ?thesis using gk by (simp add: installed_def)
qed

theorem rescaling_is_not_rolled_out_witness:
  "Reconcile sample_client JNull 0 ''shield-system'' ''integrity-shield-server'' rescaled_cluster = Return ((noRequeue, None), rescaled_cluster) \<and>
   ds_Replicas (dep_Spec (BuildDeploymentForAdmissionController JNull (rescaled (Some 3) None None sample_shield))) = Some 3"
proof -
  have "liveInstance storeView ''shield-system'' ''integrity-shield-server'' (rescaled (Some 3) None None sample_shield) rescaled_cluster"
    by (simp add: liveInstance_def rescaled_cluster_view sample_shield_live)
  from rescaling_is_not_rolled_out [where V = storeView, OF sample_store_laws sample_deployments_distinct rescaled_cluster_installed this]
  show ?thesis .
qed

end
