(* ===== verification/Memory.thy ===== *)
theory Memory
  imports Prelude
begin

text \<open>
  Go's memory, for the code whose point is which memory two values share: cells at addresses,
  allocation, and the contract of a function that copies a value with everything that it refers
  to. A pointer, map or slice that may be nil is an \<open>addr option\<close>. The cells are a type
  parameter.
\<close>

section \<open>Cells and allocation\<close>

type_synonym addr = nat

text \<open>The addresses from \<open>lim\<close> on are not in use.\<close>

record 'c memory =
  mem :: "addr \<Rightarrow> 'c"
  lim :: addr

definition alloc :: "'c \<Rightarrow> 'c memory \<Rightarrow> addr \<times> 'c memory" where
  "alloc c h = (lim h, h\<lparr>mem := (mem h)(lim h := c), lim := Suc (lim h)\<rparr>)"

definition store :: "addr \<Rightarrow> 'c \<Rightarrow> 'c memory \<Rightarrow> 'c memory" where
  "store a c h = h\<lparr>mem := (mem h)(a := c)\<rparr>"

text \<open>A later memory: only cells that were not in use have changed.\<close>

definition extends :: "'c memory \<Rightarrow> 'c memory \<Rightarrow> bool" where
  "extends h h' \<longleftrightarrow> lim h \<le> lim h' \<and> (\<forall>a<lim h. mem h' a = mem h a)"

lemma extends_refl [simp]: "extends h h"
  by (simp add: extends_def)

lemma extends_trans [trans]: "extends h h' \<Longrightarrow> extends h' h'' \<Longrightarrow> extends h h''"
  by (auto simp: extends_def)

lemma extends_mem: "extends h h' \<Longrightarrow> a < lim h \<Longrightarrow> mem h' a = mem h a"
  by (simp add: extends_def)

lemma extends_lim: "extends h h' \<Longrightarrow> {..<lim h} \<subseteq> {..<lim h'}"
  by (auto simp: extends_def)

lemma extends_alloc: "alloc c h = (a, h') \<Longrightarrow> extends h h'"
  by (auto simp: alloc_def extends_def)

lemma alloc_cell:
  assumes "alloc c h = (a, h')"
  shows "a = lim h" and "mem h' a = c" and "lim h' = Suc (lim h)"
  using assms by (auto simp: alloc_def)

section \<open>Copying a value\<close>

text \<open>\<open>copy p h\<close> returns a copy of the value \<open>p\<close> and the memory afterwards. \<open>view\<close> is what a value
  stands for, \<open>reach\<close> the addresses through which this can be changed, and \<open>shared\<close> the addresses that
  a value has in common with its copy: none for a deep copy. The laws hold under a condition
  \<open>pre\<close> on the copying functions of other packages.\<close>

locale copier =
  fixes pre :: bool
    and copy :: "'p \<Rightarrow> 'c memory \<Rightarrow> 'p \<times> 'c memory"
    and view :: "'c memory \<Rightarrow> 'p \<Rightarrow> 'v"
    and reach :: "'c memory \<Rightarrow> 'p \<Rightarrow> addr set"
    and shared :: "'c memory \<Rightarrow> 'p \<Rightarrow> addr set"
  assumes frame: "pre \<Longrightarrow> \<forall>a\<in>reach h p. mem h' a = mem h a \<Longrightarrow>
      view h' p = view h p \<and> reach h' p = reach h p \<and> shared h' p = shared h p"
    and shared_reach: "pre \<Longrightarrow> shared h p \<subseteq> reach h p"
    and copies: "pre \<Longrightarrow> reach h p \<subseteq> {..<lim h} \<Longrightarrow> copy p h = (q, h') \<Longrightarrow>
      extends h h' \<and> view h' q = view h p \<and> reach h' q \<subseteq> {..<lim h'} \<and> reach h' q \<inter> {..<lim h} = shared h p"
begin

lemma extends_frame:
  assumes "pre" and "extends h h'" and "reach h p \<subseteq> {..<lim h}"
  shows "view h' p = view h p" and "reach h' p = reach h p" and "shared h' p = shared h p"
    and "reach h' p \<subseteq> {..<lim h'}"
proof -
  have "\<forall>a\<in>reach h p. mem h' a = mem h a" using assms(2,3) by (auto simp: extends_def)
  from frame [OF assms(1) this] show "view h' p = view h p" and reach: "reach h' p = reach h p" and "shared h' p = shared h p"
    by simp_all
  show "reach h' p \<subseteq> {..<lim h'}" unfolding reach by (rule order_trans [OF assms(3) extends_lim [OF assms(2)]])
qed

text \<open>One field of a structure: it is copied after others were, and others are copied after it.\<close>

lemma field_step:
  assumes "pre" and "extends h0 h" and "reach h0 x \<subseteq> {..<lim h0}" and "copy x h = (y, h')" and "extends h' h''"
  shows "extends h0 h'" and "view h'' y = view h0 x" and "reach h'' y \<subseteq> {..<lim h''}"
    and "reach h'' y \<inter> {..<lim h0} = shared h0 x"
proof -
  note before = extends_frame [OF assms(1,2,3)]
  from copies [OF assms(1) before(4) assms(4)]
  have step: "extends h h'" "view h' y = view h x" "reach h' y \<subseteq> {..<lim h'}" "reach h' y \<inter> {..<lim h} = shared h x"
    by simp_all
  from assms(2) step(1) show "extends h0 h'" by (rule extends_trans)
  note after = extends_frame [OF assms(1,5) step(3)]
  show "view h'' y = view h0 x" using after(1) step(2) before(1) by simp
  show "reach h'' y \<subseteq> {..<lim h''}" by (rule after(4))
  have "reach h'' y \<inter> {..<lim h0} = shared h0 x \<inter> {..<lim h0}"
    unfolding after(2) step(4) [symmetric] before(3) [symmetric] using Int_absorb1 [OF extends_lim [OF assms(2)]]
    by (simp add: Int_assoc)
  moreover have "shared h0 x \<subseteq> {..<lim h0}" using shared_reach [OF assms(1)] assms(3) by blast
  ultimately show "reach h'' y \<inter> {..<lim h0} = shared h0 x" by blast
qed

text \<open>A write through the copy is seen through the original only at a shared address.\<close>

lemma write_to_copy:
  assumes "pre" and "reach h p \<subseteq> {..<lim h}" and "copy p h = (q, h')" and "a \<in> reach h' q" and "a \<notin> shared h p"
  shows "view (store a c h') p = view h p"
proof -
  from copies [OF assms(1-3)] have ext: "extends h h'" and old: "reach h' q \<inter> {..<lim h} = shared h p" by simp_all
  from old assms(2,4,5) have "a \<notin> reach h p" by blast
  with extends_frame(2) [OF assms(1) ext assms(2)] have "\<forall>b\<in>reach h' p. mem (store a c h') b = mem h' b"
    by (auto simp: store_def)
  from frame [OF assms(1) this] extends_frame(1) [OF assms(1) ext assms(2)] show ?thesis by simp
qed

lemma common_addresses:
  assumes "pre" and "reach h p \<subseteq> {..<lim h}" and "copy p h = (q, h')"
  shows "reach h' q \<inter> reach h' p = shared h p"
proof -
  from copies [OF assms] have ext: "extends h h'" and old: "reach h' q \<inter> {..<lim h} = shared h p" by simp_all
  with extends_frame(2) [OF assms(1) ext assms(2)] shared_reach [OF assms(1), of h p] assms(2) show ?thesis by blast
qed

end

section \<open>Copying what holds no reference\<close>

definition copyPlain :: "'p \<Rightarrow> 'c memory \<Rightarrow> 'p \<times> 'c memory" where
  "copyPlain p h = (p, h)"

definition noRefs :: "'c memory \<Rightarrow> 'p \<Rightarrow> addr set" where
  "noRefs h p = {}"

interpretation plain_value: copier pre copyPlain "\<lambda>h. f" noRefs noRefs for pre and f :: "'p \<Rightarrow> 'v"
  by unfold_locales (auto simp: copyPlain_def noRefs_def)

section \<open>Copying through a pointer\<close>

text \<open>\<open>*out = new(T)\<close> or \<open>make\<close> and the content copied with \<open>copy\<close>: the cell at the address has the
  content \<open>content\<close>, \<open>box\<close> makes a cell of one. The order of the allocations is not observable.\<close>

definition copyBoxed ::
  "('c \<Rightarrow> 'p) \<Rightarrow> ('p \<Rightarrow> 'c) \<Rightarrow> ('p \<Rightarrow> 'c memory \<Rightarrow> 'p \<times> 'c memory) \<Rightarrow> addr option \<Rightarrow> 'c memory \<Rightarrow> addr option \<times> 'c memory" where
  "copyBoxed content box copy r h =
     (case r of
        None \<Rightarrow> (None, h)
      | Some a \<Rightarrow> (let (x, h1) = copy (content (mem h a)) h; (b, h2) = alloc (box x) h1 in (Some b, h2)))"

definition viewBoxed :: "('c \<Rightarrow> 'p) \<Rightarrow> ('c memory \<Rightarrow> 'p \<Rightarrow> 'v) \<Rightarrow> 'c memory \<Rightarrow> addr option \<Rightarrow> 'v option" where
  "viewBoxed content view h r = (case r of None \<Rightarrow> None | Some a \<Rightarrow> Some (view h (content (mem h a))))"

definition reachBoxed :: "('c \<Rightarrow> 'p) \<Rightarrow> ('c memory \<Rightarrow> 'p \<Rightarrow> addr set) \<Rightarrow> 'c memory \<Rightarrow> addr option \<Rightarrow> addr set" where
  "reachBoxed content reach h r = (case r of None \<Rightarrow> {} | Some a \<Rightarrow> insert a (reach h (content (mem h a))))"

definition sharedBoxed :: "('c \<Rightarrow> 'p) \<Rightarrow> ('c memory \<Rightarrow> 'p \<Rightarrow> addr set) \<Rightarrow> 'c memory \<Rightarrow> addr option \<Rightarrow> addr set" where
  "sharedBoxed content shared h r = (case r of None \<Rightarrow> {} | Some a \<Rightarrow> shared h (content (mem h a)))"

lemmas boxed_defs = copyBoxed_def viewBoxed_def reachBoxed_def sharedBoxed_def

lemma copyBoxed_copier:
  assumes "copier pre copy view reach shared" and inv: "\<And>x. content (box x) = x"
  shows "copier pre (copyBoxed content box copy) (viewBoxed content view) (reachBoxed content reach) (sharedBoxed content shared)"
proof -
  note base = copier.frame [OF assms(1)] copier.shared_reach [OF assms(1)]
  show ?thesis
  proof
    fix h h' :: "'b memory" and r
    assume pre and same: "\<forall>a\<in>reachBoxed content reach h r. mem h' a = mem h a"
    show "viewBoxed content view h' r = viewBoxed content view h r \<and> reachBoxed content reach h' r = reachBoxed content reach h r \<and>
        sharedBoxed content shared h' r = sharedBoxed content shared h r"
    proof (cases r)
      case None
      then show ?thesis by (simp add: boxed_defs)
    next
      case (Some a)
      with same have a: "mem h' a = mem h a" and "\<forall>b\<in>reach h (content (mem h a)). mem h' b = mem h b"
        by (simp_all add: reachBoxed_def)
      from base(1) [OF \<open>pre\<close> this(2)] a Some show ?thesis by (simp add: boxed_defs)
    qed
  next
    fix h :: "'b memory" and r
    assume pre
    then show "sharedBoxed content shared h r \<subseteq> reachBoxed content reach h r"
      using base(2) by (cases r) (auto simp: boxed_defs)
  next
    fix h h' :: "'b memory" and r q
    assume pre and inHeap: "reachBoxed content reach h r \<subseteq> {..<lim h}" and run: "copyBoxed content box copy r h = (q, h')"
    show "extends h h' \<and> viewBoxed content view h' q = viewBoxed content view h r \<and> reachBoxed content reach h' q \<subseteq> {..<lim h'} \<and>
        reachBoxed content reach h' q \<inter> {..<lim h} = sharedBoxed content shared h r"
    proof (cases r)
      case None
      with run show ?thesis by (auto simp: boxed_defs)
    next
      case (Some a)
      obtain x h1 where x: "copy (content (mem h a)) h = (x, h1)" by fastforce
      obtain b h2 where b: "alloc (box x) h1 = (b, h2)" by fastforce
      from run Some x b have q: "q = Some b" "h' = h2" by (simp_all add: copyBoxed_def)
      from inHeap Some have sub: "reach h (content (mem h a)) \<subseteq> {..<lim h}" by (simp add: reachBoxed_def)
      note step = copier.field_step [OF assms(1) \<open>pre\<close> extends_refl sub x extends_alloc [OF b]]
      have "extends h h2" using step(1) extends_alloc [OF b] by (rule extends_trans)
      moreover have "lim h \<le> b" using step(1) alloc_cell(1) [OF b] by (simp add: extends_def)
      moreover have "b < lim h2" using alloc_cell [OF b] by simp
      ultimately show ?thesis
        using step(2-4) alloc_cell(2) [OF b] inv Some q by (auto simp: boxed_defs)
    qed
  qed
qed

section \<open>Copying the elements of a slice\<close>

fun copyList :: "('p \<Rightarrow> 'c memory \<Rightarrow> 'p \<times> 'c memory) \<Rightarrow> 'p list \<Rightarrow> 'c memory \<Rightarrow> 'p list \<times> 'c memory" where
  "copyList copy [] h = ([], h)"
| "copyList copy (x # xs) h = (let (y, h1) = copy x h; (ys, h2) = copyList copy xs h1 in (y # ys, h2))"

definition unionOf :: "('c memory \<Rightarrow> 'p \<Rightarrow> addr set) \<Rightarrow> 'c memory \<Rightarrow> 'p list \<Rightarrow> addr set" where
  "unionOf reach h xs = (\<Union>x\<in>set xs. reach h x)"

lemma unionOf_simps [simp]: "unionOf reach h [] = {}" "unionOf reach h (x # xs) = reach h x \<union> unionOf reach h xs"
  by (simp_all add: unionOf_def)

lemma copyList_fields:
  assumes "copier pre copy view reach shared" and "pre"
  shows "extends h0 h \<Longrightarrow> unionOf reach h0 xs \<subseteq> {..<lim h0} \<Longrightarrow> copyList copy xs h = (ys, h') \<Longrightarrow>
    extends h0 h' \<and> extends h h' \<and> (\<forall>h''. extends h' h'' \<longrightarrow> map (view h'') ys = map (view h0) xs \<and>
      unionOf reach h'' ys \<subseteq> {..<lim h''} \<and> unionOf reach h'' ys \<inter> {..<lim h0} = unionOf shared h0 xs)"
proof (induction xs arbitrary: h ys)
  case Nil
  then show ?case by simp
next
  case (Cons x xs)
  obtain y h1 where y: "copy x h = (y, h1)" by fastforce
  with Cons.prems(3) obtain zs where zs: "copyList copy xs h1 = (zs, h')" and ys: "ys = y # zs"
    by (auto split: prod.splits)
  from Cons.prems(2) have x: "reach h0 x \<subseteq> {..<lim h0}" and xs: "unionOf reach h0 xs \<subseteq> {..<lim h0}" by simp_all
  note head = copier.field_step [OF assms Cons.prems(1) x y]
  from Cons.IH [OF head(1) [OF extends_refl] xs zs] have tail: "extends h0 h'" "extends h1 h'"
    "\<And>h''. extends h' h'' \<Longrightarrow> map (view h'') zs = map (view h0) xs \<and>
      unionOf reach h'' zs \<subseteq> {..<lim h''} \<and> unionOf reach h'' zs \<inter> {..<lim h0} = unionOf shared h0 xs" by simp_all
  have "extends h h1" using copier.copies [OF assms copier.extends_frame(4) [OF assms Cons.prems(1) x] y] by simp
  then have "extends h h'" using tail(2) by (rule extends_trans)
  with tail head(2-4) [OF extends_trans [OF tail(2)]] ys show ?case by (simp add: Int_Un_distrib2)
qed

lemma copyList_copier:
  assumes "copier pre copy view reach shared"
  shows "copier pre (copyList copy) (\<lambda>h. map (view h)) (unionOf reach) (unionOf shared)"
proof
  fix h h' :: "'b memory" and xs
  assume pre and "\<forall>a\<in>unionOf reach h xs. mem h' a = mem h a"
  then have "view h' x = view h x \<and> reach h' x = reach h x \<and> shared h' x = shared h x" if "x \<in> set xs" for x
    using that by (intro copier.frame [OF assms]) (auto simp: unionOf_def)
  then show "map (view h') xs = map (view h) xs \<and> unionOf reach h' xs = unionOf reach h xs \<and>
      unionOf shared h' xs = unionOf shared h xs" by (auto simp: unionOf_def)
next
  fix h :: "'b memory" and xs
  assume pre
  then show "unionOf shared h xs \<subseteq> unionOf reach h xs"
    using copier.shared_reach [OF assms] unfolding unionOf_def by blast
next
  fix h h' :: "'b memory" and xs ys
  assume pre and "unionOf reach h xs \<subseteq> {..<lim h}" and "copyList copy xs h = (ys, h')"
  with copyList_fields [OF assms \<open>pre\<close> extends_refl] show "extends h h' \<and> map (view h') ys = map (view h) xs \<and>
      unionOf reach h' ys \<subseteq> {..<lim h'} \<and> unionOf reach h' ys \<inter> {..<lim h} = unionOf shared h xs"
    by (metis extends_refl)
qed

lemma shared_noRefs [simp]: "sharedBoxed content noRefs = noRefs" "unionOf noRefs = noRefs"
  by (auto simp: fun_eq_iff sharedBoxed_def unionOf_def noRefs_def split: option.split)

section \<open>Copying the fields of a structure\<close>

definition copyPair ::
  "('p \<Rightarrow> 'c memory \<Rightarrow> 'p \<times> 'c memory) \<Rightarrow> ('q \<Rightarrow> 'c memory \<Rightarrow> 'q \<times> 'c memory) \<Rightarrow> 'p \<times> 'q \<Rightarrow> 'c memory \<Rightarrow> ('p \<times> 'q) \<times> 'c memory" where
  "copyPair c1 c2 x h = (let (y1, h1) = c1 (fst x) h; (y2, h2) = c2 (snd x) h1 in ((y1, y2), h2))"

definition unionPair ::
  "('c memory \<Rightarrow> 'p \<Rightarrow> addr set) \<Rightarrow> ('c memory \<Rightarrow> 'q \<Rightarrow> addr set) \<Rightarrow> 'c memory \<Rightarrow> 'p \<times> 'q \<Rightarrow> addr set" where
  "unionPair r1 r2 h x = r1 h (fst x) \<union> r2 h (snd x)"

lemma copyPair_copier:
  assumes "copier pre c1 v1 r1 s1" and "copier pre c2 v2 r2 s2"
  shows "copier pre (copyPair c1 c2) (\<lambda>h. map_prod (v1 h) (v2 h)) (unionPair r1 r2) (unionPair s1 s2)"
proof
  fix h h' :: "'b memory" and x
  assume pre and "\<forall>a\<in>unionPair r1 r2 h x. mem h' a = mem h a"
  then have "\<forall>a\<in>r1 h (fst x). mem h' a = mem h a" and "\<forall>a\<in>r2 h (snd x). mem h' a = mem h a" by (simp_all add: unionPair_def)
  from copier.frame [OF assms(1) \<open>pre\<close> this(1)] copier.frame [OF assms(2) \<open>pre\<close> this(2)]
  show "map_prod (v1 h') (v2 h') x = map_prod (v1 h) (v2 h) x \<and> unionPair r1 r2 h' x = unionPair r1 r2 h x \<and>
      unionPair s1 s2 h' x = unionPair s1 s2 h x" by (cases x) (simp add: unionPair_def)
next
  fix h :: "'b memory" and x
  assume pre
  then show "unionPair s1 s2 h x \<subseteq> unionPair r1 r2 h x"
    using copier.shared_reach [OF assms(1)] copier.shared_reach [OF assms(2)] unfolding unionPair_def by blast
next
  fix h h' :: "'b memory" and x y
  assume pre and sub: "unionPair r1 r2 h x \<subseteq> {..<lim h}" and run: "copyPair c1 c2 x h = (y, h')"
  obtain y1 h1 where y1: "c1 (fst x) h = (y1, h1)" by fastforce
  obtain y2 h2 where y2: "c2 (snd x) h1 = (y2, h2)" by fastforce
  from run y1 y2 have y: "y = (y1, y2)" "h' = h2" by (simp_all add: copyPair_def)
  from sub have sub1: "r1 h (fst x) \<subseteq> {..<lim h}" and sub2: "r2 h (snd x) \<subseteq> {..<lim h}" by (simp_all add: unionPair_def)
  have first: "extends h h1" by (rule copier.field_step(1) [OF assms(1) \<open>pre\<close> extends_refl sub1 y1 extends_refl])
  note snd_field = copier.field_step [OF assms(2) \<open>pre\<close> first sub2 y2 extends_refl]
  have "extends h1 h2"
    using copier.copies [OF assms(2) \<open>pre\<close> copier.extends_frame(4) [OF assms(2) \<open>pre\<close> first sub2] y2] by simp
  note fst_field = copier.field_step [OF assms(1) \<open>pre\<close> extends_refl sub1 y1 this]
  show "extends h h' \<and> map_prod (v1 h') (v2 h') y = map_prod (v1 h) (v2 h) x \<and> unionPair r1 r2 h' y \<subseteq> {..<lim h'} \<and>
      unionPair r1 r2 h' y \<inter> {..<lim h} = unionPair s1 s2 h x"
    using fst_field(2-4) snd_field y by (cases x) (simp add: unionPair_def Int_Un_distrib2)
qed

text \<open>A structure whose reference fields are the tuple \<open>get p\<close>; \<open>put p x\<close> writes them, and \<open>build\<close> makes
  the value of the structure from its other fields and the values of these.\<close>

lemma copyStruct_copier:
  assumes base: "copier pre c v r s"
    and get_put: "\<And>p x. get (put p x) = x" and build_put: "\<And>p x y. build (put p x) y = build p y"
    and copy: "\<And>p h. pre \<Longrightarrow> copy p h = (let (x, h') = c (get p) h in (put p x, h'))"
    and view: "\<And>h p. view h p = build p (v h (get p))"
    and reach: "\<And>h p. reach h p = r h (get p)" and shared: "\<And>h p. shared h p = s h (get p)"
  shows "copier pre copy view reach shared"
proof
  fix h h' :: "'b memory" and p
  assume pre and "\<forall>a\<in>reach h p. mem h' a = mem h a"
  with copier.frame [OF base \<open>pre\<close>, of h "get p" h'] show "view h' p = view h p \<and> reach h' p = reach h p \<and> shared h' p = shared h p"
    by (simp add: view reach shared)
next
  fix h :: "'b memory" and p
  assume pre
  with copier.shared_reach [OF base \<open>pre\<close>] show "shared h p \<subseteq> reach h p" by (simp add: reach shared)
next
  fix h h' :: "'b memory" and p q
  assume pre and "reach h p \<subseteq> {..<lim h}" and "copy p h = (q, h')"
  then obtain x where "c (get p) h = (x, h')" and q: "q = put p x" and "r h (get p) \<subseteq> {..<lim h}"
    by (auto simp: copy [OF \<open>pre\<close>] reach split: prod.splits)
  from copier.copies [OF base \<open>pre\<close> this(3,1)] q
  show "extends h h' \<and> view h' q = view h p \<and> reach h' q \<subseteq> {..<lim h'} \<and> reach h' q \<inter> {..<lim h} = shared h p"
    by (simp add: view reach shared get_put build_put)
qed

text \<open>A value that is assigned instead of copied is shared.\<close>

lemma assigned_copier:
  assumes "copier pre c v r s"
  shows "copier pre copyPlain v r r"
proof
  fix h h' :: "'b memory" and p
  assume pre and "\<forall>a\<in>r h p. mem h' a = mem h a"
  from copier.frame [OF assms this] show "v h' p = v h p \<and> r h' p = r h p \<and> r h' p = r h p" by simp
qed (auto simp: copyPlain_def)

section \<open>Copying what a pointer refers to\<close>

text \<open>\<open>DeepCopy\<close> of a pointer that may be nil: \<open>new\<close> and \<open>DeepCopyInto\<close>.\<close>

definition deepCopy ::
  "('p \<Rightarrow> 'c memory \<Rightarrow> 'p \<times> 'c memory) \<Rightarrow> 'p option \<Rightarrow> 'c memory \<Rightarrow> 'p option \<times> 'c memory" where
  "deepCopy into p h = (case p of None \<Rightarrow> (None, h) | Some x \<Rightarrow> (let (y, h') = into x h in (Some y, h')))"

lemma deepCopy_Some: "deepCopy into (Some x) h = (q, h') \<longleftrightarrow> (\<exists>y. q = Some y \<and> into x h = (y, h'))"
  by (auto simp: deepCopy_def split: prod.splits)

text \<open>What a copier promises of \<open>DeepCopy\<close>.\<close>

lemma deepCopy_contract:
  assumes "copier pre into view reach shared" and "pre" and "reach h p \<subseteq> {..<lim h}" and "deepCopy into (Some p) h = (q, h')"
  shows "\<exists>y. q = Some y \<and> view h' y = view h p \<and> (\<forall>a<lim h. mem h' a = mem h a) \<and>
    reach h' y \<inter> reach h' p = shared h p \<and> (\<forall>a\<in>reach h' y - shared h p. \<forall>c. view (store a c h') p = view h p)"
proof -
  from assms(4) obtain y where q: "q = Some y" and run: "into p h = (y, h')" by (auto simp: deepCopy_Some)
  from copier.copies [OF assms(1-3) run] copier.common_addresses [OF assms(1-3) run] copier.write_to_copy [OF assms(1-3) run] q
  show ?thesis by (auto simp: extends_def)
qed

lemmas copy_field_defs = copyPair_def unionPair_def noRefs_def Let_def

end
