(* ===== verification/DeepCopy.thy ===== *)
theory DeepCopy
  imports Memory Resources
begin

text \<open>
  \<^verbatim>\<open>integrity-shield-operator/api/v1/zz_generated.deepcopy.go\<close>: the deep copies of the custom
  resource of the operator. The cache of the manager hands out copies made by these functions,
  so that what a reconcile pass changes in its instance must not be seen in the cache. A
  structure is the record of its value with the reference fields beside it; \<open>view\<close> reads it as
  the value that the other theories use.
\<close>

section \<open>Structures in memory\<close>

text \<open>\<open>'e\<close> is a structure of another package (a security context, resource requirements, a rule,
  object metadata) with whatever it refers to.\<close>

record 'e api_containerP =
  apiP_Plain :: api_container
  apiP_SelectorLabels :: "addr option"
  apiP_SecurityContext :: "addr option"
  apiP_Resources :: 'e

record 'e controller_containerP =
  ccP_Plain :: controller_container
  ccP_SelectorLabels :: "addr option"
  ccP_SecurityContext :: "addr option"
  ccP_Resources :: 'e

record 'e observer_containerP =
  ocP_Plain :: observer_container
  ocP_SelectorLabels :: "addr option"
  ocP_SecurityContext :: "addr option"
  ocP_Resources :: 'e

record security_configP =
  scP_Plain :: security_config
  scP_PodSecurityContext :: "addr option"

record 'e shield_specP =
  specP_Plain :: shield_spec
  specP_MaxSurge :: "addr option"
  specP_MaxUnavailable :: "addr option"
  specP_ReplicaCount :: "addr option"
  specP_MetaLabels :: "addr option"
  specP_NodeSelector :: "addr option"
  specP_Affinity :: "addr option"
  specP_Tolerations :: "addr option"
  specP_Security :: security_configP
  specP_API :: "'e api_containerP"
  specP_ControllerContainer :: "'e controller_containerP"
  specP_Observer :: "'e observer_containerP"
  specP_WebhookNamespacedResource :: 'e
  specP_WebhookClusterResource :: 'e

record 'e integrity_shieldP =
  isP_Plain :: integrity_shield
  isP_Meta :: 'e
  isP_Spec :: "'e shield_specP"

record 'e shield_listP =
  slP_APIVersion :: string
  slP_Kind :: string
  slP_ListMeta :: 'e
  slP_Items :: "addr option"

text \<open>What the references of these structures point to: maps, an \<open>IntOrString\<close>, an \<open>int32\<close>, a
  structure of another package or a slice of them, and the items of a list.\<close>

datatype 'e op_cell =
    LabelsCell (labelsIn: "string \<rightharpoonup> string")
  | IntOrStringCell (intOrStringIn: json)
  | Int32Cell (int32In: "32 word")
  | ExtCell (extIn: 'e)
  | ExtsCell (extsIn: "'e list")
  | ShieldsCell (shieldsIn: "'e integrity_shieldP list")

section \<open>The structures of other packages\<close>

text \<open>Their \<open>DeepCopyInto\<close> methods, and what such a structure stands for and refers to.\<close>

record 'e ext_lib =
  Ext_DeepCopyInto :: "'e \<Rightarrow> 'e op_cell memory \<Rightarrow> 'e \<times> 'e op_cell memory"
  Ext_View :: "'e op_cell memory \<Rightarrow> 'e \<Rightarrow> json"
  Ext_Reach :: "'e op_cell memory \<Rightarrow> 'e \<Rightarrow> addr set"
  Ext_Rule :: "json \<Rightarrow> adm_rule"
  Ext_Meta :: "json \<Rightarrow> object_meta"

text \<open>What the generated code relies on: those methods make deep copies.\<close>

definition ext_laws :: "'e ext_lib \<Rightarrow> bool" where
  "ext_laws E \<longleftrightarrow> copier True (Ext_DeepCopyInto E) (Ext_View E) (Ext_Reach E) noRefs"

section \<open>The copies\<close>

text \<open>\<open>DeepCopyInto\<close> returns the structure written to \<open>out\<close>: a copy of the whole structure, in which
  the fields that are assigned afterwards are replaced.\<close>

abbreviation copyLabels :: "addr option \<Rightarrow> 'e op_cell memory \<Rightarrow> addr option \<times> 'e op_cell memory" where
  "copyLabels \<equiv> copyBoxed labelsIn LabelsCell copyPlain"

abbreviation copyExt :: "'e ext_lib \<Rightarrow> addr option \<Rightarrow> 'e op_cell memory \<Rightarrow> addr option \<times> 'e op_cell memory" where
  "copyExt E \<equiv> copyBoxed extIn ExtCell (Ext_DeepCopyInto E)"

definition APIContainer_DeepCopyInto ::
  "'e ext_lib \<Rightarrow> 'e api_containerP \<Rightarrow> 'e op_cell memory \<Rightarrow> 'e api_containerP \<times> 'e op_cell memory" where
  "APIContainer_DeepCopyInto E p h =
     (let (labels, h1) = copyLabels (apiP_SelectorLabels p) h;
          (context, h2) = copyExt E (apiP_SecurityContext p) h1;
          (resources, h3) = Ext_DeepCopyInto E (apiP_Resources p) h2
      in (p\<lparr>apiP_SelectorLabels := labels, apiP_SecurityContext := context, apiP_Resources := resources\<rparr>, h3))"

definition ControllerContainer_DeepCopyInto ::
  "'e ext_lib \<Rightarrow> 'e controller_containerP \<Rightarrow> 'e op_cell memory \<Rightarrow> 'e controller_containerP \<times> 'e op_cell memory" where
  "ControllerContainer_DeepCopyInto E p h =
     (let (labels, h1) = copyLabels (ccP_SelectorLabels p) h;
          (context, h2) = copyExt E (ccP_SecurityContext p) h1;
          (resources, h3) = Ext_DeepCopyInto E (ccP_Resources p) h2
      in (p\<lparr>ccP_SelectorLabels := labels, ccP_SecurityContext := context, ccP_Resources := resources\<rparr>, h3))"

definition Observer_DeepCopyInto ::
  "'e ext_lib \<Rightarrow> 'e observer_containerP \<Rightarrow> 'e op_cell memory \<Rightarrow> 'e observer_containerP \<times> 'e op_cell memory" where
  "Observer_DeepCopyInto E p h =
     (let (labels, h1) = copyLabels (ocP_SelectorLabels p) h;
          (context, h2) = copyExt E (ocP_SecurityContext p) h1
      in (p\<lparr>ocP_SelectorLabels := labels, ocP_SecurityContext := context\<rparr>, h2))"

definition SecurityConfig_DeepCopyInto ::
  "'e ext_lib \<Rightarrow> security_configP \<Rightarrow> 'e op_cell memory \<Rightarrow> security_configP \<times> 'e op_cell memory" where
  "SecurityConfig_DeepCopyInto E p h =
     (let (context, h1) = copyExt E (scP_PodSecurityContext p) h in (p\<lparr>scP_PodSecurityContext := context\<rparr>, h1))"

definition IntegrityShieldSpec_DeepCopyInto ::
  "'e ext_lib \<Rightarrow> 'e shield_specP \<Rightarrow> 'e op_cell memory \<Rightarrow> 'e shield_specP \<times> 'e op_cell memory" where
  "IntegrityShieldSpec_DeepCopyInto E p h =
     (let (surge, h1) = copyBoxed intOrStringIn IntOrStringCell copyPlain (specP_MaxSurge p) h;
          (unavailable, h2) = copyBoxed intOrStringIn IntOrStringCell copyPlain (specP_MaxUnavailable p) h1;
          (replicas, h3) = copyBoxed int32In Int32Cell copyPlain (specP_ReplicaCount p) h2;
          (labels, h4) = copyLabels (specP_MetaLabels p) h3;
          (selector, h5) = copyLabels (specP_NodeSelector p) h4;
          (affinity, h6) = copyExt E (specP_Affinity p) h5;
          (tolerations, h7) = copyBoxed extsIn ExtsCell (copyList (Ext_DeepCopyInto E)) (specP_Tolerations p) h6;
          (security, h8) = SecurityConfig_DeepCopyInto E (specP_Security p) h7;
          (api, h9) = APIContainer_DeepCopyInto E (specP_API p) h8;
          (controller, h10) = ControllerContainer_DeepCopyInto E (specP_ControllerContainer p) h9;
          (observer, h11) = Observer_DeepCopyInto E (specP_Observer p) h10;
          (namespaced, h12) = Ext_DeepCopyInto E (specP_WebhookNamespacedResource p) h11;
          (cluster, h13) = Ext_DeepCopyInto E (specP_WebhookClusterResource p) h12
      in (p\<lparr>specP_MaxSurge := surge, specP_MaxUnavailable := unavailable, specP_ReplicaCount := replicas,
            specP_MetaLabels := labels, specP_NodeSelector := selector, specP_Affinity := affinity,
            specP_Tolerations := tolerations, specP_Security := security, specP_API := api,
            specP_ControllerContainer := controller, specP_Observer := observer,
            specP_WebhookNamespacedResource := namespaced, specP_WebhookClusterResource := cluster\<rparr>, h13))"

definition IntegrityShield_DeepCopyInto ::
  "'e ext_lib \<Rightarrow> 'e integrity_shieldP \<Rightarrow> 'e op_cell memory \<Rightarrow> 'e integrity_shieldP \<times> 'e op_cell memory" where
  "IntegrityShield_DeepCopyInto E p h =
     (let (meta, h1) = Ext_DeepCopyInto E (isP_Meta p) h;
          (spec, h2) = IntegrityShieldSpec_DeepCopyInto E (isP_Spec p) h1
      in (p\<lparr>isP_Meta := meta, isP_Spec := spec\<rparr>, h2))"

definition IntegrityShieldList_DeepCopyInto ::
  "'e ext_lib \<Rightarrow> 'e shield_listP \<Rightarrow> 'e op_cell memory \<Rightarrow> 'e shield_listP \<times> 'e op_cell memory" where
  "IntegrityShieldList_DeepCopyInto E p h =
     (let (meta, h1) = Ext_DeepCopyInto E (slP_ListMeta p) h;
          (items, h2) = copyBoxed shieldsIn ShieldsCell (copyList (IntegrityShield_DeepCopyInto E)) (slP_Items p) h1
      in (p\<lparr>slP_ListMeta := meta, slP_Items := items\<rparr>, h2))"

text \<open>Structures without references are assigned; the status has no fields.\<close>

record operator_log_config =
  olc_LogLevel :: string
  olc_LogFormat :: string

definition LogConfig_DeepCopyInto :: "operator_log_config \<Rightarrow> 'e op_cell memory \<Rightarrow> operator_log_config \<times> 'e op_cell memory" where
  "LogConfig_DeepCopyInto = copyPlain"

definition IntegrityShieldStatus_DeepCopyInto :: "unit \<Rightarrow> 'e op_cell memory \<Rightarrow> unit \<times> 'e op_cell memory" where
  "IntegrityShieldStatus_DeepCopyInto = copyPlain"

definition LogConfig_DeepCopy where "LogConfig_DeepCopy = deepCopy LogConfig_DeepCopyInto"

definition IntegrityShieldStatus_DeepCopy where "IntegrityShieldStatus_DeepCopy = deepCopy IntegrityShieldStatus_DeepCopyInto"

text \<open>\<open>DeepCopyObject\<close> returns the copy as an interface value that is nil for a nil pointer.\<close>

definition APIContainer_DeepCopy where "APIContainer_DeepCopy E = deepCopy (APIContainer_DeepCopyInto E)"

definition ControllerContainer_DeepCopy where
  "ControllerContainer_DeepCopy E = deepCopy (ControllerContainer_DeepCopyInto E)"

definition Observer_DeepCopy where "Observer_DeepCopy E = deepCopy (Observer_DeepCopyInto E)"

definition SecurityConfig_DeepCopy where "SecurityConfig_DeepCopy E = deepCopy (SecurityConfig_DeepCopyInto E)"

definition IntegrityShieldSpec_DeepCopy where
  "IntegrityShieldSpec_DeepCopy E = deepCopy (IntegrityShieldSpec_DeepCopyInto E)"

definition IntegrityShield_DeepCopy where "IntegrityShield_DeepCopy E = deepCopy (IntegrityShield_DeepCopyInto E)"

definition IntegrityShield_DeepCopyObject where
  "IntegrityShield_DeepCopyObject E p h =
     (let (c, h') = IntegrityShield_DeepCopy E p h in if c \<noteq> None then (c, h') else (None, h'))"

definition IntegrityShieldList_DeepCopy where
  "IntegrityShieldList_DeepCopy E = deepCopy (IntegrityShieldList_DeepCopyInto E)"

definition IntegrityShieldList_DeepCopyObject where
  "IntegrityShieldList_DeepCopyObject E p h =
     (let (c, h') = IntegrityShieldList_DeepCopy E p h in if c \<noteq> None then (c, h') else (None, h'))"


section \<open>What the structures stand for and refer to\<close>

abbreviation viewLabels :: "'e op_cell memory \<Rightarrow> addr option \<Rightarrow> gomap" where
  "viewLabels \<equiv> viewBoxed labelsIn (\<lambda>h m. m)"

abbreviation viewExt :: "'e ext_lib \<Rightarrow> 'e op_cell memory \<Rightarrow> addr option \<Rightarrow> json option" where
  "viewExt E \<equiv> viewBoxed extIn (Ext_View E)"

definition api_containerV :: "'e ext_lib \<Rightarrow> 'e op_cell memory \<Rightarrow> 'e api_containerP \<Rightarrow> api_container" where
  "api_containerV E h p = (apiP_Plain p)\<lparr>api_SelectorLabels := viewLabels h (apiP_SelectorLabels p),
     api_SecurityContext := viewExt E h (apiP_SecurityContext p), api_Resources := Ext_View E h (apiP_Resources p)\<rparr>"

definition controller_containerV :: "'e ext_lib \<Rightarrow> 'e op_cell memory \<Rightarrow> 'e controller_containerP \<Rightarrow> controller_container" where
  "controller_containerV E h p = (ccP_Plain p)\<lparr>cc_SelectorLabels := viewLabels h (ccP_SelectorLabels p),
     cc_SecurityContext := viewExt E h (ccP_SecurityContext p), cc_Resources := Ext_View E h (ccP_Resources p)\<rparr>"

definition observer_containerV :: "'e ext_lib \<Rightarrow> 'e op_cell memory \<Rightarrow> 'e observer_containerP \<Rightarrow> observer_container" where
  "observer_containerV E h p = (ocP_Plain p)\<lparr>oc_SelectorLabels := viewLabels h (ocP_SelectorLabels p),
     oc_SecurityContext := viewExt E h (ocP_SecurityContext p), oc_Resources := Ext_View E h (ocP_Resources p)\<rparr>"

definition security_configV :: "'e ext_lib \<Rightarrow> 'e op_cell memory \<Rightarrow> security_configP \<Rightarrow> security_config" where
  "security_configV E h p = (scP_Plain p)\<lparr>sc_PodSecurityContext := viewExt E h (scP_PodSecurityContext p)\<rparr>"

definition shield_specV :: "'e ext_lib \<Rightarrow> 'e op_cell memory \<Rightarrow> 'e shield_specP \<Rightarrow> shield_spec" where
  "shield_specV E h p = (specP_Plain p)\<lparr>
     spec_MaxSurge := viewBoxed intOrStringIn (\<lambda>h x. x) h (specP_MaxSurge p),
     spec_MaxUnavailable := viewBoxed intOrStringIn (\<lambda>h x. x) h (specP_MaxUnavailable p),
     spec_ReplicaCount := viewBoxed int32In (\<lambda>h x. x) h (specP_ReplicaCount p),
     spec_MetaLabels := viewLabels h (specP_MetaLabels p), spec_NodeSelector := viewLabels h (specP_NodeSelector p),
     spec_Affinity := viewExt E h (specP_Affinity p),
     spec_Tolerations := (case viewBoxed extsIn (\<lambda>h. map (Ext_View E h)) h (specP_Tolerations p) of None \<Rightarrow> [] | Some ts \<Rightarrow> ts),
     spec_Security := security_configV E h (specP_Security p), spec_API := api_containerV E h (specP_API p),
     spec_ControllerContainer := controller_containerV E h (specP_ControllerContainer p),
     spec_Observer := observer_containerV E h (specP_Observer p),
     spec_WebhookNamespacedResource := Ext_Rule E (Ext_View E h (specP_WebhookNamespacedResource p)),
     spec_WebhookClusterResource := Ext_Rule E (Ext_View E h (specP_WebhookClusterResource p))\<rparr>"

definition integrity_shieldV :: "'e ext_lib \<Rightarrow> 'e op_cell memory \<Rightarrow> 'e integrity_shieldP \<Rightarrow> integrity_shield" where
  "integrity_shieldV E h p = (isP_Plain p)\<lparr>is_Meta := Ext_Meta E (Ext_View E h (isP_Meta p)), is_Spec := shield_specV E h (isP_Spec p)\<rparr>"

abbreviation reachLabels :: "'e op_cell memory \<Rightarrow> addr option \<Rightarrow> addr set" where
  "reachLabels \<equiv> reachBoxed labelsIn noRefs"

abbreviation reachExt :: "'e ext_lib \<Rightarrow> 'e op_cell memory \<Rightarrow> addr option \<Rightarrow> addr set" where
  "reachExt E \<equiv> reachBoxed extIn (Ext_Reach E)"

definition api_containerR :: "'e ext_lib \<Rightarrow> 'e op_cell memory \<Rightarrow> 'e api_containerP \<Rightarrow> addr set" where
  "api_containerR E h p =
     reachLabels h (apiP_SelectorLabels p) \<union> (reachExt E h (apiP_SecurityContext p) \<union> Ext_Reach E h (apiP_Resources p))"

definition controller_containerR :: "'e ext_lib \<Rightarrow> 'e op_cell memory \<Rightarrow> 'e controller_containerP \<Rightarrow> addr set" where
  "controller_containerR E h p =
     reachLabels h (ccP_SelectorLabels p) \<union> (reachExt E h (ccP_SecurityContext p) \<union> Ext_Reach E h (ccP_Resources p))"

definition observer_containerR :: "'e ext_lib \<Rightarrow> 'e op_cell memory \<Rightarrow> 'e observer_containerP \<Rightarrow> addr set" where
  "observer_containerR E h p =
     reachLabels h (ocP_SelectorLabels p) \<union> (reachExt E h (ocP_SecurityContext p) \<union> Ext_Reach E h (ocP_Resources p))"

definition security_configR :: "'e ext_lib \<Rightarrow> 'e op_cell memory \<Rightarrow> security_configP \<Rightarrow> addr set" where
  "security_configR E h p = reachExt E h (scP_PodSecurityContext p)"

definition shield_specR :: "'e ext_lib \<Rightarrow> 'e op_cell memory \<Rightarrow> 'e shield_specP \<Rightarrow> addr set" where
  "shield_specR E h p =
     reachBoxed intOrStringIn noRefs h (specP_MaxSurge p) \<union> (reachBoxed intOrStringIn noRefs h (specP_MaxUnavailable p) \<union>
     (reachBoxed int32In noRefs h (specP_ReplicaCount p) \<union> (reachLabels h (specP_MetaLabels p) \<union>
     (reachLabels h (specP_NodeSelector p) \<union> (reachExt E h (specP_Affinity p) \<union>
     (reachBoxed extsIn (unionOf (Ext_Reach E)) h (specP_Tolerations p) \<union> (security_configR E h (specP_Security p) \<union>
     (api_containerR E h (specP_API p) \<union> (controller_containerR E h (specP_ControllerContainer p) \<union>
     (observer_containerR E h (specP_Observer p) \<union> (Ext_Reach E h (specP_WebhookNamespacedResource p) \<union>
      Ext_Reach E h (specP_WebhookClusterResource p))))))))))))"

definition integrity_shieldR :: "'e ext_lib \<Rightarrow> 'e op_cell memory \<Rightarrow> 'e integrity_shieldP \<Rightarrow> addr set" where
  "integrity_shieldR E h p = Ext_Reach E h (isP_Meta p) \<union> shield_specR E h (isP_Spec p)"

text \<open>What a copy of a whole instance has in common with the original: the resource requirements
  of the observer, the one reference field that is not copied.\<close>

definition observer_containerS :: "'e ext_lib \<Rightarrow> 'e op_cell memory \<Rightarrow> 'e observer_containerP \<Rightarrow> addr set" where
  "observer_containerS E h p = Ext_Reach E h (ocP_Resources p)"

definition shield_specS :: "'e ext_lib \<Rightarrow> 'e op_cell memory \<Rightarrow> 'e shield_specP \<Rightarrow> addr set" where
  "shield_specS E h p = observer_containerS E h (specP_Observer p)"

definition integrity_shieldS :: "'e ext_lib \<Rightarrow> 'e op_cell memory \<Rightarrow> 'e integrity_shieldP \<Rightarrow> addr set" where
  "integrity_shieldS E h p = shield_specS E h (isP_Spec p)"

section \<open>The copies meet the contract\<close>

interpretation ext_value: copier "ext_laws E" "Ext_DeepCopyInto E" "Ext_View E" "Ext_Reach E" noRefs for E
  by unfold_locales (auto simp: ext_laws_def dest: copier.frame copier.shared_reach copier.copies)


text \<open>A field that is only assigned is shared.\<close>

interpretation ext_assigned: copier "ext_laws E" copyPlain "Ext_View E" "Ext_Reach E" "Ext_Reach E" for E
  by (rule assigned_copier [OF ext_value.copier_axioms])

lemma copyLabels_copier: "copier pre copyLabels viewLabels reachLabels noRefs"
  using copyBoxed_copier [OF plain_value.copier_axioms [where f = "\<lambda>m. m"], of labelsIn LabelsCell pre] by simp

lemma copyIntOrString_copier:
  "copier pre (copyBoxed intOrStringIn IntOrStringCell copyPlain) (viewBoxed intOrStringIn (\<lambda>h m. m)) (reachBoxed intOrStringIn noRefs) noRefs"
  using copyBoxed_copier [OF plain_value.copier_axioms [where f = "\<lambda>m. m"], of intOrStringIn IntOrStringCell pre] by simp

lemma copyInt32_copier:
  "copier pre (copyBoxed int32In Int32Cell copyPlain) (viewBoxed int32In (\<lambda>h m. m)) (reachBoxed int32In noRefs) noRefs"
  using copyBoxed_copier [OF plain_value.copier_axioms [where f = "\<lambda>m. m"], of int32In Int32Cell pre] by simp

lemma copyExt_copier: "copier (ext_laws E) (copyExt E) (viewExt E) (reachExt E) noRefs"
  using copyBoxed_copier [OF ext_value.copier_axioms, of extIn ExtCell] by simp

lemma copyExts_copier:
  "copier (ext_laws E) (copyBoxed extsIn ExtsCell (copyList (Ext_DeepCopyInto E)))
     (viewBoxed extsIn (\<lambda>h. map (Ext_View E h))) (reachBoxed extsIn (unionOf (Ext_Reach E))) noRefs"
  using copyBoxed_copier [OF copyList_copier [OF ext_value.copier_axioms], of extsIn ExtsCell] by simp

lemmas field_copiers = copyLabels_copier copyIntOrString_copier copyInt32_copier copyExt_copier copyExts_copier
  ext_value.copier_axioms

interpretation api_container: copier "ext_laws E" "APIContainer_DeepCopyInto E" "api_containerV E" "api_containerR E" noRefs for E
  by (rule copyStruct_copier [OF copyPair_copier [OF copyLabels_copier copyPair_copier [OF copyExt_copier ext_value.copier_axioms]],
      where get = "\<lambda>p. (apiP_SelectorLabels p, apiP_SecurityContext p, apiP_Resources p)"
        and put = "\<lambda>p x. p\<lparr>apiP_SelectorLabels := fst x, apiP_SecurityContext := fst (snd x), apiP_Resources := snd (snd x)\<rparr>"
        and build = "\<lambda>p x. (apiP_Plain p)\<lparr>api_SelectorLabels := fst x, api_SecurityContext := fst (snd x), api_Resources := snd (snd x)\<rparr>"])
     (simp_all add: APIContainer_DeepCopyInto_def api_containerV_def api_containerR_def copy_field_defs split: prod.split)

interpretation controller_container:
  copier "ext_laws E" "ControllerContainer_DeepCopyInto E" "controller_containerV E" "controller_containerR E" noRefs for E
  by (rule copyStruct_copier [OF copyPair_copier [OF copyLabels_copier copyPair_copier [OF copyExt_copier ext_value.copier_axioms]],
      where get = "\<lambda>p. (ccP_SelectorLabels p, ccP_SecurityContext p, ccP_Resources p)"
        and put = "\<lambda>p x. p\<lparr>ccP_SelectorLabels := fst x, ccP_SecurityContext := fst (snd x), ccP_Resources := snd (snd x)\<rparr>"
        and build = "\<lambda>p x. (ccP_Plain p)\<lparr>cc_SelectorLabels := fst x, cc_SecurityContext := fst (snd x), cc_Resources := snd (snd x)\<rparr>"])
     (simp_all add: ControllerContainer_DeepCopyInto_def controller_containerV_def controller_containerR_def copy_field_defs split: prod.split)

interpretation observer_container:
  copier "ext_laws E" "Observer_DeepCopyInto E" "observer_containerV E" "observer_containerR E" "observer_containerS E" for E
  by (rule copyStruct_copier [OF copyPair_copier [OF copyLabels_copier copyPair_copier [OF copyExt_copier ext_assigned.copier_axioms]],
      where get = "\<lambda>p. (ocP_SelectorLabels p, ocP_SecurityContext p, ocP_Resources p)"
        and put = "\<lambda>p x. p\<lparr>ocP_SelectorLabels := fst x, ocP_SecurityContext := fst (snd x), ocP_Resources := snd (snd x)\<rparr>"
        and build = "\<lambda>p x. (ocP_Plain p)\<lparr>oc_SelectorLabels := fst x, oc_SecurityContext := fst (snd x), oc_Resources := snd (snd x)\<rparr>"])
     (simp_all add: Observer_DeepCopyInto_def observer_containerV_def observer_containerR_def observer_containerS_def
        copyPlain_def copy_field_defs split: prod.split)

interpretation security_config: copier "ext_laws E" "SecurityConfig_DeepCopyInto E" "security_configV E" "security_configR E" noRefs for E
  by (rule copyStruct_copier [OF copyExt_copier,
      where get = scP_PodSecurityContext and put = "\<lambda>p x. p\<lparr>scP_PodSecurityContext := x\<rparr>"
        and build = "\<lambda>p x. (scP_Plain p)\<lparr>sc_PodSecurityContext := x\<rparr>"])
     (simp_all add: SecurityConfig_DeepCopyInto_def security_configV_def security_configR_def copy_field_defs split: prod.split)


text \<open>The fields of the specification in the order in which they are copied.\<close>

lemmas spec_fields_copier =
  copyPair_copier [OF copyIntOrString_copier copyPair_copier [OF copyIntOrString_copier copyPair_copier [OF copyInt32_copier
    copyPair_copier [OF copyLabels_copier copyPair_copier [OF copyLabels_copier copyPair_copier [OF copyExt_copier
    copyPair_copier [OF copyExts_copier copyPair_copier [OF security_config.copier_axioms copyPair_copier [OF api_container.copier_axioms
    copyPair_copier [OF controller_container.copier_axioms copyPair_copier [OF observer_container.copier_axioms
    copyPair_copier [OF ext_value.copier_axioms ext_value.copier_axioms]]]]]]]]]]]]

interpretation shield_spec: copier "ext_laws E" "IntegrityShieldSpec_DeepCopyInto E" "shield_specV E" "shield_specR E" "shield_specS E" for E
  by (rule copyStruct_copier [OF spec_fields_copier,
      where get = "\<lambda>p. (specP_MaxSurge p, specP_MaxUnavailable p, specP_ReplicaCount p, specP_MetaLabels p, specP_NodeSelector p,
          specP_Affinity p, specP_Tolerations p, specP_Security p, specP_API p, specP_ControllerContainer p, specP_Observer p,
          specP_WebhookNamespacedResource p, specP_WebhookClusterResource p)"
        and put = "\<lambda>p (surge, unavailable, replicas, labels, selector, affinity, tolerations, security, api, controller, observer,
            namespaced, cluster).
          p\<lparr>specP_MaxSurge := surge, specP_MaxUnavailable := unavailable, specP_ReplicaCount := replicas,
            specP_MetaLabels := labels, specP_NodeSelector := selector, specP_Affinity := affinity,
            specP_Tolerations := tolerations, specP_Security := security, specP_API := api,
            specP_ControllerContainer := controller, specP_Observer := observer,
            specP_WebhookNamespacedResource := namespaced, specP_WebhookClusterResource := cluster\<rparr>"
        and build = "\<lambda>p (surge, unavailable, replicas, labels, selector, affinity, tolerations, security, api, controller, observer,
            namespaced, cluster).
          (specP_Plain p)\<lparr>spec_MaxSurge := surge, spec_MaxUnavailable := unavailable, spec_ReplicaCount := replicas,
            spec_MetaLabels := labels, spec_NodeSelector := selector, spec_Affinity := affinity,
            spec_Tolerations := (case tolerations of None \<Rightarrow> [] | Some ts \<Rightarrow> ts), spec_Security := security,
            spec_API := api, spec_ControllerContainer := controller, spec_Observer := observer,
            spec_WebhookNamespacedResource := Ext_Rule E namespaced, spec_WebhookClusterResource := Ext_Rule E cluster\<rparr>"])
     (simp_all add: IntegrityShieldSpec_DeepCopyInto_def shield_specV_def shield_specR_def shield_specS_def copy_field_defs split: prod.split)

interpretation integrity_shield:
  copier "ext_laws E" "IntegrityShield_DeepCopyInto E" "integrity_shieldV E" "integrity_shieldR E" "integrity_shieldS E" for E
  by (rule copyStruct_copier [OF copyPair_copier [OF ext_value.copier_axioms shield_spec.copier_axioms],
      where get = "\<lambda>p. (isP_Meta p, isP_Spec p)" and put = "\<lambda>p x. p\<lparr>isP_Meta := fst x, isP_Spec := snd x\<rparr>"
        and build = "\<lambda>p x. (isP_Plain p)\<lparr>is_Meta := Ext_Meta E (fst x), is_Spec := snd x\<rparr>"])
     (simp_all add: IntegrityShield_DeepCopyInto_def integrity_shieldV_def integrity_shieldR_def integrity_shieldS_def
        copy_field_defs split: prod.split)


definition shield_listV :: "'e ext_lib \<Rightarrow> 'e op_cell memory \<Rightarrow> 'e shield_listP \<Rightarrow> string \<times> string \<times> json \<times> integrity_shield list option" where
  "shield_listV E h p =
     (slP_APIVersion p, slP_Kind p, Ext_View E h (slP_ListMeta p), viewBoxed shieldsIn (\<lambda>h. map (integrity_shieldV E h)) h (slP_Items p))"

definition shield_listR :: "'e ext_lib \<Rightarrow> 'e op_cell memory \<Rightarrow> 'e shield_listP \<Rightarrow> addr set" where
  "shield_listR E h p = Ext_Reach E h (slP_ListMeta p) \<union> reachBoxed shieldsIn (unionOf (integrity_shieldR E)) h (slP_Items p)"

definition shield_listS :: "'e ext_lib \<Rightarrow> 'e op_cell memory \<Rightarrow> 'e shield_listP \<Rightarrow> addr set" where
  "shield_listS E h p = sharedBoxed shieldsIn (unionOf (integrity_shieldS E)) h (slP_Items p)"

interpretation shield_list:
  copier "ext_laws E" "IntegrityShieldList_DeepCopyInto E" "shield_listV E" "shield_listR E" "shield_listS E" for E
  by (rule copyStruct_copier [OF copyPair_copier [OF ext_value.copier_axioms
        copyBoxed_copier [OF copyList_copier [OF integrity_shield.copier_axioms], of shieldsIn ShieldsCell]],
      where get = "\<lambda>p. (slP_ListMeta p, slP_Items p)" and put = "\<lambda>p x. p\<lparr>slP_ListMeta := fst x, slP_Items := snd x\<rparr>"
        and build = "\<lambda>p x. (slP_APIVersion p, slP_Kind p, fst x, snd x)"])
     (simp_all add: IntegrityShieldList_DeepCopyInto_def shield_listV_def shield_listR_def shield_listS_def copy_field_defs split: prod.split)

section \<open>Properties\<close>

text \<open>C22: The copy of an instance has the same value, the memory of the original is not changed, and
  a write through the copy is not seen in the original - but for the resource requirements of
  the observer, which the copy and the original have in common.\<close>

theorem instance_copy_shares_observer_resources:
  assumes "ext_laws E" and "integrity_shieldR E h p \<subseteq> {..<lim h}" and "IntegrityShield_DeepCopy E (Some p) h = (q, h')"
  shows "\<exists>y. q = Some y \<and> integrity_shieldV E h' y = integrity_shieldV E h p \<and> (\<forall>a<lim h. mem h' a = mem h a) \<and>
    integrity_shieldR E h' y \<inter> integrity_shieldR E h' p = Ext_Reach E h (ocP_Resources (specP_Observer (isP_Spec p))) \<and>
    (\<forall>a\<in>integrity_shieldR E h' y - Ext_Reach E h (ocP_Resources (specP_Observer (isP_Spec p))).
       \<forall>c. integrity_shieldV E (store a c h') p = integrity_shieldV E h p)"
proof -
  have "integrity_shieldS E h p = Ext_Reach E h (ocP_Resources (specP_Observer (isP_Spec p)))"
    by (simp add: integrity_shieldS_def shield_specS_def observer_containerS_def)
  with deepCopy_contract [OF integrity_shield.copier_axioms assms(1,2) assms(3) [unfolded IntegrityShield_DeepCopy_def]]
  show ?thesis by simp
qed

text \<open>A package whose structures refer to one map, such as the limits of resource requirements.\<close>

definition sample_ext :: "addr option ext_lib" where
  "sample_ext =
     \<lparr>Ext_DeepCopyInto = copyLabels,
      Ext_View = (\<lambda>h r. case viewLabels h r of None \<Rightarrow> JNull | Some m \<Rightarrow> (case m ''cpu'' of None \<Rightarrow> JNull | Some v \<Rightarrow> JStr v)),
      Ext_Reach = reachLabels, Ext_Rule = (\<lambda>j. \<lparr>rule_APIGroups = [], rule_APIVersions = [], rule_Resources = []\<rparr>),
      Ext_Meta = (\<lambda>j. new_meta [] [] None)\<rparr>"

lemma sample_ext_laws: "ext_laws sample_ext"
  unfolding ext_laws_def sample_ext_def
  by (rule copyStruct_copier [OF copyLabels_copier, where get = "\<lambda>p. p" and put = "\<lambda>p x. x"
        and build = "\<lambda>p x. case x of None \<Rightarrow> JNull | Some m \<Rightarrow> (case m ''cpu'' of None \<Rightarrow> JNull | Some v \<Rightarrow> JStr v)"])
     simp_all


definition sample_instance :: "addr option integrity_shieldP" where
  "sample_instance =
     \<lparr>isP_Plain = sample_shield, isP_Meta = None,
      isP_Spec =
        \<lparr>specP_Plain = is_Spec sample_shield, specP_MaxSurge = None, specP_MaxUnavailable = None, specP_ReplicaCount = None,
         specP_MetaLabels = Some 1, specP_NodeSelector = None, specP_Affinity = None, specP_Tolerations = None,
         specP_Security = \<lparr>scP_Plain = spec_Security (is_Spec sample_shield), scP_PodSecurityContext = None\<rparr>,
         specP_API = \<lparr>apiP_Plain = spec_API (is_Spec sample_shield), apiP_SelectorLabels = None, apiP_SecurityContext = None,
           apiP_Resources = None\<rparr>,
         specP_ControllerContainer = \<lparr>ccP_Plain = spec_ControllerContainer (is_Spec sample_shield), ccP_SelectorLabels = None,
           ccP_SecurityContext = None, ccP_Resources = None\<rparr>,
         specP_Observer = \<lparr>ocP_Plain = spec_Observer (is_Spec sample_shield), ocP_SelectorLabels = None, ocP_SecurityContext = None,
           ocP_Resources = Some 0\<rparr>,
         specP_WebhookNamespacedResource = None, specP_WebhookClusterResource = None\<rparr>\<rparr>"

definition sample_memory :: "addr option op_cell memory" where
  "sample_memory =
     \<lparr>mem = (\<lambda>a. LabelsCell (if a = 0 then [''cpu'' \<mapsto> ''100m''] else [''app'' \<mapsto> ''shield''])), lim = 2\<rparr>"

lemma sample_instance_reach: "integrity_shieldR sample_ext sample_memory sample_instance = {0, 1}"
  by (auto simp: integrity_shieldR_def shield_specR_def security_configR_def api_containerR_def controller_containerR_def
      observer_containerR_def sample_instance_def sample_ext_def boxed_defs noRefs_def)

theorem instance_copy_shares_observer_resources_witness:
  "\<exists>y h'. IntegrityShield_DeepCopy sample_ext (Some sample_instance) sample_memory = (Some y, h') \<and>
     integrity_shieldV sample_ext h' y = integrity_shieldV sample_ext sample_memory sample_instance \<and>
     integrity_shieldR sample_ext h' y \<inter> integrity_shieldR sample_ext h' sample_instance = {0}"
proof -
  obtain q h' where run: "IntegrityShield_DeepCopy sample_ext (Some sample_instance) sample_memory = (q, h')" by fastforce
  have "integrity_shieldR sample_ext sample_memory sample_instance \<subseteq> {..<lim sample_memory}"
    unfolding sample_instance_reach by (simp add: sample_memory_def)
  from instance_copy_shares_observer_resources [OF sample_ext_laws this run] run
  show ?thesis by (auto simp: sample_instance_def sample_ext_def boxed_defs noRefs_def)
qed

end
