(* ===== verification/ApiCopy.thy ===== *)
theory ApiCopy
  imports Memory Profiles Observer
begin

text \<open>
  \<^verbatim>\<open>zz_generated.deepcopy.go\<close> of the manifest integrity profiles (admission controller) and of
  the manifest integrity states (observer), with the two hand-written \<open>DeepCopyInto\<close> methods that
  call the package \<^verbatim>\<open>copier\<close>. The structures are laid out as in \<^verbatim>\<open>DeepCopy\<close>.
\<close>

section \<open>Structures in memory\<close>

record kindsP =
  kindsP_Kinds :: "addr option"
  kindsP_ApiGroups :: "addr option"

record match_conditionP =
  mcP_Kinds :: "addr option"
  mcP_Namespaces :: "addr option"
  mcP_ExcludedNamespaces :: "addr option"
  mcP_LabelSelector :: "addr option"
  mcP_NamespaceSelector :: "addr option"

record mip_statusP =
  mstP_DenyCount :: "64 word"
  mstP_Violations :: "addr option"

record 'e mip_specP =
  mspP_Match :: match_conditionP
  mspP_Parameters :: 'e

record 'e mipP =
  mipP_TypeMeta :: "string \<times> string"
  mipP_Meta :: 'e
  mipP_Spec :: "'e mip_specP"
  mipP_Status :: mip_statusP

record 'e mip_listP =
  mlP_TypeMeta :: "string \<times> string"
  mlP_ListMeta :: 'e
  mlP_Items :: "addr option"

record verify_resultP =
  vrP_Plain :: state_verify_result
  vrP_SignedTime :: "addr option"

record mis_specP =
  msP_Plain :: mis_spec
  msP_Violations :: "addr option"
  msP_NonViolations :: "addr option"

record 'e misP =
  misP_TypeMeta :: "string \<times> string"
  misP_Meta :: 'e
  misP_Spec :: mis_specP

record 'e mis_listP =
  sliP_TypeMeta :: "string \<times> string"
  sliP_ListMeta :: 'e
  sliP_Items :: "addr option"

datatype 'e api_cell =
    StringsCell (stringsIn: "string list")
  | KindsCell (kindsIn: "kindsP list")
  | SelectorCell (selectorIn: json)
  | ViolationCell (violationIn: violation_detail)
  | ViolationsCell (violationsIn: "addr option list")
  | ProfilesCell (profilesIn: "'e mipP list")
  | TimeCell (timeIn: int)
  | ResultsCell (resultsIn: "verify_resultP list")
  | StatesCell (statesIn: "'e misP list")

section \<open>Code of other packages\<close>

text \<open>Object and list metadata have \<open>DeepCopyInto\<close> methods. \<open>copier.Copy\<close> is called with pointers to the
  target and the source; the target is given as it is before the call.\<close>

record 'e api_lib =
  Api_DeepCopyInto :: "'e \<Rightarrow> 'e api_cell memory \<Rightarrow> 'e \<times> 'e api_cell memory"
  Api_View :: "'e api_cell memory \<Rightarrow> 'e \<Rightarrow> json"
  Api_Reach :: "'e api_cell memory \<Rightarrow> 'e \<Rightarrow> addr set"
  Copier_Match :: "match_conditionP \<Rightarrow> match_conditionP \<Rightarrow> 'e api_cell memory \<Rightarrow> match_conditionP \<times> 'e api_cell memory"
  Copier_Parameters :: "'e \<Rightarrow> 'e \<Rightarrow> 'e api_cell memory \<Rightarrow> 'e \<times> 'e api_cell memory"

text \<open>The metadata is copied deeply. \<open>copier.Copy\<close> copies field by field, through the pointers that the target
  already has. Nothing is assumed of it but the case in which target and source have the same
  fields, so that it copies every field, and every structure behind a pointer, onto itself: it leaves
  target and memory as they are.\<close>

definition api_laws :: "'e api_lib \<Rightarrow> bool" where
  "api_laws A \<longleftrightarrow> copier True (Api_DeepCopyInto A) (Api_View A) (Api_Reach A) noRefs \<and>
     (\<forall>p h. Copier_Match A p p h = (p, h)) \<and> (\<forall>p h. Copier_Parameters A p p h = (p, h))"

section \<open>The copies of a profile\<close>

abbreviation copyStrings :: "addr option \<Rightarrow> 'e api_cell memory \<Rightarrow> addr option \<times> 'e api_cell memory" where
  "copyStrings \<equiv> copyBoxed stringsIn StringsCell copyPlain"

definition Kinds_DeepCopyInto :: "kindsP \<Rightarrow> 'e api_cell memory \<Rightarrow> kindsP \<times> 'e api_cell memory" where
  "Kinds_DeepCopyInto p h =
     (let (kinds, h1) = copyStrings (kindsP_Kinds p) h; (groups, h2) = copyStrings (kindsP_ApiGroups p) h1
      in (p\<lparr>kindsP_Kinds := kinds, kindsP_ApiGroups := groups\<rparr>, h2))"

definition MatchCondition_DeepCopyInto ::
  "'e api_lib \<Rightarrow> match_conditionP \<Rightarrow> match_conditionP \<Rightarrow> 'e api_cell memory \<Rightarrow> match_conditionP \<times> 'e api_cell memory" where
  "MatchCondition_DeepCopyInto A p p2 h = Copier_Match A p2 p h"

definition ParameterObject_DeepCopyInto :: "'e api_lib \<Rightarrow> 'e \<Rightarrow> 'e \<Rightarrow> 'e api_cell memory \<Rightarrow> 'e \<times> 'e api_cell memory" where
  "ParameterObject_DeepCopyInto A p p2 h = Copier_Parameters A p2 p h"

definition ManifestIntegrityProfileSpec_DeepCopyInto ::
  "'e api_lib \<Rightarrow> 'e mip_specP \<Rightarrow> 'e api_cell memory \<Rightarrow> 'e mip_specP \<times> 'e api_cell memory" where
  "ManifestIntegrityProfileSpec_DeepCopyInto A p h =
     (let (match, h1) = MatchCondition_DeepCopyInto A (mspP_Match p) (mspP_Match p) h;
          (parameters, h2) = ParameterObject_DeepCopyInto A (mspP_Parameters p) (mspP_Parameters p) h1
      in (p\<lparr>mspP_Match := match, mspP_Parameters := parameters\<rparr>, h2))"

text \<open>The slice of pointers: a nil element stays nil, another is copied to a new address.\<close>

definition ManifestIntegrityProfileStatus_DeepCopyInto ::
  "mip_statusP \<Rightarrow> 'e api_cell memory \<Rightarrow> mip_statusP \<times> 'e api_cell memory" where
  "ManifestIntegrityProfileStatus_DeepCopyInto p h =
     (let (violations, h1) = copyBoxed violationsIn ViolationsCell (copyList (copyBoxed violationIn ViolationCell copyPlain)) (mstP_Violations p) h
      in (p\<lparr>mstP_Violations := violations\<rparr>, h1))"

definition ManifestIntegrityProfile_DeepCopyInto ::
  "'e api_lib \<Rightarrow> 'e mipP \<Rightarrow> 'e api_cell memory \<Rightarrow> 'e mipP \<times> 'e api_cell memory" where
  "ManifestIntegrityProfile_DeepCopyInto A p h =
     (let (meta, h1) = Api_DeepCopyInto A (mipP_Meta p) h;
          (spec, h2) = ManifestIntegrityProfileSpec_DeepCopyInto A (mipP_Spec p) h1;
          (status, h3) = ManifestIntegrityProfileStatus_DeepCopyInto (mipP_Status p) h2
      in (p\<lparr>mipP_Meta := meta, mipP_Spec := spec, mipP_Status := status\<rparr>, h3))"

definition ManifestIntegrityProfileList_DeepCopyInto ::
  "'e api_lib \<Rightarrow> 'e mip_listP \<Rightarrow> 'e api_cell memory \<Rightarrow> 'e mip_listP \<times> 'e api_cell memory" where
  "ManifestIntegrityProfileList_DeepCopyInto A p h =
     (let (meta, h1) = Api_DeepCopyInto A (mlP_ListMeta p) h;
          (items, h2) = copyBoxed profilesIn ProfilesCell (copyList (ManifestIntegrityProfile_DeepCopyInto A)) (mlP_Items p) h1
      in (p\<lparr>mlP_ListMeta := meta, mlP_Items := items\<rparr>, h2))"

definition ViolationDetail_DeepCopyInto :: "violation_detail \<Rightarrow> 'e api_cell memory \<Rightarrow> violation_detail \<times> 'e api_cell memory" where
  "ViolationDetail_DeepCopyInto p h = (p, h)"

section \<open>The copies of a state\<close>

text \<open>The pointer to the signing time is assigned, not the time it points to.\<close>

definition VerifyResult_DeepCopyInto :: "verify_resultP \<Rightarrow> 'e api_cell memory \<Rightarrow> verify_resultP \<times> 'e api_cell memory" where
  "VerifyResult_DeepCopyInto p h =
     (if vrP_SignedTime p \<noteq> None then (p\<lparr>vrP_SignedTime := vrP_SignedTime p\<rparr>, h) else (p, h))"

definition ManifestIntegrityStateSpec_DeepCopyInto :: "mis_specP \<Rightarrow> 'e api_cell memory \<Rightarrow> mis_specP \<times> 'e api_cell memory" where
  "ManifestIntegrityStateSpec_DeepCopyInto p h =
     (let (violations, h1) = copyBoxed resultsIn ResultsCell (copyList VerifyResult_DeepCopyInto) (msP_Violations p) h;
          (others, h2) = copyBoxed resultsIn ResultsCell (copyList VerifyResult_DeepCopyInto) (msP_NonViolations p) h1
      in (p\<lparr>msP_Violations := violations, msP_NonViolations := others\<rparr>, h2))"

definition ManifestIntegrityState_DeepCopyInto ::
  "'e api_lib \<Rightarrow> 'e misP \<Rightarrow> 'e api_cell memory \<Rightarrow> 'e misP \<times> 'e api_cell memory" where
  "ManifestIntegrityState_DeepCopyInto A p h =
     (let (meta, h1) = Api_DeepCopyInto A (misP_Meta p) h;
          (spec, h2) = ManifestIntegrityStateSpec_DeepCopyInto (misP_Spec p) h1
      in (p\<lparr>misP_Meta := meta, misP_Spec := spec\<rparr>, h2))"

definition ManifestIntegrityStateList_DeepCopyInto ::
  "'e api_lib \<Rightarrow> 'e mis_listP \<Rightarrow> 'e api_cell memory \<Rightarrow> 'e mis_listP \<times> 'e api_cell memory" where
  "ManifestIntegrityStateList_DeepCopyInto A p h =
     (let (meta, h1) = Api_DeepCopyInto A (sliP_ListMeta p) h;
          (items, h2) = copyBoxed statesIn StatesCell (copyList (ManifestIntegrityState_DeepCopyInto A)) (sliP_Items p) h1
      in (p\<lparr>sliP_ListMeta := meta, sliP_Items := items\<rparr>, h2))"


section \<open>DeepCopy and DeepCopyObject\<close>

definition Kinds_DeepCopy where "Kinds_DeepCopy = deepCopy Kinds_DeepCopyInto"

definition MatchCondition_DeepCopy where
  "MatchCondition_DeepCopy A zero p h =
     (case p of None \<Rightarrow> (None, h) | Some x \<Rightarrow> (let (y, h') = MatchCondition_DeepCopyInto A x zero h in (Some y, h')))"

definition ManifestIntegrityProfileSpec_DeepCopy where
  "ManifestIntegrityProfileSpec_DeepCopy A = deepCopy (ManifestIntegrityProfileSpec_DeepCopyInto A)"

definition ManifestIntegrityProfileStatus_DeepCopy where
  "ManifestIntegrityProfileStatus_DeepCopy = deepCopy ManifestIntegrityProfileStatus_DeepCopyInto"

definition ManifestIntegrityProfile_DeepCopy where
  "ManifestIntegrityProfile_DeepCopy A = deepCopy (ManifestIntegrityProfile_DeepCopyInto A)"

definition ManifestIntegrityProfile_DeepCopyObject where
  "ManifestIntegrityProfile_DeepCopyObject A p h =
     (let (c, h') = ManifestIntegrityProfile_DeepCopy A p h in if c \<noteq> None then (c, h') else (None, h'))"

definition ManifestIntegrityProfileList_DeepCopy where
  "ManifestIntegrityProfileList_DeepCopy A = deepCopy (ManifestIntegrityProfileList_DeepCopyInto A)"

definition ManifestIntegrityProfileList_DeepCopyObject where
  "ManifestIntegrityProfileList_DeepCopyObject A p h =
     (let (c, h') = ManifestIntegrityProfileList_DeepCopy A p h in if c \<noteq> None then (c, h') else (None, h'))"

definition ViolationDetail_DeepCopy where "ViolationDetail_DeepCopy = deepCopy ViolationDetail_DeepCopyInto"

definition VerifyResult_DeepCopy where "VerifyResult_DeepCopy = deepCopy VerifyResult_DeepCopyInto"

text \<open>The status of a state has no fields.\<close>

definition ManifestIntegrityStateStatus_DeepCopyInto :: "unit \<Rightarrow> 'e api_cell memory \<Rightarrow> unit \<times> 'e api_cell memory" where
  "ManifestIntegrityStateStatus_DeepCopyInto = copyPlain"

definition ManifestIntegrityStateStatus_DeepCopy where
  "ManifestIntegrityStateStatus_DeepCopy = deepCopy ManifestIntegrityStateStatus_DeepCopyInto"

definition ManifestIntegrityStateSpec_DeepCopy where
  "ManifestIntegrityStateSpec_DeepCopy = deepCopy ManifestIntegrityStateSpec_DeepCopyInto"

definition ManifestIntegrityState_DeepCopy where
  "ManifestIntegrityState_DeepCopy A = deepCopy (ManifestIntegrityState_DeepCopyInto A)"

definition ManifestIntegrityState_DeepCopyObject where
  "ManifestIntegrityState_DeepCopyObject A p h =
     (let (c, h') = ManifestIntegrityState_DeepCopy A p h in if c \<noteq> None then (c, h') else (None, h'))"

definition ManifestIntegrityStateList_DeepCopy where
  "ManifestIntegrityStateList_DeepCopy A = deepCopy (ManifestIntegrityStateList_DeepCopyInto A)"

definition ManifestIntegrityStateList_DeepCopyObject where
  "ManifestIntegrityStateList_DeepCopyObject A p h =
     (let (c, h') = ManifestIntegrityStateList_DeepCopy A p h in if c \<noteq> None then (c, h') else (None, h'))"

section \<open>What the structures stand for and refer to\<close>

abbreviation viewStrings :: "'e api_cell memory \<Rightarrow> addr option \<Rightarrow> string list option" where
  "viewStrings \<equiv> viewBoxed stringsIn (\<lambda>h xs. xs)"

abbreviation reachStrings :: "'e api_cell memory \<Rightarrow> addr option \<Rightarrow> addr set" where
  "reachStrings \<equiv> reachBoxed stringsIn noRefs"

definition kindsV :: "'e api_cell memory \<Rightarrow> kindsP \<Rightarrow> string list option \<times> string list option" where
  "kindsV h p = (viewStrings h (kindsP_Kinds p), viewStrings h (kindsP_ApiGroups p))"

definition kindsR :: "'e api_cell memory \<Rightarrow> kindsP \<Rightarrow> addr set" where
  "kindsR h p = reachStrings h (kindsP_Kinds p) \<union> reachStrings h (kindsP_ApiGroups p)"

text \<open>The fields of a match condition, a status and the results as nested pairs.\<close>

definition match_conditionV where
  "match_conditionV h p =
     (viewBoxed kindsIn (\<lambda>h. map (kindsV h)) h (mcP_Kinds p), viewStrings h (mcP_Namespaces p),
      viewStrings h (mcP_ExcludedNamespaces p), viewBoxed selectorIn (\<lambda>h x. x) h (mcP_LabelSelector p),
      viewBoxed selectorIn (\<lambda>h x. x) h (mcP_NamespaceSelector p))"

definition match_conditionR where
  "match_conditionR h p =
     reachBoxed kindsIn (unionOf kindsR) h (mcP_Kinds p) \<union> (reachStrings h (mcP_Namespaces p) \<union>
     (reachStrings h (mcP_ExcludedNamespaces p) \<union> (reachBoxed selectorIn noRefs h (mcP_LabelSelector p) \<union>
      reachBoxed selectorIn noRefs h (mcP_NamespaceSelector p))))"

definition mip_specV where
  "mip_specV A h p = (match_conditionV h (mspP_Match p), Api_View A h (mspP_Parameters p))"

definition mip_specR where
  "mip_specR A h p = match_conditionR h (mspP_Match p) \<union> Api_Reach A h (mspP_Parameters p)"

definition mip_statusV where
  "mip_statusV h p = (mstP_DenyCount p,
     viewBoxed violationsIn (\<lambda>h. map (viewBoxed violationIn (\<lambda>h x. x) h)) h (mstP_Violations p))"

definition mip_statusR where
  "mip_statusR h p = reachBoxed violationsIn (unionOf (reachBoxed violationIn noRefs)) h (mstP_Violations p)"

definition mipV where
  "mipV A h p = (mipP_TypeMeta p, Api_View A h (mipP_Meta p), mip_specV A h (mipP_Spec p), mip_statusV h (mipP_Status p))"

definition mipR where
  "mipR A h p = Api_Reach A h (mipP_Meta p) \<union> (mip_specR A h (mipP_Spec p) \<union> mip_statusR h (mipP_Status p))"

definition mipS where
  "mipS A h p = mip_specR A h (mipP_Spec p)"

definition verify_resultV :: "'e api_cell memory \<Rightarrow> verify_resultP \<Rightarrow> state_verify_result" where
  "verify_resultV h p = (vrP_Plain p)\<lparr>svr_SignedTime := viewBoxed timeIn (\<lambda>h x. x) h (vrP_SignedTime p)\<rparr>"

definition verify_resultR :: "'e api_cell memory \<Rightarrow> verify_resultP \<Rightarrow> addr set" where
  "verify_resultR h p = reachBoxed timeIn noRefs h (vrP_SignedTime p)"

abbreviation viewResults :: "'e api_cell memory \<Rightarrow> addr option \<Rightarrow> state_verify_result list option" where
  "viewResults \<equiv> viewBoxed resultsIn (\<lambda>h. map (verify_resultV h))"

definition mis_specV where
  "mis_specV h p =
     ((msP_Plain p)\<lparr>ms_Violations := [], ms_NonViolations := []\<rparr>, viewResults h (msP_Violations p), viewResults h (msP_NonViolations p))"

definition mis_specR where
  "mis_specR h p = reachBoxed resultsIn (unionOf verify_resultR) h (msP_Violations p) \<union>
     reachBoxed resultsIn (unionOf verify_resultR) h (msP_NonViolations p)"

text \<open>The addresses of the signing times.\<close>

definition mis_specS where
  "mis_specS h p = sharedBoxed resultsIn (unionOf verify_resultR) h (msP_Violations p) \<union>
     sharedBoxed resultsIn (unionOf verify_resultR) h (msP_NonViolations p)"

definition misV where
  "misV A h p = (misP_TypeMeta p, Api_View A h (misP_Meta p), mis_specV h (misP_Spec p))"

definition misR where
  "misR A h p = Api_Reach A h (misP_Meta p) \<union> mis_specR h (misP_Spec p)"

definition misS where
  "misS A h p = mis_specS h (misP_Spec p)"

section \<open>The copies meet the contract\<close>

interpretation api_value: copier "api_laws A" "Api_DeepCopyInto A" "Api_View A" "Api_Reach A" noRefs for A
  by unfold_locales (auto simp: api_laws_def dest: copier.frame copier.shared_reach copier.copies)

lemma copyStrings_copier: "copier pre copyStrings viewStrings reachStrings noRefs"
  using copyBoxed_copier [OF plain_value.copier_axioms [where f = "\<lambda>m. m"], of stringsIn StringsCell pre] by simp

lemma copySelector_copier:
  "copier pre (copyBoxed selectorIn SelectorCell copyPlain) (viewBoxed selectorIn (\<lambda>h m. m)) (reachBoxed selectorIn noRefs) noRefs"
  using copyBoxed_copier [OF plain_value.copier_axioms [where f = "\<lambda>m. m"], of selectorIn SelectorCell pre] by simp

lemma copyTime_copier:
  "copier pre (copyBoxed timeIn TimeCell copyPlain) (viewBoxed timeIn (\<lambda>h m. m)) (reachBoxed timeIn noRefs) noRefs"
  using copyBoxed_copier [OF plain_value.copier_axioms [where f = "\<lambda>m. m"], of timeIn TimeCell pre] by simp

lemma copyViolations_copier:
  "copier pre (copyBoxed violationsIn ViolationsCell (copyList (copyBoxed violationIn ViolationCell copyPlain)))
     (viewBoxed violationsIn (\<lambda>h. map (viewBoxed violationIn (\<lambda>h m. m) h))) (reachBoxed violationsIn (unionOf (reachBoxed violationIn noRefs))) noRefs"
  using copyBoxed_copier [OF copyList_copier [OF copyBoxed_copier [OF plain_value.copier_axioms [where f = "\<lambda>m. m"], of violationIn ViolationCell pre]],
    of violationsIn ViolationsCell] by simp

interpretation kinds: copier pre Kinds_DeepCopyInto kindsV kindsR noRefs for pre
  by (rule copyStruct_copier [OF copyPair_copier [OF copyStrings_copier copyStrings_copier],
      where get = "\<lambda>p. (kindsP_Kinds p, kindsP_ApiGroups p)" and put = "\<lambda>p x. p\<lparr>kindsP_Kinds := fst x, kindsP_ApiGroups := snd x\<rparr>"
        and build = "\<lambda>p x. x"])
     (simp_all add: Kinds_DeepCopyInto_def kindsV_def kindsR_def copy_field_defs split: prod.split)

lemma copyKinds_copier:
  "copier pre (copyBoxed kindsIn KindsCell (copyList Kinds_DeepCopyInto)) (viewBoxed kindsIn (\<lambda>h. map (kindsV h)))
     (reachBoxed kindsIn (unionOf kindsR)) noRefs"
  using copyBoxed_copier [OF copyList_copier [OF kinds.copier_axioms], of kindsIn KindsCell pre] by simp

interpretation match_condition:
  copier "api_laws A" "\<lambda>p. MatchCondition_DeepCopyInto A p p" match_conditionV match_conditionR match_conditionR for A
  by (rule copyStruct_copier [OF assigned_copier [OF copyPair_copier [OF copyKinds_copier copyPair_copier [OF copyStrings_copier
        copyPair_copier [OF copyStrings_copier copyPair_copier [OF copySelector_copier copySelector_copier]]]]],
      where get = "\<lambda>p. (mcP_Kinds p, mcP_Namespaces p, mcP_ExcludedNamespaces p, mcP_LabelSelector p, mcP_NamespaceSelector p)"
        and put = "\<lambda>p x. p\<lparr>mcP_Kinds := fst x, mcP_Namespaces := fst (snd x), mcP_ExcludedNamespaces := fst (snd (snd x)),
          mcP_LabelSelector := fst (snd (snd (snd x))), mcP_NamespaceSelector := snd (snd (snd (snd x)))\<rparr>"
        and build = "\<lambda>p x. x"])
     (simp_all add: MatchCondition_DeepCopyInto_def api_laws_def match_conditionV_def match_conditionR_def copyPlain_def copy_field_defs)

interpretation parameter_object:
  copier "api_laws A" "\<lambda>p. ParameterObject_DeepCopyInto A p p" "Api_View A" "Api_Reach A" "Api_Reach A" for A
  by (rule copyStruct_copier [OF assigned_copier [OF api_value.copier_axioms],
      where get = "\<lambda>p. p" and put = "\<lambda>p x. x" and build = "\<lambda>p x. x"])
     (simp_all add: ParameterObject_DeepCopyInto_def api_laws_def copyPlain_def)


interpretation mip_spec:
  copier "api_laws A" "ManifestIntegrityProfileSpec_DeepCopyInto A" "mip_specV A" "mip_specR A" "mip_specR A" for A
  by (rule copyStruct_copier [OF copyPair_copier [OF match_condition.copier_axioms parameter_object.copier_axioms],
      where get = "\<lambda>p. (mspP_Match p, mspP_Parameters p)" and put = "\<lambda>p x. p\<lparr>mspP_Match := fst x, mspP_Parameters := snd x\<rparr>"
        and build = "\<lambda>p x. x"])
     (simp_all add: ManifestIntegrityProfileSpec_DeepCopyInto_def mip_specV_def mip_specR_def copy_field_defs split: prod.split)

interpretation mip_status: copier pre ManifestIntegrityProfileStatus_DeepCopyInto mip_statusV mip_statusR noRefs for pre
  by (rule copyStruct_copier [OF copyViolations_copier,
      where get = mstP_Violations and put = "\<lambda>p x. p\<lparr>mstP_Violations := x\<rparr>" and build = "\<lambda>p x. (mstP_DenyCount p, x)"])
     (simp_all add: ManifestIntegrityProfileStatus_DeepCopyInto_def mip_statusV_def mip_statusR_def copy_field_defs split: prod.split)

interpretation profile: copier "api_laws A" "ManifestIntegrityProfile_DeepCopyInto A" "mipV A" "mipR A" "mipS A" for A
  by (rule copyStruct_copier [OF copyPair_copier [OF api_value.copier_axioms copyPair_copier [OF mip_spec.copier_axioms mip_status.copier_axioms]],
      where get = "\<lambda>p. (mipP_Meta p, mipP_Spec p, mipP_Status p)"
        and put = "\<lambda>p x. p\<lparr>mipP_Meta := fst x, mipP_Spec := fst (snd x), mipP_Status := snd (snd x)\<rparr>"
        and build = "\<lambda>p x. (mipP_TypeMeta p, x)"])
     (simp_all add: ManifestIntegrityProfile_DeepCopyInto_def mipV_def mipR_def mipS_def copy_field_defs split: prod.split)

definition mip_listV where
  "mip_listV A h p = (mlP_TypeMeta p, Api_View A h (mlP_ListMeta p), viewBoxed profilesIn (\<lambda>h. map (mipV A h)) h (mlP_Items p))"

definition mip_listR where
  "mip_listR A h p = Api_Reach A h (mlP_ListMeta p) \<union> reachBoxed profilesIn (unionOf (mipR A)) h (mlP_Items p)"

definition mip_listS where
  "mip_listS A h p = sharedBoxed profilesIn (unionOf (mipS A)) h (mlP_Items p)"

interpretation profile_list:
  copier "api_laws A" "ManifestIntegrityProfileList_DeepCopyInto A" "mip_listV A" "mip_listR A" "mip_listS A" for A
  by (rule copyStruct_copier [OF copyPair_copier [OF api_value.copier_axioms
        copyBoxed_copier [OF copyList_copier [OF profile.copier_axioms], of profilesIn ProfilesCell]],
      where get = "\<lambda>p. (mlP_ListMeta p, mlP_Items p)" and put = "\<lambda>p x. p\<lparr>mlP_ListMeta := fst x, mlP_Items := snd x\<rparr>"
        and build = "\<lambda>p x. (mlP_TypeMeta p, x)"])
     (simp_all add: ManifestIntegrityProfileList_DeepCopyInto_def mip_listV_def mip_listR_def mip_listS_def copy_field_defs split: prod.split)

interpretation verify_result: copier pre VerifyResult_DeepCopyInto verify_resultV verify_resultR verify_resultR for pre
  by (rule copyStruct_copier [OF assigned_copier [OF copyTime_copier],
      where get = vrP_SignedTime and put = "\<lambda>p x. p\<lparr>vrP_SignedTime := x\<rparr>"
        and build = "\<lambda>p x. (vrP_Plain p)\<lparr>svr_SignedTime := x\<rparr>"])
     (simp_all add: VerifyResult_DeepCopyInto_def verify_resultV_def verify_resultR_def copyPlain_def)

interpretation mis_spec: copier pre ManifestIntegrityStateSpec_DeepCopyInto mis_specV mis_specR mis_specS for pre
  by (rule copyStruct_copier [OF copyPair_copier [OF
        copyBoxed_copier [OF copyList_copier [OF verify_result.copier_axioms], of resultsIn ResultsCell]
        copyBoxed_copier [OF copyList_copier [OF verify_result.copier_axioms], of resultsIn ResultsCell]],
      where get = "\<lambda>p. (msP_Violations p, msP_NonViolations p)"
        and put = "\<lambda>p x. p\<lparr>msP_Violations := fst x, msP_NonViolations := snd x\<rparr>"
        and build = "\<lambda>p x. ((msP_Plain p)\<lparr>ms_Violations := [], ms_NonViolations := []\<rparr>, x)"])
     (simp_all add: ManifestIntegrityStateSpec_DeepCopyInto_def mis_specV_def mis_specR_def mis_specS_def copy_field_defs split: prod.split)

interpretation state: copier "api_laws A" "ManifestIntegrityState_DeepCopyInto A" "misV A" "misR A" "misS A" for A
  by (rule copyStruct_copier [OF copyPair_copier [OF api_value.copier_axioms mis_spec.copier_axioms],
      where get = "\<lambda>p. (misP_Meta p, misP_Spec p)" and put = "\<lambda>p x. p\<lparr>misP_Meta := fst x, misP_Spec := snd x\<rparr>"
        and build = "\<lambda>p x. (misP_TypeMeta p, x)"])
     (simp_all add: ManifestIntegrityState_DeepCopyInto_def misV_def misR_def misS_def copy_field_defs split: prod.split)

definition mis_listV where
  "mis_listV A h p = (sliP_TypeMeta p, Api_View A h (sliP_ListMeta p), viewBoxed statesIn (\<lambda>h. map (misV A h)) h (sliP_Items p))"

definition mis_listR where
  "mis_listR A h p = Api_Reach A h (sliP_ListMeta p) \<union> reachBoxed statesIn (unionOf (misR A)) h (sliP_Items p)"

definition mis_listS where
  "mis_listS A h p = sharedBoxed statesIn (unionOf (misS A)) h (sliP_Items p)"

interpretation state_list:
  copier "api_laws A" "ManifestIntegrityStateList_DeepCopyInto A" "mis_listV A" "mis_listR A" "mis_listS A" for A
  by (rule copyStruct_copier [OF copyPair_copier [OF api_value.copier_axioms
        copyBoxed_copier [OF copyList_copier [OF state.copier_axioms], of statesIn StatesCell]],
      where get = "\<lambda>p. (sliP_ListMeta p, sliP_Items p)" and put = "\<lambda>p x. p\<lparr>sliP_ListMeta := fst x, sliP_Items := snd x\<rparr>"
        and build = "\<lambda>p x. (sliP_TypeMeta p, x)"])
     (simp_all add: ManifestIntegrityStateList_DeepCopyInto_def mis_listV_def mis_listR_def mis_listS_def copy_field_defs split: prod.split)

section \<open>Properties\<close>

text \<open>C23: The copy of a profile has the value of the original. Its status is a copy of its own, so that
  recording a denial in one of them is not seen in the other; the match condition and the
  parameters are those of the original.\<close>

theorem profile_copy_shares_its_specification:
  assumes "api_laws A" and "mipR A h p \<subseteq> {..<lim h}" and "ManifestIntegrityProfile_DeepCopy A (Some p) h = (q, h')"
  shows "\<exists>y. q = Some y \<and> mipV A h' y = mipV A h p \<and>
    mipR A h' y \<inter> mipR A h' p = match_conditionR h (mspP_Match (mipP_Spec p)) \<union> Api_Reach A h (mspP_Parameters (mipP_Spec p)) \<and>
    (\<forall>a\<in>mip_statusR h' (mipP_Status y). \<forall>c. mipV A (store a c h') p = mipV A h p)"
proof -
  have shared: "mipS A h p = match_conditionR h (mspP_Match (mipP_Spec p)) \<union> Api_Reach A h (mspP_Parameters (mipP_Spec p))"
    by (simp add: mipS_def mip_specR_def)
  from deepCopy_contract [OF profile.copier_axioms assms(1,2) assms(3) [unfolded ManifestIntegrityProfile_DeepCopy_def]]
  obtain y where y: "q = Some y" "mipV A h' y = mipV A h p" "mipR A h' y \<inter> mipR A h' p = mipS A h p"
    and writes: "\<forall>a\<in>mipR A h' y - mipS A h p. \<forall>c. mipV A (store a c h') p = mipV A h p" by blast
  from assms(3) y(1) obtain h1 h2 m sp st
    where meta: "Api_DeepCopyInto A (mipP_Meta p) h = (m, h1)"
      and spec: "ManifestIntegrityProfileSpec_DeepCopyInto A (mipP_Spec p) h1 = (sp, h2)"
      and status: "ManifestIntegrityProfileStatus_DeepCopyInto (mipP_Status p) h2 = (st, h')" and "mipP_Status y = st"
    by (auto simp: ManifestIntegrityProfile_DeepCopy_def deepCopy_Some ManifestIntegrityProfile_DeepCopyInto_def split: prod.splits)
  from assms(2) have sub: "Api_Reach A h (mipP_Meta p) \<subseteq> {..<lim h}" "mip_specR A h (mipP_Spec p) \<subseteq> {..<lim h}"
    "mip_statusR h (mipP_Status p) \<subseteq> {..<lim h}" by (simp_all add: mipR_def)
  have "extends h h1" by (rule api_value.field_step(1) [OF assms(1) extends_refl sub(1) meta extends_refl])
  then have "extends h h2" by (rule mip_spec.field_step(1) [OF assms(1) _ sub(2) spec extends_refl])
  from mip_status.field_step(4) [OF TrueI this sub(3) status extends_refl] \<open>mipP_Status y = st\<close>
  have "mip_statusR h' (mipP_Status y) \<inter> {..<lim h} = {}" by (simp add: noRefs_def)
  moreover have "mipS A h p \<subseteq> {..<lim h}" using profile.shared_reach [OF assms(1)] assms(2) by blast
  moreover have "mip_statusR h' (mipP_Status y) \<subseteq> mipR A h' y" by (auto simp: mipR_def)
  ultimately have "mip_statusR h' (mipP_Status y) \<subseteq> mipR A h' y - mipS A h p" by blast
  with writes y shared show ?thesis by blast
qed

text \<open>C24: The copy of a state has the value of the original, and exactly the signing times of its results
  are in memory that it has in common with the original.\<close>

theorem state_copy_shares_signing_times:
  assumes "api_laws A" and "misR A h p \<subseteq> {..<lim h}" and "ManifestIntegrityState_DeepCopy A (Some p) h = (q, h')"
  shows "\<exists>y. q = Some y \<and> misV A h' y = misV A h p \<and> (\<forall>a<lim h. mem h' a = mem h a) \<and>
    misR A h' y \<inter> misR A h' p = mis_specS h (misP_Spec p) \<and>
    (\<forall>a\<in>misR A h' y - mis_specS h (misP_Spec p). \<forall>c. misV A (store a c h') p = misV A h p)"
  using deepCopy_contract [OF state.copier_axioms assms(1,2) assms(3) [unfolded ManifestIntegrityState_DeepCopy_def]]
  by (simp add: misS_def)


text \<open>Metadata and parameters that refer to one list of strings.\<close>

definition sample_api_lib :: "addr option api_lib" where
  "sample_api_lib =
     \<lparr>Api_DeepCopyInto = copyStrings,
      Api_View = (\<lambda>h r. case viewStrings h r of None \<Rightarrow> JNull | Some xs \<Rightarrow> JArr (map JStr xs)),
      Api_Reach = reachStrings, Copier_Match = (\<lambda>p2 p h. (p, h)), Copier_Parameters = (\<lambda>p2 p h. (p, h))\<rparr>"

lemma sample_api_laws: "api_laws sample_api_lib"
  unfolding api_laws_def sample_api_lib_def
  by (simp, rule copyStruct_copier [OF copyStrings_copier, where get = "\<lambda>p. p" and put = "\<lambda>p x. x"
        and build = "\<lambda>p x. case x of None \<Rightarrow> JNull | Some xs \<Rightarrow> JArr (map JStr xs)"])
     simp_all

definition sample_profile :: "addr option mipP" where
  "sample_profile =
     \<lparr>mipP_TypeMeta = (''v1'', ''ManifestIntegrityProfile''), mipP_Meta = Some 0,
      mipP_Spec = \<lparr>mspP_Match = \<lparr>mcP_Kinds = None, mcP_Namespaces = Some 1, mcP_ExcludedNamespaces = None,
        mcP_LabelSelector = None, mcP_NamespaceSelector = None\<rparr>, mspP_Parameters = None\<rparr>,
      mipP_Status = \<lparr>mstP_DenyCount = 1, mstP_Violations = Some 2\<rparr>\<rparr>"

definition sample_violation :: violation_detail where
  "sample_violation = \<lparr>vd_Namespace = ''ns'', vd_Kind = ''ConfigMap'', vd_Name = ''cm'', vd_Message = ''denied'', vd_Timestamp = ''now''\<rparr>"

definition sample_profile_memory :: "addr option api_cell memory" where
  "sample_profile_memory =
     \<lparr>mem = (\<lambda>a. if a = 2 then ViolationsCell [Some 3] else if a = 3 then ViolationCell sample_violation else StringsCell [''ns'']), lim = 4\<rparr>"

theorem profile_copy_shares_its_specification_witness:
  "\<exists>y h'. ManifestIntegrityProfile_DeepCopy sample_api_lib (Some sample_profile) sample_profile_memory = (Some y, h') \<and>
     mipV sample_api_lib h' y = mipV sample_api_lib sample_profile_memory sample_profile \<and>
     mipR sample_api_lib h' y \<inter> mipR sample_api_lib h' sample_profile = {1}"
proof -
  obtain q h' where run: "ManifestIntegrityProfile_DeepCopy sample_api_lib (Some sample_profile) sample_profile_memory = (q, h')" by fastforce
  have "mipR sample_api_lib sample_profile_memory sample_profile \<subseteq> {..<lim sample_profile_memory}"
    by (simp add: mipR_def mip_specR_def match_conditionR_def mip_statusR_def sample_profile_def sample_api_lib_def
        sample_profile_memory_def boxed_defs noRefs_def)
  from profile_copy_shares_its_specification [OF sample_api_laws this run] run
  show ?thesis by (auto simp: match_conditionR_def sample_profile_def sample_api_lib_def boxed_defs noRefs_def)
qed

definition sample_state :: "addr option misP" where
  "sample_state =
     \<lparr>misP_TypeMeta = (''v1'', ''ManifestIntegrityState''), misP_Meta = None,
      misP_Spec = \<lparr>msP_Plain = \<lparr>ms_ConstraintName = ''c'', ms_Violation = False, ms_TotalViolations = 0, ms_Violations = [],
          ms_NonViolations = [], ms_ObservationTime = ''t''\<rparr>, msP_Violations = None, msP_NonViolations = Some 0\<rparr>\<rparr>"

definition sample_state_memory :: "addr option api_cell memory" where
  "sample_state_memory =
     \<lparr>mem = (\<lambda>a. if a = 0 then ResultsCell [\<lparr>vrP_Plain = \<lparr>svr_Namespace = ''ns'', svr_Name = ''cm'', svr_Kind = ''ConfigMap'',
        svr_ApiGroup = [], svr_ApiVersion = ''v1'', svr_Result = ''ok'', svr_Signer = ''ann'', svr_SignedTime = None,
        svr_SigRef = []\<rparr>, vrP_SignedTime = Some 1\<rparr>] else TimeCell 7), lim = 2\<rparr>"

theorem state_copy_shares_signing_times_witness:
  "\<exists>y h'. ManifestIntegrityState_DeepCopy sample_api_lib (Some sample_state) sample_state_memory = (Some y, h') \<and>
     misV sample_api_lib h' y = misV sample_api_lib sample_state_memory sample_state \<and>
     misR sample_api_lib h' y \<inter> misR sample_api_lib h' sample_state = {1}"
proof -
  obtain q h' where run: "ManifestIntegrityState_DeepCopy sample_api_lib (Some sample_state) sample_state_memory = (q, h')" by fastforce
  have "misR sample_api_lib sample_state_memory sample_state \<subseteq> {..<lim sample_state_memory}"
    by (simp add: misR_def mis_specR_def verify_resultR_def sample_state_def sample_api_lib_def sample_state_memory_def boxed_defs noRefs_def)
  from state_copy_shares_signing_times [OF sample_api_laws this run] run
  show ?thesis
    by (auto simp: mis_specS_def verify_resultR_def sample_state_def sample_state_memory_def sample_api_lib_def boxed_defs noRefs_def)
qed

end
