(* ===== verification/Rest.thy ===== *)
theory Rest
  imports Prelude "HOL-Library.Word"
begin

text \<open>
  The REST requests of the generated clients. A chain of builder calls on \<open>rest.Interface\<close>, such as
  \<^verbatim>\<open>c.client.Put().Resource(r).Name(n).Body(o).Do(ctx).Into(result)\<close>, is the value of type \<open>rest_request\<close>
  that lists its calls in their order; sending it is a field of the record \<open>rest_lib\<close>. \<open>rest_laws\<close>
  is what the API server promises for such requests, \<open>resource_client\<close> the contract of a typed
  client over it.
\<close>

section \<open>Requests\<close>

text \<open>The options of \<open>metav1\<close>: of the list options the clients use the timeout and the watch flag,
  the others are passed on as they are.\<close>

record list_options =
  lo_TimeoutSeconds :: "64 word option"
  lo_Watch :: bool
  lo_Other :: json

datatype rest_params =
    GetOptions json
  | ListOptions list_options
  | CreateOptions json
  | UpdateOptions json
  | PatchOptions json

text \<open>The body is a pointer to an object, the options of a deletion, or the bytes of a patch.\<close>

datatype 'o rest_body =
    ObjectBody "'o option"
  | DeleteOptions json
  | PatchData bytes

datatype rest_verb = GET | POST | PUT | PATCH string | DELETE

datatype 'o rest_call =
    Namespace string
  | Resource string
  | Name string
  | SubResource "string list"
  | VersionedParams rest_params
  | Timeout "64 word"
  | Body "'o rest_body"

record 'o rest_request =
  rq_Verb :: rest_verb
  rq_Calls :: "'o rest_call list"

text \<open>What ends a chain: \<open>Do(ctx).Into(result)\<close> for an object and for a list, where the target is
  given as it is before and returned as it is after the call, \<open>Do(ctx).Error()\<close> and
  \<open>Watch(ctx)\<close>. \<open>'k\<close> is a REST client, \<open>'w\<close> a watch, \<open>'s\<close> the state of the cluster.\<close>

record ('k, 'o, 'l, 'w, 's) rest_lib =
  Do_Into :: "'k \<Rightarrow> 'o rest_request \<Rightarrow> 'o \<Rightarrow> 's \<Rightarrow> ('o \<times> string option) \<times> 's"
  Do_IntoList :: "'k \<Rightarrow> 'o rest_request \<Rightarrow> 'l \<Rightarrow> 's \<Rightarrow> ('l \<times> string option) \<times> 's"
  Do_Error :: "'k \<Rightarrow> 'o rest_request \<Rightarrow> 's \<Rightarrow> string option \<times> 's"
  Do_Watch :: "'k \<Rightarrow> 'o rest_request \<Rightarrow> 's \<Rightarrow> 'w result \<times> 's"

text \<open>A method call on a nil \<open>rest.Interface\<close> panics, and so does reading a field of a nil pointer.\<close>

definition deref :: "'p option \<Rightarrow> ('p \<Rightarrow> 'a outcome) \<Rightarrow> 'a outcome" where
  "deref p f = (case p of None \<Rightarrow> Panic nilPanic | Some x \<Rightarrow> f x)"

lemma deref_simps [simp]: "deref None f = Panic nilPanic" "deref (Some x) f = f x"
  by (simp_all add: deref_def)

section \<open>What a request asks for\<close>

fun namespaceOf :: "'o rest_call list \<Rightarrow> string" where
  "namespaceOf [] = []"
| "namespaceOf (Namespace n # cs) = n"
| "namespaceOf (c # cs) = namespaceOf cs"

fun resourceOf :: "'o rest_call list \<Rightarrow> string" where
  "resourceOf [] = []"
| "resourceOf (Resource r # cs) = r"
| "resourceOf (c # cs) = resourceOf cs"

fun nameOf :: "'o rest_call list \<Rightarrow> string option" where
  "nameOf [] = None"
| "nameOf (Name n # cs) = Some n"
| "nameOf (c # cs) = nameOf cs"

fun subresourceOf :: "'o rest_call list \<Rightarrow> string list" where
  "subresourceOf [] = []"
| "subresourceOf (SubResource r # cs) = r"
| "subresourceOf (c # cs) = subresourceOf cs"

fun bodyOf :: "'o rest_call list \<Rightarrow> 'o option" where
  "bodyOf [] = None"
| "bodyOf (Body (ObjectBody p) # cs) = p"
| "bodyOf (c # cs) = bodyOf cs"

section \<open>What the API server promises\<close>

text \<open>\<open>V s\<close> are the objects of a resource that the cluster holds, by namespace (empty for a
  cluster-scoped resource) and name. A request names an object by its path: the namespace, the
  resource and, but for a creation, the name.\<close>

type_synonym ('s, 'o) objects = "'s \<Rightarrow> string \<times> string \<Rightarrow> 'o option"

abbreviation rq_Namespace :: "'o rest_request \<Rightarrow> string" where
  "rq_Namespace rq \<equiv> namespaceOf (rq_Calls rq)"

text \<open>What the API server reads of an object: its name and its resource version; \<open>at_Plain\<close> is the object
  without what the server itself maintains.\<close>

record 'o api_type =
  at_Name :: "'o \<Rightarrow> string"
  at_Version :: "'o \<Rightarrow> string"
  at_Plain :: "'o \<Rightarrow> 'o"

text \<open>An object of a namespaced resource is in a namespace, one of a cluster-scoped resource is not.\<close>

definition inScope :: "bool \<Rightarrow> string \<Rightarrow> bool" where
  "inScope namespaced ns \<longleftrightarrow> (ns \<noteq> []) = namespaced"

definition addresses :: "string \<Rightarrow> rest_verb \<Rightarrow> string option \<Rightarrow> 'o rest_request \<Rightarrow> bool" where
  "addresses res verb n rq \<longleftrightarrow> rq_Verb rq = verb \<and> resourceOf (rq_Calls rq) = res \<and>
     nameOf (rq_Calls rq) = n \<and> subresourceOf (rq_Calls rq) = []"

definition served_gets :: "('k, 'o, 'l, 'w, 's) rest_lib \<Rightarrow> 'k \<Rightarrow> string \<Rightarrow> bool \<Rightarrow> ('s, 'o) objects \<Rightarrow> bool" where
  "served_gets R k res namespaced V \<longleftrightarrow> (\<forall>rq n z s. addresses res GET (Some n) rq \<and> inScope namespaced (rq_Namespace rq) \<longrightarrow>
     (case V s (rq_Namespace rq, n) of
        Some x \<Rightarrow> Do_Into R k rq z s = ((x, None), s)
      | None \<Rightarrow> \<exists>e. Do_Into R k rq z s = ((z, Some e), s)))"

text \<open>A creation is refused for an invalid or a used name and for an object with a resource version.
  An update is refused for a missing object, when path and object have different names, and as a
  conflict when the object does not carry the resource version of the stored one. What is
  stored and returned is the object of the request but for what the server maintains.\<close>

definition served_creates ::
  "('k, 'o, 'l, 'w, 's) rest_lib \<Rightarrow> 'k \<Rightarrow> string \<Rightarrow> bool \<Rightarrow> (string \<Rightarrow> bool) \<Rightarrow> 'o api_type \<Rightarrow> ('s, 'o) objects \<Rightarrow> bool" where
  "served_creates R k res namespaced validName A V \<longleftrightarrow> (\<forall>rq x z s. addresses res POST None rq \<and> inScope namespaced (rq_Namespace rq) \<and>
     bodyOf (rq_Calls rq) = Some x \<longrightarrow>
     (if validName (at_Name A x) \<and> at_Version A x = [] \<and> V s (rq_Namespace rq, at_Name A x) = None
      then \<exists>s' y. Do_Into R k rq z s = ((y, None), s') \<and> at_Plain A y = at_Plain A x \<and> V s' = (V s)((rq_Namespace rq, at_Name A x) \<mapsto> y)
      else \<exists>e. Do_Into R k rq z s = ((z, Some e), s)))"

definition upToDate :: "'o api_type \<Rightarrow> (string \<times> string \<Rightarrow> 'o option) \<Rightarrow> string \<Rightarrow> 'o \<Rightarrow> bool" where
  "upToDate A m ns x \<longleftrightarrow> (case m (ns, at_Name A x) of None \<Rightarrow> False | Some y \<Rightarrow> at_Version A x = at_Version A y)"

definition served_updates ::
  "('k, 'o, 'l, 'w, 's) rest_lib \<Rightarrow> 'k \<Rightarrow> string \<Rightarrow> bool \<Rightarrow> 'o api_type \<Rightarrow> ('s, 'o) objects \<Rightarrow> bool" where
  "served_updates R k res namespaced A V \<longleftrightarrow> (\<forall>rq n x z s. addresses res PUT (Some n) rq \<and> inScope namespaced (rq_Namespace rq) \<and>
     bodyOf (rq_Calls rq) = Some x \<longrightarrow>
     (if at_Name A x = n \<and> upToDate A (V s) (rq_Namespace rq) x
      then \<exists>s' y. Do_Into R k rq z s = ((y, None), s') \<and> at_Plain A y = at_Plain A x \<and> V s' = (V s)((rq_Namespace rq, n) \<mapsto> y)
      else \<exists>e. Do_Into R k rq z s = ((z, Some e), s)))"

definition served_deletes :: "('k, 'o, 'l, 'w, 's) rest_lib \<Rightarrow> 'k \<Rightarrow> string \<Rightarrow> bool \<Rightarrow> ('s, 'o) objects \<Rightarrow> bool" where
  "served_deletes R k res namespaced V \<longleftrightarrow> (\<forall>rq n s. addresses res DELETE (Some n) rq \<and> inScope namespaced (rq_Namespace rq) \<longrightarrow>
     (if V s (rq_Namespace rq, n) \<noteq> None
      then \<exists>s'. Do_Error R k rq s = (None, s') \<and> V s' = (V s)((rq_Namespace rq, n) := None)
      else \<exists>e. Do_Error R k rq s = (Some e, s)))"

definition rest_laws ::
  "('k, 'o, 'l, 'w, 's) rest_lib \<Rightarrow> 'k \<Rightarrow> string \<Rightarrow> bool \<Rightarrow> (string \<Rightarrow> bool) \<Rightarrow> 'o api_type \<Rightarrow> ('s, 'o) objects \<Rightarrow> bool" where
  "rest_laws R k res namespaced validName A V \<longleftrightarrow>
     served_gets R k res namespaced V \<and> served_creates R k res namespaced validName A V \<and>
     served_updates R k res namespaced A V \<and> served_deletes R k res namespaced V \<and>
     (\<forall>s ns n x. V s (ns, n) = Some x \<longrightarrow> at_Name A x = n \<and> inScope namespaced ns)"

text \<open>A list without selectors returns each object of the namespace, or of every namespace, once.\<close>

definition served_lists ::
  "('k, 'o, 'l, 'w, 's) rest_lib \<Rightarrow> 'k \<Rightarrow> string \<Rightarrow> bool \<Rightarrow> ('l \<Rightarrow> 'o list) \<Rightarrow> ('s, 'o) objects \<Rightarrow> bool" where
  "served_lists R k res namespaced items V \<longleftrightarrow> (\<forall>rq opts z s. addresses res GET None rq \<and>
     (namespaced \<or> rq_Namespace rq = []) \<and>
     VersionedParams (ListOptions opts) \<in> set (rq_Calls rq) \<and> \<not> lo_Watch opts \<and> lo_Other opts = JNull \<longrightarrow>
     (\<exists>l. Do_IntoList R k rq z s = ((l, None), s) \<and> distinct (items l) \<and>
        set (items l) = {x. \<exists>ns n. V s (ns, n) = Some x \<and> (rq_Namespace rq = [] \<or> ns = rq_Namespace rq)}))"

lemma rest_get:
  assumes "rest_laws R k res namespaced validName A V" and "addresses res GET (Some n) rq" and "inScope namespaced (rq_Namespace rq)"
  shows "V s (rq_Namespace rq, n) = Some x \<Longrightarrow> Do_Into R k rq z s = ((x, None), s)"
    and "V s (rq_Namespace rq, n) = None \<Longrightarrow> \<exists>e. Do_Into R k rq z s = ((z, Some e), s)"
proof -
  from assms have "case V s (rq_Namespace rq, n) of Some x \<Rightarrow> Do_Into R k rq z s = ((x, None), s)
      | None \<Rightarrow> \<exists>e. Do_Into R k rq z s = ((z, Some e), s)"
    unfolding rest_laws_def served_gets_def by blast
  then show "V s (rq_Namespace rq, n) = Some x \<Longrightarrow> Do_Into R k rq z s = ((x, None), s)"
    and "V s (rq_Namespace rq, n) = None \<Longrightarrow> \<exists>e. Do_Into R k rq z s = ((z, Some e), s)" by simp_all
qed

lemma rest_create:
  assumes "rest_laws R k res namespaced validName A V" and "addresses res POST None rq" and "inScope namespaced (rq_Namespace rq)"
    and "bodyOf (rq_Calls rq) = Some x"
  shows "if validName (at_Name A x) \<and> at_Version A x = [] \<and> V s (rq_Namespace rq, at_Name A x) = None
      then \<exists>s' y. Do_Into R k rq z s = ((y, None), s') \<and> at_Plain A y = at_Plain A x \<and> V s' = (V s)((rq_Namespace rq, at_Name A x) \<mapsto> y)
      else \<exists>e. Do_Into R k rq z s = ((z, Some e), s)"
  using assms unfolding rest_laws_def served_creates_def by blast

lemma rest_update:
  assumes "rest_laws R k res namespaced validName A V" and "addresses res PUT (Some (at_Name A x)) rq" and "inScope namespaced (rq_Namespace rq)"
    and "bodyOf (rq_Calls rq) = Some x"
  shows "if upToDate A (V s) (rq_Namespace rq) x
      then \<exists>s' y. Do_Into R k rq z s = ((y, None), s') \<and> at_Plain A y = at_Plain A x \<and> V s' = (V s)((rq_Namespace rq, at_Name A x) \<mapsto> y)
      else \<exists>e. Do_Into R k rq z s = ((z, Some e), s)"
proof -
  from assms have "if at_Name A x = at_Name A x \<and> upToDate A (V s) (rq_Namespace rq) x
      then \<exists>s' y. Do_Into R k rq z s = ((y, None), s') \<and> at_Plain A y = at_Plain A x \<and> V s' = (V s)((rq_Namespace rq, at_Name A x) \<mapsto> y)
      else \<exists>e. Do_Into R k rq z s = ((z, Some e), s)"
    unfolding rest_laws_def served_updates_def by blast
  then show ?thesis by simp
qed

lemma rest_delete:
  assumes "rest_laws R k res namespaced validName A V" and "addresses res DELETE (Some n) rq" and "inScope namespaced (rq_Namespace rq)"
  shows "if V s (rq_Namespace rq, n) \<noteq> None
      then \<exists>s'. Do_Error R k rq s = (None, s') \<and> V s' = (V s)((rq_Namespace rq, n) := None)
      else \<exists>e. Do_Error R k rq s = (Some e, s)"
  using assms unfolding rest_laws_def served_deletes_def by blast

lemma rest_name: "rest_laws R k res namespaced validName A V \<Longrightarrow> V s (ns, n) = Some x \<Longrightarrow> at_Name A x = n \<and> inScope namespaced ns"
  unfolding rest_laws_def by blast

section \<open>The contract of a typed client\<close>

text \<open>The writes that a client offers, and their effect on the stored objects.\<close>

datatype 'o api_write = CreateOf 'o | UpdateOf 'o | DeleteOf string

fun writes ::
  "(string \<Rightarrow> bool) \<Rightarrow> 'o api_type \<Rightarrow> string \<Rightarrow> (string \<times> string \<Rightarrow> 'o option) \<Rightarrow> 'o api_write \<Rightarrow>
   (string \<times> string \<Rightarrow> 'o option) \<Rightarrow> bool" where
  "writes validName A ns m (CreateOf x) m' \<longleftrightarrow>
     (if validName (at_Name A x) \<and> at_Version A x = [] \<and> m (ns, at_Name A x) = None
      then \<exists>y. at_Plain A y = at_Plain A x \<and> m' = m((ns, at_Name A x) \<mapsto> y) else m' = m)"
| "writes validName A ns m (UpdateOf x) m' \<longleftrightarrow>
     (if upToDate A m ns x then \<exists>y. at_Plain A y = at_Plain A x \<and> m' = m((ns, at_Name A x) \<mapsto> y) else m' = m)"
| "writes validName A ns m (DeleteOf n) m' \<longleftrightarrow> m' = m((ns, n) := None)"

inductive writtenAll ::
  "(string \<Rightarrow> bool) \<Rightarrow> 'o api_type \<Rightarrow> string \<Rightarrow> (string \<times> string \<Rightarrow> 'o option) \<Rightarrow> 'o api_write list \<Rightarrow>
   (string \<times> string \<Rightarrow> 'o option) \<Rightarrow> bool"
  for validName :: "string \<Rightarrow> bool" and A :: "'o api_type" and ns :: string where
  writtenAll_none: "writtenAll validName A ns m [] m"
| writtenAll_more: "writes validName A ns m w m1 \<Longrightarrow> writtenAll validName A ns m1 ws m2 \<Longrightarrow> writtenAll validName A ns m (w # ws) m2"

inductive_cases writtenAll_NilE: "writtenAll validName A ns m [] m'"
inductive_cases writtenAll_ConsE: "writtenAll validName A ns m (w # ws) m'"

lemma writtenAll_frame:
  "writtenAll validName A ns m ws m' \<Longrightarrow> ns2 \<noteq> ns \<Longrightarrow> m' (ns2, n) = m (ns2, n)"
proof (induction rule: writtenAll.induct)
  case (writtenAll_more m w m1 ws m2)
  then have "m1 (ns2, n) = m (ns2, n)" by (cases w) (auto split: if_splits)
  with writtenAll_more show ?case by simp
qed simp

text \<open>A store that neither checks versions nor maintains anything is a map.\<close>

fun applyWrite :: "('o \<Rightarrow> string) \<Rightarrow> string \<Rightarrow> (string \<times> string \<Rightarrow> 'o option) \<Rightarrow> 'o api_write \<Rightarrow> string \<times> string \<Rightarrow> 'o option" where
  "applyWrite nm ns m (CreateOf x) = (if m (ns, nm x) = None then m((ns, nm x) \<mapsto> x) else m)"
| "applyWrite nm ns m (UpdateOf x) = (if m (ns, nm x) \<noteq> None then m((ns, nm x) \<mapsto> x) else m)"
| "applyWrite nm ns m (DeleteOf n) = m((ns, n) := None)"

definition unversioned :: "('o \<Rightarrow> string) \<Rightarrow> 'o api_type" where
  "unversioned nm = \<lparr>at_Name = nm, at_Version = (\<lambda>x. []), at_Plain = (\<lambda>x. x)\<rparr>"

lemma unversioned_simps [simp]:
  "at_Name (unversioned nm) = nm" "at_Version (unversioned nm) x = []" "at_Plain (unversioned nm) x = x"
  "upToDate (unversioned nm) m ns x \<longleftrightarrow> m (ns, nm x) \<noteq> None"
  by (simp_all add: unversioned_def upToDate_def split: option.split)

lemma writtenAll_unversioned:
  "writtenAll (\<lambda>n. True) (unversioned nm) ns m ws m' \<Longrightarrow> m' = foldl (applyWrite nm ns) m ws"
proof (induction rule: writtenAll.induct)
  case (writtenAll_more m w m1 ws m2)
  then have "m1 = applyWrite nm ns m w" by (cases w) (auto split: if_splits)
  with writtenAll_more show ?case by simp
qed simp

text \<open>A program that calls the client, whatever the errors are.\<close>

fun runWrites ::
  "('o option \<Rightarrow> 's \<Rightarrow> (('o \<times> string option) \<times> 's) outcome) \<Rightarrow>
   ('o option \<Rightarrow> 's \<Rightarrow> (('o \<times> string option) \<times> 's) outcome) \<Rightarrow>
   (string \<Rightarrow> 's \<Rightarrow> (string option \<times> 's) outcome) \<Rightarrow> 'o api_write list \<Rightarrow> 's \<Rightarrow> 's outcome" where
  "runWrites create update delete [] s = Return s"
| "runWrites create update delete (CreateOf x # ws) s =
     outcome_bind (create (Some x) s) (\<lambda>r. runWrites create update delete ws (snd r))"
| "runWrites create update delete (UpdateOf x # ws) s =
     outcome_bind (update (Some x) s) (\<lambda>r. runWrites create update delete ws (snd r))"
| "runWrites create update delete (DeleteOf n # ws) s =
     outcome_bind (delete n s) (\<lambda>r. runWrites create update delete ws (snd r))"

locale resource_client =
  fixes pre :: bool and validName :: "string \<Rightarrow> bool" and A :: "'o api_type" and ns :: string
    and zero :: 'o and V :: "('s, 'o) objects"
    and get :: "string \<Rightarrow> 's \<Rightarrow> (('o \<times> string option) \<times> 's) outcome"
    and create :: "'o option \<Rightarrow> 's \<Rightarrow> (('o \<times> string option) \<times> 's) outcome"
    and update :: "'o option \<Rightarrow> 's \<Rightarrow> (('o \<times> string option) \<times> 's) outcome"
    and delete :: "string \<Rightarrow> 's \<Rightarrow> (string option \<times> 's) outcome"
  assumes get_found: "pre \<Longrightarrow> V s (ns, n) = Some x \<Longrightarrow> get n s = Return ((x, None), s)"
    and get_missing: "pre \<Longrightarrow> V s (ns, n) = None \<Longrightarrow> \<exists>e. get n s = Return ((zero, Some e), s)"
    and create_spec: "pre \<Longrightarrow>
      if validName (at_Name A x) \<and> at_Version A x = [] \<and> V s (ns, at_Name A x) = None
      then \<exists>s' y. create (Some x) s = Return ((y, None), s') \<and> at_Plain A y = at_Plain A x \<and> V s' = (V s)((ns, at_Name A x) \<mapsto> y)
      else \<exists>e. create (Some x) s = Return ((zero, Some e), s)"
    and update_spec: "pre \<Longrightarrow>
      if upToDate A (V s) ns x
      then \<exists>s' y. update (Some x) s = Return ((y, None), s') \<and> at_Plain A y = at_Plain A x \<and> V s' = (V s)((ns, at_Name A x) \<mapsto> y)
      else \<exists>e. update (Some x) s = Return ((zero, Some e), s)"
    and delete_spec: "pre \<Longrightarrow>
      if V s (ns, n) \<noteq> None
      then \<exists>s'. delete n s = Return (None, s') \<and> V s' = (V s)((ns, n) := None)
      else \<exists>e. delete n s = Return (Some e, s)"
    and stored_name: "pre \<Longrightarrow> V s (ns, n) = Some x \<Longrightarrow> at_Name A x = n"
begin

lemma write_step:
  assumes pre
  shows "\<exists>s'. runWrites create update delete (w # ws) s = runWrites create update delete ws s' \<and>
     writes validName A ns (V s) w (V s')"
proof (cases w)
  case (CreateOf x)
  then show ?thesis using create_spec [OF assms, of x s] by (auto split: if_splits)
next
  case (UpdateOf x)
  then show ?thesis using update_spec [OF assms, of s x] by (auto split: if_splits)
next
  case (DeleteOf n)
  then show ?thesis using delete_spec [OF assms, of s n] by (auto simp: fun_upd_idem split: if_splits)
qed

lemma writes_refine:
  assumes pre
  shows "\<exists>s'. runWrites create update delete ws s = Return s' \<and> writtenAll validName A ns (V s) ws (V s')"
proof (induction ws arbitrary: s)
  case Nil
  then show ?case by (simp add: writtenAll_none)
next
  case (Cons w ws)
  from write_step [OF assms, of w ws s] obtain s1
    where "runWrites create update delete (w # ws) s = runWrites create update delete ws s1"
      and "writes validName A ns (V s) w (V s1)" by blast
  with Cons.IH [of s1] show ?case by (auto intro: writtenAll_more)
qed

lemma get_reads:
  assumes pre
  shows "\<exists>e. get n s = Return (case V s (ns, n) of Some x \<Rightarrow> ((x, None), s) | None \<Rightarrow> ((zero, Some e), s))"
  using get_found [OF assms] get_missing [OF assms] by (cases "V s (ns, n)") auto

text \<open>Reading an object, changing it and writing it back succeeds.\<close>

lemma amend_spec:
  assumes pre and "V s (ns, n) = Some x" and "at_Name A x' = at_Name A x" and "at_Version A x' = at_Version A x"
  shows "\<exists>s' y. update (Some x') s = Return ((y, None), s') \<and> at_Plain A y = at_Plain A x' \<and> V s' = (V s)((ns, n) \<mapsto> y)"
proof -
  have "upToDate A (V s) ns x'" using stored_name [OF assms(1,2)] assms(2-4) by (simp add: upToDate_def)
  with update_spec [OF assms(1), of s x'] stored_name [OF assms(1,2)] assms(3) show ?thesis by simp
qed

end

text \<open>A method that sends one request, and what makes a set of methods a client of a resource.\<close>

definition sends ::
  "string \<Rightarrow> rest_verb \<Rightarrow> string \<Rightarrow> string option \<Rightarrow> 'o option \<Rightarrow> ('o rest_request \<Rightarrow> 's \<Rightarrow> 'a) \<Rightarrow> ('s \<Rightarrow> 'a outcome) \<Rightarrow> bool" where
  "sends res verb ns n body answer method \<longleftrightarrow>
     (\<exists>rq. addresses res verb n rq \<and> rq_Namespace rq = ns \<and> bodyOf (rq_Calls rq) = body \<and> (\<forall>s. method s = Return (answer rq s)))"

lemma sends_resource_client:
  assumes get: "\<And>n. sends res GET ns (Some n) None (\<lambda>rq. Do_Into R k rq zero) (get n)"
    and create: "\<And>x. sends res POST ns None (Some x) (\<lambda>rq. Do_Into R k rq zero) (create (Some x))"
    and update: "\<And>x. sends res PUT ns (Some (at_Name A x)) (Some x) (\<lambda>rq. Do_Into R k rq zero) (update (Some x))"
    and delete: "\<And>n. sends res DELETE ns (Some n) None (Do_Error R k) (delete n)"
    and pre: "pre \<Longrightarrow> rest_laws R k res namespaced validName A V" "pre \<Longrightarrow> inScope namespaced ns"
  shows "resource_client pre validName A ns zero V get create update delete"
proof
  fix s n x
  assume pre
  note laws = pre(1) [OF this] and scope = pre(2) [OF this]
  obtain rq where rq: "addresses res GET (Some n) rq" "rq_Namespace rq = ns" "\<And>s. get n s = Return (Do_Into R k rq zero s)"
    using get [of n] unfolding sends_def by blast
  show "get n s = Return ((x, None), s)" if "V s (ns, n) = Some x"
    using rest_get(1) [OF laws rq(1)] scope that rq(2,3) by simp
  show "\<exists>e. get n s = Return ((zero, Some e), s)" if "V s (ns, n) = None"
    using rest_get(2) [OF laws rq(1)] scope that rq(2,3) by simp
next
  fix s x
  assume pre
  note laws = pre(1) [OF this] and scope = pre(2) [OF this]
  obtain rq where rq: "addresses res POST None rq" "rq_Namespace rq = ns" "bodyOf (rq_Calls rq) = Some x"
      "\<And>s. create (Some x) s = Return (Do_Into R k rq zero s)"
    using create [of x] unfolding sends_def by blast
  show "if validName (at_Name A x) \<and> at_Version A x = [] \<and> V s (ns, at_Name A x) = None
      then \<exists>s' y. create (Some x) s = Return ((y, None), s') \<and> at_Plain A y = at_Plain A x \<and> V s' = (V s)((ns, at_Name A x) \<mapsto> y)
      else \<exists>e. create (Some x) s = Return ((zero, Some e), s)"
    using rest_create [OF laws rq(1) _ rq(3), of s zero, unfolded rq(2), OF scope] by (simp only: rq(4) outcome.inject)
next
  fix s x
  assume pre
  note laws = pre(1) [OF this] and scope = pre(2) [OF this]
  obtain rq where rq: "addresses res PUT (Some (at_Name A x)) rq" "rq_Namespace rq = ns" "bodyOf (rq_Calls rq) = Some x"
      "\<And>s. update (Some x) s = Return (Do_Into R k rq zero s)"
    using update [of x] unfolding sends_def by blast
  show "if upToDate A (V s) ns x
      then \<exists>s' y. update (Some x) s = Return ((y, None), s') \<and> at_Plain A y = at_Plain A x \<and> V s' = (V s)((ns, at_Name A x) \<mapsto> y)
      else \<exists>e. update (Some x) s = Return ((zero, Some e), s)"
    using rest_update [OF laws rq(1) _ rq(3), of s zero, unfolded rq(2), OF scope] by (simp only: rq(4) outcome.inject)
next
  fix s n
  assume pre
  note laws = pre(1) [OF this] and scope = pre(2) [OF this]
  obtain rq where rq: "addresses res DELETE (Some n) rq" "rq_Namespace rq = ns"
      "\<And>s. delete n s = Return (Do_Error R k rq s)"
    using delete [of n] unfolding sends_def by blast
  show "if V s (ns, n) \<noteq> None
      then \<exists>s'. delete n s = Return (None, s') \<and> V s' = (V s)((ns, n) := None)
      else \<exists>e. delete n s = Return (Some e, s)"
    using rest_delete [OF laws rq(1), of s, unfolded rq(2), OF scope] by (simp only: rq(3) outcome.inject)
next
  fix s n x
  assume p: pre and x: "V s (ns, n) = Some x"
  show "at_Name A x = n" using rest_name [OF pre(1) [OF p] x] by simp
qed

lemma sendsI:
  assumes "\<And>s. method s = Return (answer rq s)" and "rq_Verb rq = verb" and "resourceOf (rq_Calls rq) = res"
    and "nameOf (rq_Calls rq) = n" and "subresourceOf (rq_Calls rq) = []" and "rq_Namespace rq = ns"
    and "bodyOf (rq_Calls rq) = body"
  shows "sends res verb ns n body answer method"
  unfolding sends_def addresses_def using assms by blast

section \<open>A sample API server\<close>

text \<open>It keeps one resource as a list of objects with their namespaces, the first of an equal name
  being the stored one. Any name is valid but the empty one.\<close>

type_synonym 'o sample_store = "(string \<times> 'o) list"

definition stored :: "bool \<Rightarrow> ('o \<Rightarrow> string) \<Rightarrow> ('o sample_store, 'o) objects" where
  "stored namespaced nm s k =
     (if inScope namespaced (fst k) then map_option snd (find (\<lambda>e. (fst e, nm (snd e)) = k) s) else None)"

fun visible :: "('e \<Rightarrow> 'k) \<Rightarrow> 'e list \<Rightarrow> 'e list" where
  "visible key [] = []"
| "visible key (e # es) = e # filter (\<lambda>f. key f \<noteq> key e) (visible key es)"

definition sample_server ::
  "bool \<Rightarrow> 'o api_type \<Rightarrow> ('o list \<Rightarrow> 'l) \<Rightarrow> (unit, 'o, 'l, unit, 'o sample_store) rest_lib" where
  "sample_server namespaced A listOf =
     \<lparr>Do_Into = \<lambda>k rq z s.
        (let ns = rq_Namespace rq; nm = at_Name A; V = stored namespaced nm s in
         case (rq_Verb rq, nameOf (rq_Calls rq), bodyOf (rq_Calls rq)) of
           (GET, Some n, _) \<Rightarrow> (case V (ns, n) of Some x \<Rightarrow> ((x, None), s) | None \<Rightarrow> ((z, Some ''not found''), s))
         | (POST, None, Some x) \<Rightarrow> (if nm x \<noteq> [] \<and> at_Version A x = [] \<and> V (ns, nm x) = None then ((x, None), (ns, x) # s) else ((z, Some ''refused''), s))
         | (PUT, Some n, Some x) \<Rightarrow> (if nm x = n \<and> upToDate A V ns x then ((x, None), (ns, x) # s) else ((z, Some ''refused''), s))
         | _ \<Rightarrow> ((z, Some ''bad request''), s)),
      Do_IntoList = \<lambda>k rq z s.
        ((listOf (map snd (visible (\<lambda>e. (fst e, at_Name A (snd e)))
           [e \<leftarrow> s. inScope namespaced (fst e) \<and> (rq_Namespace rq = [] \<or> fst e = rq_Namespace rq)])), None), s),
      Do_Error = \<lambda>k rq s.
        (case nameOf (rq_Calls rq) of None \<Rightarrow> (Some ''bad request'', s)
         | Some n \<Rightarrow> if stored namespaced (at_Name A) s (rq_Namespace rq, n) \<noteq> None
             then (None, [e \<leftarrow> s. (fst e, at_Name A (snd e)) \<noteq> (rq_Namespace rq, n)]) else (Some ''not found'', s)),
      Do_Watch = \<lambda>k rq s. (Inl ''not supported'', s)\<rparr>"

lemma stored_Cons:
  "inScope namespaced ns \<Longrightarrow> stored namespaced nm ((ns, x) # s) = (stored namespaced nm s)((ns, nm x) \<mapsto> x)"
  by (auto simp: stored_def fun_eq_iff)

lemma find_filter_key:
  "find (\<lambda>e. key e = k) (filter (\<lambda>e. key e \<noteq> l) s) = (if k = l then None else find (\<lambda>e. key e = k) s)"
  by (induction s) auto

lemma stored_delete:
  "stored namespaced nm [e \<leftarrow> s. fst e = ns \<longrightarrow> nm (snd e) \<noteq> n] = (stored namespaced nm s)((ns, n) := None)"
  using find_filter_key [of "\<lambda>e. (fst e, nm (snd e))" _ "(ns, n)" s] by (auto simp: stored_def fun_eq_iff)

lemma find_key: "find (\<lambda>e. key e = k) s = Some e \<Longrightarrow> key e = k"
  by (auto simp: find_Some_iff)

lemma stored_root: "stored False nm s ([], n) = Some x \<longleftrightarrow> find (\<lambda>e. (fst e, nm (snd e)) = ([], n)) s = Some ([], x)"
proof (cases "find (\<lambda>e. (fst e, nm (snd e)) = ([], n)) s")
  case None
  then show ?thesis by (simp add: stored_def inScope_def)
next
  case (Some e)
  from find_key [where key = "\<lambda>e. (fst e, nm (snd e))", OF Some] have "fst e = []" by simp
  with Some show ?thesis by (cases e) (simp add: stored_def inScope_def)
qed

lemma sample_server_laws:
  "rest_laws (sample_server namespaced A listOf) () res namespaced (\<lambda>n. n \<noteq> []) A (stored namespaced (at_Name A))"
proof -
  have "at_Name A x = n \<and> inScope namespaced ns" if "stored namespaced (at_Name A) s (ns, n) = Some x" for s ns n x
    using that by (auto simp: stored_def find_Some_iff split: if_splits) (metis snd_conv)
  then show ?thesis
    unfolding rest_laws_def served_gets_def served_creates_def served_updates_def served_deletes_def
    by (auto simp: sample_server_def addresses_def stored_Cons stored_delete split: option.split if_splits)
qed

lemma visible_set: "e \<in> set (visible key es) \<longleftrightarrow> find (\<lambda>f. key f = key e) es = Some e"
  by (induction es) auto

lemma visible_distinct: "distinct (map key (visible key es))"
  by (induction es) (auto simp: distinct_map_filter)

lemma find_filter_scope:
  "find (\<lambda>f. (fst f, nm (snd f)) = (ns, n)) [e \<leftarrow> s. P (fst e)] =
     (if P ns then find (\<lambda>f. (fst f, nm (snd f)) = (ns, n)) s else None)"
  by (induction s) auto

lemma sample_server_lists:
  fixes A :: "'o api_type" and listOf :: "'o list \<Rightarrow> 'l"
  assumes listOf: "\<And>l. items (listOf l) = l"
  shows "served_lists (sample_server False A listOf) () res False items (stored False (at_Name A))"
  unfolding served_lists_def
proof (intro allI impI, elim conjE)
  fix rq :: "'o rest_request" and opts and z :: 'l and s :: "'o sample_store"
  assume ns: "False \<or> rq_Namespace rq = []"
  let ?key = "\<lambda>e. (fst e, at_Name A (snd e))"
  let ?es = "visible ?key [e \<leftarrow> s. fst e = []]"
  have items: "Do_IntoList (sample_server False A listOf) () rq z s = ((listOf (map snd ?es), None), s)"
    using ns by (simp add: sample_server_def inScope_def)
  have entry: "(ns, x) \<in> set ?es \<longleftrightarrow> ns = [] \<and> stored False (at_Name A) s ([], at_Name A x) = Some x" for ns x
    using find_filter_scope [of "at_Name A" ns "at_Name A x" "\<lambda>n. n = []" s] by (auto simp: visible_set stored_root simp del: prod.inject)
  have "distinct (map snd ?es)"
    using visible_distinct [of ?key "[e \<leftarrow> s. fst e = []]"] by (auto simp: distinct_map inj_on_def entry)
  moreover have "set (map snd ?es) = {x. \<exists>ns n. stored False (at_Name A) s (ns, n) = Some x}"
  proof (intro set_eqI iffI)
    fix x
    assume "x \<in> set (map snd ?es)"
    then show "x \<in> {x. \<exists>ns n. stored False (at_Name A) s (ns, n) = Some x}" using entry by force
  next
    fix x
    assume "x \<in> {x. \<exists>ns n. stored False (at_Name A) s (ns, n) = Some x}"
    then obtain ns n where x: "stored False (at_Name A) s (ns, n) = Some x" by blast
    from rest_name [OF sample_server_laws this] have "at_Name A x = n" "ns = []" by (simp_all add: inScope_def)
    with x have "([], x) \<in> set ?es" by (simp only: entry)
    then show "x \<in> set (map snd ?es)" unfolding list.set_map by (rule rev_image_eqI) (rule snd_conv [symmetric])
  qed
  ultimately show "\<exists>l. Do_IntoList (sample_server False A listOf) () rq z s = ((l, None), s) \<and> distinct (items l) \<and>
      set (items l) = {x. \<exists>ns n. stored False (at_Name A) s (ns, n) = Some x \<and> (rq_Namespace rq = [] \<or> ns = rq_Namespace rq)}"
    using items ns by (intro exI [of _ "listOf (map snd ?es)"]) (simp add: listOf)
qed

end
