(* ===== verification/RestClient.thy ===== *)
theory RestClient
  imports Rest Profiles Observer
begin

text \<open>
  The typed clients that client-gen wrote for the manifest integrity profiles (version \<^verbatim>\<open>v1\<close> and the
  unused \<^verbatim>\<open>v1alpha1\<close>) and for the manifest integrity states, with their group clients and
  clientsets: \<^verbatim>\<open>webhook/admission-controller/pkg/client/manifestintegrityprofile/clientset\<close> and
  \<^verbatim>\<open>observer/pkg/client/manifestintegritystate/clientset\<close>. Every method is the request it sends.
  The contract \<open>resource_client\<close> is interpreted on each of them, and the operations that the
  admission controller and the observer take as parameters are given by them.
\<close>

section \<open>Objects and lists\<close>

definition zero_parameter_object :: parameter_object where
  "zero_parameter_object =
     \<lparr>po_ConstraintName = [],
      po_SignatureRef = \<lparr>sr_ImageRef = [], sr_SignatureResourceRef = \<lparr>rr_Name = [], rr_Namespace = []\<rparr>,
        sr_ProvenanceResourceRef = \<lparr>rr_Name = [], rr_Namespace = []\<rparr>\<rparr>,
      po_KeyConfigs = [], po_InScopeObjects = [], po_SkipUsers = [], po_InScopeUsers = [],
      po_ImageProfile = \<lparr>ip_KeyConfigs = [], ip_Match = [], ip_Exclude = []\<rparr>,
      po_VerifyResourceOption = zero_verify_option, po_Action = None\<rparr>"

definition zero_ManifestIntegrityProfile :: manifest_integrity_profile where
  "zero_ManifestIntegrityProfile =
     \<lparr>mip_Name = [], mip_ResourceVersion = [],
      mip_Spec =
        \<lparr>mip_Match = \<lparr>mc_Kinds = [], mc_Namespaces = [], mc_ExcludedNamespaces = [], mc_LabelSelector = None,
           mc_NamespaceSelector = None\<rparr>,
         mip_Parameters = zero_parameter_object\<rparr>,
      mip_Status = \<lparr>DenyCount = 0, Violations = []\<rparr>\<rparr>"

definition zero_ManifestIntegrityState :: manifest_integrity_state where
  "zero_ManifestIntegrityState =
     \<lparr>mis_Name = [], mis_ResourceVersion = [], mis_Labels = Map.empty,
      mis_Spec = \<lparr>ms_ConstraintName = [], ms_Violation = False, ms_TotalViolations = 0, ms_Violations = [],
        ms_NonViolations = [], ms_ObservationTime = []\<rparr>\<rparr>"

text \<open>What the API server reads of them.\<close>

definition plainProfile :: "manifest_integrity_profile \<Rightarrow> manifest_integrity_profile" where
  "plainProfile p = p\<lparr>mip_ResourceVersion := []\<rparr>"

definition plainState :: "manifest_integrity_state \<Rightarrow> manifest_integrity_state" where
  "plainState x = x\<lparr>mis_ResourceVersion := []\<rparr>"

definition profileType :: "manifest_integrity_profile api_type" where
  "profileType = \<lparr>at_Name = mip_Name, at_Version = mip_ResourceVersion, at_Plain = plainProfile\<rparr>"

definition stateType :: "manifest_integrity_state api_type" where
  "stateType = \<lparr>at_Name = mis_Name, at_Version = mis_ResourceVersion, at_Plain = plainState\<rparr>"

lemma api_type_simps [simp]:
  "at_Name profileType = mip_Name" "at_Version profileType = mip_ResourceVersion" "at_Plain profileType = plainProfile"
  "at_Name stateType = mis_Name" "at_Version stateType = mis_ResourceVersion" "at_Plain stateType = plainState"
  by (simp_all add: profileType_def stateType_def)

lemma plainProfile_eq [simp]:
  "plainProfile p = plainProfile q \<longleftrightarrow> mip_Name p = mip_Name q \<and> mip_Spec p = mip_Spec q \<and> mip_Status p = mip_Status q"
  by (cases p; cases q) (simp add: plainProfile_def)

lemma plainState_eq [simp]:
  "plainState p = plainState q \<longleftrightarrow> mis_Name p = mis_Name q \<and> mis_Labels p = mis_Labels q \<and> mis_Spec p = mis_Spec q"
  by (cases p; cases q) (simp add: plainState_def)

record mip_list =
  mil_ListMeta :: json
  mil_Items :: "manifest_integrity_profile list"

record mis_list =
  msl_ListMeta :: json
  msl_Items :: "manifest_integrity_state list"

definition zero_ManifestIntegrityProfileList :: mip_list where
  "zero_ManifestIntegrityProfileList = \<lparr>mil_ListMeta = JNull, mil_Items = []\<rparr>"

definition zero_ManifestIntegrityStateList :: mis_list where
  "zero_ManifestIntegrityStateList = \<lparr>msl_ListMeta = JNull, msl_Items = []\<rparr>"

text \<open>\<open>time.Duration\<close> counts nanoseconds in 64 bits.\<close>

definition listTimeout :: "list_options \<Rightarrow> 64 word" where
  "listTimeout opts = (case lo_TimeoutSeconds opts of None \<Rightarrow> 0 | Some t \<Rightarrow> t * 1000000000)"

type_synonym ('k, 'w, 's) mip_rest = "('k, manifest_integrity_profile, mip_list, 'w, 's) rest_lib"
type_synonym ('k, 'w, 's) mis_rest = "('k, manifest_integrity_state, mis_list, 'w, 's) rest_lib"

text \<open>The result of a method: the object or list, the error and the new state.\<close>

type_synonym ('a, 's) reply = "(('a \<times> string option) \<times> 's) outcome"

section \<open>Group clients\<close>

text \<open>\<open>ApisV1Client\<close> of both resources and \<open>ApisV1alpha1Client\<close> have this one field.\<close>

record 'k apisV1Client =
  restClient :: "'k option"

record 'k manifestIntegrityProfiles =
  mips_client :: "'k option"

record 'k manifestIntegrityStates =
  miss_client :: "'k option"
  miss_ns :: string

definition RESTClient :: "'k apisV1Client option \<Rightarrow> 'k option" where
  "RESTClient c = (case c of None \<Rightarrow> None | Some c \<Rightarrow> restClient c)"

definition newManifestIntegrityProfiles :: "'k apisV1Client option \<Rightarrow> 'k manifestIntegrityProfiles" where
  "newManifestIntegrityProfiles c = \<lparr>mips_client = RESTClient c\<rparr>"

definition newManifestIntegrityStates :: "'k apisV1Client option \<Rightarrow> string \<Rightarrow> 'k manifestIntegrityStates" where
  "newManifestIntegrityStates c namespace = \<lparr>miss_client = RESTClient c, miss_ns = namespace\<rparr>"

section \<open>The client of the profiles\<close>

definition manifestIntegrityProfiles_Get ::
  "('k, 'w, 's) mip_rest \<Rightarrow> 'k manifestIntegrityProfiles \<Rightarrow> string \<Rightarrow> json \<Rightarrow> 's \<Rightarrow> (manifest_integrity_profile, 's) reply" where
  "manifestIntegrityProfiles_Get R c name options s =
     deref (mips_client c) (\<lambda>client.
        Return (Do_Into R client \<lparr>rq_Verb = GET, rq_Calls =
          [Resource ''manifestintegrityprofiles'', Name name, VersionedParams (GetOptions options)]\<rparr> zero_ManifestIntegrityProfile s))"

definition manifestIntegrityProfiles_List ::
  "('k, 'w, 's) mip_rest \<Rightarrow> 'k manifestIntegrityProfiles \<Rightarrow> list_options \<Rightarrow> 's \<Rightarrow> (mip_list, 's) reply" where
  "manifestIntegrityProfiles_List R c opts s =
     deref (mips_client c) (\<lambda>client.
        let timeout = listTimeout opts in
        Return (Do_IntoList R client \<lparr>rq_Verb = GET, rq_Calls =
          [Resource ''manifestintegrityprofiles'', VersionedParams (ListOptions opts), Timeout timeout]\<rparr> zero_ManifestIntegrityProfileList s))"

definition manifestIntegrityProfiles_Watch ::
  "('k, 'w, 's) mip_rest \<Rightarrow> 'k manifestIntegrityProfiles \<Rightarrow> list_options \<Rightarrow> 's \<Rightarrow> ('w result \<times> 's) outcome" where
  "manifestIntegrityProfiles_Watch R c opts s =
     deref (mips_client c) (\<lambda>client.
        let timeout = listTimeout opts; opts = opts\<lparr>lo_Watch := True\<rparr> in
        Return (Do_Watch R client \<lparr>rq_Verb = GET, rq_Calls =
          [Resource ''manifestintegrityprofiles'', VersionedParams (ListOptions opts), Timeout timeout]\<rparr> s))"

definition manifestIntegrityProfiles_Create ::
  "('k, 'w, 's) mip_rest \<Rightarrow> 'k manifestIntegrityProfiles \<Rightarrow> manifest_integrity_profile option \<Rightarrow> json \<Rightarrow> 's \<Rightarrow> (manifest_integrity_profile, 's) reply" where
  "manifestIntegrityProfiles_Create R c obj opts s =
     deref (mips_client c) (\<lambda>client.
        Return (Do_Into R client \<lparr>rq_Verb = POST, rq_Calls =
          [Resource ''manifestintegrityprofiles'', VersionedParams (CreateOptions opts), Body (ObjectBody obj)]\<rparr> zero_ManifestIntegrityProfile s))"

definition manifestIntegrityProfiles_Update ::
  "('k, 'w, 's) mip_rest \<Rightarrow> 'k manifestIntegrityProfiles \<Rightarrow> manifest_integrity_profile option \<Rightarrow> json \<Rightarrow> 's \<Rightarrow> (manifest_integrity_profile, 's) reply" where
  "manifestIntegrityProfiles_Update R c obj opts s =
     deref (mips_client c) (\<lambda>client. deref obj (\<lambda>x.
        Return (Do_Into R client \<lparr>rq_Verb = PUT, rq_Calls =
          [Resource ''manifestintegrityprofiles'', Name (mip_Name x), VersionedParams (UpdateOptions opts), Body (ObjectBody obj)]\<rparr> zero_ManifestIntegrityProfile s)))"

definition manifestIntegrityProfiles_UpdateStatus ::
  "('k, 'w, 's) mip_rest \<Rightarrow> 'k manifestIntegrityProfiles \<Rightarrow> manifest_integrity_profile option \<Rightarrow> json \<Rightarrow> 's \<Rightarrow> (manifest_integrity_profile, 's) reply" where
  "manifestIntegrityProfiles_UpdateStatus R c obj opts s =
     deref (mips_client c) (\<lambda>client. deref obj (\<lambda>x.
        Return (Do_Into R client \<lparr>rq_Verb = PUT, rq_Calls =
          [Resource ''manifestintegrityprofiles'', Name (mip_Name x), SubResource [''status''],
           VersionedParams (UpdateOptions opts), Body (ObjectBody obj)]\<rparr> zero_ManifestIntegrityProfile s)))"

definition manifestIntegrityProfiles_Delete ::
  "('k, 'w, 's) mip_rest \<Rightarrow> 'k manifestIntegrityProfiles \<Rightarrow> string \<Rightarrow> json \<Rightarrow> 's \<Rightarrow> (string option \<times> 's) outcome" where
  "manifestIntegrityProfiles_Delete R c name opts s =
     deref (mips_client c) (\<lambda>client.
        Return (Do_Error R client \<lparr>rq_Verb = DELETE, rq_Calls =
          [Resource ''manifestintegrityprofiles'', Name name, Body (DeleteOptions opts)]\<rparr> s))"

definition manifestIntegrityProfiles_DeleteCollection ::
  "('k, 'w, 's) mip_rest \<Rightarrow> 'k manifestIntegrityProfiles \<Rightarrow> json \<Rightarrow> list_options \<Rightarrow> 's \<Rightarrow> (string option \<times> 's) outcome" where
  "manifestIntegrityProfiles_DeleteCollection R c opts listOpts s =
     deref (mips_client c) (\<lambda>client.
        let timeout = listTimeout listOpts in
        Return (Do_Error R client \<lparr>rq_Verb = DELETE, rq_Calls =
          [Resource ''manifestintegrityprofiles'',
           VersionedParams (ListOptions listOpts), Timeout timeout, Body (DeleteOptions opts)]\<rparr> s))"

definition manifestIntegrityProfiles_Patch ::
  "('k, 'w, 's) mip_rest \<Rightarrow> 'k manifestIntegrityProfiles \<Rightarrow> string \<Rightarrow> string \<Rightarrow> bytes \<Rightarrow> json \<Rightarrow> string list \<Rightarrow> 's \<Rightarrow> (manifest_integrity_profile, 's) reply" where
  "manifestIntegrityProfiles_Patch R c name pt data opts subresources s =
     deref (mips_client c) (\<lambda>client.
        Return (Do_Into R client \<lparr>rq_Verb = PATCH pt, rq_Calls =
          [Resource ''manifestintegrityprofiles'', Name name, SubResource subresources,
           VersionedParams (PatchOptions opts), Body (PatchData data)]\<rparr> zero_ManifestIntegrityProfile s))"

section \<open>The client of the profiles in the package v1alpha1\<close>

definition v1alpha1_manifestIntegrityProfiles_Get ::
  "('k, 'w, 's) mip_rest \<Rightarrow> 'k manifestIntegrityProfiles \<Rightarrow> string \<Rightarrow> json \<Rightarrow> 's \<Rightarrow> (manifest_integrity_profile, 's) reply" where
  "v1alpha1_manifestIntegrityProfiles_Get R c name options s =
     deref (mips_client c) (\<lambda>client.
        Return (Do_Into R client \<lparr>rq_Verb = GET, rq_Calls =
          [Resource ''manifestintegrityprofiles'', Name name, VersionedParams (GetOptions options)]\<rparr> zero_ManifestIntegrityProfile s))"

definition v1alpha1_manifestIntegrityProfiles_List ::
  "('k, 'w, 's) mip_rest \<Rightarrow> 'k manifestIntegrityProfiles \<Rightarrow> list_options \<Rightarrow> 's \<Rightarrow> (mip_list, 's) reply" where
  "v1alpha1_manifestIntegrityProfiles_List R c opts s =
     deref (mips_client c) (\<lambda>client.
        let timeout = listTimeout opts in
        Return (Do_IntoList R client \<lparr>rq_Verb = GET, rq_Calls =
          [Resource ''manifestintegrityprofiles'', VersionedParams (ListOptions opts), Timeout timeout]\<rparr> zero_ManifestIntegrityProfileList s))"

definition v1alpha1_manifestIntegrityProfiles_Watch ::
  "('k, 'w, 's) mip_rest \<Rightarrow> 'k manifestIntegrityProfiles \<Rightarrow> list_options \<Rightarrow> 's \<Rightarrow> ('w result \<times> 's) outcome" where
  "v1alpha1_manifestIntegrityProfiles_Watch R c opts s =
     deref (mips_client c) (\<lambda>client.
        let timeout = listTimeout opts; opts = opts\<lparr>lo_Watch := True\<rparr> in
        Return (Do_Watch R client \<lparr>rq_Verb = GET, rq_Calls =
          [Resource ''manifestintegrityprofiles'', VersionedParams (ListOptions opts), Timeout timeout]\<rparr> s))"

definition v1alpha1_manifestIntegrityProfiles_Create ::
  "('k, 'w, 's) mip_rest \<Rightarrow> 'k manifestIntegrityProfiles \<Rightarrow> manifest_integrity_profile option \<Rightarrow> json \<Rightarrow> 's \<Rightarrow> (manifest_integrity_profile, 's) reply" where
  "v1alpha1_manifestIntegrityProfiles_Create R c obj opts s =
     deref (mips_client c) (\<lambda>client.
        Return (Do_Into R client \<lparr>rq_Verb = POST, rq_Calls =
          [Resource ''manifestintegrityprofiles'', VersionedParams (CreateOptions opts), Body (ObjectBody obj)]\<rparr> zero_ManifestIntegrityProfile s))"

definition v1alpha1_manifestIntegrityProfiles_Update ::
  "('k, 'w, 's) mip_rest \<Rightarrow> 'k manifestIntegrityProfiles \<Rightarrow> manifest_integrity_profile option \<Rightarrow> json \<Rightarrow> 's \<Rightarrow> (manifest_integrity_profile, 's) reply" where
  "v1alpha1_manifestIntegrityProfiles_Update R c obj opts s =
     deref (mips_client c) (\<lambda>client. deref obj (\<lambda>x.
        Return (Do_Into R client \<lparr>rq_Verb = PUT, rq_Calls =
          [Resource ''manifestintegrityprofiles'', Name (mip_Name x), VersionedParams (UpdateOptions opts), Body (ObjectBody obj)]\<rparr> zero_ManifestIntegrityProfile s)))"

definition v1alpha1_manifestIntegrityProfiles_UpdateStatus ::
  "('k, 'w, 's) mip_rest \<Rightarrow> 'k manifestIntegrityProfiles \<Rightarrow> manifest_integrity_profile option \<Rightarrow> json \<Rightarrow> 's \<Rightarrow> (manifest_integrity_profile, 's) reply" where
  "v1alpha1_manifestIntegrityProfiles_UpdateStatus R c obj opts s =
     deref (mips_client c) (\<lambda>client. deref obj (\<lambda>x.
        Return (Do_Into R client \<lparr>rq_Verb = PUT, rq_Calls =
          [Resource ''manifestintegrityprofiles'', Name (mip_Name x), SubResource [''status''],
           VersionedParams (UpdateOptions opts), Body (ObjectBody obj)]\<rparr> zero_ManifestIntegrityProfile s)))"

definition v1alpha1_manifestIntegrityProfiles_Delete ::
  "('k, 'w, 's) mip_rest \<Rightarrow> 'k manifestIntegrityProfiles \<Rightarrow> string \<Rightarrow> json \<Rightarrow> 's \<Rightarrow> (string option \<times> 's) outcome" where
  "v1alpha1_manifestIntegrityProfiles_Delete R c name opts s =
     deref (mips_client c) (\<lambda>client.
        Return (Do_Error R client \<lparr>rq_Verb = DELETE, rq_Calls =
          [Resource ''manifestintegrityprofiles'', Name name, Body (DeleteOptions opts)]\<rparr> s))"

definition v1alpha1_manifestIntegrityProfiles_DeleteCollection ::
  "('k, 'w, 's) mip_rest \<Rightarrow> 'k manifestIntegrityProfiles \<Rightarrow> json \<Rightarrow> list_options \<Rightarrow> 's \<Rightarrow> (string option \<times> 's) outcome" where
  "v1alpha1_manifestIntegrityProfiles_DeleteCollection R c opts listOpts s =
     deref (mips_client c) (\<lambda>client.
        let timeout = listTimeout listOpts in
        Return (Do_Error R client \<lparr>rq_Verb = DELETE, rq_Calls =
          [Resource ''manifestintegrityprofiles'',
           VersionedParams (ListOptions listOpts), Timeout timeout, Body (DeleteOptions opts)]\<rparr> s))"

definition v1alpha1_manifestIntegrityProfiles_Patch ::
  "('k, 'w, 's) mip_rest \<Rightarrow> 'k manifestIntegrityProfiles \<Rightarrow> string \<Rightarrow> string \<Rightarrow> bytes \<Rightarrow> json \<Rightarrow> string list \<Rightarrow> 's \<Rightarrow> (manifest_integrity_profile, 's) reply" where
  "v1alpha1_manifestIntegrityProfiles_Patch R c name pt data opts subresources s =
     deref (mips_client c) (\<lambda>client.
        Return (Do_Into R client \<lparr>rq_Verb = PATCH pt, rq_Calls =
          [Resource ''manifestintegrityprofiles'', Name name, SubResource subresources,
           VersionedParams (PatchOptions opts), Body (PatchData data)]\<rparr> zero_ManifestIntegrityProfile s))"

section \<open>The client of the states\<close>

definition manifestIntegrityStates_Get ::
  "('k, 'w, 's) mis_rest \<Rightarrow> 'k manifestIntegrityStates \<Rightarrow> string \<Rightarrow> json \<Rightarrow> 's \<Rightarrow> (manifest_integrity_state, 's) reply" where
  "manifestIntegrityStates_Get R c name options s =
     deref (miss_client c) (\<lambda>client.
        Return (Do_Into R client \<lparr>rq_Verb = GET, rq_Calls =
          [Namespace (miss_ns c), Resource ''manifestintegritystates'', Name name, VersionedParams (GetOptions options)]\<rparr> zero_ManifestIntegrityState s))"

definition manifestIntegrityStates_List ::
  "('k, 'w, 's) mis_rest \<Rightarrow> 'k manifestIntegrityStates \<Rightarrow> list_options \<Rightarrow> 's \<Rightarrow> (mis_list, 's) reply" where
  "manifestIntegrityStates_List R c opts s =
     deref (miss_client c) (\<lambda>client.
        let timeout = listTimeout opts in
        Return (Do_IntoList R client \<lparr>rq_Verb = GET, rq_Calls =
          [Namespace (miss_ns c), Resource ''manifestintegritystates'', VersionedParams (ListOptions opts), Timeout timeout]\<rparr> zero_ManifestIntegrityStateList s))"

definition manifestIntegrityStates_Watch ::
  "('k, 'w, 's) mis_rest \<Rightarrow> 'k manifestIntegrityStates \<Rightarrow> list_options \<Rightarrow> 's \<Rightarrow> ('w result \<times> 's) outcome" where
  "manifestIntegrityStates_Watch R c opts s =
     deref (miss_client c) (\<lambda>client.
        let timeout = listTimeout opts; opts = opts\<lparr>lo_Watch := True\<rparr> in
        Return (Do_Watch R client \<lparr>rq_Verb = GET, rq_Calls =
          [Namespace (miss_ns c), Resource ''manifestintegritystates'', VersionedParams (ListOptions opts), Timeout timeout]\<rparr> s))"

definition manifestIntegrityStates_Create ::
  "('k, 'w, 's) mis_rest \<Rightarrow> 'k manifestIntegrityStates \<Rightarrow> manifest_integrity_state option \<Rightarrow> json \<Rightarrow> 's \<Rightarrow> (manifest_integrity_state, 's) reply" where
  "manifestIntegrityStates_Create R c obj opts s =
     deref (miss_client c) (\<lambda>client.
        Return (Do_Into R client \<lparr>rq_Verb = POST, rq_Calls =
          [Namespace (miss_ns c), Resource ''manifestintegritystates'', VersionedParams (CreateOptions opts), Body (ObjectBody obj)]\<rparr> zero_ManifestIntegrityState s))"

definition manifestIntegrityStates_Update ::
  "('k, 'w, 's) mis_rest \<Rightarrow> 'k manifestIntegrityStates \<Rightarrow> manifest_integrity_state option \<Rightarrow> json \<Rightarrow> 's \<Rightarrow> (manifest_integrity_state, 's) reply" where
  "manifestIntegrityStates_Update R c obj opts s =
     deref (miss_client c) (\<lambda>client. deref obj (\<lambda>x.
        Return (Do_Into R client \<lparr>rq_Verb = PUT, rq_Calls =
          [Namespace (miss_ns c), Resource ''manifestintegritystates'', Name (mis_Name x), VersionedParams (UpdateOptions opts), Body (ObjectBody obj)]\<rparr> zero_ManifestIntegrityState s)))"

definition manifestIntegrityStates_Delete ::
  "('k, 'w, 's) mis_rest \<Rightarrow> 'k manifestIntegrityStates \<Rightarrow> string \<Rightarrow> json \<Rightarrow> 's \<Rightarrow> (string option \<times> 's) outcome" where
  "manifestIntegrityStates_Delete R c name opts s =
     deref (miss_client c) (\<lambda>client.
        Return (Do_Error R client \<lparr>rq_Verb = DELETE, rq_Calls =
          [Namespace (miss_ns c), Resource ''manifestintegritystates'', Name name, Body (DeleteOptions opts)]\<rparr> s))"

definition manifestIntegrityStates_DeleteCollection ::
  "('k, 'w, 's) mis_rest \<Rightarrow> 'k manifestIntegrityStates \<Rightarrow> json \<Rightarrow> list_options \<Rightarrow> 's \<Rightarrow> (string option \<times> 's) outcome" where
  "manifestIntegrityStates_DeleteCollection R c opts listOpts s =
     deref (miss_client c) (\<lambda>client.
        let timeout = listTimeout listOpts in
        Return (Do_Error R client \<lparr>rq_Verb = DELETE, rq_Calls =
          [Namespace (miss_ns c), Resource ''manifestintegritystates'',
           VersionedParams (ListOptions listOpts), Timeout timeout, Body (DeleteOptions opts)]\<rparr> s))"

definition manifestIntegrityStates_Patch ::
  "('k, 'w, 's) mis_rest \<Rightarrow> 'k manifestIntegrityStates \<Rightarrow> string \<Rightarrow> string \<Rightarrow> bytes \<Rightarrow> json \<Rightarrow> string list \<Rightarrow> 's \<Rightarrow> (manifest_integrity_state, 's) reply" where
  "manifestIntegrityStates_Patch R c name pt data opts subresources s =
     deref (miss_client c) (\<lambda>client.
        Return (Do_Into R client \<lparr>rq_Verb = PATCH pt, rq_Calls =
          [Namespace (miss_ns c), Resource ''manifestintegritystates'', Name name, SubResource subresources,
           VersionedParams (PatchOptions opts), Body (PatchData data)]\<rparr> zero_ManifestIntegrityState s))"

section \<open>The contract of the clients\<close>

lemmas profile_methods = manifestIntegrityProfiles_Get_def manifestIntegrityProfiles_Create_def
  manifestIntegrityProfiles_Update_def manifestIntegrityProfiles_Delete_def

lemmas v1alpha1_methods = v1alpha1_manifestIntegrityProfiles_Get_def v1alpha1_manifestIntegrityProfiles_Create_def
  v1alpha1_manifestIntegrityProfiles_Update_def v1alpha1_manifestIntegrityProfiles_Delete_def

lemmas state_methods = manifestIntegrityStates_Get_def manifestIntegrityStates_Create_def
  manifestIntegrityStates_Update_def manifestIntegrityStates_Delete_def

interpretation profile_client:
  resource_client "rest_laws R k ''manifestintegrityprofiles'' False validName profileType V" validName profileType "[]"
    zero_ManifestIntegrityProfile V
    "\<lambda>n. manifestIntegrityProfiles_Get R \<lparr>mips_client = Some k\<rparr> n getOpts"
    "\<lambda>p. manifestIntegrityProfiles_Create R \<lparr>mips_client = Some k\<rparr> p createOpts"
    "\<lambda>p. manifestIntegrityProfiles_Update R \<lparr>mips_client = Some k\<rparr> p updateOpts"
    "\<lambda>n. manifestIntegrityProfiles_Delete R \<lparr>mips_client = Some k\<rparr> n deleteOpts"
  for R :: "('k, 'w, 's) mip_rest" and k validName V getOpts createOpts updateOpts deleteOpts
  by (rule sends_resource_client [where namespaced = False]; (rule sendsI, (simp add: profile_methods)+)?) (simp_all add: inScope_def)

interpretation v1alpha1_client:
  resource_client "rest_laws R k ''manifestintegrityprofiles'' False validName profileType V" validName profileType "[]"
    zero_ManifestIntegrityProfile V
    "\<lambda>n. v1alpha1_manifestIntegrityProfiles_Get R \<lparr>mips_client = Some k\<rparr> n getOpts"
    "\<lambda>p. v1alpha1_manifestIntegrityProfiles_Create R \<lparr>mips_client = Some k\<rparr> p createOpts"
    "\<lambda>p. v1alpha1_manifestIntegrityProfiles_Update R \<lparr>mips_client = Some k\<rparr> p updateOpts"
    "\<lambda>n. v1alpha1_manifestIntegrityProfiles_Delete R \<lparr>mips_client = Some k\<rparr> n deleteOpts"
  for R :: "('k, 'w, 's) mip_rest" and k validName V getOpts createOpts updateOpts deleteOpts
  by (rule sends_resource_client [where namespaced = False]; (rule sendsI, (simp add: v1alpha1_methods)+)?) (simp_all add: inScope_def)

interpretation state_client:
  resource_client "rest_laws R k ''manifestintegritystates'' True validName stateType V \<and> ns \<noteq> []" validName stateType ns
    zero_ManifestIntegrityState V
    "\<lambda>n. manifestIntegrityStates_Get R \<lparr>miss_client = Some k, miss_ns = ns\<rparr> n getOpts"
    "\<lambda>p. manifestIntegrityStates_Create R \<lparr>miss_client = Some k, miss_ns = ns\<rparr> p createOpts"
    "\<lambda>p. manifestIntegrityStates_Update R \<lparr>miss_client = Some k, miss_ns = ns\<rparr> p updateOpts"
    "\<lambda>n. manifestIntegrityStates_Delete R \<lparr>miss_client = Some k, miss_ns = ns\<rparr> n deleteOpts"
  for R :: "('k, 'w, 's) mis_rest" and k validName V ns getOpts createOpts updateOpts deleteOpts
  by (rule sends_resource_client [where namespaced = True]; (rule sendsI, (simp add: state_methods)+)?) (simp_all add: inScope_def)

section \<open>Making a client\<close>

text \<open>The configuration of a REST client: the fields that the generated code reads or sets, and the
  others (host, credentials, transport) as they are. \<open>QPS\<close> is a \<open>float32\<close>, of which the code
  only asks whether it is positive.\<close>

record ('q, 'r) rest_config =
  cfg_GroupVersion :: "(string \<times> string) option"
  cfg_APIPath :: string
  cfg_NegotiatedSerializer :: json
  cfg_UserAgent :: string
  cfg_RateLimiter :: "'r option"
  cfg_QPS :: 'q
  cfg_Burst :: "64 word"
  cfg_Other :: json

text \<open>The functions of client-go that make clients, and the codecs of the clientset's scheme.\<close>

record ('k, 'q, 'r, 'dc) conf_lib =
  RESTClientFor :: "('q, 'r) rest_config \<Rightarrow> 'k result"
  DefaultKubernetesUserAgent :: string
  Codecs_WithoutConversion :: json
  NewTokenBucketRateLimiter :: "'q \<Rightarrow> 64 word \<Rightarrow> 'r"
  NewDiscoveryClientForConfig :: "('q, 'r) rest_config \<Rightarrow> 'dc result"
  NewDiscoveryClientForConfigOrDie :: "('q, 'r) rest_config \<Rightarrow> 'dc outcome"
  NewDiscoveryClientOf :: "'k option \<Rightarrow> 'dc"

definition mip_GroupName :: string where "mip_GroupName = ''apis.integrityshield.io''"

definition mis_GroupName :: string where "mis_GroupName = ''apis.integrityshield.io''"

definition mip_SchemeGroupVersion :: "string \<times> string" where
  "mip_SchemeGroupVersion = (mip_GroupName, ''v1'')"

definition mis_SchemeGroupVersion :: "string \<times> string" where
  "mis_SchemeGroupVersion = (mis_GroupName, ''v1'')"

text \<open>The packages of the group clients differ in the group version that they take from their
  types; \<^verbatim>\<open>v1alpha1\<close> takes that of the types of \<^verbatim>\<open>v1\<close>. The error is always nil.\<close>

definition setConfigDefaults ::
  "('k, 'q, 'r, 'dc) conf_lib \<Rightarrow> string \<times> string \<Rightarrow> ('q, 'r) rest_config \<Rightarrow> ('q, 'r) rest_config \<times> string option" where
  "setConfigDefaults F gv config =
     (let config = config\<lparr>cfg_GroupVersion := Some gv, cfg_APIPath := ''/apis'',
                          cfg_NegotiatedSerializer := Codecs_WithoutConversion F\<rparr>;
          config = (if cfg_UserAgent config = [] then config\<lparr>cfg_UserAgent := DefaultKubernetesUserAgent F\<rparr> else config)
      in (config, None))"

definition groupClientForConfig ::
  "('k, 'q, 'r, 'dc) conf_lib \<Rightarrow> string \<times> string \<Rightarrow> ('q, 'r) rest_config \<Rightarrow> 'k apisV1Client result" where
  "groupClientForConfig F gv c =
     (let (config, err) = setConfigDefaults F gv c
      in case err of Some e \<Rightarrow> Inl e
         | None \<Rightarrow> (case RESTClientFor F config of Inl e \<Rightarrow> Inl e | Inr client \<Rightarrow> Inr \<lparr>restClient = Some client\<rparr>))"

definition groupClientForConfigOrDie ::
  "('k, 'q, 'r, 'dc) conf_lib \<Rightarrow> string \<times> string \<Rightarrow> ('q, 'r) rest_config \<Rightarrow> 'k apisV1Client outcome" where
  "groupClientForConfigOrDie F gv c = (case groupClientForConfig F gv c of Inl e \<Rightarrow> Panic e | Inr client \<Rightarrow> Return client)"

definition mip_NewForConfig where "mip_NewForConfig F = groupClientForConfig F mip_SchemeGroupVersion"

definition mip_NewForConfigOrDie where "mip_NewForConfigOrDie F = groupClientForConfigOrDie F mip_SchemeGroupVersion"

definition v1alpha1_NewForConfig where "v1alpha1_NewForConfig F = groupClientForConfig F mip_SchemeGroupVersion"

definition v1alpha1_NewForConfigOrDie where "v1alpha1_NewForConfigOrDie F = groupClientForConfigOrDie F mip_SchemeGroupVersion"

definition mis_NewForConfig where "mis_NewForConfig F = groupClientForConfig F mis_SchemeGroupVersion"

definition mis_NewForConfigOrDie where "mis_NewForConfigOrDie F = groupClientForConfigOrDie F mis_SchemeGroupVersion"

definition apisV1_New :: "'k option \<Rightarrow> 'k apisV1Client" where
  "apisV1_New c = \<lparr>restClient = c\<rparr>"

section \<open>Clientsets\<close>

record ('k, 'dc) clientset =
  cs_DiscoveryClient :: "'dc option"
  cs_apisV1 :: "'k apisV1Client option"

definition Clientset_Discovery :: "('k, 'dc) clientset option \<Rightarrow> 'dc option" where
  "Clientset_Discovery c = (case c of None \<Rightarrow> None | Some c \<Rightarrow> cs_DiscoveryClient c)"

definition Clientset_ApisV1 :: "('k, 'dc) clientset option \<Rightarrow> 'k apisV1Client option outcome" where
  "Clientset_ApisV1 c = deref c (\<lambda>c. Return (cs_apisV1 c))"

definition burstError :: string where
  "burstError = ''burst is required to be greater than 0 when RateLimiter is not set and QPS is set to greater than 0''"

text \<open>The clientsets of the profiles and of the states, which differ in the group client.\<close>

definition clientsetForConfig ::
  "('k, 'q :: {zero, ord}, 'r, 'dc) conf_lib \<Rightarrow> (('q, 'r) rest_config \<Rightarrow> 'k apisV1Client result) \<Rightarrow>
   ('q, 'r) rest_config \<Rightarrow> ('k, 'dc) clientset result" where
  "clientsetForConfig F newGroup c =
     (let connect = (\<lambda>configShallowCopy.
            case newGroup configShallowCopy of Inl e \<Rightarrow> Inl e
            | Inr apisV1 \<Rightarrow>
                (case NewDiscoveryClientForConfig F configShallowCopy of Inl e \<Rightarrow> Inl e
                 | Inr discovery \<Rightarrow> Inr \<lparr>cs_DiscoveryClient = Some discovery, cs_apisV1 = Some apisV1\<rparr>))
      in if cfg_RateLimiter c = None \<and> cfg_QPS c > 0
         then if sint (cfg_Burst c) \<le> 0 then Inl burstError
              else connect (c\<lparr>cfg_RateLimiter := Some (NewTokenBucketRateLimiter F (cfg_QPS c) (cfg_Burst c))\<rparr>)
         else connect c)"

definition clientsetForConfigOrDie ::
  "('k, 'q, 'r, 'dc) conf_lib \<Rightarrow> (('q, 'r) rest_config \<Rightarrow> 'k apisV1Client outcome) \<Rightarrow>
   ('q, 'r) rest_config \<Rightarrow> ('k, 'dc) clientset outcome" where
  "clientsetForConfigOrDie F newGroup c =
     outcome_bind (newGroup c) (\<lambda>apisV1.
       outcome_bind (NewDiscoveryClientForConfigOrDie F c) (\<lambda>discovery.
         Return \<lparr>cs_DiscoveryClient = Some discovery, cs_apisV1 = Some apisV1\<rparr>))"

definition Clientset_New :: "('k, 'q, 'r, 'dc) conf_lib \<Rightarrow> 'k option \<Rightarrow> ('k, 'dc) clientset" where
  "Clientset_New F c = \<lparr>cs_DiscoveryClient = Some (NewDiscoveryClientOf F c), cs_apisV1 = Some (apisV1_New c)\<rparr>"

definition mip_Clientset_NewForConfig where
  "mip_Clientset_NewForConfig F = clientsetForConfig F (mip_NewForConfig F)"

definition mip_Clientset_NewForConfigOrDie where
  "mip_Clientset_NewForConfigOrDie F = clientsetForConfigOrDie F (mip_NewForConfigOrDie F)"

definition mis_Clientset_NewForConfig where
  "mis_Clientset_NewForConfig F = clientsetForConfig F (mis_NewForConfig F)"

definition mis_Clientset_NewForConfigOrDie where
  "mis_Clientset_NewForConfigOrDie F = clientsetForConfigOrDie F (mis_NewForConfigOrDie F)"

lemma setConfigDefaults_result:
  "snd (setConfigDefaults F gv c) = None" "cfg_GroupVersion (fst (setConfigDefaults F gv c)) = Some gv"
  "cfg_APIPath (fst (setConfigDefaults F gv c)) = ''/apis''"
  "cfg_RateLimiter (fst (setConfigDefaults F gv c)) = cfg_RateLimiter c"
  by (simp_all add: setConfigDefaults_def Let_def)

lemma groupClientForConfig_eq:
  "groupClientForConfig F gv c =
     map_sum id (\<lambda>k. \<lparr>restClient = Some k\<rparr>) (RESTClientFor F (fst (setConfigDefaults F gv c)))"
  using setConfigDefaults_result(1) [of F gv c]
  by (cases "setConfigDefaults F gv c") (auto simp: groupClientForConfig_def split: sum.split)

section \<open>The clients under the admission controller and the observer\<close>

text \<open>\<open>constraint.go\<close> and \<open>observer.go\<close> make a group client from the kube config for every use and
  call its typed client with empty options. What they see of a reply is the object or the
  error; a client that was made successfully is not nil and does not panic.\<close>

definition answer :: "('a, 's) reply \<Rightarrow> 'a result" where
  "answer r = (case r of Panic m \<Rightarrow> Inl m | Return ((x, err), s) \<Rightarrow> (case err of Some e \<Rightarrow> Inl e | None \<Rightarrow> Inr x))"

definition written :: "('a, 's) reply \<Rightarrow> 's result" where
  "written r = (case r of Panic m \<Rightarrow> Inl m | Return ((x, err), s) \<Rightarrow> (case err of Some e \<Rightarrow> Inl e | None \<Rightarrow> Inr s))"

lemma answer_simps [simp]:
  "answer (Return ((x, None), s)) = Inr x" "answer (Return ((x, Some e), s)) = Inl e" "answer (Panic m) = Inl m"
  by (simp_all add: answer_def)

lemma written_simps [simp]:
  "written (Return ((x, None), s)) = Inr s" "written (Return ((x, Some e), s)) = Inl e" "written (Panic m) = Inl m"
  by (simp_all add: written_def)

definition no_list_options :: list_options where
  "no_list_options = \<lparr>lo_TimeoutSeconds = None, lo_Watch = False, lo_Other = JNull\<rparr>"

text \<open>The parameters of the admission controller with its client of the profiles in place.\<close>

definition with_profile_client ::
  "('k, 'w, 's) mip_rest \<Rightarrow> 'k apisV1Client result \<Rightarrow> ('n, 'd, 's, 'x) ac_lib_scheme \<Rightarrow> ('n, 'd, 's, 'x) ac_lib_scheme" where
  "with_profile_client R made L =
     L\<lparr>MIP_NewForConfig := \<lambda>w. map_sum id (\<lambda>c. ()) made,
       MIP_List := \<lambda>s. case made of Inl e \<Rightarrow> Inl e
         | Inr c \<Rightarrow> map_sum id mil_Items (answer (manifestIntegrityProfiles_List R (newManifestIntegrityProfiles (Some c)) no_list_options s)),
       MIP_Get := \<lambda>s n. case made of Inl e \<Rightarrow> Inl e
         | Inr c \<Rightarrow> answer (manifestIntegrityProfiles_Get R (newManifestIntegrityProfiles (Some c)) n JNull s),
       MIP_Update := \<lambda>s p. case made of Inl e \<Rightarrow> Inl e
         | Inr c \<Rightarrow> written (manifestIntegrityProfiles_Update R (newManifestIntegrityProfiles (Some c)) (Some p) JNull s)\<rparr>"

text \<open>The parameters of the observer with its client of the states in place. The typed client
  always returns an object, never a nil pointer.\<close>

definition with_state_client ::
  "('k, 'w, 's) mis_rest \<Rightarrow> 'k apisV1Client result \<Rightarrow> ('n, 'd, 's, 'x) obs_lib_scheme \<Rightarrow> ('n, 'd, 's, 'x) obs_lib_scheme" where
  "with_state_client R made L =
     L\<lparr>MIS_NewForConfig := \<lambda>w. map_sum id (\<lambda>c. ()) made,
       MIS_Get := \<lambda>s ns n. case made of Inl e \<Rightarrow> Inl e
         | Inr c \<Rightarrow> map_sum id Some (answer (manifestIntegrityStates_Get R (newManifestIntegrityStates (Some c) ns) n JNull s)),
       MIS_Create := \<lambda>s ns x. case made of Inl e \<Rightarrow> Inl e
         | Inr c \<Rightarrow> written (manifestIntegrityStates_Create R (newManifestIntegrityStates (Some c) ns) (Some x) JNull s),
       MIS_Update := \<lambda>s ns x. case made of Inl e \<Rightarrow> Inl e
         | Inr c \<Rightarrow> written (manifestIntegrityStates_Update R (newManifestIntegrityStates (Some c) ns) (Some x) JNull s)\<rparr>"

section \<open>The requests of the clients\<close>

text \<open>A server that only writes down what it is sent makes the requests of a client visible: since the
  methods are given the server as a parameter, what they send does not depend on it.\<close>

definition logging :: "(unit, 'o, 'l, unit, 'o rest_request list) rest_lib" where
  "logging = \<lparr>Do_Into = \<lambda>k rq z s. ((z, None), s @ [rq]), Do_IntoList = \<lambda>k rq z s. ((z, None), s @ [rq]),
     Do_Error = \<lambda>k rq s. (None, s @ [rq]), Do_Watch = \<lambda>k rq s. (Inr (), s @ [rq])\<rparr>"

definition sent :: "('a \<times> 'o rest_request list) outcome \<Rightarrow> 'o rest_request list" where
  "sent r = (case r of Return (_, rqs) \<Rightarrow> rqs | Panic _ \<Rightarrow> [])"

datatype 'o client_call =
    CallGet string json
  | CallList list_options
  | CallWatch list_options
  | CallCreate "'o option" json
  | CallUpdate "'o option" json
  | CallUpdateStatus "'o option" json
  | CallDelete string json
  | CallDeleteCollection json list_options
  | CallPatch string string bytes json "string list"

fun profileRequests :: "manifest_integrity_profile client_call \<Rightarrow> manifest_integrity_profile rest_request list" where
  "profileRequests (CallGet n opts) = sent (manifestIntegrityProfiles_Get logging \<lparr>mips_client = Some ()\<rparr> n opts [])"
| "profileRequests (CallList l) = sent (manifestIntegrityProfiles_List logging \<lparr>mips_client = Some ()\<rparr> l [])"
| "profileRequests (CallWatch l) = sent (manifestIntegrityProfiles_Watch logging \<lparr>mips_client = Some ()\<rparr> l [])"
| "profileRequests (CallCreate x opts) = sent (manifestIntegrityProfiles_Create logging \<lparr>mips_client = Some ()\<rparr> x opts [])"
| "profileRequests (CallUpdate x opts) = sent (manifestIntegrityProfiles_Update logging \<lparr>mips_client = Some ()\<rparr> x opts [])"
| "profileRequests (CallUpdateStatus x opts) = sent (manifestIntegrityProfiles_UpdateStatus logging \<lparr>mips_client = Some ()\<rparr> x opts [])"
| "profileRequests (CallDelete n opts) = sent (manifestIntegrityProfiles_Delete logging \<lparr>mips_client = Some ()\<rparr> n opts [])"
| "profileRequests (CallDeleteCollection opts l) = sent (manifestIntegrityProfiles_DeleteCollection logging \<lparr>mips_client = Some ()\<rparr> opts l [])"
| "profileRequests (CallPatch n pt d opts subs) = sent (manifestIntegrityProfiles_Patch logging \<lparr>mips_client = Some ()\<rparr> n pt d opts subs [])"

fun v1alpha1Requests :: "manifest_integrity_profile client_call \<Rightarrow> manifest_integrity_profile rest_request list" where
  "v1alpha1Requests (CallGet n opts) = sent (v1alpha1_manifestIntegrityProfiles_Get logging \<lparr>mips_client = Some ()\<rparr> n opts [])"
| "v1alpha1Requests (CallList l) = sent (v1alpha1_manifestIntegrityProfiles_List logging \<lparr>mips_client = Some ()\<rparr> l [])"
| "v1alpha1Requests (CallWatch l) = sent (v1alpha1_manifestIntegrityProfiles_Watch logging \<lparr>mips_client = Some ()\<rparr> l [])"
| "v1alpha1Requests (CallCreate x opts) = sent (v1alpha1_manifestIntegrityProfiles_Create logging \<lparr>mips_client = Some ()\<rparr> x opts [])"
| "v1alpha1Requests (CallUpdate x opts) = sent (v1alpha1_manifestIntegrityProfiles_Update logging \<lparr>mips_client = Some ()\<rparr> x opts [])"
| "v1alpha1Requests (CallUpdateStatus x opts) = sent (v1alpha1_manifestIntegrityProfiles_UpdateStatus logging \<lparr>mips_client = Some ()\<rparr> x opts [])"
| "v1alpha1Requests (CallDelete n opts) = sent (v1alpha1_manifestIntegrityProfiles_Delete logging \<lparr>mips_client = Some ()\<rparr> n opts [])"
| "v1alpha1Requests (CallDeleteCollection opts l) = sent (v1alpha1_manifestIntegrityProfiles_DeleteCollection logging \<lparr>mips_client = Some ()\<rparr> opts l [])"
| "v1alpha1Requests (CallPatch n pt d opts subs) = sent (v1alpha1_manifestIntegrityProfiles_Patch logging \<lparr>mips_client = Some ()\<rparr> n pt d opts subs [])"

text \<open>The client of the states has no method for a status.\<close>

fun stateRequests :: "string \<Rightarrow> manifest_integrity_state client_call \<Rightarrow> manifest_integrity_state rest_request list" where
  "stateRequests ns (CallGet n opts) = sent (manifestIntegrityStates_Get logging \<lparr>miss_client = Some (), miss_ns = ns\<rparr> n opts [])"
| "stateRequests ns (CallList l) = sent (manifestIntegrityStates_List logging \<lparr>miss_client = Some (), miss_ns = ns\<rparr> l [])"
| "stateRequests ns (CallWatch l) = sent (manifestIntegrityStates_Watch logging \<lparr>miss_client = Some (), miss_ns = ns\<rparr> l [])"
| "stateRequests ns (CallCreate x opts) = sent (manifestIntegrityStates_Create logging \<lparr>miss_client = Some (), miss_ns = ns\<rparr> x opts [])"
| "stateRequests ns (CallUpdate x opts) = sent (manifestIntegrityStates_Update logging \<lparr>miss_client = Some (), miss_ns = ns\<rparr> x opts [])"
| "stateRequests ns (CallUpdateStatus x opts) = []"
| "stateRequests ns (CallDelete n opts) = sent (manifestIntegrityStates_Delete logging \<lparr>miss_client = Some (), miss_ns = ns\<rparr> n opts [])"
| "stateRequests ns (CallDeleteCollection opts l) = sent (manifestIntegrityStates_DeleteCollection logging \<lparr>miss_client = Some (), miss_ns = ns\<rparr> opts l [])"
| "stateRequests ns (CallPatch n pt d opts subs) = sent (manifestIntegrityStates_Patch logging \<lparr>miss_client = Some (), miss_ns = ns\<rparr> n pt d opts subs [])"

definition wellTargeted :: "'o client_call \<Rightarrow> bool" where
  "wellTargeted c \<longleftrightarrow> (case c of CallUpdate None _ \<Rightarrow> False | CallUpdateStatus None _ \<Rightarrow> False | _ \<Rightarrow> True)"

text \<open>What a call is expected to ask for, by the conventions of the API.\<close>

fun callVerb :: "'o client_call \<Rightarrow> rest_verb" where
  "callVerb (CallGet n opts) = GET"
| "callVerb (CallList l) = GET"
| "callVerb (CallWatch l) = GET"
| "callVerb (CallCreate x opts) = POST"
| "callVerb (CallUpdate x opts) = PUT"
| "callVerb (CallUpdateStatus x opts) = PUT"
| "callVerb (CallDelete n opts) = DELETE"
| "callVerb (CallDeleteCollection opts l) = DELETE"
| "callVerb (CallPatch n pt d opts subs) = PATCH pt"

fun callName :: "('o \<Rightarrow> string) \<Rightarrow> 'o client_call \<Rightarrow> string option" where
  "callName nm (CallGet n opts) = Some n"
| "callName nm (CallUpdate x opts) = map_option nm x"
| "callName nm (CallUpdateStatus x opts) = map_option nm x"
| "callName nm (CallDelete n opts) = Some n"
| "callName nm (CallPatch n pt d opts subs) = Some n"
| "callName nm c = None"

fun callSubresource :: "'o client_call \<Rightarrow> string list" where
  "callSubresource (CallUpdateStatus x opts) = [''status'']"
| "callSubresource (CallPatch n pt d opts subs) = subs"
| "callSubresource c = []"

fun callBody :: "'o client_call \<Rightarrow> 'o option" where
  "callBody (CallCreate x opts) = x"
| "callBody (CallUpdate x opts) = x"
| "callBody (CallUpdateStatus x opts) = x"
| "callBody c = None"

definition asksFor :: "('o \<Rightarrow> string) \<Rightarrow> string \<Rightarrow> string \<Rightarrow> 'o client_call \<Rightarrow> 'o rest_request \<Rightarrow> bool" where
  "asksFor nm res ns c rq \<longleftrightarrow> rq_Verb rq = callVerb c \<and> resourceOf (rq_Calls rq) = res \<and> rq_Namespace rq = ns \<and>
     nameOf (rq_Calls rq) = callName nm c \<and> subresourceOf (rq_Calls rq) = callSubresource c \<and> bodyOf (rq_Calls rq) = callBody c"

lemmas profile_call_defs = manifestIntegrityProfiles_Get_def manifestIntegrityProfiles_List_def manifestIntegrityProfiles_Watch_def
  manifestIntegrityProfiles_Create_def manifestIntegrityProfiles_Update_def manifestIntegrityProfiles_UpdateStatus_def
  manifestIntegrityProfiles_Delete_def manifestIntegrityProfiles_DeleteCollection_def manifestIntegrityProfiles_Patch_def

lemmas v1alpha1_call_defs = v1alpha1_manifestIntegrityProfiles_Get_def v1alpha1_manifestIntegrityProfiles_List_def
  v1alpha1_manifestIntegrityProfiles_Watch_def v1alpha1_manifestIntegrityProfiles_Create_def
  v1alpha1_manifestIntegrityProfiles_Update_def v1alpha1_manifestIntegrityProfiles_UpdateStatus_def
  v1alpha1_manifestIntegrityProfiles_Delete_def v1alpha1_manifestIntegrityProfiles_DeleteCollection_def
  v1alpha1_manifestIntegrityProfiles_Patch_def

lemmas state_call_defs = manifestIntegrityStates_Get_def manifestIntegrityStates_List_def manifestIntegrityStates_Watch_def
  manifestIntegrityStates_Create_def manifestIntegrityStates_Update_def manifestIntegrityStates_Delete_def
  manifestIntegrityStates_DeleteCollection_def manifestIntegrityStates_Patch_def

lemmas log_defs = sent_def logging_def asksFor_def wellTargeted_def

lemma profile_requests:
  assumes "wellTargeted c"
  shows "\<exists>rq. profileRequests c = [rq] \<and> asksFor mip_Name ''manifestintegrityprofiles'' [] c rq"
  using assms by (cases c) (auto simp: profile_call_defs log_defs split: option.splits)

lemma v1alpha1_requests:
  assumes "wellTargeted c"
  shows "\<exists>rq. v1alpha1Requests c = [rq] \<and> asksFor mip_Name ''manifestintegrityprofiles'' [] c rq"
  using assms by (cases c) (auto simp: v1alpha1_call_defs log_defs split: option.splits)

lemma state_requests:
  assumes "wellTargeted c" and "\<forall>x opts. c \<noteq> CallUpdateStatus x opts"
  shows "\<exists>rq. stateRequests ns c = [rq] \<and> asksFor mis_Name ''manifestintegritystates'' ns c rq"
  using assms by (cases c) (auto simp: state_call_defs log_defs split: option.splits)

section \<open>Stated properties\<close>

text \<open>C18: Programs that create, update and delete states through the generated client act on the API server as
  on a map from names to objects with optimistic locking. After any sequence of these calls,
  whichever of them fail, the stored objects are those of the map after the same writes: a creation
  adds an object with a valid, free name and no version, an update replaces an object of the
  version that it carries, a deletion removes one, and every other call leaves the map as it is.
  What is stored is the object that was sent but for its resource version. Objects of other
  namespaces are untouched, a \<open>Get\<close> returns the entry of the map or an error with an empty object, and
  no call panics. The other methods of the client are not covered.\<close>

theorem state_client_refines_map:
  assumes "rest_laws R k ''manifestintegritystates'' True validName stateType V" and "ns \<noteq> []"
  shows "\<exists>s'. runWrites (\<lambda>x. manifestIntegrityStates_Create R (newManifestIntegrityStates (Some (apisV1_New (Some k))) ns) x createOpts)
         (\<lambda>x. manifestIntegrityStates_Update R (newManifestIntegrityStates (Some (apisV1_New (Some k))) ns) x updateOpts)
         (\<lambda>n. manifestIntegrityStates_Delete R (newManifestIntegrityStates (Some (apisV1_New (Some k))) ns) n deleteOpts) ws s = Return s' \<and>
       writtenAll validName stateType ns (V s) ws (V s') \<and>
       (\<forall>ns2 n. ns2 \<noteq> ns \<longrightarrow> V s' (ns2, n) = V s (ns2, n)) \<and>
       (\<forall>n. \<exists>e. manifestIntegrityStates_Get R (newManifestIntegrityStates (Some (apisV1_New (Some k))) ns) n getOpts s' =
          Return (case V s' (ns, n) of Some x \<Rightarrow> ((x, None), s') | None \<Rightarrow> ((zero_ManifestIntegrityState, Some e), s')))"
proof -
  have c: "newManifestIntegrityStates (Some (apisV1_New (Some k))) ns = \<lparr>miss_client = Some k, miss_ns = ns\<rparr>"
    by (simp add: newManifestIntegrityStates_def RESTClient_def apisV1_New_def)
  from state_client.writes_refine [OF conjI [OF assms], of createOpts updateOpts deleteOpts ws s]
    state_client.get_reads [OF conjI [OF assms]] writtenAll_frame show ?thesis unfolding c by metis
qed

theorem state_client_refines_map_witness:
  "\<exists>s'. runWrites (\<lambda>x. manifestIntegrityStates_Create (sample_server True stateType (\<lambda>l. \<lparr>msl_ListMeta = JNull, msl_Items = l\<rparr>))
         (newManifestIntegrityStates (Some (apisV1_New (Some ()))) ''ns'') x JNull)
       (\<lambda>x. manifestIntegrityStates_Update (sample_server True stateType (\<lambda>l. \<lparr>msl_ListMeta = JNull, msl_Items = l\<rparr>))
         (newManifestIntegrityStates (Some (apisV1_New (Some ()))) ''ns'') x JNull)
       (\<lambda>n. manifestIntegrityStates_Delete (sample_server True stateType (\<lambda>l. \<lparr>msl_ListMeta = JNull, msl_Items = l\<rparr>))
         (newManifestIntegrityStates (Some (apisV1_New (Some ()))) ''ns'') n JNull)
       [CreateOf (zero_ManifestIntegrityState\<lparr>mis_Name := ''c1''\<rparr>), DeleteOf ''c2''] [] = Return s' \<and>
     (\<exists>x. stored True mis_Name s' (''ns'', ''c1'') = Some x \<and> mis_Spec x = mis_Spec zero_ManifestIntegrityState)"
proof -
  let ?R = "sample_server True stateType (\<lambda>l. \<lparr>msl_ListMeta = JNull, msl_Items = l\<rparr>) :: (unit, unit, manifest_integrity_state sample_store) mis_rest"
  let ?x = "zero_ManifestIntegrityState\<lparr>mis_Name := ''c1''\<rparr>"
  have "rest_laws ?R () ''manifestintegritystates'' True (\<lambda>n. n \<noteq> []) stateType (stored True mis_Name)"
    using sample_server_laws [of True stateType] by simp
  from state_client_refines_map [OF this, where ns = "''ns''" and createOpts = JNull and updateOpts = JNull and deleteOpts = JNull and
      getOpts = JNull and ws = "[CreateOf ?x, DeleteOf ''c2'']" and s = "[]"]
  obtain s' where run: "runWrites (\<lambda>x. manifestIntegrityStates_Create ?R (newManifestIntegrityStates (Some (apisV1_New (Some ()))) ''ns'') x JNull)
       (\<lambda>x. manifestIntegrityStates_Update ?R (newManifestIntegrityStates (Some (apisV1_New (Some ()))) ''ns'') x JNull)
       (\<lambda>n. manifestIntegrityStates_Delete ?R (newManifestIntegrityStates (Some (apisV1_New (Some ()))) ''ns'') n JNull)
       [CreateOf ?x, DeleteOf ''c2''] [] = Return s'"
    and s': "writtenAll (\<lambda>n. n \<noteq> []) stateType ''ns'' (stored True mis_Name []) [CreateOf ?x, DeleteOf ''c2''] (stored True mis_Name s')" by blast
  have empty: "stored True mis_Name [] = Map.empty" by (simp add: stored_def fun_eq_iff)
  have zero: "mis_ResourceVersion zero_ManifestIntegrityState = []" by (simp add: zero_ManifestIntegrityState_def)
  from s' [unfolded empty] zero have "\<exists>x. stored True mis_Name s' (''ns'', ''c1'') = Some x \<and> mis_Spec x = mis_Spec zero_ManifestIntegrityState"
    by (auto elim!: writtenAll_ConsE writtenAll_NilE)
  with run show ?thesis by blast
qed

end
