(* ===== verification/Recording.thy ===== *)
theory Recording
  imports RestClient AdmissionController
begin

text \<open>
  The admission controller and the observer over their generated clients and an API server that
  keeps the objects: the webhook decides on the stored profiles, every denial is recorded in the
  profile that denied, and an exported result is stored as a state.
\<close>

section \<open>The cluster of the profiles\<close>

text \<open>The client was made from the kube config, the API server answers it as documented, profiles
  are cluster-scoped, and events are not profiles.\<close>

definition profile_cluster ::
  "('k, 'w, 's) mip_rest \<Rightarrow> 'k apisV1Client result \<Rightarrow> (string \<Rightarrow> bool) \<Rightarrow> ('s, manifest_integrity_profile) objects \<Rightarrow>
   ('n, 'd, 's, 'x) ac_lib_scheme \<Rightarrow> bool" where
  "profile_cluster R made validName V L \<longleftrightarrow>
     (\<exists>k. made = Inr \<lparr>restClient = Some k\<rparr> \<and> rest_laws R k ''manifestintegrityprofiles'' False validName profileType V \<and>
        served_lists R k ''manifestintegrityprofiles'' False mil_Items V) \<and>
     (\<forall>v. GetKubeConfig L v = Inr ()) \<and>
     (\<forall>s ns e s'. Events_Create L s ns e = Inr s' \<or> Events_Update L s ns e = Inr s' \<longrightarrow> V s' = V s)"

lemma profile_calls:
  assumes "profile_cluster R made validName V L"
  defines "M \<equiv> with_profile_client R made L"
  shows "MIP_NewForConfig M v = Inr ()"
    and "V s ([], n) = Some p \<Longrightarrow> MIP_Get M s n = Inr p"
    and "V s ([], n) = None \<Longrightarrow> \<exists>e. MIP_Get M s n = Inl e"
    and "V s ([], n) = Some q \<Longrightarrow> mip_Name p = mip_Name q \<Longrightarrow> mip_ResourceVersion p = mip_ResourceVersion q \<Longrightarrow>
      \<exists>s' y. MIP_Update M s p = Inr s' \<and> plainProfile y = plainProfile p \<and> V s' = (V s)(([], n) \<mapsto> y)"
    and "V s ([], n) = Some p \<Longrightarrow> mip_Name p = n"
    and "\<exists>cs. MIP_List M s = Inr cs \<and> distinct (map mip_Name cs) \<and> (\<forall>c. c \<in> set cs \<longleftrightarrow> V s ([], mip_Name c) = Some c)"
proof -
  from assms(1) obtain k where made: "made = Inr \<lparr>restClient = Some k\<rparr>"
    and laws: "rest_laws R k ''manifestintegrityprofiles'' False validName profileType V"
    and lists: "served_lists R k ''manifestintegrityprofiles'' False mil_Items V"
    unfolding profile_cluster_def by blast
  have scope: "ns = []" if "V s (ns, n) = Some x" for s ns n x
    using rest_name [OF laws that] by (simp add: inScope_def)
  have c: "newManifestIntegrityProfiles (Some \<lparr>restClient = Some k\<rparr>) = \<lparr>mips_client = Some k\<rparr>"
    by (simp add: newManifestIntegrityProfiles_def RESTClient_def)
  show "MIP_NewForConfig M v = Inr ()" by (simp add: M_def with_profile_client_def made)
  show "MIP_Get M s n = Inr p" if "V s ([], n) = Some p"
    using profile_client.get_found [OF laws that] by (simp add: M_def with_profile_client_def made c)
  show "\<exists>e. MIP_Get M s n = Inl e" if "V s ([], n) = None"
    using profile_client.get_missing [OF laws that, of JNull] by (auto simp: M_def with_profile_client_def made c)
  show "\<exists>s' y. MIP_Update M s p = Inr s' \<and> plainProfile y = plainProfile p \<and> V s' = (V s)(([], n) \<mapsto> y)"
    if "V s ([], n) = Some q" and "mip_Name p = mip_Name q" and "mip_ResourceVersion p = mip_ResourceVersion q"
    using profile_client.amend_spec [OF laws that(1), of p JNull] that by (auto simp: M_def with_profile_client_def made c)
  show name: "mip_Name p = n" if "V s ([], n) = Some p" for s n p
    using profile_client.stored_name [OF laws that] by simp
  let ?rq = "\<lparr>rq_Verb = GET, rq_Calls = [Resource ''manifestintegrityprofiles'', VersionedParams (ListOptions no_list_options),
     Timeout (listTimeout no_list_options)]\<rparr> :: manifest_integrity_profile rest_request"
  have "addresses ''manifestintegrityprofiles'' GET None ?rq" "rq_Namespace ?rq = []" "VersionedParams (ListOptions no_list_options) \<in> set (rq_Calls ?rq)"
    "\<not> lo_Watch no_list_options" "lo_Other no_list_options = JNull"
    by (simp_all add: addresses_def no_list_options_def)
  with lists obtain l where l: "Do_IntoList R k ?rq zero_ManifestIntegrityProfileList s = ((l, None), s)" "distinct (mil_Items l)"
      and "set (mil_Items l) = {x. \<exists>ns n. V s (ns, n) = Some x \<and> (rq_Namespace ?rq = [] \<or> ns = rq_Namespace ?rq)}"
    unfolding served_lists_def by blast
  then have items: "c \<in> set (mil_Items l) \<longleftrightarrow> V s ([], mip_Name c) = Some c" for c
    using scope name by (auto, metis)
  then have "distinct (map mip_Name (mil_Items l))"
    using l(2) by (auto simp: distinct_map inj_on_def)
  moreover have "MIP_List M s = Inr (mil_Items l)"
    using l(1) by (simp add: M_def with_profile_client_def made c manifestIntegrityProfiles_List_def)
  ultimately show "\<exists>cs. MIP_List M s = Inr cs \<and> distinct (map mip_Name cs) \<and> (\<forall>c. c \<in> set cs \<longleftrightarrow> V s ([], mip_Name c) = Some c)"
    using items by blast
qed

section \<open>Recording denials\<close>

lemma plain_UpdateStatus: "plainProfile (UpdateStatus L now req m p) = UpdateStatus L now req m (plainProfile p)"
  by (simp add: plainProfile_def UpdateStatus_def Let_def)

lemma updateConstraintStatus_stored:
  assumes "profile_cluster R made validName V L"
  defines "M \<equiv> with_profile_client R made L"
  shows "map_option plainProfile (V (w_cluster (snd (updateConstraintStatus M now c req m w))) ([], n)) =
     (if n = c then map_option (UpdateStatus M now req m) else id) (map_option plainProfile (V (w_cluster w) ([], n)))"
proof -
  note calls = profile_calls [OF assms(1), folded M_def]
  have kube: "GetKubeConfig M v = Inr ()" for v
    using assms(1) by (simp add: M_def with_profile_client_def profile_cluster_def)
  show ?thesis
  proof (cases "V (w_cluster w) ([], c)")
    case None
    with calls(3) obtain e where "MIP_Get M (w_cluster w) c = Inl e" by blast
    with None show ?thesis by (simp add: updateConstraintStatus_def kube calls(1))
  next
    case (Some p)
    from calls(4) [OF Some, of "UpdateStatus M now req m p"] obtain s' y
      where "MIP_Update M (w_cluster w) (UpdateStatus M now req m p) = Inr s'"
        and "plainProfile y = plainProfile (UpdateStatus M now req m p)" and "V s' = (V (w_cluster w))(([], c) \<mapsto> y)" by auto
    with Some calls(2) [OF Some] show ?thesis
      by (simp add: updateConstraintStatus_def kube calls(1) plain_UpdateStatus del: plainProfile_eq)
  qed
qed

text \<open>What the recorded results of a profile make of it.\<close>

fun recorded where
  "recorded L clock detect req n [] p = p"
| "recorded L clock detect req n (res # results) p =
     recorded L (\<lambda>i. clock (Suc i)) detect req n results
       (if \<not> res_Allow res \<and> res_Profile res = n then UpdateStatus L (clock 0) req (statusMessage detect res) p else p)"

lemma updateConstraints_stored:
  assumes "profile_cluster R made validName V L"
  defines "M \<equiv> with_profile_client R made L"
  shows "map_option plainProfile (V (w_cluster (updateConstraints M clock detect req results w)) ([], n)) =
     map_option (recorded M clock detect req n results) (map_option plainProfile (V (w_cluster w) ([], n)))"
proof (induction results arbitrary: w clock)
  case Nil
  then show ?case by (simp add: option.map_comp comp_def)
next
  case (Cons res results)
  show ?case
  proof (cases "res_Allow res")
    case True
    with Cons.IH show ?thesis by simp
  next
    case False
    show ?thesis
      unfolding updateConstraints_denied [OF False] Cons.IH updateConstraintStatus_stored [OF assms(1), folded M_def]
      using False by (simp add: option.map_comp comp_def)
  qed
qed

lemma processConstraints_stored:
  assumes "profile_cluster R made validName V L"
  defines "M \<equiv> with_profile_client R made L"
  shows "V (w_cluster (snd (processConstraints M clock i req cs w))) = V (w_cluster w)"
proof -
  have keep: "V s' = V s" if "Events_Create M s ns e = Inr s' \<or> Events_Update M s ns e = Inr s'" for s ns e s'
    using assms(1) that unfolding profile_cluster_def M_def with_profile_client_def by auto
  have "V (w_cluster (snd (RequestHandler M now req po v))) = V (w_cluster v)" for now po v
    by (rule RequestHandler_keeps) (rule keep)
  then show ?thesis
    by (induction cs arbitrary: i w) (simp_all add: Let_def case_prod_beta)
qed

lemma recorded_none:
  "\<forall>r\<in>set results. res_Profile r = n \<longrightarrow> res_Allow r \<Longrightarrow> recorded L clock detect req n results p = p"
  by (induction results arbitrary: clock) auto

lemma recorded_once:
  assumes "distinct (map res_Profile results)" and "r \<in> set results" and "\<not> res_Allow r"
  shows "\<exists>now. \<forall>p. recorded L clock detect req (res_Profile r) results p = UpdateStatus L now req (statusMessage detect r) p"
  using assms(1,2)
proof (induction results arbitrary: clock)
  case (Cons res results)
  show ?case
  proof (cases "r = res")
    case True
    with Cons.prems assms(3) have "\<forall>r'\<in>set results. res_Profile r' = res_Profile r \<longrightarrow> res_Allow r'" by (auto simp: image_iff)
    with True assms(3) show ?thesis by (intro exI [of _ "clock 0"]) (simp add: recorded_none)
  next
    case False
    with Cons.prems have "res_Profile res \<noteq> res_Profile r" by (auto simp: image_iff)
    with Cons.IH [of "\<lambda>i. clock (Suc i)"] Cons.prems False show ?thesis by auto
  qed
qed simp

lemma denied_result_handled:
  "r \<in> set (fst (processConstraints L clock i req cs w)) \<Longrightarrow> \<not> res_Allow r \<Longrightarrow>
     \<exists>c now v. (c, now, v) \<in> set (handled L clock i req cs w) \<and> res_Profile r = mip_Name c \<and>
        constraint_denies L req (mip_Parameters (mip_Spec c)) v"
proof (induction cs arbitrary: i w)
  case (Cons c cs)
  show ?case
  proof (cases "matchCheck L req (mip_Match (mip_Spec c)) w")
    case False
    with Cons show ?thesis by (fastforce simp: Let_def case_prod_beta)
  next
    case True
    let ?w = "snd (RequestHandler L (clock i) req (mip_Parameters (mip_Spec c)) w)"
    from Cons.prems True consider
        "r = (fst (RequestHandler L (clock i) req (mip_Parameters (mip_Spec c)) w))\<lparr>res_Profile := mip_Name c\<rparr>"
      | "r \<in> set (fst (processConstraints L clock (Suc i) req cs ?w))"
      by (auto simp: Let_def case_prod_beta GetParametersFromConstraint_def)
    then show ?thesis
    proof cases
      case 1
      with Cons.prems(2) True show ?thesis
        by (intro exI [of _ c] exI [of _ "clock i"] exI [of _ w]) (simp add: RequestHandler_denies_iff)
    next
      case 2
      from Cons.IH [OF 2 Cons.prems(2)] True show ?thesis by auto
    qed
  qed
qed simp

lemma ProcessRequest_denied_results:
  assumes config: "loadAdmissionControllerConfig L w = Inr (Some config)"
    and denied: "ProcessRequest L clock req w = Return (Denied m, w')" and cs: "LoadConstraints L w = Inr cs"
  shows "\<not> list_all res_Allow (fst (processConstraints L clock 0 req cs w))"
    and "acc_UpdateMIPStatusForDeniedRequest config \<Longrightarrow> w' = updateConstraints L (\<lambda>i. clock (length cs + i))
      (CheckIfDetectOnly (acc_Mode config)) req (fst (processConstraints L clock 0 req cs w)) (snd (processConstraints L clock 0 req cs w))"
proof -
  from denied ProcessRequest_Denied_iff [of L clock req w]
  have "\<exists>m w'. ProcessRequest L clock req w = Return (Denied m, w')" by blast
  with config cs show results: "\<not> list_all res_Allow (fst (processConstraints L clock 0 req cs w))"
    unfolding ProcessRequest_Denied_iff by auto
  from denied config have "NamespaceSelector_Match L (acc_InScopeNamespaceSelector config) (req_Namespace req)"
    and "\<not> Allow_Match L (acc_AllowKinds config) (req_Kind req)"
    by (auto simp: ProcessRequest_def split: if_splits)
  from ProcessRequest_in_scope [OF config this cs, of clock] denied
  show "acc_UpdateMIPStatusForDeniedRequest config \<Longrightarrow> w' = updateConstraints L (\<lambda>i. clock (length cs + i))
      (CheckIfDetectOnly (acc_Mode config)) req (fst (processConstraints L clock 0 req cs w)) (snd (processConstraints L clock 0 req cs w))"
    by (auto simp: finishRequest_def Let_def split: if_splits)
qed

section \<open>Stated properties\<close>


lemma state_calls:
  fixes L :: "('n, 'd, 's, 'x) obs_lib_scheme" and R :: "('k, 'w, 's) mis_rest"
  assumes made: "made = Inr \<lparr>restClient = Some k\<rparr>" and laws: "rest_laws R k ''manifestintegritystates'' True validName stateType V"
    and ns: "ns \<noteq> []"
  defines "M \<equiv> with_state_client R made L"
  shows "MIS_NewForConfig M v = Inr ()"
    and "V s (ns, n) = Some x \<Longrightarrow> MIS_Get M s ns n = Inr (Some x)"
    and "V s (ns, n) = None \<Longrightarrow> \<exists>e. MIS_Get M s ns n = Inl e"
    and "V s (ns, n) = Some x' \<Longrightarrow> mis_Name x = mis_Name x' \<Longrightarrow> mis_ResourceVersion x = mis_ResourceVersion x' \<Longrightarrow>
      \<exists>s' y. MIS_Update M s ns x = Inr s' \<and> plainState y = plainState x \<and> V s' = (V s)((ns, n) \<mapsto> y)"
    and "validName (mis_Name x) \<Longrightarrow> mis_ResourceVersion x = [] \<Longrightarrow> V s (ns, mis_Name x) = None \<Longrightarrow>
      \<exists>s' y. MIS_Create M s ns x = Inr s' \<and> plainState y = plainState x \<and> V s' = (V s)((ns, mis_Name x) \<mapsto> y)"
    and "\<not> validName (mis_Name x) \<Longrightarrow> \<exists>e. MIS_Create M s ns x = Inl e"
proof -
  have c: "newManifestIntegrityStates (Some \<lparr>restClient = Some k\<rparr>) ns = \<lparr>miss_client = Some k, miss_ns = ns\<rparr>" for ns
    by (simp add: newManifestIntegrityStates_def RESTClient_def)
  note M = M_def with_state_client_def made c
  show "MIS_NewForConfig M v = Inr ()" by (simp add: M)
  show "MIS_Get M s ns n = Inr (Some x)" if "V s (ns, n) = Some x"
    using state_client.get_found [OF conjI [OF laws ns] that] by (simp add: M)
  show "\<exists>e. MIS_Get M s ns n = Inl e" if "V s (ns, n) = None"
    using state_client.get_missing [OF conjI [OF laws ns] that, of JNull] by (auto simp: M)
  show "\<exists>s' y. MIS_Update M s ns x = Inr s' \<and> plainState y = plainState x \<and> V s' = (V s)((ns, n) \<mapsto> y)"
    if "V s (ns, n) = Some x'" and "mis_Name x = mis_Name x'" and "mis_ResourceVersion x = mis_ResourceVersion x'"
    using state_client.amend_spec [OF conjI [OF laws ns] that(1), of x JNull] that by (auto simp: M)
  show "\<exists>s' y. MIS_Create M s ns x = Inr s' \<and> plainState y = plainState x \<and> V s' = (V s)((ns, mis_Name x) \<mapsto> y)"
    if "validName (mis_Name x)" and "mis_ResourceVersion x = []" and "V s (ns, mis_Name x) = None"
    using state_client.create_spec [OF conjI [OF laws ns], of x s JNull] that by (auto simp: M)
  show "\<exists>e. MIS_Create M s ns x = Inl e" if "\<not> validName (mis_Name x)"
    using state_client.create_spec [OF conjI [OF laws ns], of x s JNull] that by (auto simp: M)
qed

text \<open>C20: An export through the generated client succeeds exactly if the state resource exists or the
  name of the constraint is a valid object name. It then leaves in the namespace of the
  observer a state with the exported result and the labels for violation and audit, and
  changes nothing else; otherwise it changes nothing.\<close>

theorem exported_state_reaches_the_cluster:
  fixes w :: "'s world" and L :: "('n, 'd, 's, 'x) obs_lib_scheme" and vrr :: mis_spec and R :: "('k, 'w, 's) mis_rest"
    and F :: "('k, 'q, 'r, 'dc) conf_lib" and kube :: "('q, 'r) rest_config"
  defines "M \<equiv> with_state_client R (mis_NewForConfig F kube) L" and "ns \<equiv> envOr w ''POD_NAMESPACE'' defaultPodNamespace"
  assumes "mis_NewForConfig F kube = Inr \<lparr>restClient = Some k\<rparr>" and "GetKubeConfig L w = Inr ()"
    and "rest_laws R k ''manifestintegritystates'' True validName stateType V"
  shows "if V (w_cluster w) (ns, ms_ConstraintName vrr) \<noteq> None \<or> validName (ms_ConstraintName vrr)
     then \<exists>w' st. exportVerifyResult M vrr ignored violated w = (None, w') \<and>
            V (w_cluster w') = (V (w_cluster w))((ns, ms_ConstraintName vrr) \<mapsto> st) \<and> mis_Spec st = vrr \<and>
            mis_Labels st violationLabel = Some (if violated then ''true'' else ''false'') \<and>
            mis_Labels st ignoreLabel = Some (if ignored then ''true'' else ''false'')
     else \<exists>e. exportVerifyResult M vrr ignored violated w = (Some e, w)"
proof -
  have ns: "ns \<noteq> []" by (simp add: ns_def envOr_def Let_def defaultPodNamespace_def)
  note calls = state_calls [where L = L, OF assms(3,5) ns, folded M_def]
  let ?n = "ms_ConstraintName vrr"
  let ?labels = "[violationLabel \<mapsto> FormatBool violated, ignoreLabel \<mapsto> FormatBool ignored]"
  have kube: "GetKubeConfig M w = Inr ()" using assms(4) by (simp add: M_def with_state_client_def)
  note run = exportVerifyResult_def Let_def kube calls(1) ns_def [symmetric]
  have labels: "?labels violationLabel = Some (if violated then ''true'' else ''false'')"
    "?labels ignoreLabel = Some (if ignored then ''true'' else ''false'')"
    by (auto simp: FormatBool_def violationLabel_def ignoreLabel_def)
  show ?thesis
  proof (cases "V (w_cluster w) (ns, ?n)")
    case (Some x)
    let ?st = "x\<lparr>mis_Spec := vrr, mis_Labels := ?labels\<rparr>"
    from calls(4) [OF Some, of ?st] obtain s' y
      where "MIS_Update M (w_cluster w) ns ?st = Inr s'" and "plainState y = plainState ?st" and "V s' = (V (w_cluster w))((ns, ?n) \<mapsto> y)"
      by auto
    with Some calls(2) [OF Some] labels show ?thesis by (auto simp: run intro!: exI [of _ y])
  next
    case None
    let ?st = "\<lparr>mis_Name = ?n, mis_ResourceVersion = [], mis_Labels = ?labels, mis_Spec = vrr\<rparr>"
    from calls(3) [OF None] obtain e where e: "MIS_Get M (w_cluster w) ns ?n = Inl e" by blast
    show ?thesis
    proof (cases "validName ?n")
      case True
      with calls(5) [of ?st "w_cluster w"] None obtain s' y
        where "MIS_Create M (w_cluster w) ns ?st = Inr s'" and "plainState y = plainState ?st" and "V s' = (V (w_cluster w))((ns, ?n) \<mapsto> y)"
        by auto
      with True e labels show ?thesis by (auto simp: run intro!: exI [of _ y])
    next
      case False
      with calls(6) [of ?st "w_cluster w"] e None show ?thesis by (auto simp: run)
    qed
  qed
qed

section \<open>Samples\<close>

definition sample_conf :: "(unit, int, unit, unit) conf_lib" where
  "sample_conf =
     \<lparr>RESTClientFor = (\<lambda>c. if cfg_GroupVersion c = None then Inl ''GroupVersion is required'' else Inr ()),
      DefaultKubernetesUserAgent = ''shield'', Codecs_WithoutConversion = JNull,
      NewTokenBucketRateLimiter = (\<lambda>q b. ()), NewDiscoveryClientForConfig = (\<lambda>c. Inr ()),
      NewDiscoveryClientForConfigOrDie = (\<lambda>c. Return ()), NewDiscoveryClientOf = (\<lambda>c. ())\<rparr>"

definition sample_kube :: "(int, unit) rest_config" where
  "sample_kube = \<lparr>cfg_GroupVersion = None, cfg_APIPath = [], cfg_NegotiatedSerializer = JNull, cfg_UserAgent = [],
     cfg_RateLimiter = None, cfg_QPS = 0, cfg_Burst = 0, cfg_Other = JNull\<rparr>"

lemma sample_clients:
  "mip_NewForConfig sample_conf sample_kube = Inr \<lparr>restClient = Some ()\<rparr>"
  "mis_NewForConfig sample_conf sample_kube = Inr \<lparr>restClient = Some ()\<rparr>"
  by (simp_all add: mip_NewForConfig_def mis_NewForConfig_def groupClientForConfig_eq setConfigDefaults_result sample_conf_def)

definition sample_profile_server :: "(unit, unit, manifest_integrity_profile sample_store) mip_rest" where
  "sample_profile_server = sample_server False profileType (\<lambda>l. \<lparr>mil_ListMeta = JNull, mil_Items = l\<rparr>)"

definition sample_controller :: "(string, string list, manifest_integrity_profile sample_store) ac_lib" where
  "sample_controller = lib.extend (sample_base\<lparr>ConfigMaps_Get := \<lambda>s ns n. Inr (map_of [(''config.yaml'', ''sample'')])\<rparr>)
     \<lparr>yaml_AdmissionControllerConfig = (\<lambda>y. Inr (Some sample_ac_config)),
      MIP_NewForConfig = (\<lambda>w. Inl []), MIP_List = (\<lambda>s. Inl []), MIP_Get = (\<lambda>s n. Inl []), MIP_Update = (\<lambda>s p. Inl []),
      Namespaces_GetLabels = (\<lambda>s n. Inr Map.empty), GetLabels = (\<lambda>u. Map.empty)\<rparr>"

definition sample_profile_world :: "manifest_integrity_profile sample_store world" where
  "sample_profile_world = \<lparr>w_env = Map.empty, w_logLevel = InfoLevel, w_logFormat = TextFormatter,
      w_files = Map.empty, w_ranges = 0, w_cluster = [([], sample_mip)]\<rparr>"

lemma sample_profile_cluster:
  "profile_cluster sample_profile_server (mip_NewForConfig sample_conf sample_kube) (\<lambda>n. n \<noteq> []) (stored False mip_Name)
     sample_controller"
  unfolding profile_cluster_def sample_profile_server_def sample_clients
  using sample_server_laws [of False profileType] sample_server_lists [of mil_Items "\<lambda>l. \<lparr>mil_ListMeta = JNull, mil_Items = l\<rparr>" profileType]
  by (auto simp: sample_controller_def sample_base_def lib.extend_def)


definition sample_state_server :: "(unit, unit, manifest_integrity_state sample_store) mis_rest" where
  "sample_state_server = sample_server True stateType (\<lambda>l. \<lparr>msl_ListMeta = JNull, msl_Items = l\<rparr>)"

definition sample_state_lib :: "(string, string list, manifest_integrity_state sample_store) obs_lib" where
  "sample_state_lib = lib.extend sample_base
     \<lparr>ServerPreferredResources = (\<lambda>s. Inl []), ParseGroupVersion = (\<lambda>gv. Inl []), NewDynamicClient = (\<lambda>w. Inl []),
      NewDiscoveryClient = (\<lambda>w. Inl []), Dynamic_List = (\<lambda>s g ns. Inl []), json_ConstraintSpec = (\<lambda>j. sample_constraint),
      Namespaces_List = (\<lambda>s. Inr []), GetNamespace = (\<lambda>u. []), GetName = (\<lambda>u. []),
      GetGVK = (\<lambda>u. \<lparr>gvk_Group = [], gvk_Version = [], gvk_Kind = []\<rparr>),
      MIS_NewForConfig = (\<lambda>w. Inl []), MIS_Get = (\<lambda>s ns n. Inl []), MIS_Create = (\<lambda>s ns m. Inl []), MIS_Update = (\<lambda>s ns m. Inl []),
      ConfigMaps_Create = (\<lambda>s ns n d. Inr s), ConfigMaps_Update = (\<lambda>s ns n d. Inr s), json_MarshalDetail = (\<lambda>r. [])\<rparr>"

definition sample_state_world :: "manifest_integrity_state sample_store world" where
  "sample_state_world = \<lparr>w_env = Map.empty, w_logLevel = InfoLevel, w_logFormat = TextFormatter,
      w_files = Map.empty, w_ranges = 0, w_cluster = []\<rparr>"

lemma sample_state_laws: "rest_laws sample_state_server () res True (\<lambda>n. n \<noteq> []) stateType (stored True mis_Name)"
  unfolding sample_state_server_def using sample_server_laws [of True stateType] by simp

theorem exported_state_reaches_the_cluster_witness:
  "\<exists>w' st. exportVerifyResult (with_state_client sample_state_server (mis_NewForConfig sample_conf sample_kube) sample_state_lib)
       (stateSpec sample_state_lib 0 ''c1'' [] []) True False sample_state_world = (None, w') \<and>
     stored True mis_Name (w_cluster w') (defaultPodNamespace, ''c1'') = Some st \<and>
     mis_Spec st = stateSpec sample_state_lib 0 ''c1'' [] [] \<and> mis_Labels st ignoreLabel = Some ''true''"
proof -
  have n: "ms_ConstraintName (stateSpec sample_state_lib 0 ''c1'' [] []) = ''c1''" by (simp add: stateSpec_def)
  have ns: "envOr sample_state_world ''POD_NAMESPACE'' defaultPodNamespace = defaultPodNamespace"
    by (simp add: envOr_def Getenv_def sample_state_world_def)
  have kube: "GetKubeConfig sample_state_lib sample_state_world = Inr ()"
    by (simp add: sample_state_lib_def sample_base_def lib.extend_def)
  from exported_state_reaches_the_cluster [OF sample_clients(2) kube, where R = sample_state_server and
      vrr = "stateSpec sample_state_lib 0 ''c1'' [] []" and ignored = True and violated = False,
      unfolded n ns, OF sample_state_laws]
  show ?thesis by fastforce
qed

end
