(* ===== verification/Protection.thy ===== *)
theory Protection
  imports Recording
begin

text \<open>
  The webhook over time. A webhook pod serves one request after another, and a request is handled
  by one profile after another: every handler sets environment variables, writes key files and
  deny events, and every denial is recorded in the status of a profile. The theory shows that
  none of this changes a later decision, so that the answer to a request depends on the stored
  profiles and the configuration alone.
\<close>

section \<open>What the decision may look at\<close>

text \<open>\<open>C\<close> is everything in the cluster but events and the status of the profiles. The clients can
  be made; events are kept apart from the rest; config maps, secrets and namespaces are read from
  it. A secret has at most one entry: of several entries the code takes the one that the \<open>range\<close> over the
  Go map happens to visit first, and a decision could change from one request to the next.\<close>

definition cluster_parts :: "('n, 'd, 's, 'x) ac_lib_scheme \<Rightarrow> ('s \<Rightarrow> 'c) \<Rightarrow> bool" where
  "cluster_parts L C \<longleftrightarrow>
     (\<forall>v. GetKubeConfig L v = Inr () \<and> NewForConfig L v = Inr ()) \<and>
     (\<forall>s ns e s'. Events_Create L s ns e = Inr s' \<or> Events_Update L s ns e = Inr s' \<longrightarrow> C s' = C s) \<and>
     (\<forall>s s'. C s = C s' \<longrightarrow> ConfigMaps_Get L s = ConfigMaps_Get L s' \<and> GetSecretData L s = GetSecretData L s' \<and>
        Namespaces_GetLabels L s = Namespaces_GetLabels L s') \<and>
     (\<forall>s ns n data. GetSecretData L s ns n = Inr data \<longrightarrow> length data \<le> 1)"

text \<open>Local files can be written, names of the API have no comma, and a temporary directory is
  not the directory of a key.\<close>

definition local_files :: "('n, 'd, 's, 'x) lib_scheme \<Rightarrow> bool" where
  "local_files L \<longleftrightarrow>
     (\<forall>w p b. WriteFile_err L w p b = None) \<and> (\<forall>w. \<exists>d. TempDir L w = Inr d) \<and>
     (\<forall>s ns n data f b. GetSecretData L s ns n = Inr data \<and> (f, b) \<in> set data \<longrightarrow>
        CHR '','' \<notin> set ns \<and> CHR '','' \<notin> set n \<and> CHR '','' \<notin> set f \<and>
        (\<forall>w d. TempDir L w = Inr d \<longrightarrow> PathJoin (keyDir ns n) f \<noteq> PathJoin d ''manifest.yaml''))"

text \<open>Verification looks at the environment, at the cluster and at the files it is given: the key
  files, which a resource verification gets as a comma-separated list, and the manifest. It does
  not matter where the manifest is.\<close>

definition verification_inputs :: "('n, 'd, 's, 'x) lib_scheme \<Rightarrow> ('s \<Rightarrow> 'c) \<Rightarrow> bool" where
  "verification_inputs L C \<longleftrightarrow>
     (\<forall>v w obj vo. C (w_cluster v) = C (w_cluster w) \<and> w_env v = w_env w \<and>
        (\<forall>p\<in>set (Split (vo_KeyPath vo) '',''). p \<noteq> [] \<longrightarrow> w_files v p = w_files w p) \<longrightarrow>
        VerifyResource L v obj vo = VerifyResource L w obj vo) \<and>
     (\<forall>v w k m m'. C (w_cluster v) = C (w_cluster w) \<and> w_env v = w_env w \<and>
        w_files v m = w_files w m' \<and> (k \<noteq> [] \<longrightarrow> w_files v k = w_files w k) \<longrightarrow>
        (VerifyManifest_Exec L v k m = None) = (VerifyManifest_Exec L w k m' = None))"

text \<open>Two states that differ in nothing a decision depends on: in the two environment variables that
  every handler sets, the log settings, the local files and the parts of the cluster outside \<open>C\<close>.\<close>

definition alike :: "('s \<Rightarrow> 'c) \<Rightarrow> 's world \<Rightarrow> 's world \<Rightarrow> bool" where
  "alike C v w \<longleftrightarrow> C (w_cluster v) = C (w_cluster w) \<and>
     (\<forall>k. k \<noteq> rekorServerEnvKey \<and> k \<noteq> k8sLogLevelEnvKey \<longrightarrow> w_env v k = w_env w k)"

lemma alike_refl [simp, intro]: "alike C w w"
  by (simp add: alike_def)

lemma alike_trans [trans]: "alike C u v \<Longrightarrow> alike C v w \<Longrightarrow> alike C u w"
  by (simp add: alike_def)

lemma alike_sym: "alike C v w \<Longrightarrow> alike C w v"
  by (simp add: alike_def)

section \<open>Loading keys\<close>

text \<open>A load leaves the same result and the same new files in all states with the same cluster.\<close>

definition loaded :: "(string \<rightharpoonup> bytes) \<Rightarrow> nat \<Rightarrow> 's world \<Rightarrow> 's world" where
  "loaded us k v = v\<lparr>w_files := w_files v ++ us, w_ranges := w_ranges v + k\<rparr>"

lemma loaded_simps [simp]:
  "w_cluster (loaded us k v) = w_cluster v" "w_env (loaded us k v) = w_env v" "w_files (loaded us k v) = w_files v ++ us"
  "loaded us' k' (loaded us k v) = loaded (us ++ us') (k + k') v" "loaded Map.empty 0 v = v"
  by (simp_all add: loaded_def)

lemma LoadKeySecret_loads:
  assumes "cluster_parts L C" and "local_files L"
  obtains r us k where "\<And>v. C (w_cluster v) = c \<Longrightarrow> LoadKeySecret L ns n v = (r, loaded us k v)"
    and "\<And>p. r = Inr p \<Longrightarrow> p \<in> dom us \<and> CHR '','' \<notin> set p"
    and "\<And>w d. TempDir L w = Inr d \<Longrightarrow> PathJoin d ''manifest.yaml'' \<notin> dom us"
proof -
  have same: "GetSecretData L s ns n = GetSecretData L s' ns n" if "C s = c" and "C s' = c" for s s'
    using assms(1) that unfolding cluster_parts_def by metis
  have order: "range_map (RangeOrder L) m data = data" if "GetSecretData L s ns n = Inr data" for m data s
    using assms(1) that unfolding cluster_parts_def by (intro range_map_short) blast
  consider (key) s f b data where "C s = c" "GetSecretData L s ns n = Inr ((f, b) # data)"
    | (none) s where "C s = c" "GetSecretData L s ns n = Inr []"
    | (failed) s e where "C s = c" "GetSecretData L s ns n = Inl e" | (empty) "\<nexists>s. C s = c"
    by (metis list.exhaust obj_sumE surj_pair)
  then show ?thesis
  proof cases
    case key
    let ?p = "PathJoin (keyDir ns n) f"
    from assms(2) key(2) have free: "CHR '','' \<notin> set ns" "CHR '','' \<notin> set n" "CHR '','' \<notin> set f"
      and fresh: "\<And>w d. TempDir L w = Inr d \<Longrightarrow> PathJoin d ''manifest.yaml'' \<noteq> ?p"
      and writable: "\<And>w p b. WriteFile_err L w p b = None" unfolding local_files_def by (metis list.set_intros(1))+
    have "LoadKeySecret L ns n v = (Inr ?p, loaded [?p \<mapsto> b] 1 v)" if "C (w_cluster v) = c" for v
      using same [OF that key(1)] key(2) by (simp add: LoadKeySecret_def writable Let_def order loaded_def)
    moreover have "CHR '','' \<notin> set ?p" using free by (intro PathJoin_chars) (simp_all add: keyDir_def)
    ultimately show ?thesis using fresh by (intro that [of "Inr ?p" "[?p \<mapsto> b]" 1]) auto
  next
    case none
    let ?r = "Inl (''no key files are found in the secret `'' @ n @ ''` in `'' @ ns @ ''` namespace'')"
    have "LoadKeySecret L ns n v = (?r, loaded Map.empty 1 v)" if "C (w_cluster v) = c" for v
      using same [OF that none(1)] none(2) by (simp add: LoadKeySecret_def Let_def order loaded_def)
    then show ?thesis by (intro that [of ?r Map.empty 1]) auto
  next
    case (failed s e)
    let ?r = "Inl (ErrorsWrap L e (''failed to get a secret `'' @ n @ ''` in `'' @ ns @ ''` namespace''))"
    have "LoadKeySecret L ns n v = (?r, loaded Map.empty 0 v)" if "C (w_cluster v) = c" for v
      using same [OF that failed(1)] failed(2) by (simp add: LoadKeySecret_def)
    then show ?thesis by (intro that [of ?r Map.empty 0]) auto
  next
    case empty
    then show ?thesis by (intro that [of "Inl []" Map.empty 0]) auto
  qed
qed

text \<open>The verification keys of a constraint.\<close>

lemma loadVerifyKeys_loads:
  assumes "cluster_parts L C" and "local_files L"
  shows "\<exists>ks us n. (\<forall>v. C (w_cluster v) = c \<longrightarrow> loadVerifyKeys L kcs acc v = (acc @ ks, loaded us n v)) \<and>
     (\<forall>k\<in>set ks. CHR '','' \<notin> set k \<and> (k \<noteq> [] \<longrightarrow> k \<in> dom us))"
proof (induction kcs arbitrary: acc)
  case Nil
  show ?case by (intro exI [of _ "[]"] exI [of _ Map.empty] exI [of _ 0]) simp
next
  case (Cons kc kcs)
  show ?case
  proof (cases "KeySecretName kc = []")
    case True
    with Cons.IH [of acc] show ?thesis by simp
  next
    case False
    obtain r us n where r: "\<And>v. C (w_cluster v) = c \<Longrightarrow>
        LoadKeySecret L (KeySecretNamespace kc) (KeySecretName kc) v = (r, loaded us n v)"
      and p: "\<And>p. r = Inr p \<Longrightarrow> p \<in> dom us \<and> CHR '','' \<notin> set p"
      using LoadKeySecret_loads [OF assms] by metis
    from Cons.IH [of "acc @ [or_zero [] r]"] obtain ks us' n' where
      ks: "\<And>v. C (w_cluster v) = c \<Longrightarrow>
        loadVerifyKeys L kcs (acc @ [or_zero [] r]) v = ((acc @ [or_zero [] r]) @ ks, loaded us' n' v)"
      and k: "\<forall>k\<in>set ks. CHR '','' \<notin> set k \<and> (k \<noteq> [] \<longrightarrow> k \<in> dom us')" by blast
    have "loadVerifyKeys L (kc # kcs) acc v = (acc @ or_zero [] r # ks, loaded (us ++ us') (n + n') v)"
      if "C (w_cluster v) = c" for v using False that r [OF that] ks [of "loaded us n v"] by simp
    moreover have "CHR '','' \<notin> set (or_zero [] r) \<and> (or_zero [] r \<noteq> [] \<longrightarrow> or_zero [] r \<in> dom us)"
      using p by (cases r) auto
    ultimately show ?thesis using k by (intro exI [of _ "or_zero [] r # ks"] exI [of _ "us ++ us'"] exI [of _ "n + n'"]) auto
  qed
qed

text \<open>The keys of an image profile.\<close>

lemma loadImageKeys_loads:
  assumes "cluster_parts L C" and "local_files L"
  shows "\<exists>r us n. (\<forall>v. C (w_cluster v) = c \<longrightarrow> loadImageKeys L kcs acc v = (r, loaded us n v)) \<and>
     (\<forall>ks. r = Inr ks \<longrightarrow> set ks \<subseteq> set acc \<union> dom us) \<and>
     (\<forall>w d. TempDir L w = Inr d \<longrightarrow> PathJoin d ''manifest.yaml'' \<notin> dom us)"
proof (induction kcs arbitrary: acc)
  case Nil
  show ?case by (intro exI [of _ "Inr acc"] exI [of _ Map.empty] exI [of _ 0]) simp
next
  case (Cons kc kcs)
  show ?case
  proof (cases "KeySecretName kc = []")
    case True
    with Cons.IH [of acc] show ?thesis by simp
  next
    case False
    obtain r us n where r: "\<And>v. C (w_cluster v) = c \<Longrightarrow>
        LoadKeySecret L (KeySecretNamespace kc) (KeySecretName kc) v = (r, loaded us n v)"
      and p: "\<And>p. r = Inr p \<Longrightarrow> p \<in> dom us"
      and fresh: "\<And>w d. TempDir L w = Inr d \<Longrightarrow> PathJoin d ''manifest.yaml'' \<notin> dom us"
      using LoadKeySecret_loads [OF assms] by metis
    show ?thesis
    proof (cases r)
      case (Inl e)
      let ?r = "Inl (ErrorsWrap L e ''failed to load a key secret for image verification'')"
      have "\<forall>v. C (w_cluster v) = c \<longrightarrow> loadImageKeys L (kc # kcs) acc v = (?r, loaded us n v)"
        using False r Inl by simp
      with fresh show ?thesis by (intro exI [of _ ?r] exI [of _ us] exI [of _ n]) auto
    next
      case (Inr k)
      from Cons.IH [of "acc @ [k]"] obtain r' us' n' where
        ks: "\<And>v. C (w_cluster v) = c \<Longrightarrow> loadImageKeys L kcs (acc @ [k]) v = (r', loaded us' n' v)"
        and k: "\<forall>ks. r' = Inr ks \<longrightarrow> set ks \<subseteq> set (acc @ [k]) \<union> dom us'"
        and fresh': "\<forall>w d. TempDir L w = Inr d \<longrightarrow> PathJoin d ''manifest.yaml'' \<notin> dom us'" by blast
      have "loadImageKeys L (kc # kcs) acc v = (r', loaded (us ++ us') (n + n') v)"
        if "C (w_cluster v) = c" for v using False that r [OF that] Inr ks [of "loaded us n v"] by simp
      moreover have "\<forall>ks. r' = Inr ks \<longrightarrow> set ks \<subseteq> set acc \<union> dom (us ++ us')"
        using k p [OF Inr] by auto
      ultimately show ?thesis using fresh fresh' by (intro exI [of _ r'] exI [of _ "us ++ us'"] exI [of _ "n + n'"]) auto
    qed
  qed
qed

section \<open>The decision is the same in states that are alike\<close>

lemma setKeyPath_alike:
  assumes "cluster_parts L C" and "local_files L" and "vo_KeyPath vo = []" and "C (w_cluster v) = C (w_cluster w)"
  shows "fst (setKeyPath L kcs vo v) = fst (setKeyPath L kcs vo w)"
    and "\<forall>p\<in>set (Split (vo_KeyPath (fst (setKeyPath L kcs vo v))) '',''). p \<noteq> [] \<longrightarrow>
       w_files (snd (setKeyPath L kcs vo v)) p = w_files (snd (setKeyPath L kcs vo w)) p"
proof -
  from loadVerifyKeys_loads [OF assms(1,2), of "C (w_cluster w)" kcs "[]"] obtain ks us n
    where load: "\<And>v. C (w_cluster v) = C (w_cluster w) \<Longrightarrow> loadVerifyKeys L kcs [] v = (ks, loaded us n v)"
      and ks: "\<forall>k\<in>set ks. CHR '','' \<notin> set k" "\<forall>k\<in>set ks. k \<noteq> [] \<longrightarrow> k \<in> dom us" by auto
  define vo' where "vo' = (if kcs = [] \<or> Join ks '','' = [] then vo else vo\<lparr>vo_KeyPath := Join ks '',''\<rparr>)"
  have run: "setKeyPath L kcs vo u = (vo', if kcs = [] then u else loaded us n u)"
    if "C (w_cluster u) = C (w_cluster w)" for u
    by (simp add: setKeyPath_def load [OF that] vo'_def)
  show "fst (setKeyPath L kcs vo v) = fst (setKeyPath L kcs vo w)" using assms(4) by (simp add: run)
  show "\<forall>p\<in>set (Split (vo_KeyPath (fst (setKeyPath L kcs vo v))) '',''). p \<noteq> [] \<longrightarrow>
       w_files (snd (setKeyPath L kcs vo v)) p = w_files (snd (setKeyPath L kcs vo w)) p"
  proof (cases "kcs = [] \<or> Join ks '','' = []")
    case True
    with assms(3,4) show ?thesis by (simp add: run vo'_def Split_char_free)
  next
    case False
    then have "ks \<noteq> []" by auto
    from Split_Join [OF this ks(1)] False ks(2) assms(4) show ?thesis
      by (auto simp: run vo'_def map_add_def domIff split: option.splits)
  qed
qed

lemma setVerifyOption_alike:
  assumes "cluster_parts L C" and "local_files L" and "vo_KeyPath (po_VerifyResourceOption po) = []"
    and "C (w_cluster v) = C (w_cluster w)" and "w_env v = w_env w"
  shows "fst (setVerifyOption L po rh t v) = fst (setVerifyOption L po rh t w)"
    and "\<forall>p\<in>set (Split (vo_KeyPath (fst (setVerifyOption L po rh t v))) '',''). p \<noteq> [] \<longrightarrow>
       w_files (snd (setVerifyOption L po rh t v)) p = w_files (snd (setVerifyOption L po rh t w)) p"
proof -
  define vo where "vo = (let vo1 = setSignatureRefs (po_SignatureRef po) (po_VerifyResourceOption po);
          vo2 = vo1\<lparr>vo_DryRunNamespace := envOr w ''POD_NAMESPACE'' defaultPodNamespace\<rparr>
      in if t = SignatureAnnotationTypeShield then vo2\<lparr>vo_AnnotationKeyDomain := AnnotationKeyDomain\<rparr> else vo2)"
  have env: "envOr v k d = envOr w k d" for k d using assms(5) by (simp add: envOr_def Getenv_def)
  let ?f = "\<lambda>vo. if length (rfp_IgnoreFields (rhc_RequestFilterProfile rh)) = 0 then vo
      else vo\<lparr>vo_IgnoreFields := vo_IgnoreFields vo @ rfp_IgnoreFields (rhc_RequestFilterProfile rh)\<rparr>"
  have run: "setVerifyOption L po rh t u = (?f (fst (setKeyPath L (po_KeyConfigs po) vo u)), snd (setKeyPath L (po_KeyConfigs po) vo u))"
    if "envOr u ''POD_NAMESPACE'' defaultPodNamespace = envOr w ''POD_NAMESPACE'' defaultPodNamespace" for u
    unfolding setVerifyOption_def vo_def that by (simp add: Let_def case_prod_beta)
  have "vo_KeyPath vo = []" using assms(3) by (simp add: vo_def Let_def)
  note keys = setKeyPath_alike [OF assms(1,2) this assms(4), of "po_KeyConfigs po"]
  show "fst (setVerifyOption L po rh t v) = fst (setVerifyOption L po rh t w)"
    unfolding run [OF env] run [OF refl] fst_conv keys(1) ..
  have "vo_KeyPath (?f vo) = vo_KeyPath vo" for vo by simp
  with keys(2) show "\<forall>p\<in>set (Split (vo_KeyPath (fst (setVerifyOption L po rh t v))) '',''). p \<noteq> [] \<longrightarrow>
       w_files (snd (setVerifyOption L po rh t v)) p = w_files (snd (setVerifyOption L po rh t w)) p"
    unfolding run [OF env] run [OF refl] fst_conv snd_conv by metis
qed

lemma verifyWithKeys_some:
  "fst (verifyWithKeys L m ks e w) \<longleftrightarrow> (\<exists>k\<in>set ks. VerifyManifest_Exec L w k m = None)"
  by (induction ks arbitrary: e) (auto split: option.splits)

lemma VerifyImageInManifest_alike:
  fixes v w :: "'s world"
  assumes "cluster_parts L C" and "local_files L" and inputs: "verification_inputs L C"
    and "C (w_cluster v) = C (w_cluster w)" and "w_env v = w_env w"
  shows "fst (fst (VerifyImageInManifest L obj p v)) = fst (fst (VerifyImageInManifest L obj p w))"
proof (cases "yaml_Marshal L obj")
  case (Inl e)
  then show ?thesis by (simp add: VerifyImageInManifest_def)
next
  case (Inr y)
  from assms(2) have writable: "\<And>w p b. WriteFile_err L w p b = None" and tmp: "\<exists>d. TempDir L w = Inr d" for w
    unfolding local_files_def by blast+
  from loadImageKeys_loads [OF assms(1,2), of "C (w_cluster w)" "ip_KeyConfigs p" "[]"] obtain r us n
    where load: "\<And>v. C (w_cluster v) = C (w_cluster w) \<Longrightarrow>
        loadImageKeys L (ip_KeyConfigs p) [] v = (r, loaded us n v)"
      and ks: "\<And>ks. r = Inr ks \<Longrightarrow> set ks \<subseteq> dom us"
      and fresh: "\<And>w d. TempDir L w = Inr d \<Longrightarrow> PathJoin d ''manifest.yaml'' \<notin> dom us" by auto
  define after where "after u d = loaded us n (u\<lparr>w_files := (w_files u)(PathJoin d ''manifest.yaml'' \<mapsto> y)\<rparr>)" for u :: "'s world" and d
  have run: "fst (fst (VerifyImageInManifest L obj p u)) \<longleftrightarrow> (\<exists>ks. r = Inr ks \<and>
      (\<exists>k\<in>set (if length ks = 0 then [''''] else ks). VerifyManifest_Exec L (after u d) k (PathJoin d ''manifest.yaml'') = None))"
    if "C (w_cluster u) = C (w_cluster w)" and "TempDir L u = Inr d" for u d
    using Inr that load [of "u\<lparr>w_files := (w_files u)(PathJoin d ''manifest.yaml'' \<mapsto> y)\<rparr>"]
    by (cases r) (simp_all add: VerifyImageInManifest_def writable Let_def case_prod_beta verifyWithKeys_some after_def)
  obtain d d' where d: "TempDir L v = Inr d" "TempDir L w = Inr d'" using tmp by blast
  have "(VerifyManifest_Exec L (after v d) k (PathJoin d ''manifest.yaml'') = None) =
      (VerifyManifest_Exec L (after w d') k (PathJoin d' ''manifest.yaml'') = None)"
    if "k = [] \<or> k \<in> dom us" for k
  proof -
    have "w_files (after v d) (PathJoin d ''manifest.yaml'') = w_files (after w d') (PathJoin d' ''manifest.yaml'')"
      using fresh [OF d(1)] fresh [OF d(2)] by (simp add: after_def map_add_dom_app_simps)
    moreover have "k \<noteq> [] \<longrightarrow> w_files (after v d) k = w_files (after w d') k"
      using that by (auto simp: after_def map_add_dom_app_simps)
    moreover have "C (w_cluster (after v d)) = C (w_cluster (after w d'))" "w_env (after v d) = w_env (after w d')"
      using assms(4,5) by (simp_all add: after_def)
    ultimately show ?thesis
      by (intro conjunct2 [OF inputs [unfolded verification_inputs_def], rule_format] conjI)
  qed
  then have "(\<exists>k\<in>set (if length ks = 0 then [[]] else ks). VerifyManifest_Exec L (after v d) k (PathJoin d ''manifest.yaml'') = None) =
      (\<exists>k\<in>set (if length ks = 0 then [[]] else ks). VerifyManifest_Exec L (after w d') k (PathJoin d' ''manifest.yaml'') = None)"
    if "r = Inr ks" for ks using ks [OF that] by (intro bex_cong) (auto split: if_splits)
  then show ?thesis unfolding run [OF assms(4) d(1)] run [OF refl d(2)] by (intro ex_cong1 conj_cong refl)
qed

lemma facts_alike:
  assumes "cluster_parts L C" and "local_files L" and inputs: "verification_inputs L C"
    and "vo_KeyPath (po_VerifyResourceOption po) = []" and same: "C (w_cluster v) = C (w_cluster w)" "w_env v = w_env w"
  shows "facts_of L req po rh obj v = facts_of L req po rh obj w"
proof -
  let ?t = "signatureAnnotationType L obj"
  let ?v = "snd (setVerifyOption L po rh ?t v)" and ?w = "snd (setVerifyOption L po rh ?t w)"
  note vo = setVerifyOption_alike [OF assms(1,2,4) same, of rh ?t]
  have "w_env ?v = w_env v \<and> w_cluster ?v = w_cluster v" "w_env ?w = w_env w \<and> w_cluster ?w = w_cluster w"
    by (rule setVerifyOption_frame [OF surjective_pairing])+
  with same have after: "C (w_cluster ?v) = C (w_cluster ?w)" "w_env ?v = w_env ?w" by simp_all
  have "VerifyResource L ?v obj (fst (setVerifyOption L po rh ?t v)) =
      VerifyResource L ?w obj (fst (setVerifyOption L po rh ?t v))"
    by (rule conjunct1 [OF inputs [unfolded verification_inputs_def], rule_format]) (intro conjI after vo(2))
  with vo(1) VerifyImageInManifest_alike [OF assms(1,2) inputs after, of obj "po_ImageProfile po"] show ?thesis
    by (simp add: facts_of_def Let_def case_prod_beta)
qed

lemma envOr_alike:
  "alike C v w \<Longrightarrow> k \<notin> {rekorServerEnvKey, k8sLogLevelEnvKey} \<Longrightarrow> envOr v k d = envOr w k d"
  by (simp add: alike_def envOr_def Getenv_def)

lemma own_env_keys:
  "''POD_NAMESPACE'' \<notin> {rekorServerEnvKey, k8sLogLevelEnvKey}"
  "''REQUEST_HANDLER_CONFIG_NAME'' \<notin> {rekorServerEnvKey, k8sLogLevelEnvKey}"
  "''REQUEST_HANDLER_CONFIG_KEY'' \<notin> {rekorServerEnvKey, k8sLogLevelEnvKey}"
  "''CONTROLLER_CONFIG_NAME'' \<notin> {rekorServerEnvKey, k8sLogLevelEnvKey}"
  "''CONTROLLER_CONFIG_KEY'' \<notin> {rekorServerEnvKey, k8sLogLevelEnvKey}"
  by (simp_all add: rekorServerEnvKey_def k8sLogLevelEnvKey_def)

lemma cluster_parts_reads:
  assumes "cluster_parts L C" and "alike C v w"
  shows "ConfigMaps_Get L (w_cluster v) = ConfigMaps_Get L (w_cluster w)"
    and "Namespaces_GetLabels L (w_cluster v) = Namespaces_GetLabels L (w_cluster w)"
    and "GetKubeConfig L u = Inr ()" and "NewForConfig L u = Inr ()"
  using assms unfolding cluster_parts_def alike_def by blast+

lemma configs_alike:
  assumes "cluster_parts L C" and "alike C v w"
  shows "LoadRequestHandlerConfig L v = LoadRequestHandlerConfig L w"
    and "loadAdmissionControllerConfig L v = loadAdmissionControllerConfig L w"
    and "matchCheck L req m v = matchCheck L req m w"
  unfolding LoadRequestHandlerConfig_def LoadRequestHandlerConfig_results_def loadAdmissionControllerConfig_def matchCheck_def checkNamespaceLabelMatch_def
    cluster_parts_reads [OF assms] envOr_alike [OF assms(2) own_env_keys(1)] envOr_alike [OF assms(2) own_env_keys(2)]
    envOr_alike [OF assms(2) own_env_keys(3)] envOr_alike [OF assms(2) own_env_keys(4)] envOr_alike [OF assms(2) own_env_keys(5)]
  by (rule refl)+

text \<open>Setting the log level and the server of the transparency log leaves the state alike, and makes
  the environment of two such states the same.\<close>

lemma handler_env:
  "alike C (setRekorServerEnv rh (SetupLogger lc w)) w"
  "alike C v w \<Longrightarrow> w_env (setRekorServerEnv rh (SetupLogger lc v)) = w_env (setRekorServerEnv rh (SetupLogger lc w))"
  by (auto simp: alike_def setRekorServerEnv_def SetupLogger_def Setenv_def Let_def case_prod_beta fun_eq_iff)

text \<open>The decision of a constraint, and what its handler leaves behind.\<close>

lemma constraint_denies_alike:
  assumes laws: "cluster_parts L C" "local_files L" "verification_inputs L C"
    and "vo_KeyPath (po_VerifyResourceOption po) = []" and same: "alike C v w"
  shows "constraint_denies L req po v = constraint_denies L req po w"
proof -
  have facts: "facts_of L req po rh obj (setRekorServerEnv rh (SetupLogger (rhc_Log rh) v)) =
      facts_of L req po rh obj (setRekorServerEnv rh (SetupLogger (rhc_Log rh) w))" for rh obj
    using same handler_env [where rh = rh and lc = "rhc_Log rh" and C = C]
    by (intro facts_alike [OF laws assms(4)]) (simp_all add: alike_def)
  show ?thesis unfolding constraint_denies_def configs_alike(1) [OF laws(1) same] Let_def facts ..
qed

lemma RequestHandler_alike:
  assumes "cluster_parts L C"
  shows "alike C (snd (RequestHandler L now req po w)) w"
proof -
  have keep: "C s' = C s" if "Events_Create L s ns e = Inr s' \<or> Events_Update L s ns e = Inr s'" for s ns e s'
    using assms that unfolding cluster_parts_def by blast
  have cluster: "C (w_cluster (snd (RequestHandler L now req po w))) = C (w_cluster w)"
    by (rule RequestHandler_keeps) (rule keep)
  moreover have "w_env (snd (RequestHandler L now req po w)) k = w_env w k"
    if "k \<noteq> rekorServerEnvKey" "k \<noteq> k8sLogLevelEnvKey" for k
  proof (cases "UnmarshalUnstructured L (req_Object req)")
    case (Inl e)
    then show ?thesis by (simp add: RequestHandler_undecodable)
  next
    case obj: (Inr obj)
    show ?thesis
    proof (cases "LoadRequestHandlerConfig L w")
      case (Inl e)
      with obj show ?thesis by (simp add: RequestHandler_no_config)
    next
      case (Inr loaded)
      define rh where "rh = (case loaded of None \<Rightarrow> zero_RequestHandlerConfig | Some c \<Rightarrow> c)"
      define w2 where "w2 = setRekorServerEnv rh (SetupLogger (rhc_Log rh) w)"
      obtain d w3 where d: "decideRequest L req po rh obj w2 = (d, w3)" by fastforce
      have "w_env w2 k = w_env w k" using handler_env(1) [where rh = rh and lc = "rhc_Log rh" and C = C and w = w] that by (simp add: alike_def w2_def)
      moreover have "w_env (snd (createOrUpdateEvent L now req r c u)) = w_env u" for r c u
        by (rule createOrUpdateEvent_env [OF surjective_pairing])
      ultimately show ?thesis using obj Inr d decideRequest_frame [OF d] unfolding RequestHandler_def
        by (simp add: Let_def rh_def [symmetric] w2_def [symmetric] split: option.split sum.split prod.split)
    qed
  qed
  ultimately show ?thesis by (simp add: alike_def)
qed

section \<open>The profiles one after another\<close>

definition profile_denies ::
  "('n, 'd, 's, 'x) ac_lib_scheme \<Rightarrow> request \<Rightarrow> mip_spec \<Rightarrow> 's world \<Rightarrow> bool" where
  "profile_denies L req p w \<longleftrightarrow> matchCheck L req (mip_Match p) w \<and> constraint_denies L req (mip_Parameters p) w"

text \<open>No profile names key files of its own; it names secrets, whose keys the handler stores in files.\<close>

definition no_own_keys :: "mip_spec \<Rightarrow> bool" where
  "no_own_keys p \<longleftrightarrow> vo_KeyPath (po_VerifyResourceOption (mip_Parameters p)) = []"

definition stored_without_keys :: "('s, manifest_integrity_profile) objects \<Rightarrow> 's \<Rightarrow> bool" where
  "stored_without_keys V s \<longleftrightarrow> (\<forall>n p. V s ([], n) = Some p \<longrightarrow> no_own_keys (mip_Spec p))"

lemma profile_denies_alike:
  assumes "cluster_parts L C" "local_files L" "verification_inputs L C" and "no_own_keys p" and "alike C v w"
  shows "profile_denies L req p v = profile_denies L req p w"
  using assms(4) unfolding profile_denies_def no_own_keys_def
  by (simp add: configs_alike(3) [OF assms(1,5)] constraint_denies_alike [OF assms(1-3) _ assms(5)])

lemma processConstraints_alike:
  assumes "cluster_parts L C"
  shows "alike C (snd (processConstraints L clock i req cs w)) w"
proof (induction cs arbitrary: i w)
  case (Cons c cs)
  show ?case
    using Cons.IH [of "Suc i" w] Cons.IH [of "Suc i" "snd (RequestHandler L (clock i) req (GetParametersFromConstraint (mip_Spec c)) w)"]
      alike_trans [OF _ RequestHandler_alike [OF assms, of "clock i" req "GetParametersFromConstraint (mip_Spec c)" w]]
    by (simp add: Let_def case_prod_beta)
qed simp

text \<open>The result of a profile does not depend on the profiles handled before it.\<close>

lemma processConstraints_denials:
  assumes "cluster_parts L C" "local_files L" "verification_inputs L C" and "\<forall>c\<in>set cs. no_own_keys (mip_Spec c)"
    and "alike C v w"
  shows "(\<exists>r\<in>set (fst (processConstraints L clock i req cs v)). res_Profile r = n \<and> \<not> res_Allow r) \<longleftrightarrow>
     (\<exists>c\<in>set cs. mip_Name c = n \<and> profile_denies L req (mip_Spec c) w)"
  using assms(4,5)
proof (induction cs arbitrary: i v)
  case (Cons c cs)
  let ?po = "GetParametersFromConstraint (mip_Spec c)"
  from Cons.prems have own: "no_own_keys (mip_Spec c)" and rest: "\<forall>c\<in>set cs. no_own_keys (mip_Spec c)" by simp_all
  note eq = profile_denies_alike [OF assms(1-3) own Cons.prems(2), of req]
  have "alike C (snd (RequestHandler L (clock i) req ?po v)) w"
    using RequestHandler_alike [OF assms(1)] Cons.prems(2) by (rule alike_trans)
  note IH = Cons.IH [OF rest this, of "Suc i"] Cons.IH [OF rest Cons.prems(2), of "Suc i"]
  show ?case
  proof (cases "matchCheck L req (mip_Match (mip_Spec c)) v")
    case True
    with IH(1) eq show ?thesis
      by (simp add: Let_def case_prod_beta profile_denies_def GetParametersFromConstraint_def RequestHandler_denies_iff)
  next
    case False
    with eq have "\<not> profile_denies L req (mip_Spec c) w" by (simp add: profile_denies_def)
    with IH(2) False show ?thesis by (auto simp: Let_def case_prod_beta)
  qed
qed simp

section \<open>Serving requests\<close>

text \<open>What the code outside the repository is taken to do. A status that is written to a profile
  is not in \<open>C\<close> either.\<close>

definition serving_laws ::
  "('k, 'w, 's) mip_rest \<Rightarrow> 'k apisV1Client result \<Rightarrow> (string \<Rightarrow> bool) \<Rightarrow> ('s, manifest_integrity_profile) objects \<Rightarrow>
   ('n, 'd, 's, 'x) ac_lib_scheme \<Rightarrow> ('s \<Rightarrow> 'c) \<Rightarrow> bool" where
  "serving_laws R made validName V L C \<longleftrightarrow>
     profile_cluster R made validName V L \<and>
     cluster_parts (with_profile_client R made L) C \<and> local_files (with_profile_client R made L) \<and>
     verification_inputs (with_profile_client R made L) C \<and>
     (\<forall>s p q s'. MIP_Update (with_profile_client R made L) s p = Inr s' \<and> V s ([], mip_Name p) = Some q \<and>
        mip_Spec p = mip_Spec q \<longrightarrow> C s' = C s)"

lemma updateConstraintStatus_alike:
  assumes "serving_laws R made validName V L C"
  defines "M \<equiv> with_profile_client R made L"
  shows "alike C (snd (updateConstraintStatus M now c req m w)) w"
proof -
  from assms have cluster: "profile_cluster R made validName V L" by (simp add: serving_laws_def)
  note calls = profile_calls [OF cluster, folded M_def]
  have keep: "C s' = C (w_cluster w)"
    if "MIP_Get M (w_cluster w) c = Inr p" and "MIP_Update M (w_cluster w) (UpdateStatus M now req m p) = Inr s'" for p s'
  proof (cases "V (w_cluster w) ([], c)")
    case None
    from calls(3) [OF None] that(1) show ?thesis by auto
  next
    case (Some q)
    with calls(2) [OF Some] that(1) have "q = p" by simp
    with Some calls(5) have "V (w_cluster w) ([], mip_Name (UpdateStatus M now req m p)) = Some p" by simp
    moreover have "mip_Spec (UpdateStatus M now req m p) = mip_Spec p" by simp
    ultimately show ?thesis using assms(1) that(2) unfolding serving_laws_def M_def by blast
  qed
  then show ?thesis unfolding updateConstraintStatus_def alike_def by (simp split: sum.split)
qed

lemma updateConstraints_alike:
  assumes "serving_laws R made validName V L C"
  shows "alike C (updateConstraints (with_profile_client R made L) clock detect req results w) w"
proof (induction results arbitrary: w clock)
  case (Cons r rs)
  show ?case
  proof (cases "res_Allow r")
    case False
    show ?thesis
      using alike_trans [OF Cons.IH updateConstraintStatus_alike [OF assms]] False
      by (simp add: updateConstraints_denied del: updateConstraints.simps)
  qed (use Cons.IH in simp)
qed simp

definition in_scope :: "('n, 'd, 's, 'x) lib_scheme \<Rightarrow> admission_controller_config \<Rightarrow> request \<Rightarrow> bool" where
  "in_scope L config req \<longleftrightarrow> NamespaceSelector_Match L (acc_InScopeNamespaceSelector config) (req_Namespace req) \<and>
     \<not> Allow_Match L (acc_AllowKinds config) (req_Kind req)"

text \<open>What one request does to the state and to the stored profiles.\<close>

lemma ProcessRequest_served:
  assumes laws: "serving_laws R made validName V L C"
  defines "M \<equiv> with_profile_client R made L"
  assumes run: "ProcessRequest M clock req v = Return (resp, v')"
  shows "alike C v' v"
    and "loadAdmissionControllerConfig M v = Inr (Some config) \<Longrightarrow> V (w_cluster v) ([], n) = Some p \<Longrightarrow>
      stored_without_keys V (w_cluster v) \<Longrightarrow>
      \<exists>q. V (w_cluster v') ([], n) = Some q \<and> mip_Spec q = mip_Spec p \<and>
        (if in_scope M config req \<and> acc_UpdateMIPStatusForDeniedRequest config \<and> profile_denies M req (mip_Spec p) v
         then \<exists>now m. mip_Status q = mip_Status (UpdateStatus M now req m p) else mip_Status q = mip_Status p)"
    and "V (w_cluster v) ([], n) = None \<Longrightarrow> V (w_cluster v') ([], n) = None"
proof -
  from laws have cluster: "profile_cluster R made validName V L" and parts: "cluster_parts M C"
    and inputs: "local_files M" "verification_inputs M C" by (simp_all add: serving_laws_def M_def)
  note calls = profile_calls [OF cluster, folded M_def]
  from calls(6) [of "w_cluster v"] obtain cs
    where cs: "MIP_List M (w_cluster v) = Inr cs" and dist: "distinct (map mip_Name cs)"
      and stored: "\<And>c. c \<in> set cs \<longleftrightarrow> V (w_cluster v) ([], mip_Name c) = Some c" by blast
  then have load: "LoadConstraints M v = Inr cs"
    using calls(1) by (simp add: LoadConstraints_def cluster_parts_reads(3) [OF parts alike_refl])
  let ?rs = "fst (processConstraints M clock 0 req cs v)" and ?v = "snd (processConstraints M clock 0 req cs v)"
  have skip: "v' = v" if "\<And>config. loadAdmissionControllerConfig M v = Inr (Some config) \<Longrightarrow> \<not> in_scope M config req"
    using run that load unfolding ProcessRequest_def in_scope_def by (auto split: sum.splits option.splits if_splits)
  have full: "v' = (if acc_UpdateMIPStatusForDeniedRequest config
      then updateConstraints M (\<lambda>i. clock (length cs + i)) (CheckIfDetectOnly (acc_Mode config)) req ?rs ?v else ?v)"
    if "loadAdmissionControllerConfig M v = Inr (Some config)" and "in_scope M config req" for config
    using run ProcessRequest_in_scope [OF that(1) _ _ load, of req clock] that(2)
    by (auto simp: in_scope_def finishRequest_def Let_def split: if_splits)
  show "alike C v' v"
  proof (cases "\<exists>config. loadAdmissionControllerConfig M v = Inr (Some config) \<and> in_scope M config req")
    case True
    then obtain config where c: "loadAdmissionControllerConfig M v = Inr (Some config)" "in_scope M config req" by blast
    note all = processConstraints_alike [OF parts, of clock 0 req cs v]
    with alike_trans [OF updateConstraints_alike [OF laws] all [unfolded M_def]] show ?thesis
      unfolding full [OF c] by (simp add: M_def)
  next
    case False
    with skip show ?thesis by blast
  qed
  have kept: "V (w_cluster ?v) = V (w_cluster v)"
    unfolding M_def by (rule processConstraints_stored [OF cluster])
  show "V (w_cluster v') ([], n) = None" if "V (w_cluster v) ([], n) = None"
  proof (cases "\<exists>config. loadAdmissionControllerConfig M v = Inr (Some config) \<and> in_scope M config req")
    case True
    then obtain config where c: "loadAdmissionControllerConfig M v = Inr (Some config)" "in_scope M config req" by blast
    have "map_option plainProfile (V (w_cluster (updateConstraints M clk dt req ?rs ?v)) ([], n)) = None" for clk dt
      using updateConstraints_stored [OF cluster, folded M_def] kept that by simp
    then show ?thesis unfolding full [OF c] using that kept by simp
  next
    case False
    with skip that show ?thesis by blast
  qed
  show "\<exists>q. V (w_cluster v') ([], n) = Some q \<and> mip_Spec q = mip_Spec p \<and>
        (if in_scope M config req \<and> acc_UpdateMIPStatusForDeniedRequest config \<and> profile_denies M req (mip_Spec p) v
         then \<exists>now m. mip_Status q = mip_Status (UpdateStatus M now req m p) else mip_Status q = mip_Status p)"
    if config: "loadAdmissionControllerConfig M v = Inr (Some config)" and p: "V (w_cluster v) ([], n) = Some p"
      and own: "stored_without_keys V (w_cluster v)"
  proof (cases "in_scope M config req")
    case False
    with skip config p show ?thesis by auto
  next
    case True
    have name: "mip_Name p = n" using calls(5) p by simp
    with p stored have mem: "p \<in> set cs" by simp
    have "\<forall>c\<in>set cs. no_own_keys (mip_Spec c)" using own stored unfolding stored_without_keys_def by blast
    from processConstraints_denials [OF parts inputs this alike_refl, where clock = clock and i = 0 and req = req and n = n] mem name dist
    have denies: "(\<exists>r\<in>set ?rs. res_Profile r = n \<and> \<not> res_Allow r) \<longleftrightarrow> profile_denies M req (mip_Spec p) v"
      by (auto simp: distinct_map inj_on_def)
    have profiles: "distinct (map res_Profile ?rs)" using dist by (simp add: processConstraints_profiles)
    let ?clk = "\<lambda>i. clock (length cs + i)" and ?d = "CheckIfDetectOnly (acc_Mode config)"
    have "map_option plainProfile (V (w_cluster (updateConstraints M ?clk ?d req ?rs ?v)) ([], n)) =
        Some (recorded M ?clk ?d req n ?rs (plainProfile p))"
      unfolding M_def updateConstraints_stored [OF cluster] kept [unfolded M_def] p by simp
    then obtain q where q: "V (w_cluster (updateConstraints M ?clk ?d req ?rs ?v)) ([], n) = Some q"
      "plainProfile q = recorded M ?clk ?d req n ?rs (plainProfile p)" by auto
    show ?thesis
    proof (cases "profile_denies M req (mip_Spec p) v")
      case deny: True
      with denies obtain r where r: "r \<in> set ?rs" "\<not> res_Allow r" "res_Profile r = n" by blast
      from recorded_once [OF profiles r(1,2)] r(3) obtain now
        where "recorded M ?clk ?d req n ?rs (plainProfile p) = UpdateStatus M now req (statusMessage ?d r) (plainProfile p)" by blast
      with q(2) have "plainProfile q = plainProfile (UpdateStatus M now req (statusMessage ?d r) p)" by (simp only: plain_UpdateStatus)
      with q(1) kept p True deny show ?thesis unfolding full [OF config True] by auto
    next
      case False
      with denies have "recorded M ?clk ?d req n ?rs (plainProfile p) = plainProfile p" by (intro recorded_none) blast
      with q kept p True False show ?thesis unfolding full [OF config True] by simp
    qed
  qed
qed

text \<open>A webhook pod that has served the requests \<open>reqs\<close>, each at some time.\<close>

inductive served ::
  "('n, 'd, 's, 'x) ac_lib_scheme \<Rightarrow> 's world \<Rightarrow> request list \<Rightarrow> 's world \<Rightarrow> bool"
  for L :: "('n, 'd, 's, 'x) ac_lib_scheme" and w :: "'s world" where
  none_served: "served L w [] w"
| one_more: "served L w reqs v \<Longrightarrow> ProcessRequest L clock req v = Return (resp, v') \<Longrightarrow> served L w (reqs @ [req]) v'"

text \<open>What stays the same: everything a decision depends on, and the specification of every stored
  profile. The counter of a profile has advanced by the number of requests it denied.\<close>

definition counted where
  "counted L config w p reqs q \<longleftrightarrow> mip_Spec q = mip_Spec p \<and>
     DenyCount (mip_Status q) = DenyCount (mip_Status p) +
       (if acc_UpdateMIPStatusForDeniedRequest config
        then of_nat (length [req \<leftarrow> reqs. in_scope L config req \<and> profile_denies L req (mip_Spec p) w]) else 0)"

lemma served_keeps:
  assumes laws: "serving_laws R made validName V L C"
  defines "M \<equiv> with_profile_client R made L"
  assumes "served M w reqs v" and config: "loadAdmissionControllerConfig M w = Inr (Some config)"
    and own: "stored_without_keys V (w_cluster w)"
  shows "alike C v w \<and> (\<forall>n. case V (w_cluster w) ([], n) of None \<Rightarrow> V (w_cluster v) ([], n) = None
     | Some p \<Rightarrow> \<exists>q. V (w_cluster v) ([], n) = Some q \<and> counted M config w p reqs q)"
  using assms(3)
proof induction
  case none_served
  show ?case by (simp add: counted_def split: option.split)
next
  case (one_more reqs v clock req resp v')
  from laws have parts: "cluster_parts M C" and inputs: "local_files M" "verification_inputs M C"
    by (simp_all add: serving_laws_def M_def)
  from one_more.IH have v: "alike C v w" and st: "\<And>n. case V (w_cluster w) ([], n) of None \<Rightarrow> V (w_cluster v) ([], n) = None
     | Some p \<Rightarrow> \<exists>q. V (w_cluster v) ([], n) = Some q \<and> counted M config w p reqs q" by blast+
  note step = ProcessRequest_served [OF laws, folded M_def, OF one_more.hyps(2)]
  have config': "loadAdmissionControllerConfig M v = Inr (Some config)"
    using configs_alike(2) [OF parts v] config by simp
  have "no_own_keys (mip_Spec q)" if "V (w_cluster v) ([], n) = Some q" for n q
    using st [of n] that own by (auto simp: counted_def stored_without_keys_def split: option.splits)
  then have own': "stored_without_keys V (w_cluster v)" by (simp add: stored_without_keys_def)
  have "case V (w_cluster w) ([], n) of None \<Rightarrow> V (w_cluster v') ([], n) = None
     | Some p \<Rightarrow> \<exists>q. V (w_cluster v') ([], n) = Some q \<and> counted M config w p (reqs @ [req]) q" for n
  proof (cases "V (w_cluster w) ([], n)")
    case None
    with st [of n] step(3) show ?thesis by simp
  next
    case (Some p)
    with st [of n] obtain q where q: "V (w_cluster v) ([], n) = Some q" "counted M config w p reqs q" by auto
    from step(2) [OF config' q(1) own'] obtain q' where q': "V (w_cluster v') ([], n) = Some q'" "mip_Spec q' = mip_Spec q"
      and upd: "if in_scope M config req \<and> acc_UpdateMIPStatusForDeniedRequest config \<and> profile_denies M req (mip_Spec q) v
         then \<exists>now m. mip_Status q' = mip_Status (UpdateStatus M now req m q) else mip_Status q' = mip_Status q" by blast
    have "profile_denies M req (mip_Spec q) v = profile_denies M req (mip_Spec p) w"
      using profile_denies_alike [OF parts inputs _ v] own Some q(2) by (auto simp: counted_def stored_without_keys_def)
    with upd q(2) q'(2) have "counted M config w p (reqs @ [req]) q'"
      by (auto simp: counted_def UpdateStatus_def Let_def split: if_splits)
    with q' Some show ?thesis by simp
  qed
  with alike_trans [OF step(1) v] show ?case by blast
qed

lemma served_denies_iff:
  assumes laws: "serving_laws R made validName V L C"
  defines "M \<equiv> with_profile_client R made L"
  assumes run: "served M w reqs v" and own: "stored_without_keys V (w_cluster w)"
    and config: "loadAdmissionControllerConfig M w = Inr (Some config)"
  shows "(\<exists>m v'. ProcessRequest M clock req v = Return (Denied m, v')) \<longleftrightarrow>
     in_scope M config req \<and> acc_Mode config \<noteq> ''detect'' \<and>
     (\<exists>n p. V (w_cluster w) ([], n) = Some p \<and> profile_denies M req (mip_Spec p) w)"
proof -
  from laws have cluster: "profile_cluster R made validName V L" and parts: "cluster_parts M C"
    and inputs: "local_files M" "verification_inputs M C" by (simp_all add: serving_laws_def M_def)
  note calls = profile_calls [OF cluster, folded M_def]
  from served_keeps [OF laws, folded M_def, OF run config own] have v: "alike C v w"
    and st: "\<And>n. case V (w_cluster w) ([], n) of None \<Rightarrow> V (w_cluster v) ([], n) = None
     | Some p \<Rightarrow> \<exists>q. V (w_cluster v) ([], n) = Some q \<and> counted M config w p reqs q" by blast+
  from calls(6) [of "w_cluster v"] obtain cs
    where cs: "MIP_List M (w_cluster v) = Inr cs" and stored: "\<And>c. c \<in> set cs \<longleftrightarrow> V (w_cluster v) ([], mip_Name c) = Some c"
    by blast
  then have load: "LoadConstraints M v = Inr cs"
    using calls(1) by (simp add: LoadConstraints_def cluster_parts_reads(3) [OF parts alike_refl])
  have same: "\<exists>q. V (w_cluster w) ([], mip_Name c) = Some q \<and> mip_Spec q = mip_Spec c" if "c \<in> set cs" for c
    using st [of "mip_Name c"] that stored [of c] by (auto simp: counted_def split: option.splits)
  then have own': "\<forall>c\<in>set cs. no_own_keys (mip_Spec c)" using own unfolding stored_without_keys_def by metis
  have "(\<exists>c\<in>set cs. profile_denies M req (mip_Spec c) w) \<longleftrightarrow>
      (\<exists>n p. V (w_cluster w) ([], n) = Some p \<and> profile_denies M req (mip_Spec p) w)"
  proof
    assume "\<exists>c\<in>set cs. profile_denies M req (mip_Spec c) w"
    with same show "\<exists>n p. V (w_cluster w) ([], n) = Some p \<and> profile_denies M req (mip_Spec p) w" by metis
  next
    assume "\<exists>n p. V (w_cluster w) ([], n) = Some p \<and> profile_denies M req (mip_Spec p) w"
    then obtain n p where p: "V (w_cluster w) ([], n) = Some p" "profile_denies M req (mip_Spec p) w" by blast
    with st [of n] obtain q where q: "V (w_cluster v) ([], n) = Some q" "mip_Spec q = mip_Spec p"
      by (auto simp: counted_def)
    from calls(5) [OF q(1)] stored [of q] q(1) have "q \<in> set cs" by simp
    with q(2) p(2) show "\<exists>c\<in>set cs. profile_denies M req (mip_Spec c) w" by metis
  qed
  moreover have "\<not> list_all res_Allow (fst (processConstraints M clock 0 req cs v)) \<longleftrightarrow>
      (\<exists>c\<in>set cs. profile_denies M req (mip_Spec c) w)"
    using processConstraints_denials [OF parts inputs own' v, where clock = clock and i = 0 and req = req]
    unfolding list_all_iff by blast
  moreover have "loadAdmissionControllerConfig M v = Inr (Some config)"
    using configs_alike(2) [OF parts v] config by simp
  ultimately show ?thesis unfolding ProcessRequest_Denied_iff using load by (auto simp: in_scope_def)
qed

section \<open>Stated properties\<close>

text \<open>C2: Serving requests does not change later decisions. However many requests a webhook pod has served,
  whatever they were and when they came, it denies a request exactly if the configuration it started
  with has the request in scope and is not in detection mode, and one of the profiles stored at the
  start covers and denies it as of then: neither the order of the profiles, nor the environment, files,
  events and status updates that handling other profiles and other requests leaves behind, makes a
  difference. This is for a cluster that changes by the webhook's own writes only, in which each secret has at
  most one entry, and for profiles that name no key file of their own, so that the keys come from
  secrets: of a secret with several entries the code takes the one that the iteration over a Go map
  happens to visit first, which may change the decision between two requests, and a file of the
  pod may be overwritten. The further hypotheses on the code outside the repository are
  \<open>serving_laws\<close>.\<close>

theorem decisions_depend_on_the_stored_profiles:
  assumes "serving_laws R (mip_NewForConfig F kube) validName V L C"
    and "served (with_profile_client R (mip_NewForConfig F kube) L) w reqs v"
    and "stored_without_keys V (w_cluster w)"
    and "loadAdmissionControllerConfig (with_profile_client R (mip_NewForConfig F kube) L) w = Inr (Some config)"
  shows "(\<exists>m v'. ProcessRequest (with_profile_client R (mip_NewForConfig F kube) L) clock req v = Return (Denied m, v')) \<longleftrightarrow>
     NamespaceSelector_Match L (acc_InScopeNamespaceSelector config) (req_Namespace req) \<and>
     \<not> Allow_Match L (acc_AllowKinds config) (req_Kind req) \<and> acc_Mode config \<noteq> ''detect'' \<and>
     (\<exists>n p. V (w_cluster w) ([], n) = Some p \<and>
        matchCheck (with_profile_client R (mip_NewForConfig F kube) L) req (mip_Match (mip_Spec p)) w \<and>
        constraint_denies (with_profile_client R (mip_NewForConfig F kube) L) req (mip_Parameters (mip_Spec p)) w)"
proof -
  let ?M = "with_profile_client R (mip_NewForConfig F kube) L"
  have "MatchWithPatternArray ?M = MatchWithPatternArray L" "MatchSinglePattern ?M = MatchSinglePattern L"
     "MatchPattern ?M = MatchPattern L" by (simp_all add: with_profile_client_def)
  then have "in_scope ?M config req \<longleftrightarrow> NamespaceSelector_Match L (acc_InScopeNamespaceSelector config) (req_Namespace req) \<and>
     \<not> Allow_Match L (acc_AllowKinds config) (req_Kind req)"
    by (simp add: in_scope_def NamespaceSelector_Match_def allowed_kinds.strict_iff allowPattern_def)
  with served_denies_iff [OF assms, of clock req] show ?thesis unfolding profile_denies_def by simp
qed

text \<open>C3: No unverified object slips through, at any time. Let a profile be stored that covers an object
  to be created, that enforces, and that neither skips nor exempts it. If verification as of the
  state the pod started in fails or finds no valid signature, the webhook denies the creation
  after any number of other requests. The side conditions on secrets, key files and the cluster are
  those of the previous property.\<close>

theorem unverified_creation_is_denied:
  fixes L :: "('n, 'd, 's, 'x) ac_lib_scheme" and F :: "('k, 'q, 'r, 'dc) conf_lib" and kube :: "('q, 'r) rest_config"
    and R :: "('k, 'w, 's) mip_rest"
  defines "M \<equiv> with_profile_client R (mip_NewForConfig F kube) L"
  assumes "serving_laws R (mip_NewForConfig F kube) validName V L C" and "served M w reqs v"
    and "stored_without_keys V (w_cluster w)"
    and "loadAdmissionControllerConfig M w = Inr (Some config)" and "in_scope M config req"
    and "acc_Mode config \<noteq> ''detect''" and "V (w_cluster w) ([], n) = Some p"
    and "matchCheck M req (mip_Match (mip_Spec p)) w"
    and "req_Operation req = ''CREATE''" and "UnmarshalUnstructured M (req_Object req) = Inr obj"
    and "LoadRequestHandlerConfig M w = Inr (Some rh)" and "enforceAction (mip_Parameters (mip_Spec p)) rh"
    and "ObjectReferenceList_Match M (po_InScopeObjects (mip_Parameters (mip_Spec p))) obj"
    and "\<not> skipObjectsMatch M (rfp_SkipObjects (rhc_RequestFilterProfile rh)) obj"
    and "\<not> ObjectUserBindingList_Match M (po_SkipUsers (mip_Parameters (mip_Spec p))) obj (req_Username req)"
    and "\<not> ObjectUserBindingList_Match M (rfp_SkipUsers (rhc_RequestFilterProfile rh)) obj (req_Username req)"
    and "setVerifyOption M (mip_Parameters (mip_Spec p)) rh (signatureAnnotationType M obj)
           (setRekorServerEnv rh (SetupLogger (rhc_Log rh) w)) = (vo, w1)"
    and "\<forall>r. VerifyResource M w1 obj vo = Inr r \<longrightarrow> vr_InScope r \<and> \<not> vr_Verified r"
  shows "\<exists>m v'. ProcessRequest M clock req v = Return (Denied m, v')"
proof -
  have "verification_of (VerifyResource M w1 obj vo) \<in> {VerifyError, NoValidSignature}"
    using assms(19) by (auto simp: verification_of_def split: sum.splits)
  then have "\<not> policy (facts_of M req (mip_Parameters (mip_Spec p)) rh obj (setRekorServerEnv rh (SetupLogger (rhc_Log rh) w)))"
    using assms(10,14-18) by (auto simp: policy_def facts_of_def user_bindings.strict_iff skip_objects.strict_iff)
  then have "profile_denies M req (mip_Spec p) w"
    using assms(9,11,12,13) by (simp add: profile_denies_def constraint_denies_def Let_def)
  then show ?thesis
    using served_denies_iff [OF assms(2), folded M_def, OF assms(3,4,5)] assms(6,7,8) by blast
qed

text \<open>C7: The status of a profile counts its denials. After any requests the stored profiles are those
  the pod started with, with the same specifications; the counter of each has advanced, at its
  width, by the number of requests in scope that the profile denied, also in detection mode and
  also if other profiles denied them too, and not at all if status updates are switched off. The side
  conditions on secrets, key files and the cluster are again the same.\<close>

theorem denials_are_counted:
  assumes "serving_laws R (mip_NewForConfig F kube) validName V L C"
    and "served (with_profile_client R (mip_NewForConfig F kube) L) w reqs v"
    and "stored_without_keys V (w_cluster w)"
    and "loadAdmissionControllerConfig (with_profile_client R (mip_NewForConfig F kube) L) w = Inr (Some config)"
  shows "case V (w_cluster w) ([], n) of None \<Rightarrow> V (w_cluster v) ([], n) = None
     | Some p \<Rightarrow> \<exists>q. V (w_cluster v) ([], n) = Some q \<and> mip_Spec q = mip_Spec p \<and>
         DenyCount (mip_Status q) = DenyCount (mip_Status p) +
           (if acc_UpdateMIPStatusForDeniedRequest config
            then of_nat (length [req \<leftarrow> reqs. in_scope (with_profile_client R (mip_NewForConfig F kube) L) config req \<and>
              profile_denies (with_profile_client R (mip_NewForConfig F kube) L) req (mip_Spec p) w]) else 0)"
  using served_keeps [OF assms(1,2,4,3)] unfolding counted_def by blast

section \<open>Samples\<close>

definition sample_serving :: "(string, string list, manifest_integrity_profile sample_store) ac_lib" where
  "sample_serving = sample_controller
     \<lparr>GetSecretData := \<lambda>s ns n. if ns = ''ns'' \<and> n = ''keys'' then Inr [(''pub.pem'', ''KEY'')] else Inl ''not found''\<rparr>"

abbreviation sample_webhook :: "(string, string list, manifest_integrity_profile sample_store) ac_lib" where
  "sample_webhook \<equiv> with_profile_client sample_profile_server (mip_NewForConfig sample_conf sample_kube) sample_serving"

lemma sample_serving_laws:
  "serving_laws sample_profile_server (mip_NewForConfig sample_conf sample_kube) (\<lambda>n. n \<noteq> []) (stored False mip_Name)
     sample_serving (\<lambda>s. ())"
proof -
  have "profile_cluster sample_profile_server (mip_NewForConfig sample_conf sample_kube) (\<lambda>n. n \<noteq> []) (stored False mip_Name) sample_serving"
    using sample_profile_cluster by (simp add: profile_cluster_def sample_serving_def)
  moreover have "cluster_parts sample_webhook (\<lambda>s. ())"
    by (auto simp: cluster_parts_def with_profile_client_def sample_serving_def sample_controller_def sample_base_def lib.extend_def)
  moreover have "PathJoin (keyDir ''ns'' ''keys'') ''pub.pem'' \<noteq> PathJoin ''/tmp/verify-image1'' ''manifest.yaml''" by code_simp
  then have "local_files sample_webhook"
    by (auto simp: local_files_def with_profile_client_def sample_serving_def sample_controller_def sample_base_def lib.extend_def
        split: if_splits)
  moreover have "verification_inputs sample_webhook (\<lambda>s. ())"
    by (auto simp: verification_inputs_def with_profile_client_def sample_serving_def sample_controller_def sample_base_def lib.extend_def)
  ultimately show ?thesis by (simp add: serving_laws_def)
qed

lemma sample_serving_facts:
  "loadAdmissionControllerConfig sample_webhook sample_profile_world = Inr (Some sample_ac_config)"
  "stored_without_keys (stored False mip_Name) (w_cluster sample_profile_world)"
  "stored False mip_Name (w_cluster sample_profile_world) ([], ''p1'') = Some sample_mip"
  "in_scope sample_webhook sample_ac_config (sample_request ''unsigned'')"
  "acc_Mode sample_ac_config \<noteq> ''detect''"
  "profile_denies sample_webhook (sample_request ''unsigned'') (mip_Spec sample_mip) sample_profile_world"
proof -
  show "stored_without_keys (stored False mip_Name) (w_cluster sample_profile_world)"
    by (auto simp: stored_without_keys_def stored_def sample_profile_world_def no_own_keys_def sample_mip_def sample_params_def
        zero_verify_option_def split: if_splits)
qed code_simp+

text \<open>The sample webhook has already denied one request.\<close>

lemma sample_served:
  obtains v where "served sample_webhook sample_profile_world [sample_request ''unsigned''] v"
proof -
  let ?r = "ProcessRequest sample_webhook sample_ac_clock (sample_request ''unsigned'') sample_profile_world"
  have "case ?r of Return _ \<Rightarrow> True | _ \<Rightarrow> False" by code_simp
  then obtain resp v where "?r = Return (resp, v)" by (auto split: outcome.splits)
  from one_more [OF none_served this] that show ?thesis by simp
qed

theorem decisions_depend_on_the_stored_profiles_witness:
  "\<exists>v m v'. served sample_webhook sample_profile_world [sample_request ''unsigned''] v \<and>
     ProcessRequest sample_webhook sample_ac_clock (sample_request ''unsigned'') v = Return (Denied m, v')"
proof -
  obtain v where v: "served sample_webhook sample_profile_world [sample_request ''unsigned''] v" by (rule sample_served)
  have "NamespaceSelector_Match sample_serving (acc_InScopeNamespaceSelector sample_ac_config) (req_Namespace (sample_request ''unsigned''))"
    "\<not> Allow_Match sample_serving (acc_AllowKinds sample_ac_config) (req_Kind (sample_request ''unsigned''))" by code_simp+
  with decisions_depend_on_the_stored_profiles [OF sample_serving_laws v sample_serving_facts(2,1),
      of sample_ac_clock "sample_request ''unsigned''"] sample_serving_facts(3,5,6) v
  show ?thesis unfolding profile_denies_def by blast
qed

theorem unverified_creation_is_denied_witness:
  "\<exists>v m v'. served sample_webhook sample_profile_world [sample_request ''unsigned''] v \<and>
     ProcessRequest sample_webhook sample_ac_clock (sample_request ''unsigned'') v = Return (Denied m, v')"
proof -
  obtain v where v: "served sample_webhook sample_profile_world [sample_request ''unsigned''] v" by (rule sample_served)
  let ?w = "setRekorServerEnv sample_config (SetupLogger (rhc_Log sample_config) sample_profile_world)"
  obtain vo w1 where vo: "setVerifyOption sample_webhook (mip_Parameters (mip_Spec sample_mip)) sample_config
      (signatureAnnotationType sample_webhook (JStr ''unsigned'')) ?w = (vo, w1)" by fastforce
  have "VerifyResource sample_webhook w1 (JStr ''unsigned'') vo = sample_verify (JStr ''unsigned'')"
    by (simp add: with_profile_client_def sample_serving_def sample_controller_def sample_base_def lib.extend_def)
  then have unsigned: "\<forall>r. VerifyResource sample_webhook w1 (JStr ''unsigned'') vo = Inr r \<longrightarrow> vr_InScope r \<and> \<not> vr_Verified r"
    by (simp add: sample_verify_def)
  have "\<exists>m v'. ProcessRequest sample_webhook sample_ac_clock (sample_request ''unsigned'') v = Return (Denied m, v')"
    by (rule unverified_creation_is_denied [OF sample_serving_laws v sample_serving_facts(2,1,4,5,3) _ _ _ _ _ _ _ _ _ vo unsigned])
       code_simp+
  with v show ?thesis by blast
qed

theorem denials_are_counted_witness:
  "\<exists>v q. served sample_webhook sample_profile_world [sample_request ''unsigned''] v \<and>
     stored False mip_Name (w_cluster v) ([], ''p1'') = Some q \<and>
     DenyCount (mip_Status q) = DenyCount (mip_Status sample_mip) + 1"
proof -
  obtain v where v: "served sample_webhook sample_profile_world [sample_request ''unsigned''] v" by (rule sample_served)
  have "acc_UpdateMIPStatusForDeniedRequest sample_ac_config" by (simp add: sample_ac_config_def)
  with denials_are_counted [OF sample_serving_laws v sample_serving_facts(2,1), of "''p1''"] sample_serving_facts(3,4,6)
  have "\<exists>q. stored False mip_Name (w_cluster v) ([], ''p1'') = Some q \<and>
     DenyCount (mip_Status q) = DenyCount (mip_Status sample_mip) + 1" by auto
  with v show ?thesis by blast
qed

end
