(* ===== verification/FakeClient.thy ===== *)
theory FakeClient
  imports RestClient
begin

text \<open>
  The fake clients that client-gen wrote for tests, \<^verbatim>\<open>fake/fake_manifestintegrityprofile.go\<close> (\<^verbatim>\<open>v1\<close> and
  \<^verbatim>\<open>v1alpha1\<close>) and \<^verbatim>\<open>fake/fake_manifestintegritystate.go\<close>. A method of a fake client invokes an action
  of \<^verbatim>\<open>k8s.io/client-go/testing\<close>; a test against it says something about the program only if the
  actions are those that the requests of the real client ask for.
\<close>

section \<open>Actions\<close>

type_synonym gvr = "string \<times> string \<times> string"

text \<open>The calls that make actions. Those with \<open>Root\<close> in their name are without a namespace.\<close>

datatype 'o action =
    NewRootGetAction gvr string
  | NewGetAction gvr string string
  | NewRootListAction gvr gvk list_options
  | NewListAction gvr gvk string list_options
  | NewRootWatchAction gvr list_options
  | NewWatchAction gvr string list_options
  | NewRootCreateAction gvr "'o option"
  | NewCreateAction gvr string "'o option"
  | NewRootUpdateAction gvr "'o option"
  | NewUpdateAction gvr string "'o option"
  | NewRootUpdateSubresourceAction gvr string "'o option"
  | NewRootDeleteAction gvr string
  | NewDeleteAction gvr string string
  | NewRootDeleteCollectionAction gvr list_options
  | NewDeleteCollectionAction gvr string list_options
  | NewRootPatchSubresourceAction gvr string string bytes "string list"
  | NewPatchSubresourceAction gvr string string string bytes "string list"

text \<open>The dynamic types of a \<open>runtime.Object\<close> that the methods tell apart.\<close>

datatype ('o, 'l) runtime_object = ObjectOf 'o | ListOf 'l | OtherObject

text \<open>\<open>ExtractLabel\<close> is the first result of \<open>testing.ExtractFromListOptions\<close>, \<open>Label_Matches\<close> is
  \<open>label.Matches(labels.Set(item.Labels))\<close>.\<close>

record ('o, 'l, 'lab, 'w, 's) fake_lib =
  Invokes :: "'o action \<Rightarrow> ('o, 'l) runtime_object \<Rightarrow> 's \<Rightarrow> (('o, 'l) runtime_object option \<times> string option) \<times> 's"
  InvokesWatch :: "'o action \<Rightarrow> 's \<Rightarrow> 'w result \<times> 's"
  ExtractLabel :: "list_options \<Rightarrow> 'lab option"
  Everything :: 'lab
  Label_Matches :: "'lab \<Rightarrow> 'o \<Rightarrow> bool"

text \<open>A method returns a nil object when the fake does, and panics on an object of another type.\<close>

type_synonym ('a, 's) fake_reply = "(('a option \<times> string option) \<times> 's) outcome"

definition assertionPanic :: string where
  "assertionPanic = ''interface conversion''"

definition assertObject :: "(('o, 'l) runtime_object option \<times> string option) \<times> 's \<Rightarrow> ('o, 's) fake_reply" where
  "assertObject r =
     (let ((obj, err), s) = r
      in case obj of None \<Rightarrow> Return ((None, err), s)
         | Some (ObjectOf x) \<Rightarrow> Return ((Some x, err), s)
         | Some _ \<Rightarrow> Panic assertionPanic)"

section \<open>The fake client of the profiles\<close>

definition manifestintegrityprofilesResource :: gvr where
  "manifestintegrityprofilesResource = (''apis.integrityshield.io'', ''v1'', ''manifestintegrityprofiles'')"

definition manifestintegrityprofilesKind :: gvk where
  "manifestintegrityprofilesKind = \<lparr>gvk_Group = ''apis.integrityshield.io'', gvk_Version = ''v1'', gvk_Kind = ''ManifestIntegrityProfile''\<rparr>"

definition FakeManifestIntegrityProfiles_Get ::
  "(manifest_integrity_profile, mip_list, 'lab, 'w, 's) fake_lib \<Rightarrow> string \<Rightarrow> json \<Rightarrow> 's \<Rightarrow> (manifest_integrity_profile, 's) fake_reply" where
  "FakeManifestIntegrityProfiles_Get F name options s =
     assertObject (Invokes F (NewRootGetAction manifestintegrityprofilesResource name) (ObjectOf zero_ManifestIntegrityProfile) s)"

definition FakeManifestIntegrityProfiles_List ::
  "(manifest_integrity_profile, mip_list, 'lab, 'w, 's) fake_lib \<Rightarrow> list_options \<Rightarrow> 's \<Rightarrow> (mip_list, 's) fake_reply" where
  "FakeManifestIntegrityProfiles_List F opts s =
     (let ((obj, err), s') = Invokes F (NewRootListAction manifestintegrityprofilesResource manifestintegrityprofilesKind opts) (ListOf zero_ManifestIntegrityProfileList) s
      in case obj of None \<Rightarrow> Return ((None, err), s')
         | Some obj \<Rightarrow>
             (let label = (case ExtractLabel F opts of None \<Rightarrow> Everything F | Some l \<Rightarrow> l)
              in case obj of
                   ListOf l \<Rightarrow> Return ((Some \<lparr>mil_ListMeta = mil_ListMeta l, mil_Items = filter (Label_Matches F label) (mil_Items l)\<rparr>, err), s')
                 | _ \<Rightarrow> Panic assertionPanic))"

definition FakeManifestIntegrityProfiles_Watch ::
  "(manifest_integrity_profile, mip_list, 'lab, 'w, 's) fake_lib \<Rightarrow> list_options \<Rightarrow> 's \<Rightarrow> ('w result \<times> 's) outcome" where
  "FakeManifestIntegrityProfiles_Watch F opts s =
     Return (InvokesWatch F (NewRootWatchAction manifestintegrityprofilesResource opts) s)"

definition FakeManifestIntegrityProfiles_Create ::
  "(manifest_integrity_profile, mip_list, 'lab, 'w, 's) fake_lib \<Rightarrow> manifest_integrity_profile option \<Rightarrow> json \<Rightarrow> 's \<Rightarrow> (manifest_integrity_profile, 's) fake_reply" where
  "FakeManifestIntegrityProfiles_Create F obj opts s =
     assertObject (Invokes F (NewRootCreateAction manifestintegrityprofilesResource obj) (ObjectOf zero_ManifestIntegrityProfile) s)"

definition FakeManifestIntegrityProfiles_Update ::
  "(manifest_integrity_profile, mip_list, 'lab, 'w, 's) fake_lib \<Rightarrow> manifest_integrity_profile option \<Rightarrow> json \<Rightarrow> 's \<Rightarrow> (manifest_integrity_profile, 's) fake_reply" where
  "FakeManifestIntegrityProfiles_Update F obj opts s =
     assertObject (Invokes F (NewRootUpdateAction manifestintegrityprofilesResource obj) (ObjectOf zero_ManifestIntegrityProfile) s)"

definition FakeManifestIntegrityProfiles_UpdateStatus ::
  "(manifest_integrity_profile, mip_list, 'lab, 'w, 's) fake_lib \<Rightarrow> manifest_integrity_profile option \<Rightarrow> json \<Rightarrow> 's \<Rightarrow> (manifest_integrity_profile, 's) fake_reply" where
  "FakeManifestIntegrityProfiles_UpdateStatus F obj opts s =
     assertObject (Invokes F (NewRootUpdateSubresourceAction manifestintegrityprofilesResource ''status'' obj) (ObjectOf zero_ManifestIntegrityProfile) s)"

definition FakeManifestIntegrityProfiles_Delete ::
  "(manifest_integrity_profile, mip_list, 'lab, 'w, 's) fake_lib \<Rightarrow> string \<Rightarrow> json \<Rightarrow> 's \<Rightarrow> (string option \<times> 's) outcome" where
  "FakeManifestIntegrityProfiles_Delete F name opts s =
     (let ((_, err), s') = Invokes F (NewRootDeleteAction manifestintegrityprofilesResource name) (ObjectOf zero_ManifestIntegrityProfile) s in Return (err, s'))"

definition FakeManifestIntegrityProfiles_DeleteCollection ::
  "(manifest_integrity_profile, mip_list, 'lab, 'w, 's) fake_lib \<Rightarrow> json \<Rightarrow> list_options \<Rightarrow> 's \<Rightarrow> (string option \<times> 's) outcome" where
  "FakeManifestIntegrityProfiles_DeleteCollection F opts listOpts s =
     (let action = NewRootDeleteCollectionAction manifestintegrityprofilesResource listOpts;
          ((_, err), s') = Invokes F action (ListOf zero_ManifestIntegrityProfileList) s in Return (err, s'))"

definition FakeManifestIntegrityProfiles_Patch ::
  "(manifest_integrity_profile, mip_list, 'lab, 'w, 's) fake_lib \<Rightarrow> string \<Rightarrow> string \<Rightarrow> bytes \<Rightarrow> json \<Rightarrow> string list \<Rightarrow> 's \<Rightarrow> (manifest_integrity_profile, 's) fake_reply" where
  "FakeManifestIntegrityProfiles_Patch F name pt data opts subresources s =
     assertObject (Invokes F (NewRootPatchSubresourceAction manifestintegrityprofilesResource name pt data subresources) (ObjectOf zero_ManifestIntegrityProfile) s)"

section \<open>The fake client of the profiles in the package v1alpha1\<close>

definition v1alpha1_manifestintegrityprofilesResource :: gvr where
  "v1alpha1_manifestintegrityprofilesResource = (''apis.integrityshield.io'', ''v1alpha1'', ''manifestintegrityprofiles'')"

definition v1alpha1_manifestintegrityprofilesKind :: gvk where
  "v1alpha1_manifestintegrityprofilesKind =
     \<lparr>gvk_Group = ''apis.integrityshield.io'', gvk_Version = ''v1alpha1'', gvk_Kind = ''ManifestIntegrityProfile''\<rparr>"

definition v1alpha1_FakeManifestIntegrityProfiles_Get ::
  "(manifest_integrity_profile, mip_list, 'lab, 'w, 's) fake_lib \<Rightarrow> string \<Rightarrow> json \<Rightarrow> 's \<Rightarrow> (manifest_integrity_profile, 's) fake_reply" where
  "v1alpha1_FakeManifestIntegrityProfiles_Get F name options s =
     assertObject (Invokes F (NewRootGetAction v1alpha1_manifestintegrityprofilesResource name) (ObjectOf zero_ManifestIntegrityProfile) s)"

definition v1alpha1_FakeManifestIntegrityProfiles_List ::
  "(manifest_integrity_profile, mip_list, 'lab, 'w, 's) fake_lib \<Rightarrow> list_options \<Rightarrow> 's \<Rightarrow> (mip_list, 's) fake_reply" where
  "v1alpha1_FakeManifestIntegrityProfiles_List F opts s =
     (let ((obj, err), s') = Invokes F (NewRootListAction v1alpha1_manifestintegrityprofilesResource v1alpha1_manifestintegrityprofilesKind opts) (ListOf zero_ManifestIntegrityProfileList) s
      in case obj of None \<Rightarrow> Return ((None, err), s')
         | Some obj \<Rightarrow>
             (let label = (case ExtractLabel F opts of None \<Rightarrow> Everything F | Some l \<Rightarrow> l)
              in case obj of
                   ListOf l \<Rightarrow> Return ((Some \<lparr>mil_ListMeta = mil_ListMeta l, mil_Items = filter (Label_Matches F label) (mil_Items l)\<rparr>, err), s')
                 | _ \<Rightarrow> Panic assertionPanic))"

definition v1alpha1_FakeManifestIntegrityProfiles_Watch ::
  "(manifest_integrity_profile, mip_list, 'lab, 'w, 's) fake_lib \<Rightarrow> list_options \<Rightarrow> 's \<Rightarrow> ('w result \<times> 's) outcome" where
  "v1alpha1_FakeManifestIntegrityProfiles_Watch F opts s =
     Return (InvokesWatch F (NewRootWatchAction v1alpha1_manifestintegrityprofilesResource opts) s)"

definition v1alpha1_FakeManifestIntegrityProfiles_Create ::
  "(manifest_integrity_profile, mip_list, 'lab, 'w, 's) fake_lib \<Rightarrow> manifest_integrity_profile option \<Rightarrow> json \<Rightarrow> 's \<Rightarrow> (manifest_integrity_profile, 's) fake_reply" where
  "v1alpha1_FakeManifestIntegrityProfiles_Create F obj opts s =
     assertObject (Invokes F (NewRootCreateAction v1alpha1_manifestintegrityprofilesResource obj) (ObjectOf zero_ManifestIntegrityProfile) s)"

definition v1alpha1_FakeManifestIntegrityProfiles_Update ::
  "(manifest_integrity_profile, mip_list, 'lab, 'w, 's) fake_lib \<Rightarrow> manifest_integrity_profile option \<Rightarrow> json \<Rightarrow> 's \<Rightarrow> (manifest_integrity_profile, 's) fake_reply" where
  "v1alpha1_FakeManifestIntegrityProfiles_Update F obj opts s =
     assertObject (Invokes F (NewRootUpdateAction v1alpha1_manifestintegrityprofilesResource obj) (ObjectOf zero_ManifestIntegrityProfile) s)"

definition v1alpha1_FakeManifestIntegrityProfiles_UpdateStatus ::
  "(manifest_integrity_profile, mip_list, 'lab, 'w, 's) fake_lib \<Rightarrow> manifest_integrity_profile option \<Rightarrow> json \<Rightarrow> 's \<Rightarrow> (manifest_integrity_profile, 's) fake_reply" where
  "v1alpha1_FakeManifestIntegrityProfiles_UpdateStatus F obj opts s =
     assertObject (Invokes F (NewRootUpdateSubresourceAction v1alpha1_manifestintegrityprofilesResource ''status'' obj) (ObjectOf zero_ManifestIntegrityProfile) s)"

definition v1alpha1_FakeManifestIntegrityProfiles_Delete ::
  "(manifest_integrity_profile, mip_list, 'lab, 'w, 's) fake_lib \<Rightarrow> string \<Rightarrow> json \<Rightarrow> 's \<Rightarrow> (string option \<times> 's) outcome" where
  "v1alpha1_FakeManifestIntegrityProfiles_Delete F name opts s =
     (let ((_, err), s') = Invokes F (NewRootDeleteAction v1alpha1_manifestintegrityprofilesResource name) (ObjectOf zero_ManifestIntegrityProfile) s in Return (err, s'))"

definition v1alpha1_FakeManifestIntegrityProfiles_DeleteCollection ::
  "(manifest_integrity_profile, mip_list, 'lab, 'w, 's) fake_lib \<Rightarrow> json \<Rightarrow> list_options \<Rightarrow> 's \<Rightarrow> (string option \<times> 's) outcome" where
  "v1alpha1_FakeManifestIntegrityProfiles_DeleteCollection F opts listOpts s =
     (let action = NewRootDeleteCollectionAction v1alpha1_manifestintegrityprofilesResource listOpts;
          ((_, err), s') = Invokes F action (ListOf zero_ManifestIntegrityProfileList) s in Return (err, s'))"

definition v1alpha1_FakeManifestIntegrityProfiles_Patch ::
  "(manifest_integrity_profile, mip_list, 'lab, 'w, 's) fake_lib \<Rightarrow> string \<Rightarrow> string \<Rightarrow> bytes \<Rightarrow> json \<Rightarrow> string list \<Rightarrow> 's \<Rightarrow> (manifest_integrity_profile, 's) fake_reply" where
  "v1alpha1_FakeManifestIntegrityProfiles_Patch F name pt data opts subresources s =
     assertObject (Invokes F (NewRootPatchSubresourceAction v1alpha1_manifestintegrityprofilesResource name pt data subresources) (ObjectOf zero_ManifestIntegrityProfile) s)"

section \<open>The fake client of the states\<close>

record fakeManifestIntegrityStates =
  fmiss_ns :: string

definition manifestintegritystatesResource :: gvr where
  "manifestintegritystatesResource = (''apis.integrityshield.io'', ''v1'', ''manifestintegritystates'')"

definition manifestintegritystatesKind :: gvk where
  "manifestintegritystatesKind = \<lparr>gvk_Group = ''apis.integrityshield.io'', gvk_Version = ''v1'', gvk_Kind = ''ManifestIntegrityState''\<rparr>"

definition FakeManifestIntegrityStates_Get ::
  "(manifest_integrity_state, mis_list, 'lab, 'w, 's) fake_lib \<Rightarrow> fakeManifestIntegrityStates \<Rightarrow> string \<Rightarrow> json \<Rightarrow> 's \<Rightarrow> (manifest_integrity_state, 's) fake_reply" where
  "FakeManifestIntegrityStates_Get F c name options s =
     assertObject (Invokes F (NewGetAction manifestintegritystatesResource (fmiss_ns c) name) (ObjectOf zero_ManifestIntegrityState) s)"

definition FakeManifestIntegrityStates_List ::
  "(manifest_integrity_state, mis_list, 'lab, 'w, 's) fake_lib \<Rightarrow> fakeManifestIntegrityStates \<Rightarrow> list_options \<Rightarrow> 's \<Rightarrow> (mis_list, 's) fake_reply" where
  "FakeManifestIntegrityStates_List F c opts s =
     (let ((obj, err), s') = Invokes F (NewListAction manifestintegritystatesResource manifestintegritystatesKind (fmiss_ns c) opts) (ListOf zero_ManifestIntegrityStateList) s
      in case obj of None \<Rightarrow> Return ((None, err), s')
         | Some obj \<Rightarrow>
             (let label = (case ExtractLabel F opts of None \<Rightarrow> Everything F | Some l \<Rightarrow> l)
              in case obj of
                   ListOf l \<Rightarrow> Return ((Some \<lparr>msl_ListMeta = msl_ListMeta l, msl_Items = filter (Label_Matches F label) (msl_Items l)\<rparr>, err), s')
                 | _ \<Rightarrow> Panic assertionPanic))"

definition FakeManifestIntegrityStates_Watch ::
  "(manifest_integrity_state, mis_list, 'lab, 'w, 's) fake_lib \<Rightarrow> fakeManifestIntegrityStates \<Rightarrow> list_options \<Rightarrow> 's \<Rightarrow> ('w result \<times> 's) outcome" where
  "FakeManifestIntegrityStates_Watch F c opts s =
     Return (InvokesWatch F (NewWatchAction manifestintegritystatesResource (fmiss_ns c) opts) s)"

definition FakeManifestIntegrityStates_Create ::
  "(manifest_integrity_state, mis_list, 'lab, 'w, 's) fake_lib \<Rightarrow> fakeManifestIntegrityStates \<Rightarrow> manifest_integrity_state option \<Rightarrow> json \<Rightarrow> 's \<Rightarrow> (manifest_integrity_state, 's) fake_reply" where
  "FakeManifestIntegrityStates_Create F c obj opts s =
     assertObject (Invokes F (NewCreateAction manifestintegritystatesResource (fmiss_ns c) obj) (ObjectOf zero_ManifestIntegrityState) s)"

definition FakeManifestIntegrityStates_Update ::
  "(manifest_integrity_state, mis_list, 'lab, 'w, 's) fake_lib \<Rightarrow> fakeManifestIntegrityStates \<Rightarrow> manifest_integrity_state option \<Rightarrow> json \<Rightarrow> 's \<Rightarrow> (manifest_integrity_state, 's) fake_reply" where
  "FakeManifestIntegrityStates_Update F c obj opts s =
     assertObject (Invokes F (NewUpdateAction manifestintegritystatesResource (fmiss_ns c) obj) (ObjectOf zero_ManifestIntegrityState) s)"

definition FakeManifestIntegrityStates_Delete ::
  "(manifest_integrity_state, mis_list, 'lab, 'w, 's) fake_lib \<Rightarrow> fakeManifestIntegrityStates \<Rightarrow> string \<Rightarrow> json \<Rightarrow> 's \<Rightarrow> (string option \<times> 's) outcome" where
  "FakeManifestIntegrityStates_Delete F c name opts s =
     (let ((_, err), s') = Invokes F (NewDeleteAction manifestintegritystatesResource (fmiss_ns c) name) (ObjectOf zero_ManifestIntegrityState) s in Return (err, s'))"

definition FakeManifestIntegrityStates_DeleteCollection ::
  "(manifest_integrity_state, mis_list, 'lab, 'w, 's) fake_lib \<Rightarrow> fakeManifestIntegrityStates \<Rightarrow> json \<Rightarrow> list_options \<Rightarrow> 's \<Rightarrow> (string option \<times> 's) outcome" where
  "FakeManifestIntegrityStates_DeleteCollection F c opts listOpts s =
     (let action = NewDeleteCollectionAction manifestintegritystatesResource (fmiss_ns c) listOpts;
          ((_, err), s') = Invokes F action (ListOf zero_ManifestIntegrityStateList) s in Return (err, s'))"

definition FakeManifestIntegrityStates_Patch ::
  "(manifest_integrity_state, mis_list, 'lab, 'w, 's) fake_lib \<Rightarrow> fakeManifestIntegrityStates \<Rightarrow> string \<Rightarrow> string \<Rightarrow> bytes \<Rightarrow> json \<Rightarrow> string list \<Rightarrow> 's \<Rightarrow> (manifest_integrity_state, 's) fake_reply" where
  "FakeManifestIntegrityStates_Patch F c name pt data opts subresources s =
     assertObject (Invokes F (NewPatchSubresourceAction manifestintegritystatesResource (fmiss_ns c) name pt data subresources) (ObjectOf zero_ManifestIntegrityState) s)"

section \<open>The actions of the fake clients\<close>

text \<open>As for the requests: a fake that only writes down the actions.\<close>

definition fake_logging :: "('o, 'l, unit, unit, 'o action list) fake_lib" where
  "fake_logging = \<lparr>Invokes = \<lambda>a d s. ((Some d, None), s @ [a]), InvokesWatch = \<lambda>a s. (Inr (), s @ [a]),
     ExtractLabel = \<lambda>l. None, Everything = (), Label_Matches = \<lambda>l x. True\<rparr>"

definition invoked :: "('a \<times> 'o action list) outcome \<Rightarrow> 'o action list" where
  "invoked r = (case r of Return (_, as) \<Rightarrow> as | Panic _ \<Rightarrow> [])"

fun fakeProfileActions :: "manifest_integrity_profile client_call \<Rightarrow> manifest_integrity_profile action list" where
  "fakeProfileActions (CallGet n opts) = invoked (FakeManifestIntegrityProfiles_Get fake_logging n opts [])"
| "fakeProfileActions (CallList l) = invoked (FakeManifestIntegrityProfiles_List fake_logging l [])"
| "fakeProfileActions (CallWatch l) = invoked (FakeManifestIntegrityProfiles_Watch fake_logging l [])"
| "fakeProfileActions (CallCreate x opts) = invoked (FakeManifestIntegrityProfiles_Create fake_logging x opts [])"
| "fakeProfileActions (CallUpdate x opts) = invoked (FakeManifestIntegrityProfiles_Update fake_logging x opts [])"
| "fakeProfileActions (CallUpdateStatus x opts) = invoked (FakeManifestIntegrityProfiles_UpdateStatus fake_logging x opts [])"
| "fakeProfileActions (CallDelete n opts) = invoked (FakeManifestIntegrityProfiles_Delete fake_logging n opts [])"
| "fakeProfileActions (CallDeleteCollection opts l) = invoked (FakeManifestIntegrityProfiles_DeleteCollection fake_logging opts l [])"
| "fakeProfileActions (CallPatch n pt d opts subs) = invoked (FakeManifestIntegrityProfiles_Patch fake_logging n pt d opts subs [])"

fun fakeV1alpha1Actions :: "manifest_integrity_profile client_call \<Rightarrow> manifest_integrity_profile action list" where
  "fakeV1alpha1Actions (CallGet n opts) = invoked (v1alpha1_FakeManifestIntegrityProfiles_Get fake_logging n opts [])"
| "fakeV1alpha1Actions (CallList l) = invoked (v1alpha1_FakeManifestIntegrityProfiles_List fake_logging l [])"
| "fakeV1alpha1Actions (CallWatch l) = invoked (v1alpha1_FakeManifestIntegrityProfiles_Watch fake_logging l [])"
| "fakeV1alpha1Actions (CallCreate x opts) = invoked (v1alpha1_FakeManifestIntegrityProfiles_Create fake_logging x opts [])"
| "fakeV1alpha1Actions (CallUpdate x opts) = invoked (v1alpha1_FakeManifestIntegrityProfiles_Update fake_logging x opts [])"
| "fakeV1alpha1Actions (CallUpdateStatus x opts) = invoked (v1alpha1_FakeManifestIntegrityProfiles_UpdateStatus fake_logging x opts [])"
| "fakeV1alpha1Actions (CallDelete n opts) = invoked (v1alpha1_FakeManifestIntegrityProfiles_Delete fake_logging n opts [])"
| "fakeV1alpha1Actions (CallDeleteCollection opts l) = invoked (v1alpha1_FakeManifestIntegrityProfiles_DeleteCollection fake_logging opts l [])"
| "fakeV1alpha1Actions (CallPatch n pt d opts subs) = invoked (v1alpha1_FakeManifestIntegrityProfiles_Patch fake_logging n pt d opts subs [])"

fun fakeStateActions :: "string \<Rightarrow> manifest_integrity_state client_call \<Rightarrow> manifest_integrity_state action list" where
  "fakeStateActions ns (CallGet n opts) = invoked (FakeManifestIntegrityStates_Get fake_logging \<lparr>fmiss_ns = ns\<rparr> n opts [])"
| "fakeStateActions ns (CallList l) = invoked (FakeManifestIntegrityStates_List fake_logging \<lparr>fmiss_ns = ns\<rparr> l [])"
| "fakeStateActions ns (CallWatch l) = invoked (FakeManifestIntegrityStates_Watch fake_logging \<lparr>fmiss_ns = ns\<rparr> l [])"
| "fakeStateActions ns (CallCreate x opts) = invoked (FakeManifestIntegrityStates_Create fake_logging \<lparr>fmiss_ns = ns\<rparr> x opts [])"
| "fakeStateActions ns (CallUpdate x opts) = invoked (FakeManifestIntegrityStates_Update fake_logging \<lparr>fmiss_ns = ns\<rparr> x opts [])"
| "fakeStateActions ns (CallUpdateStatus x opts) = []"
| "fakeStateActions ns (CallDelete n opts) = invoked (FakeManifestIntegrityStates_Delete fake_logging \<lparr>fmiss_ns = ns\<rparr> n opts [])"
| "fakeStateActions ns (CallDeleteCollection opts l) = invoked (FakeManifestIntegrityStates_DeleteCollection fake_logging \<lparr>fmiss_ns = ns\<rparr> opts l [])"
| "fakeStateActions ns (CallPatch n pt d opts subs) = invoked (FakeManifestIntegrityStates_Patch fake_logging \<lparr>fmiss_ns = ns\<rparr> n pt d opts subs [])"

lemmas fakeProfileActions_defs = FakeManifestIntegrityProfiles_Get_def
  FakeManifestIntegrityProfiles_List_def
  FakeManifestIntegrityProfiles_Watch_def
  FakeManifestIntegrityProfiles_Create_def
  FakeManifestIntegrityProfiles_Update_def
  FakeManifestIntegrityProfiles_UpdateStatus_def
  FakeManifestIntegrityProfiles_Delete_def
  FakeManifestIntegrityProfiles_DeleteCollection_def
  FakeManifestIntegrityProfiles_Patch_def

lemmas fakeV1alpha1Actions_defs = v1alpha1_FakeManifestIntegrityProfiles_Get_def
  v1alpha1_FakeManifestIntegrityProfiles_List_def
  v1alpha1_FakeManifestIntegrityProfiles_Watch_def
  v1alpha1_FakeManifestIntegrityProfiles_Create_def
  v1alpha1_FakeManifestIntegrityProfiles_Update_def
  v1alpha1_FakeManifestIntegrityProfiles_UpdateStatus_def
  v1alpha1_FakeManifestIntegrityProfiles_Delete_def
  v1alpha1_FakeManifestIntegrityProfiles_DeleteCollection_def
  v1alpha1_FakeManifestIntegrityProfiles_Patch_def

lemmas fakeStateActions_defs = FakeManifestIntegrityStates_Get_def
  FakeManifestIntegrityStates_List_def
  FakeManifestIntegrityStates_Watch_def
  FakeManifestIntegrityStates_Create_def
  FakeManifestIntegrityStates_Update_def
  FakeManifestIntegrityStates_Delete_def
  FakeManifestIntegrityStates_DeleteCollection_def
  FakeManifestIntegrityStates_Patch_def

section \<open>Requests and actions\<close>

text \<open>What a request or an action does to the API: the verb with the watch flag, the addressed
  resource with its group and version, namespace, name and subresource, and the object.\<close>

record 'o operation =
  op_Verb :: rest_verb
  op_Watch :: bool
  op_Resource :: gvr
  op_Namespace :: string
  op_Name :: "string option"
  op_Subresource :: "string list"
  op_Object :: "'o option"

definition watches :: "'o rest_call \<Rightarrow> bool" where
  "watches c = (case c of VersionedParams (ListOptions l) \<Rightarrow> lo_Watch l | _ \<Rightarrow> False)"

definition requestOperation :: "string \<times> string \<Rightarrow> 'o rest_request \<Rightarrow> 'o operation" where
  "requestOperation gv rq =
     \<lparr>op_Verb = rq_Verb rq, op_Watch = list_ex watches (rq_Calls rq),
      op_Resource = (fst gv, snd gv, resourceOf (rq_Calls rq)), op_Namespace = rq_Namespace rq,
      op_Name = nameOf (rq_Calls rq), op_Subresource = subresourceOf (rq_Calls rq), op_Object = bodyOf (rq_Calls rq)\<rparr>"

abbreviation plainOperation :: "rest_verb \<Rightarrow> gvr \<Rightarrow> string \<Rightarrow> string option \<Rightarrow> 'o operation" where
  "plainOperation verb res ns n \<equiv> \<lparr>op_Verb = verb, op_Watch = False, op_Resource = res, op_Namespace = ns, op_Name = n,
     op_Subresource = [], op_Object = None\<rparr>"

fun actionOperation :: "('o \<Rightarrow> string) \<Rightarrow> 'o action \<Rightarrow> 'o operation" where
  "actionOperation nm (NewRootGetAction res n) = plainOperation GET res [] (Some n)"
| "actionOperation nm (NewGetAction res ns n) = plainOperation GET res ns (Some n)"
| "actionOperation nm (NewRootListAction res kind l) = plainOperation GET res [] None"
| "actionOperation nm (NewListAction res kind ns l) = plainOperation GET res ns None"
| "actionOperation nm (NewRootWatchAction res l) = (plainOperation GET res [] None)\<lparr>op_Watch := True\<rparr>"
| "actionOperation nm (NewWatchAction res ns l) = (plainOperation GET res ns None)\<lparr>op_Watch := True\<rparr>"
| "actionOperation nm (NewRootCreateAction res x) = (plainOperation POST res [] None)\<lparr>op_Object := x\<rparr>"
| "actionOperation nm (NewCreateAction res ns x) = (plainOperation POST res ns None)\<lparr>op_Object := x\<rparr>"
| "actionOperation nm (NewRootUpdateAction res x) = (plainOperation PUT res [] (map_option nm x))\<lparr>op_Object := x\<rparr>"
| "actionOperation nm (NewUpdateAction res ns x) = (plainOperation PUT res ns (map_option nm x))\<lparr>op_Object := x\<rparr>"
| "actionOperation nm (NewRootUpdateSubresourceAction res sub x) =
     (plainOperation PUT res [] (map_option nm x))\<lparr>op_Subresource := [sub], op_Object := x\<rparr>"
| "actionOperation nm (NewRootDeleteAction res n) = plainOperation DELETE res [] (Some n)"
| "actionOperation nm (NewDeleteAction res ns n) = plainOperation DELETE res ns (Some n)"
| "actionOperation nm (NewRootDeleteCollectionAction res l) = plainOperation DELETE res [] None"
| "actionOperation nm (NewDeleteCollectionAction res ns l) = plainOperation DELETE res ns None"
| "actionOperation nm (NewRootPatchSubresourceAction res n pt d subs) = (plainOperation (PATCH pt) res [] (Some n))\<lparr>op_Subresource := subs\<rparr>"
| "actionOperation nm (NewPatchSubresourceAction res ns n pt d subs) = (plainOperation (PATCH pt) res ns (Some n))\<lparr>op_Subresource := subs\<rparr>"

text \<open>Calls as programs make them: no nil object is updated, and the watch flag is left to the client.\<close>

definition plainCall :: "'o client_call \<Rightarrow> bool" where
  "plainCall c \<longleftrightarrow> wellTargeted c \<and>
     (case c of CallList l \<Rightarrow> \<not> lo_Watch l | CallDeleteCollection opts l \<Rightarrow> \<not> lo_Watch l | _ \<Rightarrow> True)"

lemmas fake_log_defs = log_defs invoked_def fake_logging_def assertObject_def plainCall_def requestOperation_def watches_def

lemma fake_profile_operations:
  assumes "plainCall c"
  shows "map (actionOperation mip_Name) (fakeProfileActions c) = map (requestOperation mip_SchemeGroupVersion) (profileRequests c)"
  using assms
  by (cases c) (auto simp: profile_call_defs fakeProfileActions_defs fake_log_defs manifestintegrityprofilesResource_def
      mip_SchemeGroupVersion_def mip_GroupName_def split: option.splits)

lemma fake_state_operations:
  assumes "plainCall c"
  shows "map (actionOperation mis_Name) (fakeStateActions ns c) = map (requestOperation mis_SchemeGroupVersion) (stateRequests ns c)"
  using assms
  by (cases c) (auto simp: state_call_defs fakeStateActions_defs fake_log_defs manifestintegritystatesResource_def
      mis_SchemeGroupVersion_def mis_GroupName_def split: option.splits)

lemma fake_v1alpha1_operations:
  assumes "plainCall c"
  shows "map (actionOperation mip_Name) (fakeV1alpha1Actions c) = map (requestOperation (mip_GroupName, ''v1alpha1'')) (v1alpha1Requests c)"
  using assms
  by (cases c) (auto simp: v1alpha1_call_defs fakeV1alpha1Actions_defs fake_log_defs v1alpha1_manifestintegrityprofilesResource_def
      mip_GroupName_def split: option.splits)

text \<open>C25: A test against the fake clients of the profiles and of the states exercises the operations that
  the real clients ask of the API server, for every method and every argument. The fake client of
  the package \<^verbatim>\<open>v1alpha1\<close> never does: it names the version \<^verbatim>\<open>v1alpha1\<close>, while the requests of its client
  go to \<^verbatim>\<open>v1\<close>.\<close>

theorem fake_clients_do_the_same:
  assumes "plainCall p" and "plainCall c"
  shows "map (actionOperation mip_Name) (fakeProfileActions p) = map (requestOperation mip_SchemeGroupVersion) (profileRequests p) \<and>
     map (actionOperation mis_Name) (fakeStateActions ns c) = map (requestOperation mis_SchemeGroupVersion) (stateRequests ns c) \<and>
     map (actionOperation mip_Name) (fakeV1alpha1Actions p) \<noteq> map (requestOperation mip_SchemeGroupVersion) (v1alpha1Requests p)"
proof -
  from assms(1) obtain rq where "v1alpha1Requests p = [rq]"
    using v1alpha1_requests unfolding plainCall_def by blast
  then have "map (requestOperation (mip_GroupName, ''v1alpha1'')) (v1alpha1Requests p) \<noteq>
      map (requestOperation mip_SchemeGroupVersion) (v1alpha1Requests p)"
    by (simp add: requestOperation_def mip_SchemeGroupVersion_def)
  with fake_profile_operations [OF assms(1)] fake_state_operations [OF assms(2)] fake_v1alpha1_operations [OF assms(1)]
  show ?thesis by simp
qed

theorem fake_clients_do_the_same_witness:
  "map (actionOperation mip_Name) (fakeProfileActions (CallUpdate (Some sample_mip) JNull)) =
     map (requestOperation mip_SchemeGroupVersion) (profileRequests (CallUpdate (Some sample_mip) JNull)) \<and>
   fakeStateActions ''ns'' (CallDelete ''c1'' JNull) = [NewDeleteAction manifestintegritystatesResource ''ns'' ''c1'']"
  using fake_clients_do_the_same [of "CallUpdate (Some sample_mip) JNull" "CallDelete ''c1'' JNull" "''ns''"]
  by (simp add: plainCall_def wellTargeted_def FakeManifestIntegrityStates_Delete_def invoked_def fake_logging_def)

end
