(* ===== verification/Registration.thy ===== *)
theory Registration
  imports RestClient
begin

text \<open>
  The registration of types with the schemes of apimachinery: \<^verbatim>\<open>register.go\<close> of the profiles and of the states,
  of their clientsets (\<^verbatim>\<open>scheme/register.go\<close>) and of their fake clientsets (\<^verbatim>\<open>fake/register.go\<close>),
  and for the operator \<^verbatim>\<open>groupversion_info.go\<close> with the \<open>init\<close> functions of \<^verbatim>\<open>integrityshield_types.go\<close> and
  \<^verbatim>\<open>main.go\<close>. The \<open>init\<close> functions run before \<open>main\<close>; a panic in one of them ends the process. A
  \<open>runtime.Scheme\<close> is a value of the type \<open>'sch\<close>.
\<close>

section \<open>Schemes\<close>

type_synonym group_version = "string \<times> string"

text \<open>\<open>AddKnownTypes\<close> is given the names of the Go types. A scheme builder is a list of functions
  (\<open>runtime.SchemeBuilder\<close>); \<open>Builder_AddToScheme\<close> is the method of the builder of
  controller-runtime, here with its group version and the types registered with it.\<close>

type_synonym 'sch add_function = "'sch \<Rightarrow> (string option \<times> 'sch) outcome"

record 'sch scheme_lib =
  NewScheme :: 'sch
  AddKnownTypes :: "group_version \<Rightarrow> string list \<Rightarrow> 'sch \<Rightarrow> 'sch outcome"
  AddToGroupVersion :: "group_version \<Rightarrow> 'sch \<Rightarrow> 'sch outcome"
  SchemeBuilder_AddToScheme :: "'sch add_function list \<Rightarrow> 'sch add_function"
  Must :: "string option \<Rightarrow> unit outcome"
  Builder_AddToScheme :: "group_version \<Rightarrow> string list \<Rightarrow> 'sch add_function"

section \<open>register.go\<close>

definition mip_Kind :: "string \<Rightarrow> string \<times> string" where
  "mip_Kind kind = (fst mip_SchemeGroupVersion, kind)"

definition mip_Resource :: "string \<Rightarrow> string \<times> string" where
  "mip_Resource resource = (fst mip_SchemeGroupVersion, resource)"

definition mip_addKnownTypes :: "'sch scheme_lib \<Rightarrow> 'sch add_function" where
  "mip_addKnownTypes S scheme =
     outcome_bind (AddKnownTypes S mip_SchemeGroupVersion [''ManifestIntegrityProfile'', ''ManifestIntegrityProfileList''] scheme) (\<lambda>scheme.
       outcome_bind (AddToGroupVersion S mip_SchemeGroupVersion scheme) (\<lambda>scheme. Return (None, scheme)))"

definition mip_SchemeBuilder :: "'sch scheme_lib \<Rightarrow> 'sch add_function list" where
  "mip_SchemeBuilder S = [mip_addKnownTypes S]"

definition mip_AddToScheme :: "'sch scheme_lib \<Rightarrow> 'sch add_function" where
  "mip_AddToScheme S = SchemeBuilder_AddToScheme S (mip_SchemeBuilder S)"

definition mis_Kind :: "string \<Rightarrow> string \<times> string" where
  "mis_Kind kind = (fst mis_SchemeGroupVersion, kind)"

definition mis_Resource :: "string \<Rightarrow> string \<times> string" where
  "mis_Resource resource = (fst mis_SchemeGroupVersion, resource)"

definition mis_addKnownTypes :: "'sch scheme_lib \<Rightarrow> 'sch add_function" where
  "mis_addKnownTypes S scheme =
     outcome_bind (AddKnownTypes S mis_SchemeGroupVersion [''ManifestIntegrityState'', ''ManifestIntegrityStateList''] scheme) (\<lambda>scheme.
       outcome_bind (AddToGroupVersion S mis_SchemeGroupVersion scheme) (\<lambda>scheme. Return (None, scheme)))"

definition mis_SchemeBuilder :: "'sch scheme_lib \<Rightarrow> 'sch add_function list" where
  "mis_SchemeBuilder S = [mis_addKnownTypes S]"

definition mis_AddToScheme :: "'sch scheme_lib \<Rightarrow> 'sch add_function" where
  "mis_AddToScheme S = SchemeBuilder_AddToScheme S (mis_SchemeBuilder S)"

section \<open>The schemes of the clientsets\<close>

text \<open>\<open>utilruntime.Must(AddToScheme(scheme))\<close>.\<close>

definition mustAdd :: "'sch scheme_lib \<Rightarrow> 'sch add_function \<Rightarrow> 'sch \<Rightarrow> 'sch outcome" where
  "mustAdd S add scheme = outcome_bind (add scheme) (\<lambda>(err, scheme). outcome_bind (Must S err) (\<lambda>_. Return scheme))"

text \<open>\<open>Scheme\<close> after the \<open>init\<close> function of the package \<^verbatim>\<open>scheme\<close>, and \<open>scheme\<close> after that of the package
  \<^verbatim>\<open>fake\<close>. Each package has its own list of the functions to apply.\<close>

definition mip_scheme_localSchemeBuilder :: "'sch scheme_lib \<Rightarrow> 'sch add_function list" where
  "mip_scheme_localSchemeBuilder S = [mip_AddToScheme S]"

definition mip_scheme_init :: "'sch scheme_lib \<Rightarrow> 'sch outcome" where
  "mip_scheme_init S =
     outcome_bind (AddToGroupVersion S ('''', ''v1'') (NewScheme S))
       (mustAdd S (SchemeBuilder_AddToScheme S (mip_scheme_localSchemeBuilder S)))"

definition mip_fake_localSchemeBuilder :: "'sch scheme_lib \<Rightarrow> 'sch add_function list" where
  "mip_fake_localSchemeBuilder S = [mip_AddToScheme S]"

definition mip_fake_init :: "'sch scheme_lib \<Rightarrow> 'sch outcome" where
  "mip_fake_init S =
     outcome_bind (AddToGroupVersion S ('''', ''v1'') (NewScheme S))
       (mustAdd S (SchemeBuilder_AddToScheme S (mip_fake_localSchemeBuilder S)))"

definition mis_scheme_localSchemeBuilder :: "'sch scheme_lib \<Rightarrow> 'sch add_function list" where
  "mis_scheme_localSchemeBuilder S = [mis_AddToScheme S]"

definition mis_scheme_init :: "'sch scheme_lib \<Rightarrow> 'sch outcome" where
  "mis_scheme_init S =
     outcome_bind (AddToGroupVersion S ('''', ''v1'') (NewScheme S))
       (mustAdd S (SchemeBuilder_AddToScheme S (mis_scheme_localSchemeBuilder S)))"

definition mis_fake_localSchemeBuilder :: "'sch scheme_lib \<Rightarrow> 'sch add_function list" where
  "mis_fake_localSchemeBuilder S = [mis_AddToScheme S]"

definition mis_fake_init :: "'sch scheme_lib \<Rightarrow> 'sch outcome" where
  "mis_fake_init S =
     outcome_bind (AddToGroupVersion S ('''', ''v1'') (NewScheme S))
       (mustAdd S (SchemeBuilder_AddToScheme S (mis_fake_localSchemeBuilder S)))"

section \<open>The scheme of the operator\<close>

definition operator_GroupVersion :: group_version where
  "operator_GroupVersion = (''apis.integrityshield.io'', ''v1'')"

text \<open>The types that the \<open>init\<close> function of \<^verbatim>\<open>integrityshield_types.go\<close> registers with the builder.\<close>

definition operator_registered :: "string list" where
  "operator_registered = [''IntegrityShield'', ''IntegrityShieldList'']"

definition operator_AddToScheme :: "'sch scheme_lib \<Rightarrow> 'sch add_function" where
  "operator_AddToScheme S = Builder_AddToScheme S operator_GroupVersion operator_registered"

text \<open>The \<open>AddToScheme\<close> functions of the packages that the operator uses.\<close>

record 'sch package_schemes =
  clientgoscheme_AddToScheme :: "'sch add_function"
  apiextensionsv1_AddToScheme :: "'sch add_function"
  apiextensionsv1beta1_AddToScheme :: "'sch add_function"
  scc_AddToScheme :: "'sch add_function"
  templates_AddToScheme :: "'sch add_function"
  corev1_AddToScheme :: "'sch add_function"

definition operator_init :: "'sch scheme_lib \<Rightarrow> 'sch package_schemes \<Rightarrow> 'sch outcome" where
  "operator_init S P =
     outcome_bind (mustAdd S (clientgoscheme_AddToScheme P) (NewScheme S)) (\<lambda>scheme.
     outcome_bind (mustAdd S (operator_AddToScheme S) scheme) (\<lambda>scheme.
     outcome_bind (mustAdd S (apiextensionsv1_AddToScheme P) scheme) (\<lambda>scheme.
     outcome_bind (mustAdd S (apiextensionsv1beta1_AddToScheme P) scheme) (\<lambda>scheme.
     outcome_bind (mustAdd S (scc_AddToScheme P) scheme) (mustAdd S (templates_AddToScheme P))))))"

text \<open>The admission controller (\<^verbatim>\<open>webhook/admission-controller/main.go\<close>) drops the errors.\<close>

definition ac_init :: "'sch scheme_lib \<Rightarrow> 'sch package_schemes \<Rightarrow> 'sch outcome" where
  "ac_init S P =
     outcome_bind (clientgoscheme_AddToScheme P (NewScheme S)) (\<lambda>(_, scheme).
     outcome_bind (corev1_AddToScheme P scheme) (\<lambda>(_, scheme). Return scheme))"

section \<open>What schemes promise\<close>

text \<open>\<open>K\<close> are the kinds that a scheme knows, each with its group and version. \<open>AddToGroupVersion\<close>
  adds the options and events of the machinery, \<open>meta gv\<close>, which may be there already. A new type is
  added without a panic. A builder applies its functions in order and gives up at the first error;
  \<open>Must\<close> panics exactly on an error.\<close>

definition scheme_laws ::
  "'sch scheme_lib \<Rightarrow> ('sch \<Rightarrow> (group_version \<times> string) set) \<Rightarrow> (group_version \<Rightarrow> (group_version \<times> string) set) \<Rightarrow> bool" where
  "scheme_laws S K meta \<longleftrightarrow> K (NewScheme S) = {} \<and>
     (\<forall>gv kinds s. (\<forall>k\<in>set kinds. (gv, k) \<notin> K s) \<longrightarrow>
        (\<exists>s'. AddKnownTypes S gv kinds s = Return s' \<and> K s' = K s \<union> Pair gv ` set kinds)) \<and>
     (\<forall>gv s. \<exists>s'. AddToGroupVersion S gv s = Return s' \<and> K s' = K s \<union> meta gv) \<and>
     (\<forall>f s. SchemeBuilder_AddToScheme S [f] s = f s) \<and>
     Must S None = Return () \<and> (\<forall>e. Must S (Some e) = Panic e) \<and>
     (\<forall>gv kinds s. (\<forall>k\<in>set kinds. (gv, k) \<notin> K s) \<longrightarrow>
        (\<exists>s'. Builder_AddToScheme S gv kinds s = Return (None, s') \<and> K s' = K s \<union> Pair gv ` set kinds \<union> meta gv))"

text \<open>The types of the machinery are not those of the program.\<close>

definition own_kinds :: "string list" where
  "own_kinds = [''ManifestIntegrityProfile'', ''ManifestIntegrityProfileList'', ''ManifestIntegrityState'',
     ''ManifestIntegrityStateList'', ''IntegrityShield'', ''IntegrityShieldList'']"

definition foreign_kinds :: "(group_version \<times> string) set \<Rightarrow> bool" where
  "foreign_kinds M \<longleftrightarrow> (\<forall>k\<in>set own_kinds. \<forall>gv. (gv, k) \<notin> M)"

lemma scheme_lawsD:
  assumes "scheme_laws S K meta"
  shows "K (NewScheme S) = {}"
    and "\<forall>gv kinds s. (\<forall>k\<in>set kinds. (gv, k) \<notin> K s) \<longrightarrow>
        (\<exists>s'. AddKnownTypes S gv kinds s = Return s' \<and> K s' = K s \<union> Pair gv ` set kinds)"
    and "\<forall>gv s. \<exists>s'. AddToGroupVersion S gv s = Return s' \<and> K s' = K s \<union> meta gv"
    and "\<forall>f s. SchemeBuilder_AddToScheme S [f] s = f s" and "Must S None = Return ()" and "\<forall>e. Must S (Some e) = Panic e"
    and "\<forall>gv kinds s. (\<forall>k\<in>set kinds. (gv, k) \<notin> K s) \<longrightarrow>
        (\<exists>s'. Builder_AddToScheme S gv kinds s = Return (None, s') \<and> K s' = K s \<union> Pair gv ` set kinds \<union> meta gv)"
  using assms unfolding scheme_laws_def by - (elim conjE, assumption)+

lemma register_types:
  assumes "scheme_laws S K meta" and "\<forall>k\<in>set kinds. (gv, k) \<notin> K s"
  shows "\<exists>s'. outcome_bind (AddKnownTypes S gv kinds s) (\<lambda>s. outcome_bind (AddToGroupVersion S gv s) (\<lambda>s. Return (None, s))) =
     Return (None, s') \<and> K s' = K s \<union> Pair gv ` set kinds \<union> meta gv"
proof -
  from scheme_lawsD(2) [OF assms(1), rule_format, of kinds gv s] assms(2) obtain s1
    where s1: "AddKnownTypes S gv kinds s = Return s1" "K s1 = K s \<union> Pair gv ` set kinds" by blast
  from scheme_lawsD(3) [OF assms(1), rule_format, of gv s1] obtain s2
    where "AddToGroupVersion S gv s1 = Return s2" "K s2 = K s1 \<union> meta gv" by blast
  with s1 show ?thesis by simp
qed

lemma mustAdd_ok: "scheme_laws S K meta \<Longrightarrow> add s = Return (None, s') \<Longrightarrow> mustAdd S add s = Return s'"
  by (simp add: mustAdd_def scheme_lawsD(5))

lemma mustAdd_error: "scheme_laws S K meta \<Longrightarrow> add s = Return (Some e, s') \<Longrightarrow> mustAdd S add s = Panic e"
  by (simp add: mustAdd_def scheme_lawsD(6))

text \<open>The scheme of a clientset, from the types of its package.\<close>

lemma clientset_scheme:
  assumes laws: "scheme_laws S K meta" and foreign: "foreign_kinds (meta ('''', ''v1''))"
    and kinds: "set kinds \<subseteq> set own_kinds"
    and add: "\<And>s. add s = outcome_bind (AddKnownTypes S gv kinds s) (\<lambda>s. outcome_bind (AddToGroupVersion S gv s) (\<lambda>s. Return (None, s)))"
  shows "\<exists>sch. outcome_bind (AddToGroupVersion S ('''', ''v1'') (NewScheme S)) (mustAdd S add) = Return sch \<and>
     K sch = Pair gv ` set kinds \<union> meta gv \<union> meta ('''', ''v1'')"
proof -
  from scheme_lawsD(3) [OF laws, rule_format, of "('''', ''v1'')" "NewScheme S"] obtain s1
    where s1: "AddToGroupVersion S ('''', ''v1'') (NewScheme S) = Return s1" "K s1 = meta ('''', ''v1'')"
    unfolding scheme_lawsD(1) [OF laws] by auto
  have "\<forall>k\<in>set kinds. (gv, k) \<notin> K s1" using foreign kinds unfolding s1(2) foreign_kinds_def by blast
  from register_types [OF laws this] obtain s2 where "add s1 = Return (None, s2)" "K s2 = K s1 \<union> Pair gv ` set kinds \<union> meta gv"
    unfolding add by blast
  with s1 mustAdd_ok [OF laws] show ?thesis by auto
qed

lemmas clientset_inits = mip_scheme_init_def mip_fake_init_def mis_scheme_init_def mis_fake_init_def
  mip_scheme_localSchemeBuilder_def mip_fake_localSchemeBuilder_def mis_scheme_localSchemeBuilder_def mis_fake_localSchemeBuilder_def
  mip_AddToScheme_def mis_AddToScheme_def mip_SchemeBuilder_def mis_SchemeBuilder_def

text \<open>No process panics while it registers types. The schemes of the clientset of the profiles, of that
  of the states and of their fake clientsets know the objects and lists that the clients send and
  receive, under the group and version of the installed definitions, and beyond them only what the
  machinery adds.\<close>

theorem clientset_schemes_know_their_types:
  assumes "scheme_laws S K meta" and "foreign_kinds (meta ('''', ''v1''))"
  shows "(\<forall>init\<in>set [mip_scheme_init, mip_fake_init]. \<exists>sch. init S = Return sch \<and>
       K sch = {((''apis.integrityshield.io'', ''v1''), ''ManifestIntegrityProfile''), ((''apis.integrityshield.io'', ''v1''), ''ManifestIntegrityProfileList'')}
         \<union> meta (''apis.integrityshield.io'', ''v1'') \<union> meta ('''', ''v1'')) \<and>
     (\<forall>init\<in>set [mis_scheme_init, mis_fake_init]. \<exists>sch. init S = Return sch \<and>
       K sch = {((''apis.integrityshield.io'', ''v1''), ''ManifestIntegrityState''), ((''apis.integrityshield.io'', ''v1''), ''ManifestIntegrityStateList'')}
         \<union> meta (''apis.integrityshield.io'', ''v1'') \<union> meta ('''', ''v1''))"
proof -
  have builder: "SchemeBuilder_AddToScheme S [f] = f" for f
    using scheme_lawsD(4) [OF assms(1)] by (intro ext) blast
  have "\<exists>sch. outcome_bind (AddToGroupVersion S ('''', ''v1'') (NewScheme S)) (mustAdd S (mip_addKnownTypes S)) = Return sch \<and>
     K sch = Pair mip_SchemeGroupVersion ` set [''ManifestIntegrityProfile'', ''ManifestIntegrityProfileList''] \<union>
       meta mip_SchemeGroupVersion \<union> meta ('''', ''v1'')"
    by (rule clientset_scheme [OF assms]) (simp add: own_kinds_def, rule mip_addKnownTypes_def)
  moreover have "\<exists>sch. outcome_bind (AddToGroupVersion S ('''', ''v1'') (NewScheme S)) (mustAdd S (mis_addKnownTypes S)) = Return sch \<and>
     K sch = Pair mis_SchemeGroupVersion ` set [''ManifestIntegrityState'', ''ManifestIntegrityStateList''] \<union>
       meta mis_SchemeGroupVersion \<union> meta ('''', ''v1'')"
    by (rule clientset_scheme [OF assms]) (simp add: own_kinds_def, rule mis_addKnownTypes_def)
  ultimately show ?thesis
    by (simp add: clientset_inits builder mip_SchemeGroupVersion_def mis_SchemeGroupVersion_def mip_GroupName_def mis_GroupName_def)
qed

text \<open>The operator starts with a scheme that knows its own resource and everything that the other
  packages add; an error of one of them ends it at once.\<close>

definition adds :: "('sch \<Rightarrow> (group_version \<times> string) set) \<Rightarrow> 'sch add_function \<Rightarrow> (group_version \<times> string) set \<Rightarrow> bool" where
  "adds K add M \<longleftrightarrow> (\<forall>s. \<exists>s'. add s = Return (None, s') \<and> K s' = K s \<union> M)"

lemma mustAdd_adds:
  assumes "scheme_laws S K meta" and "adds K add M"
  obtains s' where "mustAdd S add s = Return s'" and "K s' = K s \<union> M"
  using assms mustAdd_ok [OF assms(1)] unfolding adds_def by metis

theorem operator_scheme_is_complete:
  assumes laws: "scheme_laws S K meta" and foreign: "foreign_kinds M1"
    and "adds K (clientgoscheme_AddToScheme P) M1" and "adds K (apiextensionsv1_AddToScheme P) M2"
    and "adds K (apiextensionsv1beta1_AddToScheme P) M3" and "adds K (scc_AddToScheme P) M4" and "adds K (templates_AddToScheme P) M5"
  shows "\<exists>sch. operator_init S P = Return sch \<and>
     K sch = {(operator_GroupVersion, ''IntegrityShield''), (operator_GroupVersion, ''IntegrityShieldList'')} \<union> meta operator_GroupVersion \<union>
       M1 \<union> M2 \<union> M3 \<union> M4 \<union> M5"
proof -
  obtain s1 where s1: "mustAdd S (clientgoscheme_AddToScheme P) (NewScheme S) = Return s1" "K s1 = M1"
    using mustAdd_adds [OF laws assms(3), of "NewScheme S"] scheme_lawsD(1) [OF laws] by auto
  have "\<forall>k\<in>set operator_registered. (operator_GroupVersion, k) \<notin> K s1"
    using foreign by (auto simp: s1(2) foreign_kinds_def operator_registered_def own_kinds_def operator_GroupVersion_def)
  with scheme_lawsD(7) [OF laws] obtain s2 where "operator_AddToScheme S s1 = Return (None, s2)"
      and K2: "K s2 = K s1 \<union> Pair operator_GroupVersion ` set operator_registered \<union> meta operator_GroupVersion"
    unfolding operator_AddToScheme_def by blast
  then have s2: "mustAdd S (operator_AddToScheme S) s1 = Return s2" by (intro mustAdd_ok [OF laws])
  obtain s3 where s3: "mustAdd S (apiextensionsv1_AddToScheme P) s2 = Return s3" "K s3 = K s2 \<union> M2"
    by (rule mustAdd_adds [OF laws assms(4)])
  obtain s4 where s4: "mustAdd S (apiextensionsv1beta1_AddToScheme P) s3 = Return s4" "K s4 = K s3 \<union> M3"
    by (rule mustAdd_adds [OF laws assms(5)])
  obtain s5 where s5: "mustAdd S (scc_AddToScheme P) s4 = Return s5" "K s5 = K s4 \<union> M4"
    by (rule mustAdd_adds [OF laws assms(6)])
  obtain s6 where s6: "mustAdd S (templates_AddToScheme P) s5 = Return s6" "K s6 = K s5 \<union> M5"
    by (rule mustAdd_adds [OF laws assms(7)])
  have "operator_init S P = Return s6" by (simp add: operator_init_def s1(1) s2 s3(1) s4(1) s5(1) s6(1))
  moreover have "K s6 = {(operator_GroupVersion, ''IntegrityShield''), (operator_GroupVersion, ''IntegrityShieldList'')} \<union>
      meta operator_GroupVersion \<union> M1 \<union> M2 \<union> M3 \<union> M4 \<union> M5"
    unfolding s6(2) s5(2) s4(2) s3(2) K2 s1(2) by (auto simp: operator_registered_def)
  ultimately show ?thesis by blast
qed

text \<open>The admission controller starts with whatever scheme it gets: also if every package fails.\<close>

lemma ac_init_ignores_errors:
  "clientgoscheme_AddToScheme P (NewScheme S) = Return (e, s) \<Longrightarrow> corev1_AddToScheme P s = Return (e', s') \<Longrightarrow> ac_init S P = Return s'"
  by (simp add: ac_init_def)

section \<open>A sample scheme\<close>

text \<open>It is the list of the known kinds; \<open>ListOptions\<close> stands for the types of the machinery.\<close>

definition sample_schemes :: "(group_version \<times> string) list scheme_lib" where
  "sample_schemes =
     \<lparr>NewScheme = [],
      AddKnownTypes = \<lambda>gv kinds s. if list_ex (\<lambda>k. (gv, k) \<in> set s) kinds then Panic ''Double registration'' else Return (s @ map (Pair gv) kinds),
      AddToGroupVersion = \<lambda>gv s. Return (s @ [(gv, ''ListOptions'')]),
      SchemeBuilder_AddToScheme = \<lambda>fs s. foldl (\<lambda>r f. outcome_bind r (\<lambda>(err, s). case err of None \<Rightarrow> f s | Some e \<Rightarrow> Return (err, s))) (Return (None, s)) fs,
      Must = \<lambda>err. case err of None \<Rightarrow> Return () | Some e \<Rightarrow> Panic e,
      Builder_AddToScheme = \<lambda>gv kinds s. if list_ex (\<lambda>k. (gv, k) \<in> set s) kinds then Panic ''Double registration''
         else Return (None, s @ map (Pair gv) kinds @ [(gv, ''ListOptions'')])\<rparr>"

lemma sample_scheme_laws: "scheme_laws sample_schemes set (\<lambda>gv. {(gv, ''ListOptions'')})"
  by (auto simp: scheme_laws_def sample_schemes_def list_ex_iff)

end
