(* ===== verification/FakeClientset.thy ===== *)
theory FakeClientset
  imports FakeClient Registration
begin

text \<open>
  The fake clientsets, \<^verbatim>\<open>fake/clientset_generated.go\<close> (whose text is the same for profiles and states) with the
  fake group clients \<^verbatim>\<open>fake_manifestintegrityprofile_client.go\<close> and
  \<^verbatim>\<open>fake_manifestintegritystate_client.go\<close>: a test makes one from objects and calls its clients, which
  invoke actions on an object tracker of client-go. The tracker and the chain of reactors
  (\<^verbatim>\<open>k8s.io/client-go/testing\<close>) are parameters; the objects in the tracker are the state. The
  actions that a fake writes down for the test are left out.
\<close>

section \<open>The clientset\<close>

text \<open>A reaction says whether it handled the action, with its object and error.\<close>

type_synonym ('o, 'l, 't) reaction = "'o action \<Rightarrow> 't \<Rightarrow> (bool \<times> ('o, 'l) runtime_object option \<times> string option) \<times> 't"

type_synonym ('o, 'w, 't) watch_reaction = "'o action \<Rightarrow> 't \<Rightarrow> (bool \<times> 'w option \<times> string option) \<times> 't"

text \<open>\<open>zero_Fake\<close> is an empty \<open>testing.Fake\<close>, \<open>FakeDiscoveryOf\<close> the discovery client with a pointer to it.\<close>

record ('o, 'l, 'lab, 'w, 't, 'sch, 'f, 'fd) testing_lib =
  NewObjectTracker :: "'sch \<Rightarrow> 't"
  Tracker_Add :: "('o, 'l) runtime_object \<Rightarrow> 't \<Rightarrow> 't result"
  Tracker_Watch :: "gvr \<Rightarrow> string \<Rightarrow> 't \<Rightarrow> 'w result \<times> 't"
  ObjectReaction :: "('o, 'l, 't) reaction"
  zero_Fake :: 'f
  AddReactor :: "string \<Rightarrow> string \<Rightarrow> ('o, 'l, 't) reaction \<Rightarrow> 'f \<Rightarrow> 'f"
  AddWatchReactor :: "string \<Rightarrow> ('o, 'w, 't) watch_reaction \<Rightarrow> 'f \<Rightarrow> 'f"
  Fake_Invokes :: "'f \<Rightarrow> 'o action \<Rightarrow> ('o, 'l) runtime_object \<Rightarrow> 't \<Rightarrow> (('o, 'l) runtime_object option \<times> string option) \<times> 't"
  Fake_InvokesWatch :: "'f \<Rightarrow> 'o action \<Rightarrow> 't \<Rightarrow> 'w result \<times> 't"
  Action_GetResource :: "'o action \<Rightarrow> gvr"
  Action_GetNamespace :: "'o action \<Rightarrow> string"
  FakeDiscoveryOf :: "'f \<Rightarrow> 'fd"
  Testing_ExtractLabel :: "list_options \<Rightarrow> 'lab option"
  Testing_Everything :: 'lab
  Testing_Matches :: "'lab \<Rightarrow> 'o \<Rightarrow> bool"

record 'f fakeClientset =
  fcs_Fake :: 'f

fun addObjects ::
  "('o, 'l, 'lab, 'w, 't, 'sch, 'f, 'fd) testing_lib \<Rightarrow> ('o, 'l) runtime_object list \<Rightarrow> 't \<Rightarrow> 't outcome" where
  "addObjects T [] tracker = Return tracker"
| "addObjects T (obj # objects) tracker =
     (case Tracker_Add T obj tracker of Inl err \<Rightarrow> Panic err | Inr tracker' \<Rightarrow> addObjects T objects tracker')"

definition watchReaction :: "('o, 'l, 'lab, 'w, 't, 'sch, 'f, 'fd) testing_lib \<Rightarrow> ('o, 'w, 't) watch_reaction" where
  "watchReaction T action tracker =
     (let gvr = Action_GetResource T action; ns = Action_GetNamespace T action;
          (r, tracker') = Tracker_Watch T gvr ns tracker
      in case r of Inl err \<Rightarrow> ((False, None, Some err), tracker') | Inr watch \<Rightarrow> ((True, Some watch, None), tracker'))"

text \<open>\<open>scheme\<close> is the scheme of the package after its \<open>init\<close> function. The result is the clientset and the
  tracker that it points to.\<close>

definition NewSimpleClientset ::
  "('o, 'l, 'lab, 'w, 't, 'sch, 'f, 'fd) testing_lib \<Rightarrow> 'sch \<Rightarrow> ('o, 'l) runtime_object list \<Rightarrow> ('f fakeClientset \<times> 't) outcome" where
  "NewSimpleClientset T scheme objects =
     outcome_bind (addObjects T objects (NewObjectTracker T scheme)) (\<lambda>tracker.
       let fake = AddReactor T ''*'' ''*'' (ObjectReaction T) (zero_Fake T);
           fake = AddWatchReactor T ''*'' (watchReaction T) fake
       in Return (\<lparr>fcs_Fake = fake\<rparr>, tracker))"

text \<open>The discovery client has a pointer to the fake, so it sees the reactors that are added after it.\<close>

definition fakeClientset_Discovery :: "('o, 'l, 'lab, 'w, 't, 'sch, 'f, 'fd) testing_lib \<Rightarrow> 'f fakeClientset \<Rightarrow> 'fd" where
  "fakeClientset_Discovery T c = FakeDiscoveryOf T (fcs_Fake c)"

definition fakeClientset_Tracker :: "'f fakeClientset \<times> 't \<Rightarrow> 't" where
  "fakeClientset_Tracker c = snd c"

record 'f fakeApisV1 =
  fav_Fake :: 'f

definition fakeClientset_ApisV1 :: "'f fakeClientset \<Rightarrow> 'f fakeApisV1" where
  "fakeClientset_ApisV1 c = \<lparr>fav_Fake = fcs_Fake c\<rparr>"

text \<open>What the methods of a fake typed client use of the fake group client that it points to.\<close>

definition fakeCalls ::
  "('o, 'l, 'lab, 'w, 't, 'sch, 'f, 'fd) testing_lib \<Rightarrow> 'f fakeApisV1 \<Rightarrow> ('o, 'l, 'lab, 'w, 't) fake_lib" where
  "fakeCalls T c = \<lparr>Invokes = Fake_Invokes T (fav_Fake c), InvokesWatch = Fake_InvokesWatch T (fav_Fake c),
     ExtractLabel = Testing_ExtractLabel T, Everything = Testing_Everything T, Label_Matches = Testing_Matches T\<rparr>"

section \<open>Profiles and states\<close>

type_synonym ('lab, 'w, 't, 'sch, 'f, 'fd) mip_testing =
  "(manifest_integrity_profile, mip_list, 'lab, 'w, 't, 'sch, 'f, 'fd) testing_lib"

type_synonym ('lab, 'w, 't, 'sch, 'f, 'fd) mis_testing =
  "(manifest_integrity_state, mis_list, 'lab, 'w, 't, 'sch, 'f, 'fd) testing_lib"

definition mip_NewSimpleClientset ::
  "('lab, 'w, 't, 'sch, 'f, 'fd) mip_testing \<Rightarrow> 'sch scheme_lib \<Rightarrow> (manifest_integrity_profile, mip_list) runtime_object list \<Rightarrow>
   ('f fakeClientset \<times> 't) outcome" where
  "mip_NewSimpleClientset T S objects = outcome_bind (mip_fake_init S) (\<lambda>scheme. NewSimpleClientset T scheme objects)"

definition mis_NewSimpleClientset ::
  "('lab, 'w, 't, 'sch, 'f, 'fd) mis_testing \<Rightarrow> 'sch scheme_lib \<Rightarrow> (manifest_integrity_state, mis_list) runtime_object list \<Rightarrow>
   ('f fakeClientset \<times> 't) outcome" where
  "mis_NewSimpleClientset T S objects = outcome_bind (mis_fake_init S) (\<lambda>scheme. NewSimpleClientset T scheme objects)"

definition FakeApisV1_ManifestIntegrityProfiles ::
  "('lab, 'w, 't, 'sch, 'f, 'fd) mip_testing \<Rightarrow> 'f fakeApisV1 \<Rightarrow> (manifest_integrity_profile, mip_list, 'lab, 'w, 't) fake_lib" where
  "FakeApisV1_ManifestIntegrityProfiles T c = fakeCalls T c"

definition FakeApisV1_ManifestIntegrityStates ::
  "('lab, 'w, 't, 'sch, 'f, 'fd) mis_testing \<Rightarrow> 'f fakeApisV1 \<Rightarrow> string \<Rightarrow>
   (manifest_integrity_state, mis_list, 'lab, 'w, 't) fake_lib \<times> fakeManifestIntegrityStates" where
  "FakeApisV1_ManifestIntegrityStates T c namespace = (fakeCalls T c, \<lparr>fmiss_ns = namespace\<rparr>)"

text \<open>\<open>RESTClient\<close> of a fake returns an interface that holds a nil pointer.\<close>

definition FakeApisV1_RESTClient :: "'f fakeApisV1 \<Rightarrow> 'k option" where
  "FakeApisV1_RESTClient c = None"

definition FakeApisV1alpha1_ManifestIntegrityProfiles ::
  "('lab, 'w, 't, 'sch, 'f, 'fd) mip_testing \<Rightarrow> 'f fakeApisV1 \<Rightarrow> (manifest_integrity_profile, mip_list, 'lab, 'w, 't) fake_lib" where
  "FakeApisV1alpha1_ManifestIntegrityProfiles T c = fakeCalls T c"

section \<open>What the tracker and the fake promise\<close>

text \<open>\<open>V t\<close> are the objects of the resource \<open>gvr\<close> in the tracker. An object without a namespace can be added
  once. A reaction handles the operation that its action stands for: it gives the object or nil
  and an error.\<close>

definition tracker_objects ::
  "('o, 'l, 'lab, 'w, 't, 'sch, 'f, 'fd) testing_lib \<Rightarrow> ('o \<Rightarrow> string) \<Rightarrow> ('t, 'o) objects \<Rightarrow> bool" where
  "tracker_objects T nm V \<longleftrightarrow> (\<forall>sch. V (NewObjectTracker T sch) = Map.empty) \<and>
     (\<forall>x t. if V t ([], nm x) = None then \<exists>t'. Tracker_Add T (ObjectOf x) t = Inr t' \<and> V t' = (V t)(([], nm x) \<mapsto> x)
        else \<exists>e. Tracker_Add T (ObjectOf x) t = Inl e) \<and>
     (\<forall>t ns n x. V t (ns, n) = Some x \<longrightarrow> nm x = n)"

definition tracker_reads where
  "tracker_reads T nm gvr V \<longleftrightarrow> (\<forall>a ns n t. actionOperation nm a = plainOperation GET gvr ns (Some n) \<longrightarrow>
     (case V t (ns, n) of Some x \<Rightarrow> ObjectReaction T a t = ((True, Some (ObjectOf x), None), t)
      | None \<Rightarrow> \<exists>e. ObjectReaction T a t = ((True, None, Some e), t)))"

definition tracker_creates where
  "tracker_creates T nm gvr V \<longleftrightarrow> (\<forall>a ns x t. actionOperation nm a = (plainOperation POST gvr ns None)\<lparr>op_Object := Some x\<rparr> \<longrightarrow>
     (if V t (ns, nm x) = None
      then \<exists>t'. ObjectReaction T a t = ((True, Some (ObjectOf x), None), t') \<and> V t' = (V t)((ns, nm x) \<mapsto> x)
      else \<exists>e. ObjectReaction T a t = ((True, None, Some e), t)))"

definition tracker_updates where
  "tracker_updates T nm gvr V \<longleftrightarrow> (\<forall>a ns x t. actionOperation nm a = (plainOperation PUT gvr ns (Some (nm x)))\<lparr>op_Object := Some x\<rparr> \<longrightarrow>
     (if V t (ns, nm x) \<noteq> None
      then \<exists>t'. ObjectReaction T a t = ((True, Some (ObjectOf x), None), t') \<and> V t' = (V t)((ns, nm x) \<mapsto> x)
      else \<exists>e. ObjectReaction T a t = ((True, None, Some e), t)))"

definition tracker_deletes where
  "tracker_deletes T nm gvr V \<longleftrightarrow> (\<forall>a ns n t. actionOperation nm a = plainOperation DELETE gvr ns (Some n) \<longrightarrow>
     (if V t (ns, n) \<noteq> None
      then \<exists>t'. ObjectReaction T a t = ((True, None, None), t') \<and> V t' = (V t)((ns, n) := None)
      else \<exists>e. ObjectReaction T a t = ((True, None, Some e), t)))"

text \<open>A fake with one reactor for all verbs and resources asks that reactor.\<close>

definition chain_laws :: "('o, 'l, 'lab, 'w, 't, 'sch, 'f, 'fd) testing_lib \<Rightarrow> bool" where
  "chain_laws T \<longleftrightarrow> (\<forall>r w a d t. Fake_Invokes T (AddWatchReactor T ''*'' w (AddReactor T ''*'' ''*'' r (zero_Fake T))) a d t =
     (let ((handled, ret, err), t') = r a t in if handled then ((ret, err), t') else ((Some d, None), t')))"

definition tracker_laws where
  "tracker_laws T nm gvr V \<longleftrightarrow> tracker_objects T nm V \<and> tracker_reads T nm gvr V \<and> tracker_creates T nm gvr V \<and>
     tracker_updates T nm gvr V \<and> tracker_deletes T nm gvr V \<and> chain_laws T"

section \<open>The fake clients as clients of a resource\<close>

text \<open>The fake that \<open>NewSimpleClientset\<close> builds, and what a program sees of a reply that is nil: the
  empty object.\<close>

definition simpleFake where
  "simpleFake T = AddWatchReactor T ''*'' (watchReaction T) (AddReactor T ''*'' ''*'' (ObjectReaction T) (zero_Fake T))"

definition orEmpty :: "'o \<Rightarrow> ('o, 's) fake_reply \<Rightarrow> (('o \<times> string option) \<times> 's) outcome" where
  "orEmpty z r = outcome_bind r (\<lambda>((x, err), s). Return ((case x of None \<Rightarrow> z | Some y \<Rightarrow> y, err), s))"

lemma simpleFake_invokes:
  assumes "chain_laws T" and "ObjectReaction T a t = ((True, ret, err), t')"
  shows "Invokes (fakeCalls T \<lparr>fav_Fake = simpleFake T\<rparr>) a d t = ((ret, err), t')"
  using assms by (simp add: fakeCalls_def simpleFake_def chain_laws_def)

text \<open>A set of methods that invoke the actions of a client, like \<open>sends_resource_client\<close>.\<close>

lemma acts_resource_client:
  fixes T :: "('o, 'l, 'lab, 'w, 't, 'sch, 'f, 'fd) testing_lib"
  defines "F \<equiv> fakeCalls T \<lparr>fav_Fake = simpleFake T\<rparr>"
  assumes get: "\<And>n s. get n s = orEmpty zero (assertObject (Invokes F (getA n) (ObjectOf zero) s))"
      "\<And>n. actionOperation nm (getA n) = plainOperation GET gvr ns (Some n)"
    and create: "\<And>x s. create (Some x) s = orEmpty zero (assertObject (Invokes F (createA x) (ObjectOf zero) s))"
      "\<And>x. actionOperation nm (createA x) = (plainOperation POST gvr ns None)\<lparr>op_Object := Some x\<rparr>"
    and update: "\<And>x s. update (Some x) s = orEmpty zero (assertObject (Invokes F (updateA x) (ObjectOf zero) s))"
      "\<And>x. actionOperation nm (updateA x) = (plainOperation PUT gvr ns (Some (nm x)))\<lparr>op_Object := Some x\<rparr>"
    and delete: "\<And>n s. delete n s = (let ((_, err), s') = Invokes F (deleteA n) (ObjectOf zero) s in Return (err, s'))"
      "\<And>n. actionOperation nm (deleteA n) = plainOperation DELETE gvr ns (Some n)"
    and pre: "pre \<Longrightarrow> tracker_laws T nm gvr V"
  shows "resource_client pre (\<lambda>n. True) (unversioned nm) ns zero V get create update delete"
proof
  fix s n x
  assume pre
  from pre [OF this] have chain: "chain_laws T" and reads: "tracker_reads T nm gvr V" by (simp_all add: tracker_laws_def)
  note run = simpleFake_invokes [OF chain, folded F_def] and law = reads [unfolded tracker_reads_def, rule_format, OF get(2)]
  show "get n s = Return ((x, None), s)" if "V s (ns, n) = Some x"
    using run [of "getA n" s "Some (ObjectOf x)" None s] law [of n s] that by (simp add: get(1) assertObject_def orEmpty_def)
  show "\<exists>e. get n s = Return ((zero, Some e), s)" if "V s (ns, n) = None"
  proof -
    from law [of n s] that obtain e where "ObjectReaction T (getA n) s = ((True, None, Some e), s)" by auto
    from run [OF this] show ?thesis by (simp add: get(1) assertObject_def orEmpty_def)
  qed
next
  fix s x
  assume pre
  from pre [OF this] have chain: "chain_laws T" and creates: "tracker_creates T nm gvr V" by (simp_all add: tracker_laws_def)
  note run = simpleFake_invokes [OF chain, folded F_def] and law = creates [unfolded tracker_creates_def, rule_format, OF create(2), of s x]
  show "if True \<and> at_Version (unversioned nm) x = [] \<and> V s (ns, at_Name (unversioned nm) x) = None
      then \<exists>s' y. create (Some x) s = Return ((y, None), s') \<and> at_Plain (unversioned nm) y = at_Plain (unversioned nm) x \<and>
        V s' = (V s)((ns, at_Name (unversioned nm) x) \<mapsto> y)
      else \<exists>e. create (Some x) s = Return ((zero, Some e), s)"
  proof (cases "V s (ns, nm x) = None")
    case True
    with law obtain t' where t: "ObjectReaction T (createA x) s = ((True, Some (ObjectOf x), None), t')" "V t' = (V s)((ns, nm x) \<mapsto> x)" by auto
    from run [OF t(1)] True t(2) show ?thesis by (simp add: create(1) assertObject_def orEmpty_def)
  next
    case False
    with law obtain e where "ObjectReaction T (createA x) s = ((True, None, Some e), s)" by auto
    from run [OF this] False show ?thesis by (simp add: create(1) assertObject_def orEmpty_def)
  qed
next
  fix s x
  assume pre
  from pre [OF this] have chain: "chain_laws T" and updates: "tracker_updates T nm gvr V" by (simp_all add: tracker_laws_def)
  note run = simpleFake_invokes [OF chain, folded F_def] and law = updates [unfolded tracker_updates_def, rule_format, OF update(2), of s x]
  show "if upToDate (unversioned nm) (V s) ns x
      then \<exists>s' y. update (Some x) s = Return ((y, None), s') \<and> at_Plain (unversioned nm) y = at_Plain (unversioned nm) x \<and>
        V s' = (V s)((ns, at_Name (unversioned nm) x) \<mapsto> y)
      else \<exists>e. update (Some x) s = Return ((zero, Some e), s)"
  proof (cases "V s (ns, nm x) = None")
    case False
    with law obtain t' where t: "ObjectReaction T (updateA x) s = ((True, Some (ObjectOf x), None), t')" "V t' = (V s)((ns, nm x) \<mapsto> x)" by auto
    from run [OF t(1)] False t(2) show ?thesis by (simp add: update(1) assertObject_def orEmpty_def)
  next
    case True
    with law obtain e where "ObjectReaction T (updateA x) s = ((True, None, Some e), s)" by auto
    from run [OF this] True show ?thesis by (simp add: update(1) assertObject_def orEmpty_def)
  qed
next
  fix s n
  assume pre
  from pre [OF this] have chain: "chain_laws T" and deletes: "tracker_deletes T nm gvr V" by (simp_all add: tracker_laws_def)
  note run = simpleFake_invokes [OF chain, folded F_def] and law = deletes [unfolded tracker_deletes_def, rule_format, OF delete(2), of s n]
  show "if V s (ns, n) \<noteq> None
      then \<exists>s'. delete n s = Return (None, s') \<and> V s' = (V s)((ns, n) := None)
      else \<exists>e. delete n s = Return (Some e, s)"
  proof (cases "V s (ns, n) = None")
    case False
    with law obtain t' where t: "ObjectReaction T (deleteA n) s = ((True, None, None), t')" "V t' = (V s)((ns, n) := None)" by auto
    from run [OF t(1)] False t(2) show ?thesis by (simp add: delete(1))
  next
    case True
    with law obtain e where "ObjectReaction T (deleteA n) s = ((True, None, Some e), s)" by auto
    from run [OF this] True show ?thesis by (simp add: delete(1))
  qed
next
  fix s n x
  assume pre and "V s (ns, n) = Some x"
  with pre show "at_Name (unversioned nm) x = n" unfolding unversioned_simps tracker_laws_def tracker_objects_def by blast
qed

interpretation fake_profile_client:
  resource_client "tracker_laws T mip_Name manifestintegrityprofilesResource V" "\<lambda>n. True" "unversioned mip_Name" "[]" zero_ManifestIntegrityProfile V
    "\<lambda>n s. orEmpty zero_ManifestIntegrityProfile (FakeManifestIntegrityProfiles_Get (FakeApisV1_ManifestIntegrityProfiles T \<lparr>fav_Fake = simpleFake T\<rparr>) n getOpts s)"
    "\<lambda>p s. orEmpty zero_ManifestIntegrityProfile (FakeManifestIntegrityProfiles_Create (FakeApisV1_ManifestIntegrityProfiles T \<lparr>fav_Fake = simpleFake T\<rparr>) p createOpts s)"
    "\<lambda>p s. orEmpty zero_ManifestIntegrityProfile (FakeManifestIntegrityProfiles_Update (FakeApisV1_ManifestIntegrityProfiles T \<lparr>fav_Fake = simpleFake T\<rparr>) p updateOpts s)"
    "\<lambda>n. FakeManifestIntegrityProfiles_Delete (FakeApisV1_ManifestIntegrityProfiles T \<lparr>fav_Fake = simpleFake T\<rparr>) n deleteOpts"
  for T :: "('lab, 'w, 't, 'sch, 'f, 'fd) mip_testing" and V getOpts createOpts updateOpts deleteOpts
  by (rule acts_resource_client [where getA = "\<lambda>n. NewRootGetAction manifestintegrityprofilesResource n" and createA = "\<lambda>x. NewRootCreateAction manifestintegrityprofilesResource (Some x)" and
      updateA = "\<lambda>x. NewRootUpdateAction manifestintegrityprofilesResource (Some x)" and deleteA = "\<lambda>n. NewRootDeleteAction manifestintegrityprofilesResource n"])
     (simp_all add: fakeProfileActions_defs FakeApisV1_ManifestIntegrityProfiles_def)

interpretation fake_state_client:
  resource_client "tracker_laws T mis_Name manifestintegritystatesResource V" "\<lambda>n. True" "unversioned mis_Name" ns zero_ManifestIntegrityState V
    "\<lambda>n s. orEmpty zero_ManifestIntegrityState (FakeManifestIntegrityStates_Get (fakeCalls T \<lparr>fav_Fake = simpleFake T\<rparr>) \<lparr>fmiss_ns = ns\<rparr> n getOpts s)"
    "\<lambda>p s. orEmpty zero_ManifestIntegrityState (FakeManifestIntegrityStates_Create (fakeCalls T \<lparr>fav_Fake = simpleFake T\<rparr>) \<lparr>fmiss_ns = ns\<rparr> p createOpts s)"
    "\<lambda>p s. orEmpty zero_ManifestIntegrityState (FakeManifestIntegrityStates_Update (fakeCalls T \<lparr>fav_Fake = simpleFake T\<rparr>) \<lparr>fmiss_ns = ns\<rparr> p updateOpts s)"
    "\<lambda>n. FakeManifestIntegrityStates_Delete (fakeCalls T \<lparr>fav_Fake = simpleFake T\<rparr>) \<lparr>fmiss_ns = ns\<rparr> n deleteOpts"
  for T :: "('lab, 'w, 't, 'sch, 'f, 'fd) mis_testing" and V ns getOpts createOpts updateOpts deleteOpts
  by (rule acts_resource_client [where getA = "\<lambda>n. NewGetAction manifestintegritystatesResource ns n" and
      createA = "\<lambda>x. NewCreateAction manifestintegritystatesResource ns (Some x)" and
      updateA = "\<lambda>x. NewUpdateAction manifestintegritystatesResource ns (Some x)" and
      deleteA = "\<lambda>n. NewDeleteAction manifestintegritystatesResource ns n"])
     (simp_all add: fakeStateActions_defs)

section \<open>Tests against a fake clientset\<close>

text \<open>The objects that a new clientset holds: those it was given, if they have different names; it
  panics otherwise.\<close>

definition holds :: "('o \<Rightarrow> string) \<Rightarrow> 'o list \<Rightarrow> string \<times> string \<Rightarrow> 'o option" where
  "holds nm xs k = (if fst k = [] then map_of (map (\<lambda>x. (nm x, x)) xs) (snd k) else None)"

lemma addObjects_holds:
  assumes laws: "tracker_objects T nm V" and "distinct (map nm (ys @ xs))" and "V t = holds nm ys"
  shows "\<exists>t'. addObjects T (map ObjectOf xs) t = Return t' \<and> V t' = holds nm (ys @ xs)"
  using assms(2,3)
proof (induction xs arbitrary: ys t)
  case (Cons x xs)
  from Cons.prems have "V t ([], nm x) = None"
    by (auto simp: holds_def map_of_eq_None_iff image_image)
  with laws obtain t1 where t1: "Tracker_Add T (ObjectOf x) t = Inr t1" "V t1 = (V t)(([], nm x) \<mapsto> x)"
    unfolding tracker_objects_def by metis
  have "map_of (map (\<lambda>x. (nm x, x)) ys) (nm x) = None"
    using Cons.prems(1) by (auto simp: map_of_eq_None_iff image_image)
  then have "V t1 = holds nm (ys @ [x])"
    unfolding t1(2) Cons.prems(2) by (auto simp: fun_eq_iff holds_def map_add_def split: option.split)
  with Cons.IH [of "ys @ [x]" t1] Cons.prems(1) t1(1) show ?case by simp
qed simp

lemma addObjects_panics:
  assumes laws: "tracker_objects T nm V" and "\<not> distinct (map nm (ys @ xs))" and "distinct (map nm ys)" and "V t = holds nm ys"
  shows "\<exists>e. addObjects T (map ObjectOf xs) t = Panic e"
  using assms(2-)
proof (induction xs arbitrary: ys t)
  case (Cons x xs)
  show ?case
  proof (cases "nm x \<in> nm ` set ys")
    case True
    with Cons.prems(3) have "V t ([], nm x) \<noteq> None"
      by (auto simp: holds_def map_of_eq_None_iff image_image)
    with laws obtain e where "Tracker_Add T (ObjectOf x) t = Inl e" unfolding tracker_objects_def by metis
    then show ?thesis by simp
  next
    case False
    with Cons.prems(2) have "distinct (map nm (ys @ [x]))" by simp
    from addObjects_holds [OF laws this Cons.prems(3)] laws Cons.prems False Cons.IH [of "ys @ [x]"] this
    show ?thesis by (auto split: sum.splits)
  qed
qed simp

lemma NewSimpleClientset_holds:
  assumes "tracker_laws T nm gvr V" and "distinct (map nm xs)"
  shows "\<exists>t. NewSimpleClientset T sch (map ObjectOf xs) = Return (\<lparr>fcs_Fake = simpleFake T\<rparr>, t) \<and> V t = holds nm xs"
proof -
  have objects: "tracker_objects T nm V" using assms(1) by (simp add: tracker_laws_def)
  then have "V (NewObjectTracker T sch) = holds nm []" by (simp add: tracker_objects_def holds_def fun_eq_iff)
  from addObjects_holds [OF objects _ this, of xs] assms(2) show ?thesis
    by (auto simp: NewSimpleClientset_def simpleFake_def Let_def)
qed

lemma fake_profile_get:
  assumes "tracker_laws T mip_Name manifestintegrityprofilesResource V"
  shows "\<exists>e. FakeManifestIntegrityProfiles_Get (FakeApisV1_ManifestIntegrityProfiles T \<lparr>fav_Fake = simpleFake T\<rparr>) n opts t =
     Return (case V t ([], n) of Some x \<Rightarrow> ((Some x, None), t) | None \<Rightarrow> ((None, Some e), t))"
proof -
  let ?a = "NewRootGetAction manifestintegrityprofilesResource n"
  from assms have chain: "chain_laws T" and reads: "tracker_reads T mip_Name manifestintegrityprofilesResource V"
    by (simp_all add: tracker_laws_def)
  have "actionOperation mip_Name ?a = plainOperation GET manifestintegrityprofilesResource [] (Some n)" by simp
  from reads [unfolded tracker_reads_def, rule_format, OF this, of t] simpleFake_invokes [OF chain, of ?a t] show ?thesis
    by (cases "V t ([], n)") (auto simp: FakeManifestIntegrityProfiles_Get_def FakeApisV1_ManifestIntegrityProfiles_def assertObject_def)
qed

lemma NewSimpleClientset_panics:
  assumes "tracker_laws T nm gvr V" and "\<not> distinct (map nm xs)"
  shows "\<exists>e. NewSimpleClientset T sch (map ObjectOf xs) = Panic e"
proof -
  have objects: "tracker_objects T nm V" using assms(1) by (simp add: tracker_laws_def)
  then have "V (NewObjectTracker T sch) = holds nm []" by (simp add: tracker_objects_def holds_def fun_eq_iff)
  from addObjects_panics [OF objects _ _ this, of xs] assms(2) show ?thesis
    by (auto simp: NewSimpleClientset_def Let_def)
qed

text \<open>C26: The fake clientset of the profiles is a map of profiles. From profiles with different names it is made
  without a panic and holds exactly these, and from profiles two of which share a name making it
  panics. After any creations, updates and deletions through its client, whichever of them fail,
  it holds what the map of these profiles holds after the same writes, where a creation needs a
  free name and an update a used one, and a \<open>Get\<close> returns the entry of the map, or nil and an error.
  Nothing is checked of the profiles themselves, their names and resource versions included.\<close>

theorem fake_clientset_is_a_map:
  fixes T :: "('lab, 'w, 't, 'sch, 'f, 'fd) mip_testing"
  assumes "scheme_laws S K meta" and "foreign_kinds (meta ('''', ''v1''))"
    and fake: "tracker_laws T mip_Name manifestintegrityprofilesResource V"
  shows "if distinct (map mip_Name xs)
     then \<exists>cs t t'. mip_NewSimpleClientset T S (map ObjectOf xs) = Return (cs, t) \<and> V t = holds mip_Name xs \<and>
       (let c = FakeApisV1_ManifestIntegrityProfiles T (fakeClientset_ApisV1 cs)
        in runWrites (\<lambda>x t. orEmpty zero_ManifestIntegrityProfile (FakeManifestIntegrityProfiles_Create c x createOpts t))
             (\<lambda>x t. orEmpty zero_ManifestIntegrityProfile (FakeManifestIntegrityProfiles_Update c x updateOpts t))
             (\<lambda>n. FakeManifestIntegrityProfiles_Delete c n deleteOpts) ws t = Return t' \<and>
           V t' = foldl (applyWrite mip_Name []) (holds mip_Name xs) ws \<and>
           (\<forall>n. \<exists>e. FakeManifestIntegrityProfiles_Get c n getOpts t' =
              Return (case V t' ([], n) of Some x \<Rightarrow> ((Some x, None), t') | None \<Rightarrow> ((None, Some e), t'))))
     else \<exists>e. mip_NewSimpleClientset T S (map ObjectOf xs) = Panic e"
proof -
  from clientset_scheme [OF assms(1,2), of "[''ManifestIntegrityProfile'', ''ManifestIntegrityProfileList'']" "mip_addKnownTypes S" mip_SchemeGroupVersion]
  obtain sch where sch: "mip_fake_init S = Return sch"
    using scheme_lawsD(4) [OF assms(1)]
    by (auto simp: own_kinds_def mip_addKnownTypes_def mip_fake_init_def mip_fake_localSchemeBuilder_def mip_AddToScheme_def
        mip_SchemeBuilder_def mustAdd_def)
  show ?thesis
  proof (cases "distinct (map mip_Name xs)")
    case False
    with NewSimpleClientset_panics [OF fake False, of sch] sch show ?thesis by (simp add: mip_NewSimpleClientset_def)
  next
    case True
    from NewSimpleClientset_holds [OF fake True, of sch] sch obtain t
      where new: "mip_NewSimpleClientset T S (map ObjectOf xs) = Return (\<lparr>fcs_Fake = simpleFake T\<rparr>, t)" and t: "V t = holds mip_Name xs"
      by (auto simp: mip_NewSimpleClientset_def)
    let ?c = "FakeApisV1_ManifestIntegrityProfiles T \<lparr>fav_Fake = simpleFake T\<rparr>"
    obtain t' where t': "runWrites (\<lambda>x t. orEmpty zero_ManifestIntegrityProfile (FakeManifestIntegrityProfiles_Create ?c x createOpts t))
        (\<lambda>x t. orEmpty zero_ManifestIntegrityProfile (FakeManifestIntegrityProfiles_Update ?c x updateOpts t))
        (\<lambda>n. FakeManifestIntegrityProfiles_Delete ?c n deleteOpts) ws t = Return t'"
        and "writtenAll (\<lambda>n. True) (unversioned mip_Name) [] (V t) ws (V t')"
      using fake_profile_client.writes_refine [OF fake] by metis
    then have "V t' = foldl (applyWrite mip_Name []) (holds mip_Name xs) ws" using writtenAll_unversioned t by metis
    with True new t t' fake_profile_get [OF fake] show ?thesis by (auto simp: fakeClientset_ApisV1_def Let_def)
  qed
qed

section \<open>A sample tracker\<close>

text \<open>It keeps the objects of one resource by namespace and name; a fake is its reactors.\<close>

type_synonym 'o sample_tracker = "string \<times> string \<Rightarrow> 'o option"

text \<open>The stored objects are seen under their names only.\<close>

definition sample_view :: "('o \<Rightarrow> string) \<Rightarrow> ('o sample_tracker, 'o) objects" where
  "sample_view nm t k = (case t k of Some x \<Rightarrow> if nm x = snd k then Some x else None | None \<Rightarrow> None)"

fun sample_react :: "('o \<Rightarrow> string) \<Rightarrow> 'o operation \<Rightarrow> 'o sample_tracker \<Rightarrow> (bool \<times> ('o, 'l) runtime_object option \<times> string option) \<times> 'o sample_tracker" where
  "sample_react nm op t =
     (let ns = op_Namespace op in
      case op_Verb op of
        GET \<Rightarrow> (case op_Name op of None \<Rightarrow> ((False, None, None), t)
          | Some n \<Rightarrow> (case sample_view nm t (ns, n) of None \<Rightarrow> ((True, None, Some ''not found''), t) | Some x \<Rightarrow> ((True, Some (ObjectOf x), None), t)))
      | POST \<Rightarrow> (case op_Object op of None \<Rightarrow> ((False, None, None), t)
          | Some x \<Rightarrow> if sample_view nm t (ns, nm x) = None then ((True, Some (ObjectOf x), None), t((ns, nm x) \<mapsto> x)) else ((True, None, Some ''already exists''), t))
      | PUT \<Rightarrow> (case op_Object op of None \<Rightarrow> ((False, None, None), t)
          | Some x \<Rightarrow> if sample_view nm t (ns, nm x) \<noteq> None then ((True, Some (ObjectOf x), None), t((ns, nm x) \<mapsto> x)) else ((True, None, Some ''not found''), t))
      | DELETE \<Rightarrow> (case op_Name op of None \<Rightarrow> ((False, None, None), t)
          | Some n \<Rightarrow> if sample_view nm t (ns, n) \<noteq> None then ((True, None, None), t((ns, n) := None)) else ((True, None, Some ''not found''), t))
      | _ \<Rightarrow> ((False, None, None), t))"

definition sample_testing ::
  "('o \<Rightarrow> string) \<Rightarrow> ('o, 'l, unit, unit, 'o sample_tracker, 'sch, ('o, 'l, 'o sample_tracker) reaction list, unit) testing_lib" where
  "sample_testing nm =
     \<lparr>NewObjectTracker = \<lambda>sch. Map.empty,
      Tracker_Add = \<lambda>obj t. (case obj of ObjectOf x \<Rightarrow> if sample_view nm t ([], nm x) = None then Inr (t(([], nm x) \<mapsto> x)) else Inl ''already exists'' | _ \<Rightarrow> Inl ''no kind''),
      Tracker_Watch = \<lambda>gvr ns t. (Inr (), t), ObjectReaction = \<lambda>a. sample_react nm (actionOperation nm a),
      zero_Fake = [], AddReactor = \<lambda>v r f fs. fs @ [f], AddWatchReactor = \<lambda>r f fs. fs,
      Fake_Invokes = \<lambda>fs a d t. (case fs of [] \<Rightarrow> ((Some d, None), t)
        | f # _ \<Rightarrow> (let ((handled, ret, err), t') = f a t in if handled then ((ret, err), t') else ((Some d, None), t'))),
      Fake_InvokesWatch = \<lambda>fs a t. (Inr (), t), Action_GetResource = \<lambda>a. ([], [], []), Action_GetNamespace = \<lambda>a. [],
      FakeDiscoveryOf = \<lambda>fs. (), Testing_ExtractLabel = \<lambda>l. None, Testing_Everything = (), Testing_Matches = \<lambda>l x. True\<rparr>"

lemma sample_view_simps [simp]:
  "nm x = snd k \<Longrightarrow> sample_view nm (t(k \<mapsto> x)) = (sample_view nm t)(k \<mapsto> x)"
  "sample_view nm (t(k := None)) = (sample_view nm t)(k := None)"
  "sample_view nm Map.empty = Map.empty"
  by (auto simp: sample_view_def fun_eq_iff)

lemma sample_tracker_laws: "tracker_laws (sample_testing nm) nm gvr (sample_view nm)"
proof -
  have "tracker_objects (sample_testing nm) nm (sample_view nm)"
    by (auto simp: tracker_objects_def sample_testing_def) (auto simp: sample_view_def split: option.splits if_splits)
  moreover have "tracker_reads (sample_testing nm) nm gvr (sample_view nm)"
    by (simp add: tracker_reads_def sample_testing_def split: option.split)
  moreover have "tracker_creates (sample_testing nm) nm gvr (sample_view nm)"
    by (simp add: tracker_creates_def sample_testing_def)
  moreover have "tracker_updates (sample_testing nm) nm gvr (sample_view nm)"
    by (auto simp: tracker_updates_def sample_testing_def)
  moreover have "tracker_deletes (sample_testing nm) nm gvr (sample_view nm)"
    by (auto simp: tracker_deletes_def sample_testing_def)
  moreover have "chain_laws (sample_testing nm)" by (simp add: chain_laws_def sample_testing_def)
  ultimately show ?thesis by (simp add: tracker_laws_def)
qed

abbreviation sample_profile_testing ::
  "(unit, unit, manifest_integrity_profile sample_tracker, (group_version \<times> string) list,
    (manifest_integrity_profile, mip_list, manifest_integrity_profile sample_tracker) reaction list, unit) mip_testing" where
  "sample_profile_testing \<equiv> sample_testing mip_Name"

text \<open>A profile is deleted and another one created.\<close>

theorem fake_clientset_is_a_map_witness:
  "\<exists>cs t t'. mip_NewSimpleClientset sample_profile_testing sample_schemes [ObjectOf sample_mip] = Return (cs, t) \<and>
     (let c = FakeApisV1_ManifestIntegrityProfiles sample_profile_testing (fakeClientset_ApisV1 cs)
      in runWrites (\<lambda>x t. orEmpty zero_ManifestIntegrityProfile (FakeManifestIntegrityProfiles_Create c x JNull t))
           (\<lambda>x t. orEmpty zero_ManifestIntegrityProfile (FakeManifestIntegrityProfiles_Update c x JNull t))
           (\<lambda>n. FakeManifestIntegrityProfiles_Delete c n JNull) [DeleteOf ''p1'', CreateOf (sample_mip\<lparr>mip_Name := ''p2''\<rparr>)] t = Return t' \<and>
         FakeManifestIntegrityProfiles_Get c ''p2'' JNull t' = Return ((Some (sample_mip\<lparr>mip_Name := ''p2''\<rparr>), None), t') \<and>
         (\<exists>e. FakeManifestIntegrityProfiles_Get c ''p1'' JNull t' = Return ((None, Some e), t')))"
proof -
  have k: "foreign_kinds {(('''', ''v1''), ''ListOptions'')}" by (simp add: foreign_kinds_def own_kinds_def)
  let ?ws = "[DeleteOf ''p1'', CreateOf (sample_mip\<lparr>mip_Name := ''p2''\<rparr>)]"
  have held: "foldl (applyWrite mip_Name []) (holds mip_Name [sample_mip]) ?ws ([], ''p2'') = Some (sample_mip\<lparr>mip_Name := ''p2''\<rparr>)"
    "foldl (applyWrite mip_Name []) (holds mip_Name [sample_mip]) ?ws ([], ''p1'') = None"
    by (simp_all add: holds_def sample_mip_def)
  from fake_clientset_is_a_map [OF sample_scheme_laws k sample_tracker_laws, where xs = "[sample_mip]" and getOpts = JNull and
      createOpts = JNull and updateOpts = JNull and deleteOpts = JNull and ws = ?ws]
  obtain cs t t' where new: "mip_NewSimpleClientset sample_profile_testing sample_schemes (map ObjectOf [sample_mip]) = Return (cs, t)"
    and run: "let c = FakeApisV1_ManifestIntegrityProfiles sample_profile_testing (fakeClientset_ApisV1 cs)
      in runWrites (\<lambda>x t. orEmpty zero_ManifestIntegrityProfile (FakeManifestIntegrityProfiles_Create c x JNull t))
           (\<lambda>x t. orEmpty zero_ManifestIntegrityProfile (FakeManifestIntegrityProfiles_Update c x JNull t))
           (\<lambda>n. FakeManifestIntegrityProfiles_Delete c n JNull) ?ws t = Return t' \<and>
         sample_view mip_Name t' = foldl (applyWrite mip_Name []) (holds mip_Name [sample_mip]) ?ws \<and>
         (\<forall>n. \<exists>e. FakeManifestIntegrityProfiles_Get c n JNull t' =
            Return (case sample_view mip_Name t' ([], n) of Some x \<Rightarrow> ((Some x, None), t') | None \<Rightarrow> ((None, Some e), t')))"
    by auto
  from run [unfolded Let_def] have view: "sample_view mip_Name t' = foldl (applyWrite mip_Name []) (holds mip_Name [sample_mip]) ?ws"
    and get: "\<And>n. \<exists>e. FakeManifestIntegrityProfiles_Get (FakeApisV1_ManifestIntegrityProfiles sample_profile_testing (fakeClientset_ApisV1 cs)) n JNull t' =
            Return (case sample_view mip_Name t' ([], n) of Some x \<Rightarrow> ((Some x, None), t') | None \<Rightarrow> ((None, Some e), t'))" by blast+
  from get [of "''p1''", unfolded view held] get [of "''p2''", unfolded view held] new run show ?thesis
    unfolding Let_def by (intro exI [of _ cs] exI [of _ t] exI [of _ t']) simp
qed

end
