(* ===== verification/Informers.thy ===== *)
theory Informers
  imports RestClient
begin

text \<open>
  The informers and listers that client-gen wrote: the shared informer factory (\<^verbatim>\<open>factory.go\<close>, whose text is
  the same for profiles and states), \<^verbatim>\<open>generic.go\<close>, the informers and the listers. The factory is a
  state machine: its methods hold its lock, so that any interleaving of callers is a sequence
  of steps. Informers, which client-go makes and runs, are values of the type \<open>'i\<close>.
\<close>

section \<open>The factory\<close>

text \<open>A type stands for the \<open>reflect.Type\<close> of an object. Durations are 64 bits wide.\<close>

type_synonym rtype = string

type_synonym tweak = "list_options \<Rightarrow> list_options"

record ('c, 'i) sharedInformerFactory =
  sif_client :: 'c
  sif_namespace :: string
  sif_tweakListOptions :: "tweak option"
  sif_defaultResync :: "64 word"
  sif_customResync :: "rtype \<rightharpoonup> 64 word"
  sif_informers :: "rtype \<rightharpoonup> 'i"
  sif_startedInformers :: "rtype \<rightharpoonup> bool"

type_synonym ('c, 'i) sharedInformerOption = "('c, 'i) sharedInformerFactory \<Rightarrow> ('c, 'i) sharedInformerFactory"

text \<open>The entries of the given map in the order in which they are visited.\<close>

fun WithCustomResyncConfig :: "(rtype \<times> 64 word) list \<Rightarrow> ('c, 'i) sharedInformerOption" where
  "WithCustomResyncConfig [] factory = factory"
| "WithCustomResyncConfig ((k, v) # resyncConfig) factory =
     WithCustomResyncConfig resyncConfig (factory\<lparr>sif_customResync := (sif_customResync factory)(k \<mapsto> v)\<rparr>)"

definition WithTweakListOptions :: "tweak option \<Rightarrow> ('c, 'i) sharedInformerOption" where
  "WithTweakListOptions tweakListOptions factory = factory\<lparr>sif_tweakListOptions := tweakListOptions\<rparr>"

definition WithNamespace :: "string \<Rightarrow> ('c, 'i) sharedInformerOption" where
  "WithNamespace namespace factory = factory\<lparr>sif_namespace := namespace\<rparr>"

fun applyOptions :: "('c, 'i) sharedInformerOption list \<Rightarrow> ('c, 'i) sharedInformerOption" where
  "applyOptions [] factory = factory"
| "applyOptions (opt # options) factory = applyOptions options (opt factory)"

definition NewSharedInformerFactoryWithOptions ::
  "'c \<Rightarrow> 64 word \<Rightarrow> ('c, 'i) sharedInformerOption list \<Rightarrow> ('c, 'i) sharedInformerFactory" where
  "NewSharedInformerFactoryWithOptions client defaultResync options =
     (let factory = \<lparr>sif_client = client, sif_namespace = [], sif_tweakListOptions = None, sif_defaultResync = defaultResync,
            sif_customResync = Map.empty, sif_informers = Map.empty, sif_startedInformers = Map.empty\<rparr>
      in applyOptions options factory)"

definition NewSharedInformerFactory :: "'c \<Rightarrow> 64 word \<Rightarrow> ('c, 'i) sharedInformerFactory" where
  "NewSharedInformerFactory client defaultResync = NewSharedInformerFactoryWithOptions client defaultResync []"

definition NewFilteredSharedInformerFactory ::
  "'c \<Rightarrow> 64 word \<Rightarrow> string \<Rightarrow> tweak option \<Rightarrow> ('c, 'i) sharedInformerFactory" where
  "NewFilteredSharedInformerFactory client defaultResync namespace tweakListOptions =
     NewSharedInformerFactoryWithOptions client defaultResync [WithNamespace namespace, WithTweakListOptions tweakListOptions]"

text \<open>\<open>Start\<close> visits the informers in some order and returns those that it runs, each in a goroutine of
  its own; a missing entry of \<open>startedInformers\<close> reads as false.\<close>

fun Start :: "(rtype \<times> 'i) list \<Rightarrow> ('c, 'i) sharedInformerFactory \<Rightarrow> ('c, 'i) sharedInformerFactory \<times> (rtype \<times> 'i) list" where
  "Start [] f = (f, [])"
| "Start ((informerType, informer) # rest) f =
     (if sif_startedInformers f informerType \<noteq> Some True
      then let (f', runs) = Start rest (f\<lparr>sif_startedInformers := (sif_startedInformers f)(informerType \<mapsto> True)\<rparr>)
           in (f', (informerType, informer) # runs)
      else Start rest f)"

text \<open>\<open>sync\<close> is the result of \<open>cache.WaitForCacheSync\<close> for an informer.\<close>

definition WaitForCacheSync :: "('i \<Rightarrow> bool) \<Rightarrow> ('c, 'i) sharedInformerFactory \<Rightarrow> (rtype \<rightharpoonup> bool)" where
  "WaitForCacheSync sync f =
     (let informers = (\<lambda>informerType. if sif_startedInformers f informerType = Some True then sif_informers f informerType else None)
      in (\<lambda>informType. map_option sync (informers informType)))"

text \<open>\<open>newFunc\<close> makes an informer, which changes the memory \<open>m\<close>.\<close>

definition InformerFor ::
  "rtype \<Rightarrow> ('c \<Rightarrow> 64 word \<Rightarrow> 'm \<Rightarrow> 'i \<times> 'm) \<Rightarrow> ('c, 'i) sharedInformerFactory \<Rightarrow> 'm \<Rightarrow> 'i \<times> ('c, 'i) sharedInformerFactory \<times> 'm" where
  "InformerFor informerType newFunc f m =
     (case sif_informers f informerType of Some informer \<Rightarrow> (informer, f, m)
      | None \<Rightarrow>
          (let resyncPeriod = (case sif_customResync f informerType of Some p \<Rightarrow> p | None \<Rightarrow> sif_defaultResync f);
               (informer, m') = newFunc (sif_client f) resyncPeriod m
           in (informer, f\<lparr>sif_informers := (sif_informers f)(informerType \<mapsto> informer)\<rparr>, m')))"

section \<open>The factory as a state machine\<close>

text \<open>A visiting order of \<open>Start\<close> lists each registered informer once.\<close>

definition visits :: "('c, 'i) sharedInformerFactory \<Rightarrow> (rtype \<times> 'i) list \<Rightarrow> bool" where
  "visits f order \<longleftrightarrow> distinct (map fst order) \<and> (\<forall>t i. (t, i) \<in> set order \<longleftrightarrow> sif_informers f t = Some i)"

text \<open>A state is the factory, the memory and the goroutines started so far.\<close>

inductive factory_step ::
  "('c, 'i) sharedInformerFactory \<times> 'm \<times> (rtype \<times> 'i) list \<Rightarrow> ('c, 'i) sharedInformerFactory \<times> 'm \<times> (rtype \<times> 'i) list \<Rightarrow> bool" where
  step_InformerFor: "InformerFor t newFunc f m = (i, f', m') \<Longrightarrow> factory_step (f, m, runs) (f', m', runs)"
| step_Start: "visits f order \<Longrightarrow> Start order f = (f', new) \<Longrightarrow> factory_step (f, m, runs) (f', m, runs @ new)"
| step_Run: "factory_step (f, m, runs) (f, m', runs)"

inductive_cases factory_stepE: "factory_step (f, m, runs) st"

definition factory_inv :: "('c, 'i) sharedInformerFactory \<Rightarrow> (rtype \<times> 'i) list \<Rightarrow> bool" where
  "factory_inv f runs \<longleftrightarrow> distinct (map fst runs) \<and> (\<forall>t i. (t, i) \<in> set runs \<longrightarrow> sif_informers f t = Some i) \<and>
     (\<forall>t. sif_startedInformers f t = Some True \<longleftrightarrow> t \<in> fst ` set runs)"

lemma Start_effect:
  assumes "distinct (map fst order)" and "Start order f = (f', new)"
  shows "new = [e \<leftarrow> order. sif_startedInformers f (fst e) \<noteq> Some True]"
    and "f' = f\<lparr>sif_startedInformers := (\<lambda>t. if t \<in> fst ` set order then Some True else sif_startedInformers f t)\<rparr>"
proof -
  have "new = [e \<leftarrow> order. sif_startedInformers f (fst e) \<noteq> Some True] \<and>
    f' = f\<lparr>sif_startedInformers := (\<lambda>t. if t \<in> fst ` set order then Some True else sif_startedInformers f t)\<rparr>"
    using assms
  proof (induction order f arbitrary: f' new rule: Start.induct)
    case (2 t i rest f)
    have keep: "filter (\<lambda>e. (if fst e = t then Some True else sif_startedInformers f (fst e)) \<noteq> Some True) rest =
        filter (\<lambda>e. sif_startedInformers f (fst e) \<noteq> Some True) rest"
      using 2(3) by (intro filter_cong) (auto simp: image_iff)
    show ?case
    proof (cases "sif_startedInformers f t = Some True")
      case True
      with 2 show ?thesis by (auto simp: fun_eq_iff)
    next
      case False
      with 2 keep show ?thesis by (auto simp: Let_def fun_eq_iff fun_upd_def split: prod.splits)
    qed
  qed simp
  then show "new = [e \<leftarrow> order. sif_startedInformers f (fst e) \<noteq> Some True]"
    and "f' = f\<lparr>sif_startedInformers := (\<lambda>t. if t \<in> fst ` set order then Some True else sif_startedInformers f t)\<rparr>" by blast+
qed

abbreviation keeps_informers :: "('c, 'i) sharedInformerFactory \<Rightarrow> ('c, 'i) sharedInformerFactory \<Rightarrow> bool" where
  "keeps_informers f f' \<equiv> sif_informers f \<subseteq>\<^sub>m sif_informers f'"

lemma InformerFor_effect:
  assumes "InformerFor t newFunc f m = (i, f', m')"
  shows "sif_informers f' t = Some i" and "keeps_informers f f'" and "sif_startedInformers f' = sif_startedInformers f"
    and "sif_informers f t = Some j \<Longrightarrow> i = j \<and> f' = f \<and> m' = m"
  using assms by (auto simp: InformerFor_def Let_def map_le_def split: option.splits prod.splits)

lemma factory_step_inv:
  assumes "factory_step (f, m, runs) (f', m', runs')" and inv: "factory_inv f runs"
  shows "factory_inv f' runs' \<and> keeps_informers f f'"
  using assms(1)
proof (cases rule: factory_step.cases)
  case (step_InformerFor t newFunc i)
  note eff = InformerFor_effect [OF step_InformerFor(2)]
  then have "sif_informers f' u = Some j" if "sif_informers f u = Some j" for u j
    using that by (metis domI map_le_def)
  with inv eff step_InformerFor(1) show ?thesis by (auto simp: factory_inv_def)
next
  case (step_Start order new)
  from step_Start(3) have order: "distinct (map fst order)" "\<And>t i. (t, i) \<in> set order \<longleftrightarrow> sif_informers f t = Some i"
    by (auto simp: visits_def)
  note eff = Start_effect [OF order(1) step_Start(4)]
  have started: "sif_startedInformers f t = Some True \<longleftrightarrow> t \<in> fst ` set runs" for t
    using inv by (simp add: factory_inv_def)
  have new: "fst ` set new = {t \<in> fst ` set order. t \<notin> fst ` set runs}"
    by (auto simp: eff(1) started)
  have "distinct (map fst new)" using order(1) by (simp add: eff(1) distinct_map_filter)
  then have "distinct (map fst (runs @ new))" using inv new by (auto simp: factory_inv_def)
  moreover have "sif_startedInformers f' t = Some True \<longleftrightarrow> t \<in> fst ` set (runs @ new)" for t
    by (simp add: eff(2) started new image_Un)
  moreover have "sif_informers f' t = Some i" if "(t, i) \<in> set (runs @ new)" for t i
    using that inv order(2) by (auto simp: factory_inv_def eff)
  ultimately show ?thesis
    using step_Start(2) by (simp add: factory_inv_def eff(2))
next
  case step_Run
  with inv show ?thesis by simp
qed

lemma factory_reachable_inv:
  assumes "factory_step\<^sup>*\<^sup>* (f, m, runs) st" and "factory_inv f runs"
  shows "factory_inv (fst st) (snd (snd st)) \<and> keeps_informers f (fst st)"
  using assms
proof (induction rule: rtranclp_induct)
  case base
  then show ?case by simp
next
  case (step st st')
  obtain g n rs g' n' rs' where st: "st = (g, n, rs)" "st' = (g', n', rs')" by (metis prod_cases3)
  from step factory_step_inv [of g n rs g' n' rs'] map_le_trans show ?case unfolding st by fastforce
qed

text \<open>The options of the package leave the maps of a new factory empty.\<close>

definition packageOption :: "('c, 'i) sharedInformerOption \<Rightarrow> bool" where
  "packageOption opt \<longleftrightarrow> (\<exists>cfg. opt = WithCustomResyncConfig cfg) \<or> (\<exists>t. opt = WithTweakListOptions t) \<or> (\<exists>ns. opt = WithNamespace ns)"

lemma WithCustomResyncConfig_maps:
  "sif_informers (WithCustomResyncConfig cfg f) = sif_informers f"
  "sif_startedInformers (WithCustomResyncConfig cfg f) = sif_startedInformers f"
  by (induction cfg f rule: WithCustomResyncConfig.induct) simp_all

lemma applyOptions_maps:
  assumes "\<forall>opt\<in>set options. packageOption opt"
  shows "sif_informers (applyOptions options f) = sif_informers f \<and> sif_startedInformers (applyOptions options f) = sif_startedInformers f"
  using assms
  by (induction options f rule: applyOptions.induct)
     (auto simp: packageOption_def WithCustomResyncConfig_maps WithTweakListOptions_def WithNamespace_def)

text \<open>C21: However the callers of a factory interleave, every informer is run at most once and only
  if it is registered, a registered informer is never replaced (a second \<open>InformerFor\<close> returns it
  and makes nothing), \<open>WaitForCacheSync\<close> reports exactly the informers that run, and after a \<open>Start\<close>
  in any visiting order all registered informers run.\<close>

theorem informers_run_once:
  assumes "\<forall>opt\<in>set options. packageOption opt"
    and "factory_step\<^sup>*\<^sup>* (NewSharedInformerFactoryWithOptions client resync options, m0, []) (f, m, runs)"
  shows "distinct (map fst runs) \<and> (\<forall>(t, i)\<in>set runs. sif_informers f t = Some i) \<and>
     WaitForCacheSync sync f = (\<lambda>t. map_option sync (map_of runs t)) \<and>
     (\<forall>t i newFunc. sif_informers f t = Some i \<longrightarrow> InformerFor t newFunc f m = (i, f, m)) \<and>
     (\<forall>order f' new. visits f order \<and> Start order f = (f', new) \<longrightarrow>
        (\<forall>t i. (t, i) \<in> set (runs @ new) \<longleftrightarrow> sif_informers f' t = Some i))"
proof -
  have "factory_inv (NewSharedInformerFactoryWithOptions client resync options) []"
    using applyOptions_maps [OF assms(1)] by (auto simp: NewSharedInformerFactoryWithOptions_def factory_inv_def Let_def)
  from factory_reachable_inv [OF assms(2) this] have inv: "factory_inv f runs" by simp
  then have dist: "distinct (map fst runs)" and reg: "\<And>t i. (t, i) \<in> set runs \<Longrightarrow> sif_informers f t = Some i"
    and started: "\<And>t. sif_startedInformers f t = Some True \<longleftrightarrow> t \<in> fst ` set runs" by (auto simp: factory_inv_def)
  have "map_option sync (if sif_startedInformers f t = Some True then sif_informers f t else None) = map_option sync (map_of runs t)" for t
    using reg dist by (cases "t \<in> fst ` set runs") (auto simp: started map_of_eq_None_iff)
  moreover have "\<forall>t i. (t, i) \<in> set (runs @ new) \<longleftrightarrow> sif_informers f' t = Some i"
    if "visits f order" "Start order f = (f', new)" for order f' new
  proof -
    from that(1) have order: "distinct (map fst order)" "\<And>t i. (t, i) \<in> set order \<longleftrightarrow> sif_informers f t = Some i"
      by (auto simp: visits_def)
    note eff = Start_effect [OF order(1) that(2)]
    have new: "(t, i) \<in> set new \<longleftrightarrow> sif_informers f t = Some i \<and> t \<notin> fst ` set runs" for t i
      by (auto simp: eff(1) order(2) started)
    have old: "(t, i) \<in> set runs" if "sif_informers f t = Some i" "t \<in> fst ` set runs" for t i
      using that reg by force
    have "sif_informers f' = sif_informers f" by (simp add: eff(2))
    then have "(t, i) \<in> set (runs @ new) \<longleftrightarrow> sif_informers f' t = Some i" for t i
      using new [of t i] old [of t i] reg [of t i] by auto
    then show ?thesis by blast
  qed
  moreover have "InformerFor t newFunc f m = (i, f, m)" if "sif_informers f t = Some i" for t i newFunc
    using that by (simp add: InformerFor_def)
  moreover have "WaitForCacheSync sync f = (\<lambda>t. map_option sync (map_of runs t))"
    using calculation(1) by (simp add: WaitForCacheSync_def Let_def)
  ultimately show ?thesis using dist reg by blast
qed

definition sample_new_informer :: "unit \<Rightarrow> 64 word \<Rightarrow> nat \<Rightarrow> nat \<times> nat" where
  "sample_new_informer c p m = (m, m + 1)"

text \<open>Two registrations of one type and two starts give one run.\<close>

theorem informers_run_once_witness:
  "\<exists>f. factory_step\<^sup>*\<^sup>* (NewSharedInformerFactoryWithOptions () 0 [WithNamespace ''ns''], 7 :: nat, []) (f, 8, [(''t'', 7 :: nat)]) \<and>
     WaitForCacheSync (\<lambda>i. True) f = (\<lambda>t. map_option (\<lambda>i. True) (map_of [(''t'', 7 :: nat)] t))"
proof -
  let ?f = "NewSharedInformerFactoryWithOptions () 0 [WithNamespace ''ns''] :: (unit, nat) sharedInformerFactory"
  let ?g = "?f\<lparr>sif_informers := [''t'' \<mapsto> 7]\<rparr>" and ?h = "?f\<lparr>sif_informers := [''t'' \<mapsto> 7], sif_startedInformers := [''t'' \<mapsto> True]\<rparr>"
  have f: "sif_informers ?f = Map.empty" "sif_startedInformers ?f = Map.empty" "sif_customResync ?f = Map.empty"
    by (simp_all add: NewSharedInformerFactoryWithOptions_def WithNamespace_def Let_def)
  have i: "InformerFor ''t'' sample_new_informer ?f 7 = (7, ?g, 8)" "InformerFor ''t'' sample_new_informer ?g 8 = (7, ?g, 8)"
    by (simp_all add: InformerFor_def f sample_new_informer_def Let_def)
  note 1 = step_InformerFor [OF i(1), of "[]"] and 2 = step_InformerFor [OF i(2), of "[]"]
  have 3: "factory_step (?g, 8 :: nat, []) (?h, 8, [] @ [(''t'', 7)])"
    and 4: "factory_step (?h, 8 :: nat, [] @ [(''t'', 7)]) (?h, 8, ([] @ [(''t'', 7)]) @ [])"
    by (rule step_Start [where order = "[(''t'', 7)]"]; auto simp: visits_def f Let_def)+
  from 1 have "factory_step\<^sup>*\<^sup>* (?f, 7 :: nat, []) (?g, 8, [])" by (rule r_into_rtranclp [of factory_step])
  from this 2 have "factory_step\<^sup>*\<^sup>* (?f, 7 :: nat, []) (?g, 8, [])" by (rule rtranclp.rtrancl_into_rtrancl [of factory_step])
  from this 3 have "factory_step\<^sup>*\<^sup>* (?f, 7 :: nat, []) (?h, 8, [] @ [(''t'', 7)])" by (rule rtranclp.rtrancl_into_rtrancl [of factory_step])
  from this 4 have "factory_step\<^sup>*\<^sup>* (?f, 7 :: nat, []) (?h, 8, ([] @ [(''t'', 7)]) @ [])" by (rule rtranclp.rtrancl_into_rtrancl [of factory_step])
  then have run: "factory_step\<^sup>*\<^sup>* (?f, 7 :: nat, []) (?h, 8, [(''t'', 7)])" by simp
  have "\<forall>opt\<in>set [WithNamespace ''ns'' :: (unit, nat) sharedInformerOption]. packageOption opt" by (auto simp: packageOption_def)
  from informers_run_once [OF this run, of "\<lambda>i. True"] run show ?thesis by blast
qed

section \<open>The informers\<close>

text \<open>What \<open>cache.NewSharedIndexInformer\<close> is given: the functions that list and watch, the type of
  the objects, the resync period and the names of the indexes.\<close>

record ('l, 'w, 's) informer_spec =
  inf_List :: "list_options \<Rightarrow> 's \<Rightarrow> ('l, 's) reply"
  inf_Watch :: "list_options \<Rightarrow> 's \<Rightarrow> ('w result \<times> 's) outcome"
  inf_Object :: rtype
  inf_Resync :: "64 word"
  inf_Indexers :: "string list"

record ('l, 'w, 's, 'i, 'x, 'm) cache_lib =
  NewSharedIndexInformer :: "('l, 'w, 's) informer_spec \<Rightarrow> 'm \<Rightarrow> 'i \<times> 'm"
  GetIndexer :: "'i \<Rightarrow> 'x"

definition tweaked :: "tweak option \<Rightarrow> list_options \<Rightarrow> list_options" where
  "tweaked tweakListOptions options = (case tweakListOptions of None \<Rightarrow> options | Some t \<Rightarrow> t options)"

definition NewFilteredManifestIntegrityProfileInformer where
  "NewFilteredManifestIntegrityProfileInformer R I client resyncPeriod indexers tweakListOptions m =
     NewSharedIndexInformer I
       \<lparr>inf_List = \<lambda>options s. outcome_bind (Clientset_ApisV1 client) (\<lambda>c.
          manifestIntegrityProfiles_List R (newManifestIntegrityProfiles c) (tweaked tweakListOptions options) s),
        inf_Watch = \<lambda>options s. outcome_bind (Clientset_ApisV1 client) (\<lambda>c.
          manifestIntegrityProfiles_Watch R (newManifestIntegrityProfiles c) (tweaked tweakListOptions options) s),
        inf_Object = ''*v1.ManifestIntegrityProfile'', inf_Resync = resyncPeriod, inf_Indexers = indexers\<rparr> m"

definition NewManifestIntegrityProfileInformer where
  "NewManifestIntegrityProfileInformer R I client resyncPeriod indexers m =
     NewFilteredManifestIntegrityProfileInformer R I client resyncPeriod indexers None m"

definition NewFilteredManifestIntegrityStateInformer where
  "NewFilteredManifestIntegrityStateInformer R I client namespace resyncPeriod indexers tweakListOptions m =
     NewSharedIndexInformer I
       \<lparr>inf_List = \<lambda>options s. outcome_bind (Clientset_ApisV1 client) (\<lambda>c.
          manifestIntegrityStates_List R (newManifestIntegrityStates c namespace) (tweaked tweakListOptions options) s),
        inf_Watch = \<lambda>options s. outcome_bind (Clientset_ApisV1 client) (\<lambda>c.
          manifestIntegrityStates_Watch R (newManifestIntegrityStates c namespace) (tweaked tweakListOptions options) s),
        inf_Object = ''*v1.ManifestIntegrityState'', inf_Resync = resyncPeriod, inf_Indexers = indexers\<rparr> m"

definition NewManifestIntegrityStateInformer where
  "NewManifestIntegrityStateInformer R I client namespace resyncPeriod indexers m =
     NewFilteredManifestIntegrityStateInformer R I client namespace resyncPeriod indexers None m"

text \<open>The accessors \<open>Apis().V1().ManifestIntegrityProfiles()\<close> pass the settings of the factory on; the
  informer of the cluster-scoped profiles has no namespace. The index is \<open>cache.NamespaceIndex\<close>.\<close>

record informer_group =
  grp_namespace :: string
  grp_tweakListOptions :: "tweak option"

record informer_version =
  ver_namespace :: string
  ver_tweakListOptions :: "tweak option"

record manifestIntegrityProfileInformer =
  mpi_tweakListOptions :: "tweak option"

record manifestIntegrityStateInformer =
  msi_tweakListOptions :: "tweak option"
  msi_namespace :: string

definition factory_Apis :: "('c, 'i) sharedInformerFactory \<Rightarrow> informer_group" where
  "factory_Apis f = \<lparr>grp_namespace = sif_namespace f, grp_tweakListOptions = sif_tweakListOptions f\<rparr>"

definition group_V1 :: "informer_group \<Rightarrow> informer_version" where
  "group_V1 g = \<lparr>ver_namespace = grp_namespace g, ver_tweakListOptions = grp_tweakListOptions g\<rparr>"

definition version_ManifestIntegrityProfiles :: "informer_version \<Rightarrow> manifestIntegrityProfileInformer" where
  "version_ManifestIntegrityProfiles v = \<lparr>mpi_tweakListOptions = ver_tweakListOptions v\<rparr>"

definition version_ManifestIntegrityStates :: "informer_version \<Rightarrow> manifestIntegrityStateInformer" where
  "version_ManifestIntegrityStates v = \<lparr>msi_tweakListOptions = ver_tweakListOptions v, msi_namespace = ver_namespace v\<rparr>"

definition profile_defaultInformer where
  "profile_defaultInformer R I p client resyncPeriod m =
     NewFilteredManifestIntegrityProfileInformer R I client resyncPeriod [''namespace''] (mpi_tweakListOptions p) m"

definition profile_Informer where
  "profile_Informer R I p f m = InformerFor ''*v1.ManifestIntegrityProfile'' (profile_defaultInformer R I p) f m"

definition state_defaultInformer where
  "state_defaultInformer R I p client resyncPeriod m =
     NewFilteredManifestIntegrityStateInformer R I client (msi_namespace p) resyncPeriod [''namespace''] (msi_tweakListOptions p) m"

definition state_Informer where
  "state_Informer R I p f m = InformerFor ''*v1.ManifestIntegrityState'' (state_defaultInformer R I p) f m"

section \<open>Generic informers\<close>

record 'i genericInformer =
  gi_informer :: 'i
  gi_resource :: "string \<times> string"

text \<open>A resource is its group, version and name; \<open>fmtResource\<close> is the format \<^verbatim>\<open>%v\<close> of it.\<close>

definition profile_ForResource where
  "profile_ForResource R I fmtResource resource f m =
     (if resource = (fst mip_SchemeGroupVersion, snd mip_SchemeGroupVersion, ''manifestintegrityprofiles'')
      then let (informer, f', m') = profile_Informer R I (version_ManifestIntegrityProfiles (group_V1 (factory_Apis f))) f m
           in (Inr \<lparr>gi_informer = informer, gi_resource = (fst resource, snd (snd resource))\<rparr>, f', m')
      else (Inl (''no informer found for '' @ fmtResource resource), f, m))"

definition state_ForResource where
  "state_ForResource R I fmtResource resource f m =
     (if resource = (fst mis_SchemeGroupVersion, snd mis_SchemeGroupVersion, ''manifestintegritystates'')
      then let (informer, f', m') = state_Informer R I (version_ManifestIntegrityStates (group_V1 (factory_Apis f))) f m
           in (Inr \<lparr>gi_informer = informer, gi_resource = (fst resource, snd (snd resource))\<rparr>, f', m')
      else (Inl (''no informer found for '' @ fmtResource resource), f, m))"

section \<open>Listers\<close>

text \<open>The indexer of an informer holds interface values, which the listers assert to be of their type.
  \<open>Cache_GetByKey\<close> gives the object, if one exists, or an error; \<open>Cache_ListAll\<close> and
  \<open>Cache_ListAllByNamespace\<close> give the objects for which the callback is called, in order, and the
  error that follows.\<close>

datatype 'o cached = OfType 'o | OfOtherType

record ('o, 'sel) indexer =
  Cache_GetByKey :: "string \<Rightarrow> 'o cached option result"
  Cache_ListAll :: "'sel \<Rightarrow> 'o cached list \<times> string option"
  Cache_ListAllByNamespace :: "string \<Rightarrow> 'sel \<Rightarrow> 'o cached list \<times> string option"

fun appendAsserted :: "'o list \<Rightarrow> 'o cached list \<Rightarrow> 'o list outcome" where
  "appendAsserted ret [] = Return ret"
| "appendAsserted ret (OfType x # ms) = appendAsserted (ret @ [x]) ms"
| "appendAsserted ret (OfOtherType # ms) = Panic ''interface conversion''"

definition profileLister_List :: "('o, 'sel) indexer \<Rightarrow> 'sel \<Rightarrow> ('o list \<times> string option) outcome" where
  "profileLister_List indexer selector =
     (let (ms, err) = Cache_ListAll indexer selector
      in outcome_bind (appendAsserted [] ms) (\<lambda>ret. Return (ret, err)))"

text \<open>\<open>notFound\<close> is \<open>errors.NewNotFound\<close> for the group, the resource and the name.\<close>

definition profileLister_Get :: "(string \<times> string \<Rightarrow> string \<Rightarrow> string) \<Rightarrow> ('o, 'sel) indexer \<Rightarrow> string \<Rightarrow> 'o result outcome" where
  "profileLister_Get notFound indexer name =
     (case Cache_GetByKey indexer name of
        Inl err \<Rightarrow> Return (Inl err)
      | Inr None \<Rightarrow> Return (Inl (notFound (mip_GroupName, ''manifestintegrityprofile'') name))
      | Inr (Some (OfType x)) \<Rightarrow> Return (Inr x)
      | Inr (Some OfOtherType) \<Rightarrow> Panic ''interface conversion'')"

definition stateLister_List :: "('o, 'sel) indexer \<Rightarrow> 'sel \<Rightarrow> ('o list \<times> string option) outcome" where
  "stateLister_List indexer selector =
     (let (ms, err) = Cache_ListAll indexer selector
      in outcome_bind (appendAsserted [] ms) (\<lambda>ret. Return (ret, err)))"

record ('o, 'sel) stateNamespaceLister =
  snl_indexer :: "('o, 'sel) indexer"
  snl_namespace :: string

definition stateLister_ManifestIntegrityStates :: "('o, 'sel) indexer \<Rightarrow> string \<Rightarrow> ('o, 'sel) stateNamespaceLister" where
  "stateLister_ManifestIntegrityStates indexer namespace = \<lparr>snl_indexer = indexer, snl_namespace = namespace\<rparr>"

definition stateNamespaceLister_List :: "('o, 'sel) stateNamespaceLister \<Rightarrow> 'sel \<Rightarrow> ('o list \<times> string option) outcome" where
  "stateNamespaceLister_List l selector =
     (let (ms, err) = Cache_ListAllByNamespace (snl_indexer l) (snl_namespace l) selector
      in outcome_bind (appendAsserted [] ms) (\<lambda>ret. Return (ret, err)))"

definition stateNamespaceLister_Get ::
  "(string \<times> string \<Rightarrow> string \<Rightarrow> string) \<Rightarrow> ('o, 'sel) stateNamespaceLister \<Rightarrow> string \<Rightarrow> 'o result outcome" where
  "stateNamespaceLister_Get notFound l name =
     (case Cache_GetByKey (snl_indexer l) (snl_namespace l @ ''/'' @ name) of
        Inl err \<Rightarrow> Return (Inl err)
      | Inr None \<Rightarrow> Return (Inl (notFound (mis_GroupName, ''manifestintegritystate'') name))
      | Inr (Some (OfType x)) \<Rightarrow> Return (Inr x)
      | Inr (Some OfOtherType) \<Rightarrow> Panic ''interface conversion'')"

lemma appendAsserted_typed: "appendAsserted ret (map OfType xs) = Return (ret @ xs)"
  by (induction xs arbitrary: ret) simp_all

section \<open>Informers and listers over a store\<close>

text \<open>The key of an object in a cache is its name, after its namespace and a slash if it has one. A
  synchronised cache holds the objects of the store under their keys. Names and namespaces have no
  slash.\<close>

definition cacheKey :: "string \<Rightarrow> string \<Rightarrow> string" where
  "cacheKey ns n = (if ns = [] then n else ns @ ''/'' @ n)"

definition synchronised :: "('o, 'sel) indexer \<Rightarrow> (string \<times> string \<Rightarrow> 'o option) \<Rightarrow> bool" where
  "synchronised indexer m \<longleftrightarrow> (\<forall>ns n. CHR ''/'' \<notin> set ns \<and> CHR ''/'' \<notin> set n \<longrightarrow>
     Cache_GetByKey indexer (cacheKey ns n) = Inr (map_option OfType (m (ns, n))))"

lemma synchronised_get:
  "synchronised indexer m \<Longrightarrow> CHR ''/'' \<notin> set ns \<Longrightarrow> CHR ''/'' \<notin> set n \<Longrightarrow>
     Cache_GetByKey indexer (cacheKey ns n) = Inr (map_option OfType (m (ns, n)))"
  by (simp add: synchronised_def)

definition found :: "'o result \<Rightarrow> 'o option" where
  "found r = (case r of Inr x \<Rightarrow> Some x | Inl e \<Rightarrow> None)"

text \<open>A synchronised cache and the API server answer alike: the lister of the profiles, and for every
  namespace the lister of the states, find an object exactly when the client finds it, and
  then the same one; neither panics.\<close>

theorem listers_agree_with_clients:
  assumes "rest_laws R k ''manifestintegrityprofiles'' False validName profileType V" and "synchronised indexer (V s)"
    and "rest_laws R2 k2 ''manifestintegritystates'' True validName2 stateType V2" and "synchronised indexer2 (V2 s2)" and "ns \<noteq> []"
    and "CHR ''/'' \<notin> set ns" and "CHR ''/'' \<notin> set n"
  shows "(\<exists>r. profileLister_Get notFound indexer n = Return r \<and>
       found r = found (answer (manifestIntegrityProfiles_Get R \<lparr>mips_client = Some k\<rparr> n opts s))) \<and>
     (\<exists>r. stateNamespaceLister_Get notFound (stateLister_ManifestIntegrityStates indexer2 ns) n = Return r \<and>
       found r = found (answer (manifestIntegrityStates_Get R2 \<lparr>miss_client = Some k2, miss_ns = ns\<rparr> n opts s2)))"
proof -
  have "Cache_GetByKey indexer n = Inr (map_option OfType (V s ([], n)))"
    using synchronised_get [OF assms(2), of "[]" n] assms(7) by (simp add: cacheKey_def)
  moreover obtain e where "manifestIntegrityProfiles_Get R \<lparr>mips_client = Some k\<rparr> n opts s =
      Return (case V s ([], n) of Some x \<Rightarrow> ((x, None), s) | None \<Rightarrow> ((zero_ManifestIntegrityProfile, Some e), s))"
    using profile_client.get_reads [OF assms(1)] by blast
  moreover have "Cache_GetByKey indexer2 (ns @ ''/'' @ n) = Inr (map_option OfType (V2 s2 (ns, n)))"
    using synchronised_get [OF assms(4,6,7)] assms(5) by (simp add: cacheKey_def)
  moreover obtain e2 where "manifestIntegrityStates_Get R2 \<lparr>miss_client = Some k2, miss_ns = ns\<rparr> n opts s2 =
      Return (case V2 s2 (ns, n) of Some x \<Rightarrow> ((x, None), s2) | None \<Rightarrow> ((zero_ManifestIntegrityState, Some e2), s2))"
    using state_client.get_reads [OF conjI [OF assms(3,5)]] by blast
  ultimately show ?thesis
    by (simp add: profileLister_Get_def stateNamespaceLister_Get_def stateLister_ManifestIntegrityStates_def found_def
        split: option.split)
qed

definition sample_profile_cache :: "(manifest_integrity_profile, unit) indexer" where
  "sample_profile_cache = \<lparr>Cache_GetByKey = \<lambda>key. Inr (if key = ''p1'' then Some (OfType sample_mip) else None),
     Cache_ListAll = \<lambda>sel. ([OfType sample_mip], None), Cache_ListAllByNamespace = \<lambda>ns sel. ([], None)\<rparr>"

definition sample_state_cache :: "(manifest_integrity_state, unit) indexer" where
  "sample_state_cache = \<lparr>Cache_GetByKey = \<lambda>key. Inr None, Cache_ListAll = \<lambda>sel. ([], None),
     Cache_ListAllByNamespace = \<lambda>ns sel. ([], None)\<rparr>"

lemma sample_caches_synchronised:
  "synchronised sample_profile_cache (stored False mip_Name [([], sample_mip)])"
  "synchronised sample_state_cache (stored True mis_Name [])"
proof -
  have key: "cacheKey ns n = ''p1'' \<longleftrightarrow> ns = [] \<and> n = ''p1''" for ns n
  proof (cases "ns = []")
    case False
    then have "CHR ''/'' \<in> set (cacheKey ns n)" by (simp add: cacheKey_def)
    with False show ?thesis by force
  qed (simp add: cacheKey_def)
  show "synchronised sample_profile_cache (stored False mip_Name [([], sample_mip)])"
    by (auto simp: synchronised_def sample_profile_cache_def key stored_def inScope_def sample_mip_def)
  show "synchronised sample_state_cache (stored True mis_Name [])"
    by (simp add: synchronised_def sample_state_cache_def stored_def)
qed

theorem listers_agree_with_clients_witness:
  "found (answer (manifestIntegrityProfiles_Get (sample_server False profileType (\<lambda>l. \<lparr>mil_ListMeta = JNull, mil_Items = l\<rparr>))
     \<lparr>mips_client = Some ()\<rparr> ''p1'' JNull [([], sample_mip)])) = Some sample_mip"
proof -
  let ?R = "sample_server False profileType (\<lambda>l. \<lparr>mil_ListMeta = JNull, mil_Items = l\<rparr>) :: (unit, unit, manifest_integrity_profile sample_store) mip_rest"
  let ?R2 = "sample_server True stateType (\<lambda>l. \<lparr>msl_ListMeta = JNull, msl_Items = l\<rparr>) :: (unit, unit, manifest_integrity_state sample_store) mis_rest"
  have l1: "rest_laws ?R () ''manifestintegrityprofiles'' False (\<lambda>n. n \<noteq> []) profileType (stored False mip_Name)"
    and l2: "rest_laws ?R2 () ''manifestintegritystates'' True (\<lambda>n. n \<noteq> []) stateType (stored True mis_Name)"
    using sample_server_laws [of False profileType] sample_server_laws [of True stateType] by simp_all
  from listers_agree_with_clients [OF l1 sample_caches_synchronised(1) l2 sample_caches_synchronised(2),
      where ns = "''ns''" and n = "''p1''" and opts = JNull and notFound = "\<lambda>r n. n"]
  obtain r where "profileLister_Get (\<lambda>r n. n) sample_profile_cache ''p1'' = Return r"
    and "found r = found (answer (manifestIntegrityProfiles_Get ?R \<lparr>mips_client = Some ()\<rparr> ''p1'' JNull [([], sample_mip)]))"
    by auto
  then show ?thesis by (auto simp: profileLister_Get_def sample_profile_cache_def found_def)
qed

text \<open>An informer is what its specification says; the list and watch functions are then seen.\<close>

definition spec_cache :: "('l, 'w, 's, ('l, 'w, 's) informer_spec, unit, 'm) cache_lib" where
  "spec_cache = \<lparr>NewSharedIndexInformer = \<lambda>spec m. (spec, m), GetIndexer = \<lambda>i. ()\<rparr>"

definition sample_clientset :: "(unit, unit) clientset option" where
  "sample_clientset = Some \<lparr>cs_DiscoveryClient = Some (), cs_apisV1 = Some \<lparr>restClient = Some ()\<rparr>\<rparr>"

lemma filtered_factory:
  "sif_informers (NewFilteredSharedInformerFactory c d ns t) = Map.empty"
  "sif_customResync (NewFilteredSharedInformerFactory c d ns t) = Map.empty"
  "sif_namespace (NewFilteredSharedInformerFactory c d ns t) = ns"
  "sif_tweakListOptions (NewFilteredSharedInformerFactory c d ns t) = t"
  "sif_client (NewFilteredSharedInformerFactory c d ns t) = c"
  "sif_defaultResync (NewFilteredSharedInformerFactory c d ns t) = d"
  by (simp_all add: NewFilteredSharedInformerFactory_def NewSharedInformerFactoryWithOptions_def WithNamespace_def
      WithTweakListOptions_def Let_def)

text \<open>An informer lists and watches what its factory selects: the informer of the states the states of the
  factory's namespace, the informer of the profiles all profiles, both with the list options as
  the factory tweaks them and with its resync period. Its requests are those of the client.\<close>

theorem informers_list_the_selected:
  fixes ns :: string and t :: "tweak option"
  shows "(let f = NewFilteredSharedInformerFactory sample_clientset resync ns t;
       (p, _) = profile_Informer logging spec_cache (version_ManifestIntegrityProfiles (group_V1 (factory_Apis f))) f m
     in sent (inf_List p opts []) = profileRequests (CallList (tweaked t opts)) \<and>
        sent (inf_Watch p opts []) = profileRequests (CallWatch (tweaked t opts)) \<and> inf_Resync p = resync) \<and>
     (let f = NewFilteredSharedInformerFactory sample_clientset resync ns t;
       (p, _) = state_Informer logging spec_cache (version_ManifestIntegrityStates (group_V1 (factory_Apis f))) f m
     in sent (inf_List p opts []) = stateRequests ns (CallList (tweaked t opts)) \<and>
        sent (inf_Watch p opts []) = stateRequests ns (CallWatch (tweaked t opts)) \<and> inf_Resync p = resync)"
  by (simp add: Let_def profile_Informer_def state_Informer_def InformerFor_def filtered_factory
      profile_defaultInformer_def state_defaultInformer_def NewFilteredManifestIntegrityProfileInformer_def
      NewFilteredManifestIntegrityStateInformer_def spec_cache_def sample_clientset_def Clientset_ApisV1_def
      version_ManifestIntegrityProfiles_def version_ManifestIntegrityStates_def group_V1_def factory_Apis_def
      newManifestIntegrityProfiles_def newManifestIntegrityStates_def RESTClient_def)

end
