(* ===== verification/Copies.thy ===== *)
theory Copies
  imports Informers
begin

text \<open>
  The rest of the generated code: the group clients and the clientset of the states and of the package
  \<^verbatim>\<open>v1alpha1\<close>, the shared informer factory of the states
  (\<^verbatim>\<open>observer/pkg/client/manifestintegritystate/informers/externalversions/factory.go\<close>), the group and
  version objects of both packages, the accessors of generic informers, the constructors of
  listers, and the lister of \<^verbatim>\<open>v1alpha1\<close>. Most of it is a copy of code that \<open>RestClient\<close> and \<open>Informers\<close> model;
  a copy is written out as it stands in the code and shown to be the function it copies, so that
  what is shown of the one holds of the other.
\<close>

section \<open>Group clients and clientsets\<close>

definition mip_ManifestIntegrityProfiles :: "'k apisV1Client option \<Rightarrow> 'k manifestIntegrityProfiles" where
  "mip_ManifestIntegrityProfiles c = newManifestIntegrityProfiles c"

definition mis_RESTClient :: "'k apisV1Client option \<Rightarrow> 'k option" where
  "mis_RESTClient c = (case c of None \<Rightarrow> None | Some c \<Rightarrow> restClient c)"

definition mis_ManifestIntegrityStates :: "'k apisV1Client option \<Rightarrow> string \<Rightarrow> 'k manifestIntegrityStates" where
  "mis_ManifestIntegrityStates c namespace = newManifestIntegrityStates c namespace"

definition mis_New :: "'k option \<Rightarrow> 'k apisV1Client" where
  "mis_New c = \<lparr>restClient = c\<rparr>"

definition mis_setConfigDefaults ::
  "('k, 'q, 'r, 'dc) conf_lib \<Rightarrow> ('q, 'r) rest_config \<Rightarrow> ('q, 'r) rest_config \<times> string option" where
  "mis_setConfigDefaults F config =
     (let gv = mis_SchemeGroupVersion;
          config = config\<lparr>cfg_GroupVersion := Some gv, cfg_APIPath := ''/apis'',
                          cfg_NegotiatedSerializer := Codecs_WithoutConversion F\<rparr>;
          config = (if cfg_UserAgent config = [] then config\<lparr>cfg_UserAgent := DefaultKubernetesUserAgent F\<rparr> else config)
      in (config, None))"

definition mis_Clientset_Discovery :: "('k, 'dc) clientset option \<Rightarrow> 'dc option" where
  "mis_Clientset_Discovery c = (case c of None \<Rightarrow> None | Some c \<Rightarrow> cs_DiscoveryClient c)"

definition mis_Clientset_ApisV1 :: "('k, 'dc) clientset option \<Rightarrow> 'k apisV1Client option outcome" where
  "mis_Clientset_ApisV1 c = deref c (\<lambda>c. Return (cs_apisV1 c))"

definition mis_Clientset_New :: "('k, 'q, 'r, 'dc) conf_lib \<Rightarrow> 'k option \<Rightarrow> ('k, 'dc) clientset" where
  "mis_Clientset_New F c = \<lparr>cs_DiscoveryClient = Some (NewDiscoveryClientOf F c), cs_apisV1 = Some (mis_New c)\<rparr>"

definition v1alpha1_RESTClient :: "'k apisV1Client option \<Rightarrow> 'k option" where
  "v1alpha1_RESTClient c = (case c of None \<Rightarrow> None | Some c \<Rightarrow> restClient c)"

definition v1alpha1_newManifestIntegrityProfiles :: "'k apisV1Client option \<Rightarrow> 'k manifestIntegrityProfiles" where
  "v1alpha1_newManifestIntegrityProfiles c = \<lparr>mips_client = v1alpha1_RESTClient c\<rparr>"

definition v1alpha1_ManifestIntegrityProfiles :: "'k apisV1Client option \<Rightarrow> 'k manifestIntegrityProfiles" where
  "v1alpha1_ManifestIntegrityProfiles c = v1alpha1_newManifestIntegrityProfiles c"

definition v1alpha1_New :: "'k option \<Rightarrow> 'k apisV1Client" where
  "v1alpha1_New c = \<lparr>restClient = c\<rparr>"

text \<open>The types of the package are those of \<^verbatim>\<open>v1\<close>, and with them the group version.\<close>

definition v1alpha1_setConfigDefaults ::
  "('k, 'q, 'r, 'dc) conf_lib \<Rightarrow> ('q, 'r) rest_config \<Rightarrow> ('q, 'r) rest_config \<times> string option" where
  "v1alpha1_setConfigDefaults F config =
     (let gv = mip_SchemeGroupVersion;
          config = config\<lparr>cfg_GroupVersion := Some gv, cfg_APIPath := ''/apis'',
                          cfg_NegotiatedSerializer := Codecs_WithoutConversion F\<rparr>;
          config = (if cfg_UserAgent config = [] then config\<lparr>cfg_UserAgent := DefaultKubernetesUserAgent F\<rparr> else config)
      in (config, None))"

section \<open>The factory of the states\<close>

fun state_WithCustomResyncConfig :: "(rtype \<times> 64 word) list \<Rightarrow> ('c, 'i) sharedInformerOption" where
  "state_WithCustomResyncConfig [] factory = factory"
| "state_WithCustomResyncConfig ((k, v) # resyncConfig) factory =
     state_WithCustomResyncConfig resyncConfig (factory\<lparr>sif_customResync := (sif_customResync factory)(k \<mapsto> v)\<rparr>)"

definition state_WithTweakListOptions :: "tweak option \<Rightarrow> ('c, 'i) sharedInformerOption" where
  "state_WithTweakListOptions tweakListOptions factory = factory\<lparr>sif_tweakListOptions := tweakListOptions\<rparr>"

definition state_WithNamespace :: "string \<Rightarrow> ('c, 'i) sharedInformerOption" where
  "state_WithNamespace namespace factory = factory\<lparr>sif_namespace := namespace\<rparr>"

fun state_applyOptions :: "('c, 'i) sharedInformerOption list \<Rightarrow> ('c, 'i) sharedInformerOption" where
  "state_applyOptions [] factory = factory"
| "state_applyOptions (opt # options) factory = state_applyOptions options (opt factory)"

definition state_NewSharedInformerFactoryWithOptions ::
  "'c \<Rightarrow> 64 word \<Rightarrow> ('c, 'i) sharedInformerOption list \<Rightarrow> ('c, 'i) sharedInformerFactory" where
  "state_NewSharedInformerFactoryWithOptions client defaultResync options =
     (let factory = \<lparr>sif_client = client, sif_namespace = [], sif_tweakListOptions = None, sif_defaultResync = defaultResync,
            sif_customResync = Map.empty, sif_informers = Map.empty, sif_startedInformers = Map.empty\<rparr>
      in state_applyOptions options factory)"

definition state_NewSharedInformerFactory :: "'c \<Rightarrow> 64 word \<Rightarrow> ('c, 'i) sharedInformerFactory" where
  "state_NewSharedInformerFactory client defaultResync = state_NewSharedInformerFactoryWithOptions client defaultResync []"

definition state_NewFilteredSharedInformerFactory ::
  "'c \<Rightarrow> 64 word \<Rightarrow> string \<Rightarrow> tweak option \<Rightarrow> ('c, 'i) sharedInformerFactory" where
  "state_NewFilteredSharedInformerFactory client defaultResync namespace tweakListOptions =
     state_NewSharedInformerFactoryWithOptions client defaultResync
       [state_WithNamespace namespace, state_WithTweakListOptions tweakListOptions]"

fun state_Start :: "(rtype \<times> 'i) list \<Rightarrow> ('c, 'i) sharedInformerFactory \<Rightarrow> ('c, 'i) sharedInformerFactory \<times> (rtype \<times> 'i) list" where
  "state_Start [] f = (f, [])"
| "state_Start ((informerType, informer) # rest) f =
     (if sif_startedInformers f informerType \<noteq> Some True
      then let (f', runs) = state_Start rest (f\<lparr>sif_startedInformers := (sif_startedInformers f)(informerType \<mapsto> True)\<rparr>)
           in (f', (informerType, informer) # runs)
      else state_Start rest f)"

definition state_WaitForCacheSync :: "('i \<Rightarrow> bool) \<Rightarrow> ('c, 'i) sharedInformerFactory \<Rightarrow> (rtype \<rightharpoonup> bool)" where
  "state_WaitForCacheSync sync f =
     (let informers = (\<lambda>informerType. if sif_startedInformers f informerType = Some True then sif_informers f informerType else None)
      in (\<lambda>informType. map_option sync (informers informType)))"

definition state_InformerFor ::
  "rtype \<Rightarrow> ('c \<Rightarrow> 64 word \<Rightarrow> 'm \<Rightarrow> 'i \<times> 'm) \<Rightarrow> ('c, 'i) sharedInformerFactory \<Rightarrow> 'm \<Rightarrow> 'i \<times> ('c, 'i) sharedInformerFactory \<times> 'm" where
  "state_InformerFor informerType newFunc f m =
     (case sif_informers f informerType of Some informer \<Rightarrow> (informer, f, m)
      | None \<Rightarrow>
          (let resyncPeriod = (case sif_customResync f informerType of Some p \<Rightarrow> p | None \<Rightarrow> sif_defaultResync f);
               (informer, m') = newFunc (sif_client f) resyncPeriod m
           in (informer, f\<lparr>sif_informers := (sif_informers f)(informerType \<mapsto> informer)\<rparr>, m')))"

section \<open>Groups and versions\<close>

text \<open>\<open>New\<close> of the packages of groups and versions; the factory that a group points to is passed to
  the informers separately.\<close>

definition profile_group_New :: "string \<Rightarrow> tweak option \<Rightarrow> informer_group" where
  "profile_group_New namespace tweakListOptions = \<lparr>grp_namespace = namespace, grp_tweakListOptions = tweakListOptions\<rparr>"

definition profile_version_New :: "string \<Rightarrow> tweak option \<Rightarrow> informer_version" where
  "profile_version_New namespace tweakListOptions = \<lparr>ver_namespace = namespace, ver_tweakListOptions = tweakListOptions\<rparr>"

definition state_group_New :: "string \<Rightarrow> tweak option \<Rightarrow> informer_group" where
  "state_group_New namespace tweakListOptions = \<lparr>grp_namespace = namespace, grp_tweakListOptions = tweakListOptions\<rparr>"

definition state_version_New :: "string \<Rightarrow> tweak option \<Rightarrow> informer_version" where
  "state_version_New namespace tweakListOptions = \<lparr>ver_namespace = namespace, ver_tweakListOptions = tweakListOptions\<rparr>"

definition state_group_V1 :: "informer_group \<Rightarrow> informer_version" where
  "state_group_V1 g = state_version_New (grp_namespace g) (grp_tweakListOptions g)"

definition state_Apis :: "('c, 'i) sharedInformerFactory \<Rightarrow> informer_group" where
  "state_Apis f = state_group_New (sif_namespace f) (sif_tweakListOptions f)"

section \<open>Listers and generic informers\<close>

text \<open>A lister is its indexer, which \<open>GetIndexer\<close> takes from the informer. The first two give the listers
  of a typed informer, with the factory that may have made the informer for it.\<close>

definition NewManifestIntegrityProfileLister :: "('o, 'sel) indexer \<Rightarrow> ('o, 'sel) indexer" where
  "NewManifestIntegrityProfileLister indexer = indexer"

definition NewManifestIntegrityStateLister :: "('o, 'sel) indexer \<Rightarrow> ('o, 'sel) indexer" where
  "NewManifestIntegrityStateLister indexer = indexer"

definition profile_Lister where
  "profile_Lister R I p f m =
     (let (informer, f', m') = profile_Informer R I p f m
      in (NewManifestIntegrityProfileLister (GetIndexer I informer), f', m'))"

definition state_Lister where
  "state_Lister R I p f m =
     (let (informer, f', m') = state_InformerFor ''*v1.ManifestIntegrityState'' (state_defaultInformer R I p) f m
      in (NewManifestIntegrityStateLister (GetIndexer I informer), f', m'))"

text \<open>\<open>newGenericLister\<close> is \<open>cache.NewGenericLister\<close>.\<close>

definition profile_generic_Informer :: "'i genericInformer \<Rightarrow> 'i" where
  "profile_generic_Informer f = gi_informer f"

definition profile_generic_Lister where
  "profile_generic_Lister I newGenericLister f = newGenericLister (GetIndexer I (profile_generic_Informer f)) (gi_resource f)"

definition state_generic_Informer :: "'i genericInformer \<Rightarrow> 'i" where
  "state_generic_Informer f = gi_informer f"

definition state_generic_Lister where
  "state_generic_Lister I newGenericLister f = newGenericLister (GetIndexer I (state_generic_Informer f)) (gi_resource f)"

text \<open>The lister of the package \<^verbatim>\<open>v1alpha1\<close>, whose types are those of \<^verbatim>\<open>v1\<close>.\<close>

definition v1alpha1_NewManifestIntegrityProfileLister :: "('o, 'sel) indexer \<Rightarrow> ('o, 'sel) indexer" where
  "v1alpha1_NewManifestIntegrityProfileLister indexer = indexer"

definition v1alpha1_profileLister_List :: "('o, 'sel) indexer \<Rightarrow> 'sel \<Rightarrow> ('o list \<times> string option) outcome" where
  "v1alpha1_profileLister_List indexer selector =
     (let (ms, err) = Cache_ListAll indexer selector
      in outcome_bind (appendAsserted [] ms) (\<lambda>ret. Return (ret, err)))"

definition v1alpha1_profileLister_Get :: "(string \<times> string \<Rightarrow> string \<Rightarrow> string) \<Rightarrow> ('o, 'sel) indexer \<Rightarrow> string \<Rightarrow> 'o result outcome" where
  "v1alpha1_profileLister_Get notFound indexer name =
     (case Cache_GetByKey indexer name of
        Inl err \<Rightarrow> Return (Inl err)
      | Inr None \<Rightarrow> Return (Inl (notFound (mip_GroupName, ''manifestintegrityprofile'') name))
      | Inr (Some (OfType x)) \<Rightarrow> Return (Inr x)
      | Inr (Some OfOtherType) \<Rightarrow> Panic ''interface conversion'')"

section \<open>The copies\<close>

lemma state_Start_eq: "state_Start order f = Start order f"
  by (induction order f rule: Start.induct) (simp_all add: Let_def case_prod_beta)

lemma state_applyOptions_eq: "state_applyOptions options f = applyOptions options f"
  by (induction options f rule: applyOptions.induct) simp_all

lemma state_WithCustomResyncConfig_eq: "state_WithCustomResyncConfig cfg f = WithCustomResyncConfig cfg f"
  by (induction cfg f rule: WithCustomResyncConfig.induct) simp_all

lemmas factory_copies = state_Start_eq state_applyOptions_eq state_WithCustomResyncConfig_eq
  state_NewSharedInformerFactoryWithOptions_def NewSharedInformerFactoryWithOptions_def
  state_WaitForCacheSync_def WaitForCacheSync_def state_InformerFor_def InformerFor_def
  state_WithNamespace_def WithNamespace_def state_WithTweakListOptions_def WithTweakListOptions_def

lemma factory_copies_eq:
  "state_NewSharedInformerFactoryWithOptions = NewSharedInformerFactoryWithOptions" "state_Start = Start"
  "state_WaitForCacheSync = WaitForCacheSync" "state_InformerFor = InformerFor"
  "state_WithNamespace = WithNamespace" "state_WithTweakListOptions = WithTweakListOptions"
  "state_WithCustomResyncConfig = WithCustomResyncConfig"
  by (intro ext, simp add: factory_copies)+

lemma client_copies_eq:
  "mis_RESTClient = RESTClient" "v1alpha1_RESTClient = RESTClient" "mis_New = apisV1_New" "v1alpha1_New = apisV1_New"
  "mis_setConfigDefaults F = setConfigDefaults F mis_SchemeGroupVersion"
  "v1alpha1_setConfigDefaults F = setConfigDefaults F mip_SchemeGroupVersion"
  "mis_Clientset_Discovery = Clientset_Discovery" "mis_Clientset_ApisV1 = Clientset_ApisV1" "mis_Clientset_New F = Clientset_New F"
  by (intro ext, simp add: mis_RESTClient_def v1alpha1_RESTClient_def RESTClient_def mis_New_def v1alpha1_New_def apisV1_New_def
      mis_setConfigDefaults_def v1alpha1_setConfigDefaults_def setConfigDefaults_def mis_Clientset_Discovery_def Clientset_Discovery_def
      mis_Clientset_ApisV1_def Clientset_ApisV1_def mis_Clientset_New_def Clientset_New_def)+

lemma lister_copies_eq:
  "v1alpha1_profileLister_List = profileLister_List" "v1alpha1_profileLister_Get = profileLister_Get"
  by (intro ext, simp add: v1alpha1_profileLister_List_def profileLister_List_def v1alpha1_profileLister_Get_def profileLister_Get_def)+

text \<open>A client made directly for a REST client and one found through a clientset are the same.\<close>

lemma clientset_clients:
  "outcome_bind (mis_Clientset_ApisV1 (Some (mis_Clientset_New F c))) (\<lambda>a. Return (mis_ManifestIntegrityStates a ns)) =
     Return \<lparr>miss_client = c, miss_ns = ns\<rparr>"
  "outcome_bind (Clientset_ApisV1 (Some (Clientset_New F c))) (\<lambda>a. Return (mip_ManifestIntegrityProfiles a)) = Return \<lparr>mips_client = c\<rparr>"
  "v1alpha1_ManifestIntegrityProfiles (Some (v1alpha1_New c)) = \<lparr>mips_client = c\<rparr>"
  by (simp_all add: client_copies_eq Clientset_ApisV1_def Clientset_New_def mis_ManifestIntegrityStates_def mip_ManifestIntegrityProfiles_def
      newManifestIntegrityStates_def newManifestIntegrityProfiles_def v1alpha1_ManifestIntegrityProfiles_def
      v1alpha1_newManifestIntegrityProfiles_def RESTClient_def apisV1_New_def)

text \<open>Once its informer is there, a lister reads the index of that informer and makes no other: typed and
  generic access, and any number of listers, share one informer.\<close>

theorem listers_share_the_informer:
  "profile_Informer R I p f m = (i, f', m') \<Longrightarrow>
     profile_Lister R I q f' m' = (GetIndexer I i, f', m') \<and>
     profile_ForResource R I fmt (mip_GroupName, ''v1'', ''manifestintegrityprofiles'') f' m' =
       (Inr \<lparr>gi_informer = i, gi_resource = (mip_GroupName, ''manifestintegrityprofiles'')\<rparr>, f', m')"
  by (auto simp: profile_Informer_def InformerFor_def profile_Lister_def NewManifestIntegrityProfileLister_def profile_ForResource_def
      mip_SchemeGroupVersion_def Let_def split: option.splits prod.splits)

end
