(* ===== verification/Spec2Isabelle.thy ===== *)
theory Spec2Isabelle
  imports ShieldImage Observer Startup Validity DeepCopy ApiCopy Protection FakeClientset Copies
begin

text \<open>
  Integrity Shield protects the resources of a Kubernetes cluster: a resource is admitted only if
  its manifest, and where asked for its images, carry a valid signature. This development models
  the Go sources of its four programs and shows what they decide, write and install.

  \<^bold>\<open>The programs and how they interact.\<close>
  The \<^emph>\<open>shield\<close> (\<^verbatim>\<open>src/shield\<close>) decides on one admission request against one constraint; it runs
  as an HTTP server for the Gatekeeper or inside the admission controller. The \<^emph>\<open>admission
  controller\<close> (\<^verbatim>\<open>src/webhook/admission-controller\<close>) is a webhook that lists the manifest
  integrity profiles, asks the shield about those that cover a request, accumulates the answers
  and records the denials in the profiles. The \<^emph>\<open>observer\<close> (\<^verbatim>\<open>src/observer\<close>) verifies the
  resources that are already in the cluster and exports the result. The \<^emph>\<open>operator\<close>
  (\<^verbatim>\<open>src/integrity-shield-operator\<close>) installs the other three from a custom resource: it builds
  config maps, secrets with generated certificates, roles, deployments, services and the webhook
  configuration and brings the cluster to that state, one object per pass of its reconcile loop.

  \<^bold>\<open>Theories.\<close>
  \<^item> \<^verbatim>\<open>Prelude\<close>: Go values and the parts of the Go standard library that the sources use
    (\<^verbatim>\<open>strings\<close>, \<^verbatim>\<open>strconv\<close>, \<^verbatim>\<open>os\<close> environment and files as the record \<open>world\<close>), panics as the
    datatype \<open>outcome\<close>, errors as the sum type \<open>result\<close>, and the locales of the loops.
  \<^item> \<^verbatim>\<open>Config\<close>: \<^verbatim>\<open>shield/pkg/config\<close>, parameter object, request handler configuration, matching,
    log levels, key secrets. \<^verbatim>\<open>Samples\<close>: concrete parameters for the witnesses.
  \<^item> \<^verbatim>\<open>ImageVerify\<close>: \<^verbatim>\<open>shield/pkg/image/image.go\<close>. \<^verbatim>\<open>RequestHandler\<close> and \<^verbatim>\<open>ShieldImage\<close>:
    \<^verbatim>\<open>shield/pkg/shield\<close>, files \<^verbatim>\<open>request_handler.go\<close> and \<^verbatim>\<open>image.go\<close>. \<^verbatim>\<open>ShieldMain\<close>: the HTTP
    handlers of \<^verbatim>\<open>shield/main.go\<close>.
  \<^item> \<^verbatim>\<open>Profiles\<close>: configuration, profile type and \<^verbatim>\<open>constraint.go\<close> of the admission controller.
    \<^verbatim>\<open>AdmissionController\<close>: its \<^verbatim>\<open>webhook.go\<close>.
  \<^item> \<^verbatim>\<open>Observer\<close>: \<^verbatim>\<open>observer/pkg/observer\<close>, its result type and \<^verbatim>\<open>observer/main.go\<close>.
  \<^item> \<^verbatim>\<open>Resources\<close>: the custom resource (\<^verbatim>\<open>api/v1\<close>) and the builders in \<^verbatim>\<open>resources/\<close> of the
    operator. \<^verbatim>\<open>Cert\<close>: \<^verbatim>\<open>cert/cert.go\<close>. \<^verbatim>\<open>Reconciler\<close>: \<^verbatim>\<open>controllers/integrityshield.go\<close> and
    \<^verbatim>\<open>integrityshield_controller.go\<close>.
  \<^item> \<^verbatim>\<open>Convergence\<close>, \<^verbatim>\<open>Runs\<close> and \<^verbatim>\<open>Validity\<close>: what the reconcile loop achieves in one pass, over many
    passes and in the interleaving with its environment, and that what it writes is well formed.
  \<^item> \<^verbatim>\<open>Startup\<close>: the \<open>main\<close> functions of shield, admission controller and operator, and that what
    they serve is where the installed objects look for it.
  \<^item> \<^verbatim>\<open>Rest\<close>: requests to the API server and what it promises for them. \<^verbatim>\<open>RestClient\<close>, \<^verbatim>\<open>FakeClient\<close> and
    \<^verbatim>\<open>Informers\<close>: the code that client-gen wrote for the profiles (\<^verbatim>\<open>webhook/admission-controller/pkg/client\<close>)
    and the states (\<^verbatim>\<open>observer/pkg/client\<close>): typed clients, group clients, clientsets, fakes, informer
    factory, informers and listers. \<^verbatim>\<open>Registration\<close>: the \<^verbatim>\<open>register.go\<close> files and the \<open>init\<close> functions
    that fill the schemes, those of the operator and the admission controller included.
    \<^verbatim>\<open>FakeClientset\<close>: \<^verbatim>\<open>fake/clientset_generated.go\<close>. \<^verbatim>\<open>Copies\<close>: the further copies of the same generated
    code, for the states and for \<^verbatim>\<open>v1alpha1\<close>, and the accessors of groups and versions.
  \<^item> \<^verbatim>\<open>Recording\<close>: the admission controller and the observer over these clients. \<^verbatim>\<open>Protection\<close>: the
    admission controller over a sequence of requests, with everything that its handlers write.
  \<^item> \<^verbatim>\<open>Memory\<close>: an explicit memory and the contract of copying. \<^verbatim>\<open>DeepCopy\<close>: \<^verbatim>\<open>zz_generated.deepcopy.go\<close> of the
    operator; \<^verbatim>\<open>ApiCopy\<close>: those of the profiles and the states.
  \<^item> This theory: the composition of the operator with the programs that it deploys.

  \<^bold>\<open>State and operations.\<close>
  Every Go function is a definition of the same name, every struct a record and every tagged
  choice a datatype. A function that reads or writes the environment, the file system, the log
  settings or the cluster takes a \<open>world\<close> and returns the changed one; the cluster inside it is a
  type parameter. The operator's functions pass the cluster state of their client. An error
  return is \<open>Inl\<close>, a nil pointer \<open>None\<close>, a panic the value \<open>Panic\<close>: the type assertions of the
  HTTP handler, the nil configuration of the webhook, the empty index of the image check, the
  nil list and the non-positive ticker of the observer. Integers whose width shows have it: the
  event counters 32 bits, the violation counter and the ticker period 64 bits, ports 32 bits. The
  passes of a \<open>range\<close> over a Go map are a list in an arbitrary order. Loops are structural
  recursions; definitions such as \<open>decideRequest\<close>, \<open>installSteps\<close> and \<open>runSteps\<close> are sections of
  one Go function, in its order.

  \<^bold>\<open>Parameters and hypotheses.\<close>
  Code outside the repository is a field of a record: \<open>lib\<close> (k8s-manifest-sigstore, cosign, the
  pattern matching of the shared packages, JSON and YAML decoding, reads and writes of the
  cluster), \<open>server_lib\<close>, \<open>ac_lib\<close> and \<open>obs_lib\<close> extend it for one program each, \<open>crypto\<close> is key
  generation, signing and encoding, \<open>op_client\<close> the controller-runtime client, \<open>rest_lib\<close>, \<open>conf_lib\<close>,
  \<open>fake_lib\<close> and \<open>cache_lib\<close> the parts of client-go under the generated clients, \<open>scheme_lib\<close>, \<open>package_schemes\<close> and
  \<open>testing_lib\<close> the schemes of apimachinery, what other packages register and the object tracker of
  the fakes, \<open>ext_lib\<close> and \<open>api_lib\<close> the copying of structures of other packages. Nothing is assumed
  of them in the definitions. Where a property relies on documented behaviour it is a named
  hypothesis: \<open>store_laws\<close> (the API server is a store: a lookup sees the last write, creating a
  missing and updating or deleting a present object succeed and change that object only, without
  defaulting of fields), \<open>rest_laws\<close> and \<open>served_lists\<close> (the same for the requests of a typed client),
  \<open>ext_laws\<close> and \<open>api_laws\<close> (the copies of other packages are deep, \<^verbatim>\<open>copier.Copy\<close> assigns the fields),
  \<open>scheme_laws\<close> (a scheme accumulates the kinds added to it), \<open>tracker_laws\<close> (the tracker is a store),
  \<open>serving_laws\<close> (clients can be made and local files written, events and the status of profiles are
  apart from the rest of the cluster, and verification looks at the rest, the environment and the
  files it is given),
  \<open>synchronised\<close> (a cache holds what the server holds), \<open>readsConfigMaps\<close> and \<open>mountsSecrets\<close> (the processes see the config maps
  of the store, and pods the secrets they mount), and that the deployments of an instance have
  different names (\<open>deploymentsDistinct\<close>). Each such property has a witness on a concrete
  instance. \<open>Validity\<close> shows that the deployments written are of a form that the API server does
  not refuse, which \<open>store_laws\<close> takes for granted.

  \<^bold>\<open>What the lemmas show.\<close>
  \<^item> \<^emph>\<open>Decision.\<close> The request handler refines a declarative policy over the facts that it looks
    up; an enforced creation needs a verified signature; which requests are allowed undecided;
    what it writes to the cluster, and how options, keys and events are put together.
  \<^item> \<^emph>\<open>Admission.\<close> The webhook denies exactly when some covering profile denies; a denial comes
    from an enforcing profile; the status of a profile is a bounded history; failure modes. However
    many requests were served before, the decision depends on the profiles and the configuration
    of the beginning only, an unverified creation that a profile covers is denied, and the counter
    of every profile has advanced by the requests that it denied.
  \<^item> \<^emph>\<open>Observation.\<close> A pass of the observer and its export; agreement of the observer with the
    admission decision; which resources it misses; the range of its interval.
  \<^item> \<^emph>\<open>Installation.\<close> From any cluster the passes reach the installation; a pass is idle exactly
    when it is complete; the queue comes to rest; a pass touches only the objects of its
    instance; deletion removes exactly the cluster-scoped ones; the webhook exists only while the
    admission controller runs, and in every reachable state it trusts the stored authority;
    deployments stay well formed; which changes of the custom resource are not rolled out.
  \<^item> \<^emph>\<open>Clients.\<close> A client acts on the API server as on a map; its requests are served by the resource
    definitions that the operator installs; every denial of the webhook is recorded in the stored
    profile that denied, and an export is stored; fakes do what the clients ask for, and a fake
    clientset holds after any calls what a server holds; the schemes know exactly the kinds that the
    operator installs; an informer factory runs each informer once; a lister over a synchronised
    cache agrees with the client; the copies of the generated code are the functions they copy.
  \<^item> \<^emph>\<open>Copies.\<close> A deep copy has the value of the original and shares with it exactly the listed
    references: the observer's resource requirements of an instance, the match condition and the
    parameters of a profile, the signing times of a state.
  \<^item> \<^emph>\<open>Composition.\<close> The configuration, certificate and settings of the custom resource are those
    with which the deployed programs run; a webhook call ends at the admission handler.

  \<^bold>\<open>Contracts.\<close>
  \<open>list_matcher\<close>, its extension \<open>strict_matcher\<close> and \<open>first_success\<close> are the contracts of the
  matching and the trying loops; they are interpreted on the loops of the configuration, the
  profiles, the request handler, the image check and the observer. \<open>creation_step\<close> is the
  contract of the seventeen functions of the operator that create an object and otherwise leave
  it alone, interpreted on each of them. \<open>resource_client\<close> is the contract of a typed client,
  interpreted on the three of them and on the fakes of two, and \<open>copier\<close> that of a function which
  copies a structure: equal value, no write to existing memory, sharing of the stated references
  only; it is interpreted on every \<open>DeepCopyInto\<close>.

  \<^bold>\<open>Bounds.\<close>
  No definition takes fuel. \<open>reconcilePasses\<close> and \<open>settle\<close> run a given list of passes: an
  instance asks for at most eighteen objects and every pass that does not find them all adds one,
  so that eighteen passes suffice for the objects and two more for the last step and the idle
  pass. The ticker loop of the observer runs over the given ticks.

  \<^bold>\<open>Not modelled.\<close>
  Of the generated code: the informer of \<^verbatim>\<open>v1alpha1\<close>, which calls a method that its clientset does not
  have and does not compile, and of the fake clientsets the log of the calls they received, which the
  programs do not read. In the programs structures are values and not copied: \<^verbatim>\<open>Memory\<close> is used for
  the copies themselves only. Requests that a webhook serves at the same time: they are taken one
  after another. Contexts and their cancellation. The accept loops of the servers and managers,
  whose results are parameters; a command line that does not parse; the sleep after a pass; log
  output. The end-to-end tests and the yaml manifests. The commented-out functions for pod
  security policies are not code.
\<close>

section \<open>From the operator to the shield\<close>

text \<open>The API server as the processes of the shield see it: they read the config maps that
  the store holds.\<close>

definition readsConfigMaps ::
  "('n, 'd, 'c, 'x) lib_scheme \<Rightarrow> 'c world \<Rightarrow> (obj_key \<rightharpoonup> kobject) \<Rightarrow> bool" where
  "readsConfigMaps L w objects \<longleftrightarrow>
     (\<forall>ns n m. objects (keyOf ConfigMapKind ns n) = Some (KConfigMap m) \<longrightarrow>
        ConfigMaps_Get L (w_cluster w) ns n = Inr (cmap_Data m))"

lemma createOrUpdateConfigMap_new:
  assumes laws: "store_laws C V" and none: "V s (metaKey ConfigMapKind (cmap_Meta m)) = None"
  shows "\<exists>x. V (snd (createOrUpdateConfigMap C i m s)) (metaKey ConfigMapKind (cmap_Meta m)) = Some (KConfigMap x) \<and>
           cmap_Data x = cmap_Data m"
proof -
  let ?y = "m\<lparr>cmap_Meta := owned (cr_Name i) (cmap_Meta m)\<rparr>"
  have key: "objKey (KConfigMap ?y) = metaKey ConfigMapKind (cmap_Meta m)" by (simp add: metaKey_def)
  with none createNew_store [OF laws, of s "KConfigMap ?y"] obtain s'
    where "createNew C (KConfigMap ?y) s = ((requeueSoon, None), s')"
      and "V s' (metaKey ConfigMapKind (cmap_Meta m)) = Some (KConfigMap ?y)" by (metis fun_upd_same)
  with none show ?thesis
    by (simp add: createOrUpdateConfigMap_def createOrUpdate_def store_owner [OF laws] store_get [OF laws] metaKey_def)
qed

lemma createOrUpdateConfigMap_data:
  assumes laws: "store_laws C V"
  shows "\<exists>x. V (snd (createOrUpdateConfigMap C i m s)) (metaKey ConfigMapKind (cmap_Meta m)) = Some (KConfigMap x) \<and>
           cmap_Data x = (case V s (metaKey ConfigMapKind (cmap_Meta m)) of Some (KConfigMap y) \<Rightarrow> cmap_Data y | _ \<Rightarrow> cmap_Data m)"
proof (cases "V s (metaKey ConfigMapKind (cmap_Meta m))")
  case None
  with createOrUpdateConfigMap_new [OF laws None] show ?thesis by simp
next
  case (Some y)
  with store_key [OF laws Some] obtain z where "y = KConfigMap z" by (cases y) (auto simp: metaKey_def keyOf_def)
  with Some show ?thesis
    by (simp add: createOrUpdateConfigMap_def createOrUpdate_def store_owner [OF laws] store_get [OF laws] metaKey_def keepFound_def)
qed

text \<open>C16: The configuration that a deployed container loads is the one that the config map held when the
  operator first came to it: if there was no config map, the one written in the custom resource, and
  otherwise what was in the config map already, whatever the custom resource says now. This is the
  result of \<open>LoadRequestHandlerConfig\<close>, errors included, in each of the three containers that the
  operator deploys, since the names in their environment are those of the config map that is built. It
  is stated for a container that runs with the environment of its deployment and can make a client, an
  instance whose namespace and whose name and key of the configuration are given, and a config map
  that nobody has changed since the operator's step.\<close>

theorem deployed_request_handler_config:
  assumes "store_laws C V"
    and "V s2 (metaKey ConfigMapKind (cmap_Meta (BuildReqConfigForIShield i))) =
           V (snd (createOrUpdateRequestHandlerConfig C i s)) (metaKey ConfigMapKind (cmap_Meta (BuildReqConfigForIShield i)))"
    and "d \<in> {BuildDeploymentForIShieldAPI csv i, BuildDeploymentForAdmissionController csv i, BuildDeploymentForObserver csv i}"
    and "w_env w = containerEnv d" and "readsConfigMaps L w (V s2)"
    and "GetKubeConfig L w = Inr ()" and "NewForConfig L w = Inr ()"
    and "cr_Namespace i \<noteq> []" and "spec_RequestHandlerConfigName (is_Spec i) \<noteq> []" and "spec_RequestHandlerConfigKey (is_Spec i) \<noteq> []"
  shows "LoadRequestHandlerConfig_results L w =
     (case (case V s (keyOf ConfigMapKind (cr_Namespace i) (spec_RequestHandlerConfigName (is_Spec i))) of
              Some (KConfigMap m) \<Rightarrow> cmap_Data m (spec_RequestHandlerConfigKey (is_Spec i))
            | _ \<Rightarrow> Some (spec_RequestHandlerConfig (is_Spec i))) of
        None \<Rightarrow> (None, Some (''`'' @ spec_RequestHandlerConfigKey (is_Spec i) @ ''` is not found in configmap''))
      | Some text \<Rightarrow>
          (fst (yaml_RequestHandlerConfig L text),
           map_option (\<lambda>e. ErrorsWrap L e ''failed to unmarshal config.yaml into *config.RequestHandlerConfig'')
             (snd (yaml_RequestHandlerConfig L text))))"
proof -
  let ?m = "BuildReqConfigForIShield i"
  have key: "metaKey ConfigMapKind (cmap_Meta ?m) = keyOf ConfigMapKind (cr_Namespace i) (spec_RequestHandlerConfigName (is_Spec i))"
    by (simp add: BuildReqConfigForIShield_def metaKey_def new_meta_def)
  define data where "data = (case V s (keyOf ConfigMapKind (cr_Namespace i) (spec_RequestHandlerConfigName (is_Spec i))) of
      Some (KConfigMap y) \<Rightarrow> cmap_Data y | _ \<Rightarrow> cmap_Data ?m)"
  from createOrUpdateConfigMap_data [OF assms(1), of i ?m s] assms(2,5)
  have get: "ConfigMaps_Get L (w_cluster w) (cr_Namespace i) (spec_RequestHandlerConfigName (is_Spec i)) = Inr data"
    unfolding readsConfigMaps_def createOrUpdateRequestHandlerConfig_def key data_def by metis
  have stored: "(case V s (keyOf ConfigMapKind (cr_Namespace i) (spec_RequestHandlerConfigName (is_Spec i))) of
        Some (KConfigMap m) \<Rightarrow> cmap_Data m (spec_RequestHandlerConfigKey (is_Spec i))
      | _ \<Rightarrow> Some (spec_RequestHandlerConfig (is_Spec i))) = data (spec_RequestHandlerConfigKey (is_Spec i))"
    by (simp add: data_def BuildReqConfigForIShield_def split: option.split kobject.split)
  have "envOr w ''POD_NAMESPACE'' defaultPodNamespace = cr_Namespace i"
    "envOr w ''REQUEST_HANDLER_CONFIG_NAME'' ''request-handler-config'' = spec_RequestHandlerConfigName (is_Spec i)"
    "envOr w ''REQUEST_HANDLER_CONFIG_KEY'' ''config.yaml'' = spec_RequestHandlerConfigKey (is_Spec i)"
    using deployed_env [OF assms(3)] assms(4,8-10) by (simp_all add: envOr_def Getenv_def)
  with get assms(6,7) show ?thesis
    unfolding stored LoadRequestHandlerConfig_results_def by (simp add: Let_def case_prod_beta split: option.split)
qed

text \<open>The same for the admission controller's own configuration in the container of the
  admission controller.\<close>

theorem deployed_admission_config:
  assumes "store_laws C V" and "V s (metaKey ConfigMapKind (cmap_Meta (BuildACConfigForIShield i))) = None"
    and "V s2 (metaKey ConfigMapKind (cmap_Meta (BuildACConfigForIShield i))) =
           V (snd (createOrUpdateACConfig C i s)) (metaKey ConfigMapKind (cmap_Meta (BuildACConfigForIShield i)))"
    and "w_env w = containerEnv (BuildDeploymentForAdmissionController csv i)" and "readsConfigMaps L w (V s2)"
    and "GetKubeConfig L w = Inr ()" and "NewForConfig L w = Inr ()"
    and "cr_Namespace i \<noteq> []" and "spec_AdmissionControllerConfigName (is_Spec i) \<noteq> []" and "spec_AdmissionControllerConfigKey (is_Spec i) \<noteq> []"
    and "yaml_AdmissionControllerConfig L (spec_AdmissionControllerConfig (is_Spec i)) = Inr config"
  shows "loadAdmissionControllerConfig L w = Inr config"
proof -
  let ?m = "BuildACConfigForIShield i"
  have key: "metaKey ConfigMapKind (cmap_Meta ?m) = keyOf ConfigMapKind (cr_Namespace i) (spec_AdmissionControllerConfigName (is_Spec i))"
    by (simp add: BuildACConfigForIShield_def metaKey_def new_meta_def)
  from createOrUpdateConfigMap_new [OF assms(1,2), of i] assms(3,5)
  have "ConfigMaps_Get L (w_cluster w) (cr_Namespace i) (spec_AdmissionControllerConfigName (is_Spec i)) = Inr (cmap_Data ?m)"
    unfolding readsConfigMaps_def createOrUpdateACConfig_def key by metis
  with deployed_env [of "BuildDeploymentForAdmissionController csv i" csv i] admission_env assms(4-) show ?thesis
    by (simp add: loadAdmissionControllerConfig_def envOr_def Getenv_def BuildACConfigForIShield_def)
qed

text \<open>The kubelet writes the entries of a mounted secret as files below the mount path.\<close>

definition mountsSecrets :: "(obj_key \<rightharpoonup> kobject) \<Rightarrow> string \<Rightarrow> pod_spec \<Rightarrow> (string \<rightharpoonup> bytes) \<Rightarrow> bool" where
  "mountsSecrets objects ns pod files \<longleftrightarrow>
     (\<forall>c\<in>set (ps_Containers pod). \<forall>m\<in>set (ct_VolumeMounts c). \<forall>v\<in>set (ps_Volumes pod). \<forall>secretName mode sec key b.
        vol_Name v = vm_Name m \<longrightarrow> vol_Source v = SecretSource secretName mode \<longrightarrow>
        objects (keyOf SecretKind ns secretName) = Some (KSecret sec) \<longrightarrow> sec_Data sec key = Some b \<longrightarrow>
        files (vm_MountPath m @ ''/'' @ key) = Some b)"

lemma api_mounts:
  assumes "mountsSecrets objects (cr_Namespace i) (pt_Spec (ds_Template (dep_Spec (BuildDeploymentForIShieldAPI csv i)))) files"
    and "objects (keyOf SecretKind (cr_Namespace i) (spec_APITlsSecretName (is_Spec i))) = Some (KSecret sec)" and "sec_Data sec key = Some b"
  shows "files (''/run/secrets/tls/'' @ key) = Some b"
proof -
  let ?pod = "pt_Spec (ds_Template (dep_Spec (BuildDeploymentForIShieldAPI csv i)))"
  have "\<exists>c\<in>set (ps_Containers ?pod). \<lparr>vm_MountPath = ''/run/secrets/tls'', vm_Name = ''ishield-api-certs'', vm_ReadOnly = True\<rparr> \<in> set (ct_VolumeMounts c)"
    and "SecretVolume ''ishield-api-certs'' (spec_APITlsSecretName (is_Spec i)) \<in> set (ps_Volumes ?pod)"
    by (simp_all add: BuildDeploymentForIShieldAPI_def Let_def built_pod_template tlsMounts_def)
  with assms show ?thesis unfolding mountsSecrets_def by (fastforce simp: SecretVolume_def)
qed

text \<open>C33: The API server starts with the certificate that the operator generated for its service: the
  secret is mounted where \<open>main\<close> loads the key pair from, so that the start does not
  panic.\<close>

theorem deployed_api_loads_certificate:
  assumes "store_laws C V" and "V s (keyOf SecretKind (cr_Namespace i) (spec_APITlsSecretName (is_Spec i))) = None"
    and "GenerateCert C now (spec_ApiServiceName (is_Spec i)) (cr_Namespace i) = Inr (ca, key, crt)"
    and "V s2 (keyOf SecretKind (cr_Namespace i) (spec_APITlsSecretName (is_Spec i))) =
           V (snd (createOrUpdateTlsSecret C now i s)) (keyOf SecretKind (cr_Namespace i) (spec_APITlsSecretName (is_Spec i)))"
    and "mountsSecrets (V s2) (cr_Namespace i) (pt_Spec (ds_Template (dep_Spec (BuildDeploymentForIShieldAPI csv i)))) (w_files w)"
    and "\<And>files c k. files ''/run/secrets/tls/tls.crt'' = Some c \<Longrightarrow> files ''/run/secrets/tls/tls.key'' = Some k \<Longrightarrow>
           load files ''/run/secrets/tls/tls.crt'' ''/run/secrets/tls/tls.key'' = X509KeyPair c k"
    and "X509KeyPair crt key = Inr pair" and "\<And>srv. srv_Certificate srv = pair \<Longrightarrow> listen srv = None"
  shows "\<exists>srv. shield_main load listen w = Return srv \<and> srv_Addr srv = '':8080'' \<and> srv_Certificate srv = pair"
proof -
  let ?x = "addCertValues C now i (BuildTlsSecretForIShield i) (spec_ApiServiceName (is_Spec i))"
  have data: "sec_Data ?x = [''tls.crt'' \<mapsto> crt, ''tls.key'' \<mapsto> key, ''ca.crt'' \<mapsto> ca]"
    by (rule addCertValues_data [OF assms(3)]) (simp add: BuildTlsSecretForIShield_def emptyTlsData_def)
  have meta: "sec_Meta ?x = new_meta (spec_APITlsSecretName (is_Spec i)) (cr_Namespace i) None"
    by (simp add: BuildTlsSecretForIShield_def)
  from createOrUpdateSecret_new [OF assms(1), of ?x i s] assms(2,4) data meta obtain y
    where y: "V s2 (keyOf SecretKind (cr_Namespace i) (spec_APITlsSecretName (is_Spec i))) = Some (KSecret y)"
      and "sec_Data y = [''tls.crt'' \<mapsto> crt, ''tls.key'' \<mapsto> key, ''ca.crt'' \<mapsto> ca]"
    by (auto simp: createOrUpdateTlsSecret_def new_meta_def)
  with api_mounts [OF assms(5) y, of "''tls.crt''" crt] api_mounts [OF assms(5) y, of "''tls.key''" key]
  have "load (w_files w) ''/run/secrets/tls/tls.crt'' ''/run/secrets/tls/tls.key'' = Inr pair"
    using assms(6,7) by simp
  with assms(8) show ?thesis by (simp add: shield_main_def Let_def tls_paths)
qed

lemma observer_setting:
  assumes "\<forall>k. k \<noteq> rekorServerEnvKey \<and> k \<noteq> k8sLogLevelEnvKey \<longrightarrow> w_env w k = containerEnv (BuildDeploymentForObserver csv i) k"
  shows "Getenv w ''POD_NAMESPACE'' = cr_Namespace i" "Getenv w ''LOG_LEVEL'' = oc_LogLevel (spec_Observer (is_Spec i))"
    "Getenv w ''ENABLE_PROVENANCE_RESULT'' = FormatBool (oc_Provenanece (spec_Observer (is_Spec i)))"
    "Getenv w ''ENABLE_DETAIL_RESULT'' = FormatBool (oc_ExportDetailResult (spec_Observer (is_Spec i)))"
    "Getenv w ''OBSERVER_RESULT_CONFIG_NAME'' = oc_ResultDetailConfigName (spec_Observer (is_Spec i))"
    "Getenv w ''OBSERVER_RESULT_CONFIG_KEY'' = oc_ResultDetailConfigKey (spec_Observer (is_Spec i))"
    "Getenv w ''INTERVAL'' = oc_Interval (spec_Observer (is_Spec i))"
  using assms
  by (simp_all add: Getenv_def containerEnv_def BuildDeploymentForObserver_def deploymentWith_def Let_def rekorServerEnvKey_def k8sLogLevelEnvKey_def)

lemma FormatBool_not_empty: "FormatBool b \<noteq> []"
  by (simp add: FormatBool_def)

text \<open>C32: The observer runs with the settings of the custom resource that the operator writes into its environment.
  As long as the process itself has changed no more of the environment than the two variables that it
  sets, and the namespace of the instance is given: the provenance switch, the namespace for dry runs
  and the period of the ticker are those of the resource; the log level is, an unknown one being read as
  \<open>info\<close>; and the details of a pass, if there are any, are written to the config map and the key that the
  resource names (or to the default ones), as an update if the config map is there and as a creation
  otherwise, if the resource switches the export on, and not at all if it does not.\<close>

theorem deployed_observer_settings:
  fixes L :: "('n, 'd, 's, 'x) obs_lib_scheme" and w :: "'s world" and i :: integrity_shield
  defines "oc \<equiv> spec_Observer (is_Spec i)"
  defines "name \<equiv> (if oc_ResultDetailConfigName oc = [] then ''verify-result-detail'' else oc_ResultDetailConfigName oc)"
    and "key \<equiv> (if oc_ResultDetailConfigKey oc = [] then ''config.yaml'' else oc_ResultDetailConfigKey oc)"
  assumes env: "\<forall>k. k \<noteq> rekorServerEnvKey \<and> k \<noteq> k8sLogLevelEnvKey \<longrightarrow> w_env w k = containerEnv (BuildDeploymentForObserver csv i) k"
    and ns: "cr_Namespace i \<noteq> []" and clients: "GetKubeConfig L w = Inr ()" "NewForConfig L w = Inr ()"
  shows "vo_Provenance (fst (observerVerifyOption L r sr ign skip secrets w)) = oc_Provenanece oc \<and>
     vo_DryRunNamespace (fst (observerVerifyOption L r sr ign skip secrets w)) = cr_Namespace i \<and>
     tickerInterval w = word_of_int (Atoi_value (oc_Interval oc)) * 60000000000 \<and>
     (\<forall>insp w1. Init L w = Return (Inr insp, w1) \<longrightarrow>
        (\<exists>v. w1 = Cosign_Init L v \<and> w_logLevel v = (case logLevelMap (oc_LogLevel oc) of None \<Rightarrow> InfoLevel | Some l \<Rightarrow> l))) \<and>
     exportResultDetail L results w =
       (if \<not> oc_ExportDetailResult oc \<or> odr_ConstraintResults results = [] then (None, w)
        else case (case ConfigMaps_Get L (w_cluster w) (cr_Namespace i) name of
                     Inl _ \<Rightarrow> ConfigMaps_Create L (w_cluster w) (cr_Namespace i) name [key \<mapsto> json_MarshalDetail L results]
                   | Inr _ \<Rightarrow> ConfigMaps_Update L (w_cluster w) (cr_Namespace i) name [key \<mapsto> json_MarshalDetail L results]) of
               Inl e \<Rightarrow> (Some e, w)
             | Inr s' \<Rightarrow> (None, w\<lparr>w_cluster := s'\<rparr>))"
proof -
  note setting = observer_setting [OF env, folded oc_def]
  have key: "vo_Provenance (fst (observerKey L ns ks vo w)) = vo_Provenance vo \<and>
      vo_DryRunNamespace (fst (observerKey L ns ks vo w)) = vo_DryRunNamespace vo" for ns ks vo
    by (induction ks arbitrary: vo) (auto split: prod.split)
  have refs: "vo_Provenance (setSignatureRefs sr vo) = vo_Provenance vo \<and>
      vo_DryRunNamespace (setSignatureRefs sr vo) = vo_DryRunNamespace vo" for vo
    by (simp add: setSignatureRefs_def Let_def)
  have "vo_Provenance (fst (observerVerifyOption L r sr ign skip secrets w)) = oc_Provenanece oc \<and>
      vo_DryRunNamespace (fst (observerVerifyOption L r sr ign skip secrets w)) = cr_Namespace i"
    using ns by (simp add: key observerVerifyOption_def setting envOr_def Let_def refs zero_verify_option_def FormatBool_not_empty)
  moreover have "tickerInterval w = word_of_int (Atoi_value (oc_Interval oc)) * 60000000000"
    by (simp add: tickerInterval_def setting)
  moreover have "\<exists>v. w1 = Cosign_Init L v \<and> w_logLevel v = (case logLevelMap (oc_LogLevel oc) of None \<Rightarrow> InfoLevel | Some l \<Rightarrow> l)"
    if "Init L w = Return (Inr insp, w1)" for insp w1
  proof -
    have level: "(case logLevelMap (if oc_LogLevel oc = [] then ''info'' else oc_LogLevel oc) of None \<Rightarrow> InfoLevel | Some l \<Rightarrow> l) =
        (case logLevelMap (oc_LogLevel oc) of None \<Rightarrow> InfoLevel | Some l \<Rightarrow> l)"
      by (auto simp: logLevelMap_def)
    have env': "Getenv (w\<lparr>w_logFormat := f\<rparr>) k = Getenv w k" for f k by (simp add: Getenv_def)
    from that show ?thesis unfolding level [symmetric]
      by (auto simp: Init_def Let_def envOr_def setting env' split: sum.splits if_splits)
  qed
  moreover have "exportResultDetail L results w =
       (if \<not> oc_ExportDetailResult oc \<or> odr_ConstraintResults results = [] then (None, w)
        else case (case ConfigMaps_Get L (w_cluster w) (cr_Namespace i) name of
                     Inl _ \<Rightarrow> ConfigMaps_Create L (w_cluster w) (cr_Namespace i) name [key \<mapsto> json_MarshalDetail L results]
                   | Inr _ \<Rightarrow> ConfigMaps_Update L (w_cluster w) (cr_Namespace i) name [key \<mapsto> json_MarshalDetail L results]) of
               Inl e \<Rightarrow> (Some e, w)
             | Inr s' \<Rightarrow> (None, w\<lparr>w_cluster := s'\<rparr>))"
  proof -
    have "envOr w ''POD_NAMESPACE'' defaultPodNamespace = cr_Namespace i"
      "envOr w ''OBSERVER_RESULT_CONFIG_NAME'' ''verify-result-detail'' = name" "envOr w ''OBSERVER_RESULT_CONFIG_KEY'' ''config.yaml'' = key"
      using ns by (simp_all add: envOr_def setting Let_def name_def key_def)
    then show ?thesis unfolding exportResultDetail_def by (simp add: setting clients FormatBool_not_empty Let_def)
  qed
  ultimately show ?thesis by blast
qed

section \<open>Sample processes\<close>

text \<open>A process that the operator deployed next to the sample store, and its view of the config maps.\<close>

definition deployed_world :: "deployment \<Rightarrow> 's \<Rightarrow> 's world" where
  "deployed_world d cluster =
     \<lparr>w_env = containerEnv d, w_logLevel = InfoLevel, w_logFormat = TextFormatter, w_files = Map.empty, w_ranges = 0, w_cluster = cluster\<rparr>"

definition storeConfigMaps :: "(obj_key \<rightharpoonup> kobject) \<Rightarrow> string \<Rightarrow> string \<Rightarrow> (string \<rightharpoonup> string) result" where
  "storeConfigMaps s ns n =
     (case storeView s (keyOf ConfigMapKind ns n) of Some (KConfigMap m) \<Rightarrow> Inr (cmap_Data m) | _ \<Rightarrow> Inl ''not found'')"

definition store_lib :: "(string, string list, obj_key \<rightharpoonup> kobject) lib" where
  "store_lib = sample_base\<lparr>ConfigMaps_Get := storeConfigMaps\<rparr>"

definition store_ac_lib :: "(string, string list, mip_cluster) ac_lib" where
  "store_ac_lib = sample_ac_lib\<lparr>ConfigMaps_Get := \<lambda>_. storeConfigMaps (snd (createOrUpdateACConfig sample_client sample_shield empty_cluster))\<rparr>"

lemma store_lib_reads: "readsConfigMaps store_lib (deployed_world d s) (storeView s)"
  by (simp add: readsConfigMaps_def store_lib_def storeConfigMaps_def deployed_world_def)

lemma empty_cluster_config_maps [simp]: "storeView empty_cluster (metaKey ConfigMapKind m) = None"
  by (simp add: storeView_def empty_cluster_def shieldKey_def metaKey_def keyOf_def)

lemma sample_names:
  "cr_Namespace sample_shield \<noteq> []"
  "spec_RequestHandlerConfigName (is_Spec sample_shield) \<noteq> []" "spec_RequestHandlerConfigKey (is_Spec sample_shield) \<noteq> []"
  "spec_AdmissionControllerConfigName (is_Spec sample_shield) \<noteq> []" "spec_AdmissionControllerConfigKey (is_Spec sample_shield) \<noteq> []"
  by (simp_all add: sample_shield_def new_meta_def)

definition other_config :: config_map where
  "other_config = (BuildReqConfigForIShield sample_shield)\<lparr>cmap_Data := Map.empty\<rparr>"

definition configured_cluster :: "obj_key \<rightharpoonup> kobject" where
  "configured_cluster = empty_cluster(metaKey ConfigMapKind (cmap_Meta other_config) \<mapsto> KConfigMap other_config)"

lemma configured_cluster_view:
  "storeView configured_cluster (metaKey ConfigMapKind (cmap_Meta other_config)) = Some (KConfigMap other_config)"
  by (simp add: storeView_def configured_cluster_def metaKey_def)

theorem deployed_request_handler_config_witness:
  "LoadRequestHandlerConfig_results store_lib
     (deployed_world (BuildDeploymentForObserver JNull sample_shield)
        (snd (createOrUpdateRequestHandlerConfig sample_client sample_shield empty_cluster))) = (Some sample_config, None) \<and>
   LoadRequestHandlerConfig_results store_lib
     (deployed_world (BuildDeploymentForObserver JNull sample_shield)
        (snd (createOrUpdateRequestHandlerConfig sample_client sample_shield configured_cluster)))
     = (None, Some ''`config.yaml` is not found in configmap'')"
proof -
  have key: "keyOf ConfigMapKind (cr_Namespace sample_shield) (spec_RequestHandlerConfigName (is_Spec sample_shield)) =
      metaKey ConfigMapKind (cmap_Meta other_config)"
    by (simp add: other_config_def BuildReqConfigForIShield_def metaKey_def new_meta_def)
  have "LoadRequestHandlerConfig_results store_lib
     (deployed_world (BuildDeploymentForObserver JNull sample_shield)
        (snd (createOrUpdateRequestHandlerConfig sample_client sample_shield s))) =
     (case (case storeView s (metaKey ConfigMapKind (cmap_Meta other_config)) of
              Some (KConfigMap m) \<Rightarrow> cmap_Data m (spec_RequestHandlerConfigKey (is_Spec sample_shield))
            | _ \<Rightarrow> Some (spec_RequestHandlerConfig (is_Spec sample_shield))) of
        None \<Rightarrow> (None, Some (''`'' @ spec_RequestHandlerConfigKey (is_Spec sample_shield) @ ''` is not found in configmap''))
      | Some text \<Rightarrow>
          (fst (yaml_RequestHandlerConfig store_lib text),
           map_option (\<lambda>e. ErrorsWrap store_lib e ''failed to unmarshal config.yaml into *config.RequestHandlerConfig'')
             (snd (yaml_RequestHandlerConfig store_lib text))))" for s
    by (rule deployed_request_handler_config [where C = sample_client and V = storeView and s = s
        and i = sample_shield and csv = JNull and d = "BuildDeploymentForObserver JNull sample_shield",
        OF sample_store_laws refl, unfolded key])
      (simp_all add: store_lib_reads sample_names, simp_all add: store_lib_def sample_base_def deployed_world_def)
  from this [of empty_cluster] this [of configured_cluster] show ?thesis
    by (simp add: configured_cluster_view)
      (simp add: other_config_def store_lib_def sample_base_def sample_shield_def)
qed

theorem deployed_admission_config_witness:
  "loadAdmissionControllerConfig store_ac_lib
     (deployed_world (BuildDeploymentForAdmissionController JNull sample_shield) Map.empty) = Inr (Some sample_ac_config)"
proof (rule deployed_admission_config [where C = sample_client and V = storeView and s = empty_cluster
      and i = sample_shield and csv = JNull, OF sample_store_laws _ refl])
  show "readsConfigMaps store_ac_lib (deployed_world (BuildDeploymentForAdmissionController JNull sample_shield) Map.empty)
      (storeView (snd (createOrUpdateACConfig sample_client sample_shield empty_cluster)))"
    by (simp add: readsConfigMaps_def store_ac_lib_def storeConfigMaps_def)
qed (simp_all add: sample_names, simp_all add: store_ac_lib_def sample_ac_defs deployed_world_def)

definition api_files :: "(obj_key \<rightharpoonup> kobject) \<Rightarrow> string \<rightharpoonup> bytes" where
  "api_files s path =
     (case storeView s (SecretKind, ''shield-system'', ''api-tls'') of
        Some (KSecret sec) \<Rightarrow> if take 17 path = ''/run/secrets/tls/'' then sec_Data sec (drop 17 path) else None
      | _ \<Rightarrow> None)"

definition sample_load :: "(string \<rightharpoonup> bytes) \<Rightarrow> string \<Rightarrow> string \<Rightarrow> (bytes \<times> bytes) result" where
  "sample_load files c k = (case (files c, files k) of (Some cert, Some key) \<Rightarrow> Inr (cert, key) | _ \<Rightarrow> Inl ''no such file'')"

theorem deployed_api_loads_certificate_witness:
  "\<exists>srv. shield_main sample_load (\<lambda>_. None)
       \<lparr>w_env = Map.empty, w_logLevel = InfoLevel, w_logFormat = TextFormatter,
        w_files = api_files (snd (createOrUpdateTlsSecret sample_client 0 sample_shield empty_cluster)), w_ranges = 0, w_cluster = ()\<rparr> = Return srv \<and>
     srv_Addr srv = '':8080'' \<and> srv_Certificate srv = (''CERTIFICATEapi-svc.shield-system.svc<api-svc_ca'', ''RSA PRIVATE KEYk'')"
proof (rule deployed_api_loads_certificate [where C = sample_client and V = storeView and s = empty_cluster and i = sample_shield
      and X509KeyPair = "\<lambda>c k. Inr (c, k)" and csv = JNull, OF sample_store_laws _ _ refl])
  show "storeView empty_cluster (keyOf SecretKind (cr_Namespace sample_shield) (spec_APITlsSecretName (is_Spec sample_shield))) = None"
    by (simp add: storeView_def empty_cluster_def shieldKey_def keyOf_def)
  show "GenerateCert sample_client 0 (spec_ApiServiceName (is_Spec sample_shield)) (cr_Namespace sample_shield)
      = Inr (''CERTIFICATEapi-svc_ca<api-svc_ca'', ''RSA PRIVATE KEYk'', ''CERTIFICATEapi-svc.shield-system.svc<api-svc_ca'')"
    by (simp add: GenerateCert_def sample_client_def caTemplate_def serverTemplate_def Let_def sample_shield_def new_meta_def)
  show "sample_load files ''/run/secrets/tls/tls.crt'' ''/run/secrets/tls/tls.key'' = Inr (c, k)"
    if "files ''/run/secrets/tls/tls.crt'' = Some c" and "files ''/run/secrets/tls/tls.key'' = Some k" for files c k
    using that by (simp add: sample_load_def)
  show "mountsSecrets (storeView (snd (createOrUpdateTlsSecret sample_client 0 sample_shield empty_cluster))) (cr_Namespace sample_shield)
      (pt_Spec (ds_Template (dep_Spec (BuildDeploymentForIShieldAPI JNull sample_shield))))
      (w_files \<lparr>w_env = Map.empty, w_logLevel = InfoLevel, w_logFormat = TextFormatter,
        w_files = api_files (snd (createOrUpdateTlsSecret sample_client 0 sample_shield empty_cluster)), w_ranges = 0, w_cluster = ()\<rparr>)"
    unfolding mountsSecrets_def
    by (simp add: BuildDeploymentForIShieldAPI_def Let_def built_pod_template tlsMounts_def SecretVolume_def EmptyDirVolume_def
        api_files_def keyOf_def clusterScoped_def sample_shield_def new_meta_def)
qed simp_all

theorem deployed_observer_settings_witness:
  "tickerInterval (deployed_world (BuildDeploymentForObserver JNull sample_shield) (Map.empty :: mis_cluster)) = 5 * 60000000000 \<and>
   exportResultDetail sample_obs_lib \<lparr>odr_Time = [], odr_ConstraintResults = []\<rparr>
     (deployed_world (BuildDeploymentForObserver JNull sample_shield) Map.empty) =
     (None, deployed_world (BuildDeploymentForObserver JNull sample_shield) Map.empty)"
proof -
  let ?w = "deployed_world (BuildDeploymentForObserver JNull sample_shield) Map.empty :: mis_cluster world"
  have five: "Atoi_value ''5'' = 5" and setting: "oc_Interval (spec_Observer (is_Spec sample_shield)) = ''5''"
    by (code_simp, simp add: sample_shield_def)
  have env: "\<forall>k. k \<noteq> rekorServerEnvKey \<and> k \<noteq> k8sLogLevelEnvKey \<longrightarrow> w_env ?w k = containerEnv (BuildDeploymentForObserver JNull sample_shield) k"
    by (simp add: deployed_world_def)
  have clients: "GetKubeConfig sample_obs_lib ?w = Inr ()" "NewForConfig sample_obs_lib ?w = Inr ()"
    by (simp_all add: sample_obs_defs)
  note settings = deployed_observer_settings [OF env sample_names(1) clients, where results = "\<lparr>odr_Time = [], odr_ConstraintResults = []\<rparr>",
      THEN conjunct2, THEN conjunct2]
  from settings [THEN conjunct1] settings [THEN conjunct2, THEN conjunct2] show ?thesis by (simp add: five setting)
qed

section \<open>From the operator to the clients\<close>

text \<open>A custom resource definition serves a request if group, a served version, resource and scope agree, and
  the request is for the resource itself or for its status and the version declares that
  subresource. The name of a definition is that of its resource and its group.\<close>

definition serves :: "crd \<Rightarrow> string \<times> string \<Rightarrow> 'o rest_request \<Rightarrow> bool" where
  "serves d gv rq \<longleftrightarrow>
     (let spec = crd_Spec d in
      (\<exists>v\<in>set (cds_Versions spec). cdv_Served v \<and> (cds_Group spec, cdv_Name v) = gv \<and>
         (subresourceOf (rq_Calls rq) = [] \<or> subresourceOf (rq_Calls rq) = [''status''] \<and> cdv_StatusSubresource v)) \<and>
      cn_Plural (cds_Names spec) = resourceOf (rq_Calls rq) \<and>
      inScope (cds_Scope spec = ''Namespaced'') (rq_Namespace rq) \<and>
      meta_Name (crd_Meta d) = cn_Plural (cds_Names spec) @ ''.'' @ cds_Group spec)"

text \<open>C19: What the definitions that the operator installs serve of what the clients of the other programs send.
  Every method of the profile client, and of the state client with a namespace, sends one request;
  the definition of the profiles, and of the states, serves it, for the group version that the client is
  configured with, if it is for the resource itself, and does not serve it if it is for its status,
  since the definitions declare no such subresource: so \<open>UpdateStatus\<close> of the profile client, which
  the admission controller does not use, cannot succeed in an installed cluster. A method called with a nil
  object panics and is left out.\<close>

theorem clients_use_the_installed_definitions:
  assumes "wellTargeted p" and "wellTargeted c" and "\<forall>x opts. c \<noteq> CallUpdateStatus x opts" and "ns \<noteq> []"
    and "cfg_GroupVersion (fst (setConfigDefaults F mip_SchemeGroupVersion kube)) = Some gv"
    and "cfg_GroupVersion (fst (setConfigDefaults F mis_SchemeGroupVersion kube)) = Some gv2"
  shows "(\<exists>rq. profileRequests p = [rq] \<and>
       (callSubresource p = [] \<longrightarrow> serves (BuildManifestIntegrityProfileCRD cr) gv rq) \<and>
       (callSubresource p = [''status''] \<longrightarrow> \<not> serves (BuildManifestIntegrityProfileCRD cr) gv rq)) \<and>
     (\<exists>rq. stateRequests ns c = [rq] \<and>
       (callSubresource c = [] \<longrightarrow> serves (BuildObserverResultCRD cr) gv2 rq) \<and>
       (callSubresource c = [''status''] \<longrightarrow> \<not> serves (BuildObserverResultCRD cr) gv2 rq))"
proof -
  from assms(5,6) have gv: "gv = (''apis.integrityshield.io'', ''v1'')" "gv2 = (''apis.integrityshield.io'', ''v1'')"
    by (simp_all add: setConfigDefaults_result mip_SchemeGroupVersion_def mis_SchemeGroupVersion_def mip_GroupName_def mis_GroupName_def)
  have "(callSubresource p = [] \<longrightarrow> serves (BuildManifestIntegrityProfileCRD cr) gv rq) \<and>
      (callSubresource p = [''status''] \<longrightarrow> \<not> serves (BuildManifestIntegrityProfileCRD cr) gv rq)"
    if "asksFor mip_Name ''manifestintegrityprofiles'' [] p rq" for rq
    using that by (simp add: serves_def gv asksFor_def BuildManifestIntegrityProfileCRD_def buildCRD_def inScope_def new_meta_def)
  moreover have "(callSubresource c = [] \<longrightarrow> serves (BuildObserverResultCRD cr) gv2 rq) \<and>
      (callSubresource c = [''status''] \<longrightarrow> \<not> serves (BuildObserverResultCRD cr) gv2 rq)"
    if "asksFor mis_Name ''manifestintegritystates'' ns c rq" for rq
    using that assms(4) by (simp add: serves_def gv asksFor_def BuildObserverResultCRD_def buildCRD_def inScope_def new_meta_def)
  ultimately show ?thesis using profile_requests [OF assms(1)] state_requests [OF assms(2,3), of ns] by metis
qed

theorem clients_use_the_installed_definitions_witness:
  "(\<exists>rq. profileRequests (CallUpdate (Some sample_mip) JNull) = [rq] \<and>
     serves (BuildManifestIntegrityProfileCRD sample_shield) (''apis.integrityshield.io'', ''v1'') rq) \<and>
   (\<exists>rq. profileRequests (CallUpdateStatus (Some sample_mip) JNull) = [rq] \<and>
     \<not> serves (BuildManifestIntegrityProfileCRD sample_shield) (''apis.integrityshield.io'', ''v1'') rq)"
  using clients_use_the_installed_definitions [of "CallUpdate (Some sample_mip) JNull" "CallGet ''c1'' JNull" "''ns''"
      sample_conf sample_kube "(''apis.integrityshield.io'', ''v1'')" "(''apis.integrityshield.io'', ''v1'')" sample_shield]
    clients_use_the_installed_definitions [of "CallUpdateStatus (Some sample_mip) JNull" "CallGet ''c1'' JNull" "''ns''"
      sample_conf sample_kube "(''apis.integrityshield.io'', ''v1'')" "(''apis.integrityshield.io'', ''v1'')" sample_shield]
  by (simp add: wellTargeted_def setConfigDefaults_result mip_SchemeGroupVersion_def mis_SchemeGroupVersion_def
      mip_GroupName_def mis_GroupName_def)

text \<open>What a scheme knows of the program's own kinds is what a definition declares.\<close>

definition knowsInstalled :: "('sch \<Rightarrow> (group_version \<times> string) set) \<Rightarrow> 'sch \<Rightarrow> crd \<Rightarrow> bool" where
  "knowsInstalled K sch d \<longleftrightarrow>
     (let spec = crd_Spec d; gvs = {(cds_Group spec, cdv_Name v) | v. v \<in> set (cds_Versions spec) \<and> cdv_Served v}; names = cds_Names spec in
      {(gv, k) \<in> K sch. k \<in> set own_kinds} = gvs \<times> {cn_Kind names, cn_ListKind names})"

text \<open>C29: The kinds of the definitions that the operator installs are known to the programs that use them: no
  process panics while it registers types, and the schemes of the clientset of the profiles and of its
  fake know, of the program's own kinds, exactly the kind and the list kind of the installed definition
  of the profiles, under its group and version; likewise for the states.\<close>

theorem installed_kinds_are_registered:
  assumes "scheme_laws S K meta" and "\<And>gv. foreign_kinds (meta gv)"
  shows "(\<forall>init\<in>set [mip_scheme_init, mip_fake_init].
       \<exists>sch. init S = Return sch \<and> knowsInstalled K sch (BuildManifestIntegrityProfileCRD cr)) \<and>
     (\<forall>init\<in>set [mis_scheme_init, mis_fake_init].
       \<exists>sch. init S = Return sch \<and> knowsInstalled K sch (BuildObserverResultCRD cr))"
proof -
  have own: "{(gv, k) \<in> A \<union> meta x \<union> meta y. k \<in> set own_kinds} = {(gv, k) \<in> A. k \<in> set own_kinds}" for A x y
    using assms(2) unfolding foreign_kinds_def by blast
  have "knowsInstalled K sch (BuildManifestIntegrityProfileCRD cr)"
    if "K sch = {((''apis.integrityshield.io'', ''v1''), ''ManifestIntegrityProfile''), ((''apis.integrityshield.io'', ''v1''), ''ManifestIntegrityProfileList'')}
         \<union> meta (''apis.integrityshield.io'', ''v1'') \<union> meta ('''', ''v1'')" for sch
    unfolding knowsInstalled_def Let_def that own by (auto simp: BuildManifestIntegrityProfileCRD_def buildCRD_def own_kinds_def)
  moreover have "knowsInstalled K sch (BuildObserverResultCRD cr)"
    if "K sch = {((''apis.integrityshield.io'', ''v1''), ''ManifestIntegrityState''), ((''apis.integrityshield.io'', ''v1''), ''ManifestIntegrityStateList'')}
         \<union> meta (''apis.integrityshield.io'', ''v1'') \<union> meta ('''', ''v1'')" for sch
    unfolding knowsInstalled_def Let_def that own by (auto simp: BuildObserverResultCRD_def buildCRD_def own_kinds_def)
  ultimately show ?thesis using clientset_schemes_know_their_types [OF assms(1) assms(2)] by blast
qed

theorem installed_kinds_are_registered_witness:
  "\<exists>sch. mip_scheme_init sample_schemes = Return sch \<and> knowsInstalled set sch (BuildManifestIntegrityProfileCRD sample_shield)"
proof -
  have "foreign_kinds {(gv, ''ListOptions'')}" for gv by (simp add: foreign_kinds_def own_kinds_def)
  from installed_kinds_are_registered [OF sample_scheme_laws this, of sample_shield] show ?thesis by simp
qed

end
